(* ===== verification/Tuxedo_Prelude.thy ===== *)
theory Tuxedo_Prelude
  imports Main "HOL-Library.Word"
begin

text \<open>
  The vocabulary every component shares.

  \<^item> Machine integers and byte strings: \<open>u8\<close> \<dots> \<open>u128\<close> are words of that width, so \<open>+\<close> wraps
    as it does in the wasm runtime (\<^verbatim>\<open>[profile.release]\<close> of \<^verbatim>\<open>src/Cargo.toml\<close> does not turn
    overflow checks on); \<open>checked_add\<close> is Rust's method of that name.
  \<^item> \<open>result\<close>: a Rust \<^verbatim>\<open>Result\<close> whose computation may also panic. \<open>bind_result\<close> is the
    \<^verbatim>\<open>?\<close> operator, \<open>ensure\<close> the macro of \<^verbatim>\<open>tuxedo-core/src/support_macros.rs\<close>,
    \<open>fold_result\<close> a \<^verbatim>\<open>for\<close> loop with early return. A computation that returns no
    \<^verbatim>\<open>Result\<close> but may panic is an \<open>option\<close>, with \<open>None\<close> for the panic.
  \<^item> \<open>storage\<close>: the key-value state behind \<^verbatim>\<open>sp_io::storage\<close>, passed explicitly.

  The collection \<open>result_ok\<close> holds the facts that turn \<open>f x = Ok y\<close> into the
  conjunction of the guards on its path; it carries the acceptance proofs of the pieces.
\<close>

named_theorems result_ok

subsection \<open>Machine integers and byte strings\<close>

type_synonym u8 = "8 word"
type_synonym u32 = "32 word"
type_synonym u64 = "64 word"
type_synonym u128 = "128 word"
type_synonym bytes = "u8 list"
type_synonym byte4 = "u8 \<times> u8 \<times> u8 \<times> u8"
type_synonym H256 = "256 word"
type_synonym Public = "256 word"
type_synonym Signature = "512 word"
type_synonym storage = "bytes \<rightharpoonup> bytes"

definition checked_add :: "'a::len word \<Rightarrow> 'a word \<Rightarrow> 'a word option" where
  "checked_add a b = (if unat a + unat b < 2 ^ LENGTH('a) then Some (a + b) else None)"

text \<open>Byte string literals: the ASCII codes of a string, as in Rust's \<^verbatim>\<open>b"..."\<close>.\<close>

definition byte_string :: "string \<Rightarrow> bytes" where
  "byte_string s = map of_char s"

fun byte_string4 :: "string \<Rightarrow> byte4" where
  "byte_string4 [a, b, c, d] = (of_char a, of_char b, of_char c, of_char d)"
| "byte_string4 _ = (0, 0, 0, 0)"

subsection \<open>Results, early return and panics\<close>

datatype ('a, 'e) result = Ok 'a | Err 'e | Panic

fun bind_result :: "('a, 'e) result \<Rightarrow> ('a \<Rightarrow> ('b, 'e) result) \<Rightarrow> ('b, 'e) result" where
  "bind_result (Ok x) f = f x"
| "bind_result (Err e) f = Err e"
| "bind_result Panic f = Panic"

fun map_err :: "('e \<Rightarrow> 'f) \<Rightarrow> ('a, 'e) result \<Rightarrow> ('a, 'f) result" where
  "map_err g (Ok x) = Ok x"
| "map_err g (Err e) = Err (g e)"
| "map_err g Panic = Panic"

fun map_ok :: "('a \<Rightarrow> 'b) \<Rightarrow> ('a, 'e) result \<Rightarrow> ('b, 'e) result" where
  "map_ok g (Ok x) = Ok (g x)"
| "map_ok g (Err e) = Err e"
| "map_ok g Panic = Panic"

fun ok_or :: "'a option \<Rightarrow> 'e \<Rightarrow> ('a, 'e) result" where
  "ok_or (Some x) e = Ok x"
| "ok_or None e = Err e"

fun expect :: "'a option \<Rightarrow> ('a, 'e) result" where
  "expect (Some x) = Ok x"
| "expect None = Panic"

definition ensure :: "bool \<Rightarrow> 'e \<Rightarrow> ('a, 'e) result \<Rightarrow> ('a, 'e) result" where
  "ensure c e k = (if c then k else Err e)"

fun fold_result :: "('b \<Rightarrow> 'a \<Rightarrow> ('b, 'e) result) \<Rightarrow> 'b \<Rightarrow> 'a list \<Rightarrow> ('b, 'e) result" where
  "fold_result f acc [] = Ok acc"
| "fold_result f acc (x # xs) = bind_result (f acc x) (\<lambda>acc'. fold_result f acc' xs)"

definition for_result :: "('a \<Rightarrow> (unit, 'e) result) \<Rightarrow> 'a list \<Rightarrow> (unit, 'e) result" where
  "for_result f xs = fold_result (\<lambda>_ x. f x) () xs"

text \<open>A \<^verbatim>\<open>for\<close> loop that pushes a result of each element to a vector, with early return.\<close>

fun collect_results :: "('a \<Rightarrow> ('b, 'e) result) \<Rightarrow> 'a list \<Rightarrow> ('b list, 'e) result" where
  "collect_results f [] = Ok []"
| "collect_results f (x # xs) = bind_result (f x) (\<lambda>y. bind_result (collect_results f xs) (\<lambda>ys. Ok (y # ys)))"

subsection \<open>Facts about results\<close>

lemma bind_result_Ok [result_ok]:
  "bind_result m f = Ok y \<longleftrightarrow> (\<exists>x. m = Ok x \<and> f x = Ok y)"
  by (cases m) auto

lemma map_err_Ok [result_ok]: "map_err g m = Ok y \<longleftrightarrow> m = Ok y"
  by (cases m) auto

lemma map_ok_Ok [result_ok]: "map_ok g m = Ok y \<longleftrightarrow> (\<exists>x. m = Ok x \<and> y = g x)"
  by (cases m) auto

lemma ok_or_Ok [result_ok]: "ok_or opt e = Ok x \<longleftrightarrow> opt = Some x"
  by (cases opt) auto

lemma expect_Ok [result_ok]: "expect opt = Ok x \<longleftrightarrow> opt = Some x"
  by (cases opt) auto

lemma ensure_Ok [result_ok]: "ensure c e k = Ok x \<longleftrightarrow> c \<and> k = Ok x"
  by (simp add: ensure_def)

lemma ensure_True [simp]: "ensure True e k = k"
  by (simp add: ensure_def)

lemma ensure_False [simp]: "ensure False e k = Err e"
  by (simp add: ensure_def)

lemma ok_or_not_Panic [simp]: "ok_or opt e \<noteq> Panic"
  by (cases opt) auto

lemma bind_result_Panic:
  "bind_result m f = Panic \<longleftrightarrow> m = Panic \<or> (\<exists>x. m = Ok x \<and> f x = Panic)"
  by (cases m) auto

lemma map_err_Panic [simp]: "map_err g m = Panic \<longleftrightarrow> m = Panic"
  by (cases m) auto

lemma bind_result_cong [fundef_cong]:
  "m = m' \<Longrightarrow> (\<And>x. m' = Ok x \<Longrightarrow> f x = f' x) \<Longrightarrow> bind_result m f = bind_result m' f'"
  by (cases m') auto

lemma fold_result_append:
  "fold_result f acc (xs @ ys) = bind_result (fold_result f acc xs) (\<lambda>a. fold_result f a ys)"
proof (induction xs arbitrary: acc)
  case Nil
  then show ?case by simp
next
  case (Cons x xs)
  then show ?case by (cases "f acc x") auto
qed

lemma for_result_Nil [simp]: "for_result f [] = Ok ()"
  by (simp add: for_result_def)

lemma for_result_Cons [simp]:
  "for_result f (x # xs) = bind_result (f x) (\<lambda>_. for_result f xs)"
  by (simp add: for_result_def)

lemma for_result_Ok [result_ok]:
  "for_result f xs = Ok u \<longleftrightarrow> (\<forall>x \<in> set xs. f x = Ok ())"
  by (induction xs) (auto simp: bind_result_Ok)

lemma collect_results_Ok: "collect_results f xs = Ok ys \<longleftrightarrow> list_all2 (\<lambda>x y. f x = Ok y) xs ys"
  by (induction xs arbitrary: ys) (auto simp: result_ok list_all2_Cons1)

subsection \<open>Facts about checked arithmetic\<close>

lemma checked_add_Some:
  "checked_add a b = Some c \<longleftrightarrow> c = a + b \<and> unat a + unat b < 2 ^ LENGTH('a)"
  for a b c :: "'a::len word"
  by (auto simp: checked_add_def)

lemma unat_checked_add:
  "checked_add a b = Some c \<Longrightarrow> unat c = unat a + unat b"
  for a b c :: "'a::len word"
  by (auto simp: checked_add_Some unat_word_ariths)

lemma checked_add_None:
  "checked_add a b = None \<longleftrightarrow> 2 ^ LENGTH('a) \<le> unat a + unat b"
  for a b :: "'a::len word"
  by (auto simp: checked_add_def)

lemma unat_word_add_no_wrap:
  "unat a + unat b < 2 ^ LENGTH('a) \<Longrightarrow> unat (a + b) = unat a + unat b"
  for a b :: "'a::len word"
  by (simp add: unat_word_ariths)

lemma unat_word_Suc:
  "a \<noteq> - 1 \<Longrightarrow> unat (a + 1) = Suc (unat a)"
  for a :: "'a::len word"
  using unatSuc [of a] by (simp add: add.commute eq_neg_iff_add_eq_0)

lemma unat_less_exp: "unat w < 2 ^ LENGTH('a)"
  for w :: "'a::len word"
  by (rule unsigned_less)

lemma unat_of_nat_small: "n < 2 ^ LENGTH('a) \<Longrightarrow> unat (of_nat n :: 'a::len word) = n"
  by (simp add: unsigned_of_nat take_bit_nat_eq_self)

lemma word_pred_iff: "y \<noteq> 0 \<Longrightarrow> x = y - 1 \<longleftrightarrow> unat y = unat x + 1"
  for x y :: "'a::len word"
proof -
  assume "y \<noteq> 0"
  then have "unat (y - 1) = unat y - 1" "0 < unat y"
    by (simp_all add: unat_minus_one unat_gt_0)
  then show ?thesis by (auto simp: word_unat_eq_iff)
qed

lemma word_succ_iff: "unat y + 1 < 2 ^ LENGTH('a) \<Longrightarrow> x = y + 1 \<longleftrightarrow> unat x = unat y + 1"
  for x y :: "'a::len word"
  by (simp add: word_unat_eq_iff unat_word_ariths)

subsection \<open>Facts about lists and maps\<close>

lemma card_set_length_distinct: "card (set xs) = length xs \<longleftrightarrow> distinct xs"
  by (auto simp: distinct_card card_distinct)

lemma length_conv:
  "length xs = Suc 0 \<longleftrightarrow> (\<exists>x. xs = [x])"
  "length xs = 2 \<longleftrightarrow> (\<exists>x y. xs = [x, y])"
  "length xs = 3 \<longleftrightarrow> (\<exists>x y z. xs = [x, y, z])"
  by (auto simp: numeral_eq_Suc length_Suc_conv)

lemma fold_upd_None:
  "fold (\<lambda>k s. s(k := None)) ks s x = (if x \<in> set ks then None else s x)"
  by (induction ks arbitrary: s) auto

lemma fold_upd_Some:
  "fold (\<lambda>(k, v) s. s(k \<mapsto> v)) kvs s x
    = (case map_of (rev kvs) x of Some v \<Rightarrow> Some v | None \<Rightarrow> s x)"
  by (induction kvs arbitrary: s) (auto simp: map_add_def split: option.splits)

subsection \<open>Formatting\<close>

text \<open>\<^verbatim>\<open>format!("{}", i)\<close> prints a number in decimal.\<close>

fun decimal :: "nat \<Rightarrow> string" where
  "decimal n = (if n < 10 then [char_of (48 + n)] else decimal (n div 10) @ [char_of (48 + n mod 10)])"

declare decimal.simps [simp del]

end
