(* ===== verification/Scale_Codec.thy ===== *)
theory Scale_Codec
  imports Tuxedo_Prelude
begin

text \<open>
  SCALE (\<^verbatim>\<open>parity_scale_codec\<close>) is a package outside the repository, so an encoding is a
  parameter of the model: a value of type \<open>'a codec\<close>, an \<open>encode\<close> function and a \<open>decode\<close>
  function that peels a value off the front of its input and returns the rest, as
  \<^verbatim>\<open>Decode::decode(&mut input)\<close> does.

  What the code relies on is the locale \<open>scale_codec\<close>: decoding an encoding, whatever bytes
  follow it, gives back the value and those bytes. The consequences the components use
  (encodings are injective and prefix-free) are proved in the locale once.

  The second half builds lawful codecs from smaller ones (fixed-width little-endian words,
  pairs, lists, tagged unions, images under an isomorphism). They are not a model of the
  package; they instantiate the parameter wherever a concrete input is evaluated.
\<close>

record 'a codec =
  encode :: "'a \<Rightarrow> bytes"
  decode :: "bytes \<Rightarrow> ('a \<times> bytes) option"

text \<open>\<^verbatim>\<open>T::decode(&mut &bytes[..]).ok()\<close>: what is left of the input is dropped.\<close>

definition decode_value :: "'a codec \<Rightarrow> bytes \<Rightarrow> 'a option" where
  "decode_value c b = map_option fst (decode c b)"

locale scale_codec =
  fixes c :: "'a codec"
  assumes decode_encode: "decode c (encode c x @ r) = Some (x, r)"
begin

lemma decode_value_encode [simp]: "decode_value c (encode c x) = Some x"
  using decode_encode [of x "[]"] by (simp add: decode_value_def)

lemma decode_value_encode_append [simp]: "decode_value c (encode c x @ r) = Some x"
  by (simp add: decode_value_def decode_encode)

lemma encode_append_inject:
  "encode c x @ r = encode c y @ r' \<longleftrightarrow> x = y \<and> r = r'"
  by (metis decode_encode option.inject prod.inject)

lemma encode_inject [simp]: "encode c x = encode c y \<longleftrightarrow> x = y"
  using encode_append_inject [of x "[]" y "[]"] by simp

lemma inj_encode: "inj (encode c)"
  by (rule injI) simp

lemma distinct_map_encode [simp]: "distinct (map (encode c) xs) \<longleftrightarrow> distinct xs"
  by (simp add: distinct_map inj_on_def)

end

subsection \<open>Codecs for the evaluation of concrete inputs\<close>

definition unit_codec :: "unit codec" where
  "unit_codec = \<lparr>encode = (\<lambda>_. []), decode = (\<lambda>b. Some ((), b))\<rparr>"

definition byte_codec :: "u8 codec" where
  "byte_codec = \<lparr>encode = (\<lambda>x. [x]), decode = (\<lambda>b. case b of [] \<Rightarrow> None | x # r \<Rightarrow> Some (x, r))\<rparr>"

definition pair_codec :: "'a codec \<Rightarrow> 'b codec \<Rightarrow> ('a \<times> 'b) codec" where
  "pair_codec a b = \<lparr>encode = (\<lambda>(x, y). encode a x @ encode b y),
     decode = (\<lambda>bs. case decode a bs of None \<Rightarrow> None
        | Some (x, r) \<Rightarrow> (case decode b r of None \<Rightarrow> None | Some (y, r') \<Rightarrow> Some ((x, y), r')))\<rparr>"

definition map_codec :: "('a \<Rightarrow> 'b) \<Rightarrow> ('b \<Rightarrow> 'a) \<Rightarrow> 'a codec \<Rightarrow> 'b codec" where
  "map_codec f g a = \<lparr>encode = (\<lambda>y. encode a (g y)),
     decode = (\<lambda>bs. map_option (\<lambda>(x, r). (f x, r)) (decode a bs))\<rparr>"

definition sum_codec :: "'a codec \<Rightarrow> 'b codec \<Rightarrow> ('a + 'b) codec" where
  "sum_codec a b = \<lparr>encode = (\<lambda>v. case v of Inl x \<Rightarrow> 0 # encode a x | Inr y \<Rightarrow> 1 # encode b y),
     decode = (\<lambda>bs. case bs of [] \<Rightarrow> None
        | t # r \<Rightarrow> (if t = 0 then map_option (\<lambda>(x, r'). (Inl x, r')) (decode a r)
                   else if t = 1 then map_option (\<lambda>(y, r'). (Inr y, r')) (decode b r)
                   else None))\<rparr>"

fun le_digits :: "nat \<Rightarrow> nat \<Rightarrow> bytes" where
  "le_digits 0 k = []"
| "le_digits (Suc n) k = of_nat (k mod 256) # le_digits n (k div 256)"

fun le_value :: "bytes \<Rightarrow> nat" where
  "le_value [] = 0"
| "le_value (b # bs) = unat b + 256 * le_value bs"

definition word_codec :: "nat \<Rightarrow> 'a::len word codec" where
  "word_codec n = \<lparr>encode = (\<lambda>w. le_digits n (unat w)),
     decode = (\<lambda>bs. if length bs < n then None
        else Some (of_nat (le_value (take n bs)), drop n bs))\<rparr>"

fun take_ones :: "bytes \<Rightarrow> (nat \<times> bytes) option" where
  "take_ones [] = None"
| "take_ones (b # bs) = (if b = 1 then map_option (\<lambda>(n, r). (Suc n, r)) (take_ones bs)
     else Some (0, bs))"

fun decode_n :: "'a codec \<Rightarrow> nat \<Rightarrow> bytes \<Rightarrow> ('a list \<times> bytes) option" where
  "decode_n c 0 bs = Some ([], bs)"
| "decode_n c (Suc n) bs = (case decode c bs of None \<Rightarrow> None
     | Some (x, r) \<Rightarrow> map_option (\<lambda>(xs, r'). (x # xs, r')) (decode_n c n r))"

definition list_codec :: "'a codec \<Rightarrow> 'a list codec" where
  "list_codec c = \<lparr>encode = (\<lambda>xs. replicate (length xs) 1 @ 0 # concat (map (encode c) xs)),
     decode = (\<lambda>bs. case take_ones bs of None \<Rightarrow> None | Some (n, r) \<Rightarrow> decode_n c n r)\<rparr>"

text \<open>Numbers in unary, as in the length prefix of \<open>list_codec\<close>.\<close>

definition unary_codec :: "'a::len word codec" where
  "unary_codec = \<lparr>encode = (\<lambda>w. replicate (unat w) 1 @ [0]),
     decode = (\<lambda>bs. map_option (\<lambda>(n, r). (of_nat n, r)) (take_ones bs))\<rparr>"

lemma length_le_digits [simp]: "length (le_digits n k) = n"
  by (induction n arbitrary: k) auto

lemma le_value_le_digits: "le_value (le_digits n k) = k mod 256 ^ n"
proof (induction n arbitrary: k)
  case 0
  then show ?case by simp
next
  case (Suc n)
  have "unat (of_nat (k mod 256) :: u8) = k mod 256"
    by (simp add: unat_of_nat)
  then have "le_value (le_digits (Suc n) k) = k mod 256 + 256 * (k div 256 mod 256 ^ n)"
    by (simp add: Suc)
  also have "\<dots> = k mod 256 ^ Suc n"
    by (simp add: mod_mult2_eq)
  finally show ?case .
qed

lemma scale_codec_unit [intro]: "scale_codec unit_codec"
  by unfold_locales (simp add: unit_codec_def)

lemma scale_codec_byte [intro]: "scale_codec byte_codec"
  by unfold_locales (simp add: byte_codec_def)

lemma scale_codec_word [intro]:
  assumes "LENGTH('a::len) \<le> 8 * n"
  shows "scale_codec (word_codec n :: 'a word codec)"
proof
  fix w :: "'a word" and r
  have "unat w < 2 ^ LENGTH('a)" by (rule unsigned_less)
  also have "\<dots> \<le> 2 ^ (8 * n)" using assms by simp
  finally have "unat w < 256 ^ n" by (simp add: power_mult)
  then have "of_nat (le_value (le_digits n (unat w))) = w"
    by (simp add: le_value_le_digits)
  then show "decode (word_codec n) (encode (word_codec n) w @ r) = Some (w, r)"
    by (simp add: word_codec_def)
qed

lemma scale_codec_pair [intro]:
  assumes "scale_codec a" and "scale_codec b"
  shows "scale_codec (pair_codec a b)"
  using assms by (auto simp: scale_codec_def pair_codec_def)

lemma scale_codec_map [intro]:
  assumes "scale_codec a" and "\<And>y. f (g y) = y"
  shows "scale_codec (map_codec f g a)"
  using assms by (auto simp: scale_codec_def map_codec_def)

lemma scale_codec_sum [intro]:
  assumes "scale_codec a" and "scale_codec b"
  shows "scale_codec (sum_codec a b)"
  using assms by (auto simp: scale_codec_def sum_codec_def split: sum.splits)

lemma take_ones_replicate: "take_ones (replicate n 1 @ 0 # r) = Some (n, r)"
  by (induction n) auto

lemma scale_codec_unary [intro]: "scale_codec unary_codec"
  by unfold_locales (simp add: unary_codec_def take_ones_replicate)

lemma decode_n_concat:
  assumes "scale_codec c"
  shows "decode_n c (length xs) (concat (map (encode c) xs) @ r) = Some (xs, r)"
  by (induction xs) (auto simp: scale_codec.decode_encode [OF assms])

lemma scale_codec_list [intro]: "scale_codec c \<Longrightarrow> scale_codec (list_codec c)"
  by (unfold_locales, simp add: list_codec_def take_ones_replicate decode_n_concat)

end
