(* ===== verification/Dynamic_Typing.thy ===== *)
theory Dynamic_Typing
  imports Scale_Codec
begin

text \<open>
  \<^verbatim>\<open>tuxedo-core/src/dynamic_typing.rs\<close>: the tagged byte strings a UTXO holds.

  The trait \<^verbatim>\<open>UtxoData\<close> is a dictionary (record \<open>UtxoData\<close>): the four-byte tag and the codec of
  the type. \<open>extract_data\<close> is the checked read, \<open>into_data\<close> the \<^verbatim>\<open>From<T>\<close> conversion that
  packages a value. The locale \<open>utxo_data\<close> states what a piece promises of its dictionary
  and holds the facts every piece's proofs use: packaging then extracting gives the value
  back, and data of one type is never read as data of another.
\<close>

record DynamicallyTypedData =
  data :: bytes
  type_id :: byte4

record 'a UtxoData =
  TYPE_ID :: byte4
  data_codec :: "'a codec"

datatype DynamicTypingError = WrongType | DecodingFailed

definition extract_data :: "'a UtxoData \<Rightarrow> DynamicallyTypedData \<Rightarrow> ('a, DynamicTypingError) result" where
  "extract_data T d =
     (if type_id d = TYPE_ID T
      then ok_or (decode_value (data_codec T) (data d)) DecodingFailed
      else Err WrongType)"

definition into_data :: "'a UtxoData \<Rightarrow> 'a \<Rightarrow> DynamicallyTypedData" where
  "into_data T v = \<lparr>data = encode (data_codec T) v, type_id = TYPE_ID T\<rparr>"

text \<open>\<^verbatim>\<open>extract::<T>().map_err(|_| e)\<close>, the form in which every piece reads its data.\<close>

definition extract_or :: "'a UtxoData \<Rightarrow> 'e \<Rightarrow> DynamicallyTypedData \<Rightarrow> ('a, 'e) result" where
  "extract_or T e d = map_err (\<lambda>_. e) (extract_data T d)"

text \<open>The value a payload holds when read as a \<open>T\<close>, for specifications.\<close>

definition view :: "'a UtxoData \<Rightarrow> DynamicallyTypedData \<Rightarrow> 'a option" where
  "view T d = (if type_id d = TYPE_ID T then decode_value (data_codec T) (data d) else None)"

fun display_typing_error :: "DynamicTypingError \<Rightarrow> string" where
  "display_typing_error WrongType = ''dynamic type does not match extraction target''"
| "display_typing_error DecodingFailed =
     ''failed to decode dynamically typed data with scale codec''"

text \<open>The unit type \<^verbatim>\<open>Bogus\<close> of \<^verbatim>\<open>dynamic_typing::testing\<close>, badly typed data for the pieces.\<close>

definition Bogus :: "unit codec \<Rightarrow> unit UtxoData" where
  "Bogus c = \<lparr>TYPE_ID = byte_string4 ''bogs'', data_codec = c\<rparr>"

subsection \<open>The contract of a UTXO data type\<close>

lemma extract_not_Panic [simp]: "extract_data T d \<noteq> Panic"
  by (simp add: extract_data_def)

lemma extract_Ok_iff [result_ok]:
  "extract_data T d = Ok x \<longleftrightarrow> type_id d = TYPE_ID T \<and> decode_value (data_codec T) (data d) = Some x"
  by (auto simp: extract_data_def result_ok)

lemma extract_or_view: "extract_or T e d = ok_or (view T d) e"
  by (cases "decode_value (data_codec T) (data d)")
    (simp_all add: extract_or_def extract_data_def view_def)

lemma extract_or_Ok [result_ok]: "extract_or T e d = Ok x \<longleftrightarrow> view T d = Some x"
  by (simp add: extract_or_view ok_or_Ok)

lemma view_foreign: "TYPE_ID U \<noteq> TYPE_ID T \<Longrightarrow> view T d = Some x \<Longrightarrow> view U d = None"
  by (auto simp: view_def split: if_splits)

lemma type_id_into_data [simp]: "type_id (into_data T v) = TYPE_ID T"
  by (simp add: into_data_def)

lemma data_into_data [simp]: "data (into_data T v) = encode (data_codec T) v"
  by (simp add: into_data_def)

locale utxo_data =
  fixes T :: "'a UtxoData"
  assumes lawful_codec: "scale_codec (data_codec T)"

sublocale utxo_data \<subseteq> scale_codec "data_codec T"
  by (rule lawful_codec)

context utxo_data
begin

lemma extract_into_data [simp]: "extract_data T (into_data T x) = Ok x"
  by (simp add: extract_data_def)

lemma view_into_data [simp]: "view T (into_data T x) = Some x"
  by (simp add: view_def)

lemma into_data_inject [simp]: "into_data T x = into_data T y \<longleftrightarrow> x = y"
  by (simp add: into_data_def)

lemma extract_foreign:
  "TYPE_ID U \<noteq> TYPE_ID T \<Longrightarrow> extract_data U (into_data T x) = Err WrongType"
  by (simp add: extract_data_def)

lemma extract_truncated:
  "decode_value (data_codec T) b = None \<Longrightarrow>
   extract_data T \<lparr>data = b, type_id = TYPE_ID T\<rparr> = Err DecodingFailed"
  by (simp add: extract_data_def)

end

text \<open>The test type has a trivially lawful dictionary.\<close>

interpretation bogus: utxo_data "Bogus unit_codec"
  by unfold_locales (auto simp: Bogus_def unit_codec_def)

text \<open>
  C21. Dynamic typing is sound: for two UTXO data types with different tags, a value packaged as
  the one is extracted as itself by its own type and refused as \<open>WrongType\<close> by the other, so
  no bytes of one type are ever read as the other (the "attack kitty" of the module's
  documentation).
\<close>

theorem extract_type_safe:
  assumes "scale_codec (data_codec T)" and "TYPE_ID U \<noteq> TYPE_ID T"
  shows "extract_data T (into_data T x) = Ok x \<and> extract_data U (into_data T x) = Err WrongType"
  using utxo_data.extract_into_data [OF utxo_data.intro, OF assms(1)]
    utxo_data.extract_foreign [OF utxo_data.intro, OF assms]
  by blast

theorem extract_type_safe_witness:
  "extract_data \<lparr>TYPE_ID = (98, 121, 116, 101), data_codec = byte_codec\<rparr>
     (into_data \<lparr>TYPE_ID = (98, 121, 116, 101), data_codec = byte_codec\<rparr> 4) = Ok 4
   \<and> extract_data (Bogus unit_codec)
     (into_data \<lparr>TYPE_ID = (98, 121, 116, 101), data_codec = byte_codec\<rparr> 4) = Err WrongType"
proof (rule extract_type_safe)
  show "scale_codec (data_codec \<lparr>TYPE_ID = (98, 121, 116, 101), data_codec = byte_codec\<rparr>)"
    by auto
  show "TYPE_ID (Bogus unit_codec)
      \<noteq> TYPE_ID \<lparr>TYPE_ID = (98, 121, 116, 101), data_codec = byte_codec\<rparr>"
    by (simp add: Bogus_def)
qed

end
