(* ===== verification/Core_Types.thy ===== *)
theory Core_Types
  imports Dynamic_Typing
begin

text \<open>
  \<^verbatim>\<open>tuxedo-core/src/types.rs\<close> and the two traits the framework is generic over.

  \<^item> The UTXO data model: \<open>OutputRef\<close>, \<open>Input\<close>, \<open>Output\<close>, \<open>Transaction\<close>, the error types and
    their mapping to Substrate's \<^verbatim>\<open>InvalidTransaction\<close>, headers and blocks.
  \<^item> A Rust trait is a dictionary. \<open>Verifier\<close> (\<^verbatim>\<open>verifier.rs\<close>) and \<open>ConstraintChecker\<close>
    (\<^verbatim>\<open>constraint_checker.rs\<close>) are records of the trait's methods together with the codecs the
    trait's bounds (\<^verbatim>\<open>Encode + Decode\<close>) supply. A constraint checker runs against the ambient
    storage, which it may read and write, so \<open>check\<close> maps a storage to a storage and a
    result; the storage it leaves behind is kept even when it fails.
  \<^item> What the code takes from Substrate (hashing, signatures, trie roots, encodings of the core
    types, \<^verbatim>\<open>CheckInherentsResult::put_error\<close>) is the record \<open>host\<close>. The locale \<open>host_laws\<close>
    states what the code relies on: the codecs round-trip and an encoded \<open>OutputRef\<close> is 36
    bytes (32 for the hash, 4 for the index).
  \<^item> \<open>transaction_codec\<close> is the hand-written \<^verbatim>\<open>Encode\<close>/\<^verbatim>\<open>Decode\<close> of \<open>Transaction\<close>.
\<close>

subsection \<open>Transactions\<close>

type_synonym BlockNumber = u32
type_synonym TransactionPriority = u64

record OutputRef =
  tx_hash :: H256
  index :: u32

datatype RedemptionStrategy = Redemption bytes | Eviction

definition default_redemption :: RedemptionStrategy where
  "default_redemption = Redemption []"

record Input =
  output_ref :: OutputRef
  redeemer :: RedemptionStrategy

record 'v Output =
  payload :: DynamicallyTypedData
  verifier :: 'v

record ('v, 'c) Transaction =
  inputs :: "Input list"
  peeks :: "OutputRef list"
  outputs :: "'v Output list"
  checker :: 'c

definition output_from_data :: "'v \<Rightarrow> DynamicallyTypedData \<Rightarrow> 'v Output" where
  "output_from_data default_verifier p = \<lparr>payload = p, verifier = default_verifier\<rparr>"

definition output_from_pair :: "'p UtxoData \<Rightarrow> ('w \<Rightarrow> 'v) \<Rightarrow> 'p \<times> 'w \<Rightarrow> 'v Output" where
  "output_from_pair P into_v values =
     \<lparr>payload = into_data P (fst values), verifier = into_v (snd values)\<rparr>"

definition transform :: "('c \<Rightarrow> 'd) \<Rightarrow> ('v, 'c) Transaction \<Rightarrow> ('v, 'd) Transaction" where
  "transform into_d tx =
     \<lparr>inputs = inputs tx, peeks = peeks tx, outputs = outputs tx, checker = into_d (checker tx)\<rparr>"

subsection \<open>Errors\<close>

datatype 'e UtxoError =
    DuplicateInput
  | PreExistingOutput
  | ConstraintCheckerError 'e
  | VerifierError
  | MissingInput

datatype InvalidTransaction = InvalidCall | Future | BadProof | Custom u8

fun invalid_transaction_from :: "'e UtxoError \<Rightarrow> InvalidTransaction" where
  "invalid_transaction_from DuplicateInput = Custom 255"
| "invalid_transaction_from PreExistingOutput = Custom 254"
| "invalid_transaction_from (ConstraintCheckerError _) = Custom 0"
| "invalid_transaction_from VerifierError = BadProof"
| "invalid_transaction_from MissingInput = Future"

type_synonym 'e DispatchResult = "(unit, 'e UtxoError) result"

subsection \<open>Headers and blocks\<close>

record Header =
  parent_hash :: H256
  number :: BlockNumber
  state_root :: H256
  extrinsics_root :: H256
  digest :: "bytes list"

record ('v, 'c) Block =
  header :: Header
  extrinsics :: "('v, 'c) Transaction list"

subsection \<open>Inherent data\<close>

text \<open>
  \<^verbatim>\<open>sp_inherents::InherentData\<close> maps eight-byte identifiers to encoded values;
  \<open>get_data\<close> reads and decodes an entry, \<open>Ok None\<close> when it is absent.
  \<^verbatim>\<open>CheckInherentsResult\<close> collects the errors found.
\<close>

type_synonym InherentIdentifier = bytes
type_synonym InherentData = "InherentIdentifier \<rightharpoonup> bytes"

definition get_data :: "'a codec \<Rightarrow> InherentIdentifier \<Rightarrow> InherentData \<Rightarrow> ('a option, unit) result" where
  "get_data c ident d =
     (case d ident of
        None \<Rightarrow> Ok None
      | Some b \<Rightarrow> map_ok Some (ok_or (decode_value c b) ()))"

text \<open>\<^verbatim>\<open>data.get_data(..).expect(..).expect(..)\<close>: \<open>None\<close> is a panic.\<close>

definition expect_data :: "'a codec \<Rightarrow> InherentIdentifier \<Rightarrow> InherentData \<Rightarrow> 'a option" where
  "expect_data c ident d = (case get_data c ident d of Ok (Some x) \<Rightarrow> Some x | _ \<Rightarrow> None)"

record CheckInherentsResult =
  okay :: bool
  fatal_error :: bool
  errors :: InherentData

definition new_check_inherents_result :: CheckInherentsResult where
  "new_check_inherents_result = \<lparr>okay = True, fatal_error = False, errors = Map.empty\<rparr>"

subsection \<open>What comes from Substrate\<close>

record host =
  blake2_256 :: "bytes \<Rightarrow> H256"
  sr25519_verify :: "Signature \<Rightarrow> bytes \<Rightarrow> Public \<Rightarrow> bool"
  ordered_trie_root :: "bytes list \<Rightarrow> H256"
  raw_storage_root :: "storage \<Rightarrow> bytes"
  put_error :: "CheckInherentsResult \<Rightarrow> InherentIdentifier \<Rightarrow> bytes \<Rightarrow> bool
    \<Rightarrow> CheckInherentsResult option"
  h256_codec :: "H256 codec"
  u32_codec :: "u32 codec"
  compact_u32_codec :: "u32 codec"
  bytes_codec :: "bytes codec"
  bytes_list_codec :: "bytes list codec"
  output_ref_codec :: "OutputRef codec"
  output_refs_codec :: "OutputRef list codec"
  input_codec :: "Input codec"
  inputs_codec :: "Input list codec"
  header_codec :: "Header codec"

text \<open>\<^verbatim>\<open>BlakeTwo256::hash_of(&bytes)\<close> hashes the encoding of its argument.\<close>

definition hash_of :: "host \<Rightarrow> 'a codec \<Rightarrow> 'a \<Rightarrow> H256" where
  "hash_of H c x = blake2_256 H (encode c x)"

subsection \<open>The traits\<close>

record ('v, 'r) Verifier =
  verify :: "'v \<Rightarrow> bytes \<Rightarrow> u32 \<Rightarrow> 'r \<Rightarrow> bool option"
  new_unspendable :: "'v option"
  redeemer_codec :: "'r codec"
  output_codec :: "'v Output codec"
  outputs_codec :: "'v Output list codec"

type_synonym 'e checked = "storage \<Rightarrow> storage \<times> (TransactionPriority, 'e) result"

type_synonym ('c, 'e) check_fn =
  "'c \<Rightarrow> DynamicallyTypedData list \<Rightarrow> DynamicallyTypedData list
     \<Rightarrow> DynamicallyTypedData list \<Rightarrow> DynamicallyTypedData list \<Rightarrow> 'e checked"

record ('v, 'c, 'e) ConstraintChecker =
  check :: "('c, 'e) check_fn"
  is_inherent :: "'c \<Rightarrow> bool"
  create_inherents :: "InherentData \<Rightarrow> (('v, 'c) Transaction \<times> H256) list \<Rightarrow> storage
    \<Rightarrow> ('v, 'c) Transaction list option"
  check_inherents :: "InherentData \<Rightarrow> ('v, 'c) Transaction list \<Rightarrow> CheckInherentsResult
    \<Rightarrow> CheckInherentsResult option"
  genesis_transactions :: "('v, 'c) Transaction list option"
  checker_codec :: "'c codec"

text \<open>A check that does not touch the storage, and one that only reads it.\<close>

definition stateless :: "(TransactionPriority, 'e) result \<Rightarrow> 'e checked" where
  "stateless r = (\<lambda>s. (s, r))"

definition reading :: "(storage \<Rightarrow> (TransactionPriority, 'e) result) \<Rightarrow> 'e checked" where
  "reading f = (\<lambda>s. (s, f s))"

text \<open>
  The \<^verbatim>\<open>Extrinsic\<close> implementation: \<open>Some False\<close> marks an inherent, \<open>None\<close> an unsigned user
  transaction; Tuxedo has no signed ones.
\<close>

definition extrinsic_new :: "('v, 'c) Transaction \<Rightarrow> unit option \<Rightarrow> ('v, 'c) Transaction option" where
  "extrinsic_new tx sig = Some tx"

definition is_signed :: "('v, 'c, 'e) ConstraintChecker \<Rightarrow> ('v, 'c) Transaction \<Rightarrow> bool option" where
  "is_signed C tx = (if is_inherent C (checker tx) then Some False else None)"

subsection \<open>The encoding of transactions\<close>

definition encode_transaction ::
  "host \<Rightarrow> ('v, 'r) Verifier \<Rightarrow> 'c codec \<Rightarrow> ('v, 'c) Transaction \<Rightarrow> bytes" where
  "encode_transaction H V cc tx =
     (let ins = encode (inputs_codec H) (inputs tx);
          pks = encode (output_refs_codec H) (peeks tx);
          outs = encode (outputs_codec V) (outputs tx);
          chk = encode cc (checker tx);
          total_len = of_nat (length ins + length outs + length pks + length chk) :: u32;
          size = encode (compact_u32_codec H) total_len
      in size @ ins @ pks @ outs @ chk)"

definition decode_transaction ::
  "host \<Rightarrow> ('v, 'r) Verifier \<Rightarrow> 'c codec \<Rightarrow> bytes \<Rightarrow> (('v, 'c) Transaction \<times> bytes) option" where
  "decode_transaction H V cc b0 =
     Option.bind (decode (compact_u32_codec H) b0) (\<lambda>(_, b1).
     Option.bind (decode (inputs_codec H) b1) (\<lambda>(ins, b2).
     Option.bind (decode (output_refs_codec H) b2) (\<lambda>(pks, b3).
     Option.bind (decode (outputs_codec V) b3) (\<lambda>(outs, b4).
     Option.bind (decode cc b4) (\<lambda>(chk, b5).
     Some (\<lparr>inputs = ins, peeks = pks, outputs = outs, checker = chk\<rparr>, b5))))))"

definition transaction_codec ::
  "host \<Rightarrow> ('v, 'r) Verifier \<Rightarrow> 'c codec \<Rightarrow> ('v, 'c) Transaction codec" where
  "transaction_codec H V cc =
     \<lparr>encode = encode_transaction H V cc, decode = decode_transaction H V cc\<rparr>"

subsection \<open>Laws of the parameters\<close>

locale host_laws =
  fixes H :: host
  assumes h256_lawful: "scale_codec (h256_codec H)"
    and u32_lawful: "scale_codec (u32_codec H)"
    and compact_lawful: "scale_codec (compact_u32_codec H)"
    and bytes_lawful: "scale_codec (bytes_codec H)"
    and bytes_list_lawful: "scale_codec (bytes_list_codec H)"
    and output_ref_lawful: "scale_codec (output_ref_codec H)"
    and output_refs_lawful: "scale_codec (output_refs_codec H)"
    and input_lawful: "scale_codec (input_codec H)"
    and inputs_lawful: "scale_codec (inputs_codec H)"
    and header_lawful: "scale_codec (header_codec H)"
    and output_ref_length: "length (encode (output_ref_codec H) r) = 36"

locale verifier_laws =
  fixes V :: "('v, 'r) Verifier"
  assumes redeemer_lawful: "scale_codec (redeemer_codec V)"
    and output_lawful: "scale_codec (output_codec V)"
    and outputs_lawful: "scale_codec (outputs_codec V)"

lemma encode_transaction_decode:
  assumes "host_laws H" and "verifier_laws V" and "scale_codec cc"
  shows "decode_transaction H V cc (encode_transaction H V cc tx @ r) = Some (tx, r)"
  using scale_codec.decode_encode [OF host_laws.compact_lawful [OF assms(1)]]
    scale_codec.decode_encode [OF host_laws.inputs_lawful [OF assms(1)]]
    scale_codec.decode_encode [OF host_laws.output_refs_lawful [OF assms(1)]]
    scale_codec.decode_encode [OF verifier_laws.outputs_lawful [OF assms(2)]]
    scale_codec.decode_encode [OF assms(3)]
  by (simp add: encode_transaction_def decode_transaction_def Let_def)

text \<open>
  C33. Transactions survive the wire. Decoding an encoded transaction, whatever bytes follow it, gives
  back the transaction and those bytes; different transactions have different encodings. The length prefix
  that makes the encoding look like a byte vector is skipped, not checked: the same body behind any
  other length decodes to the same transaction.
\<close>

theorem transaction_round_trip:
  assumes "host_laws H" and "verifier_laws V" and "scale_codec cc"
  shows "decode (transaction_codec H V cc) (encode (transaction_codec H V cc) tx @ r) = Some (tx, r)
    \<and> (encode (transaction_codec H V cc) tx = encode (transaction_codec H V cc) tx' \<longleftrightarrow> tx = tx')
    \<and> (\<exists>n body. encode (transaction_codec H V cc) tx = encode (compact_u32_codec H) n @ body
        \<and> (\<forall>m. decode (transaction_codec H V cc) (encode (compact_u32_codec H) m @ body @ r) = Some (tx, r)))"
proof -
  have laws: "decode (transaction_codec H V cc) (encode (transaction_codec H V cc) t @ r') = Some (t, r')" for t r'
    using encode_transaction_decode [OF assms] by (simp add: transaction_codec_def)
  then have "scale_codec (transaction_codec H V cc)" by unfold_locales
  then have inj: "encode (transaction_codec H V cc) tx = encode (transaction_codec H V cc) tx' \<longleftrightarrow> tx = tx'"
    by (rule scale_codec.encode_inject)
  let ?body = "encode (inputs_codec H) (inputs tx) @ encode (output_refs_codec H) (peeks tx)
    @ encode (outputs_codec V) (outputs tx) @ encode cc (checker tx)"
  have "decode (transaction_codec H V cc) (encode (compact_u32_codec H) m @ ?body @ r) = Some (tx, r)" for m
    using scale_codec.decode_encode [OF host_laws.compact_lawful [OF assms(1)]]
      scale_codec.decode_encode [OF host_laws.inputs_lawful [OF assms(1)]]
      scale_codec.decode_encode [OF host_laws.output_refs_lawful [OF assms(1)]]
      scale_codec.decode_encode [OF verifier_laws.outputs_lawful [OF assms(2)]]
      scale_codec.decode_encode [OF assms(3)]
    by (simp add: transaction_codec_def decode_transaction_def)
  moreover have "\<exists>n. encode (transaction_codec H V cc) tx = encode (compact_u32_codec H) n @ ?body"
    by (auto simp: transaction_codec_def encode_transaction_def Let_def)
  ultimately show ?thesis using laws inj by blast
qed

text \<open>
  The laws of the executive: its parameters are lawful, so its transactions are.
\<close>

locale executive_laws = host_laws H + verifier_laws V
  for H :: host and V :: "('v, 'r) Verifier" +
  fixes C :: "('v, 'c, 'e) ConstraintChecker"
  assumes checker_lawful: "scale_codec (checker_codec C)"

sublocale executive_laws \<subseteq> tx: scale_codec "transaction_codec H V (checker_codec C)"
  by unfold_locales
    (simp add: transaction_codec_def
      encode_transaction_decode host_laws_axioms verifier_laws_axioms checker_lawful)

sublocale host_laws \<subseteq> oref: scale_codec "output_ref_codec H"
  by (rule output_ref_lawful)

sublocale verifier_laws \<subseteq> outp: scale_codec "output_codec V"
  by (rule output_lawful)

subsection \<open>Facts\<close>

lemma transform_fields [simp]:
  "inputs (transform f tx) = inputs tx"
  "peeks (transform f tx) = peeks tx"
  "outputs (transform f tx) = outputs tx"
  "checker (transform f tx) = f (checker tx)"
  by (simp_all add: transform_def)

lemma transform_compose: "transform g (transform f tx) = transform (\<lambda>c. g (f c)) tx"
  by (simp add: transform_def)

lemma stateless_apply [simp]: "stateless r s = (s, r)"
  by (simp add: stateless_def)

lemma reading_apply [simp]: "reading f s = (s, f s)"
  by (simp add: reading_def)

lemma length_byte_string [simp]: "length (byte_string s) = length s"
  by (simp add: byte_string_def)

end
