(* ===== verification/Utxo_Set.thy ===== *)
theory Utxo_Set
  imports Core_Types
begin

text \<open>
  \<^verbatim>\<open>tuxedo-core/src/utxo_set.rs\<close> and the storage keys of \<^verbatim>\<open>tuxedo-core/src/lib.rs\<close>.

  The UTXO set lives in the same byte-keyed storage as the runtime's own entries. The locale
  \<open>utxo_map\<close> is the contract its clients rely on (it is a finite map from output references to
  outputs, whatever the bytes underneath), and the interpretation \<open>utxo\<close> discharges it for
  the source's three operations. In the locale: what a batch of removals and insertions, the
  executive's \<open>update_storage\<close>, leaves at every reference.
\<close>

definition HEADER_KEY :: bytes where "HEADER_KEY = byte_string ''header''"
definition HEIGHT_KEY :: bytes where "HEIGHT_KEY = byte_string ''height''"
definition EXTRINSIC_KEY :: bytes where "EXTRINSIC_KEY = byte_string ''extrinsics''"

definition peek_utxo :: "host \<Rightarrow> ('v, 'r) Verifier \<Rightarrow> OutputRef \<Rightarrow> storage \<Rightarrow> 'v Output option" where
  "peek_utxo H V r s =
     Option.bind (s (encode (output_ref_codec H) r)) (decode_value (output_codec V))"

definition consume_utxo ::
  "host \<Rightarrow> ('v, 'r) Verifier \<Rightarrow> OutputRef \<Rightarrow> storage \<Rightarrow> storage \<times> 'v Output option" where
  "consume_utxo H V r s =
     (let maybe_output = peek_utxo H V r s
      in (s(encode (output_ref_codec H) r := None), maybe_output))"

definition store_utxo ::
  "host \<Rightarrow> ('v, 'r) Verifier \<Rightarrow> OutputRef \<Rightarrow> 'v Output \<Rightarrow> storage \<Rightarrow> storage" where
  "store_utxo H V r out s =
     s(encode (output_ref_codec H) r \<mapsto> encode (output_codec V) out)"

subsection \<open>The contract\<close>

locale utxo_map =
  fixes lawful :: "'env \<Rightarrow> bool"
    and peek :: "'env \<Rightarrow> 'ref \<Rightarrow> 's \<Rightarrow> 'o option"
    and consume :: "'env \<Rightarrow> 'ref \<Rightarrow> 's \<Rightarrow> 's"
    and store :: "'env \<Rightarrow> 'ref \<Rightarrow> 'o \<Rightarrow> 's \<Rightarrow> 's"
  assumes peek_consume:
      "lawful E \<Longrightarrow> peek E r (consume E r' s) = (if r = r' then None else peek E r s)"
    and peek_store:
      "lawful E \<Longrightarrow> peek E r (store E r' out s) = (if r = r' then Some out else peek E r s)"
begin

lemma peek_consume_all:
  "lawful E \<Longrightarrow> peek E r (fold (consume E) rs s) = (if r \<in> set rs then None else peek E r s)"
  by (induction rs arbitrary: s) (auto simp: peek_consume)

lemma peek_store_all:
  "lawful E \<Longrightarrow> distinct (map fst kvs) \<Longrightarrow>
   peek E r (fold (\<lambda>(k, out). store E k out) kvs s)
     = (case map_of kvs r of Some out \<Rightarrow> Some out | None \<Rightarrow> peek E r s)"
proof (induction kvs arbitrary: s)
  case Nil
  then show ?case by simp
next
  case (Cons kv kvs)
  obtain k out where kv: "kv = (k, out)" by force
  have "map_of kvs k = None"
    using Cons.prems(2) kv by (simp add: map_of_eq_None_iff)
  with Cons kv show ?case by (auto simp: peek_store split: option.splits)
qed

lemma peek_batch:
  "lawful E \<Longrightarrow> distinct (map fst kvs) \<Longrightarrow>
   peek E r (fold (\<lambda>(k, out). store E k out) kvs (fold (consume E) rs s))
     = (case map_of kvs r of Some out \<Rightarrow> Some out
        | None \<Rightarrow> if r \<in> set rs then None else peek E r s)"
  by (simp add: peek_store_all peek_consume_all split: option.splits)

end

text \<open>The environment of the source's UTXO set: the host and the verifier's dictionary.\<close>

type_synonym ('v, 'r) utxo_env = "host \<times> ('v, 'r) Verifier"

definition utxo_lawful :: "('v, 'r) utxo_env \<Rightarrow> bool" where
  "utxo_lawful E \<longleftrightarrow> host_laws (fst E) \<and> verifier_laws (snd E)"

interpretation utxo: utxo_map
  utxo_lawful
  "\<lambda>E. peek_utxo (fst E) (snd E)"
  "\<lambda>E r s. fst (consume_utxo (fst E) (snd E) r s)"
  "\<lambda>E. store_utxo (fst E) (snd E)"
proof
  fix E :: "('v, 'r) utxo_env" and r r' s out
  assume "utxo_lawful E"
  then have laws: "scale_codec (output_ref_codec (fst E))" "scale_codec (output_codec (snd E))"
    by (auto simp: utxo_lawful_def host_laws.output_ref_lawful verifier_laws.output_lawful)
  show "peek_utxo (fst E) (snd E) r (fst (consume_utxo (fst E) (snd E) r' s))
      = (if r = r' then None else peek_utxo (fst E) (snd E) r s)"
    by (simp add: peek_utxo_def consume_utxo_def scale_codec.encode_inject [OF laws(1)])
  show "peek_utxo (fst E) (snd E) r (store_utxo (fst E) (snd E) r' out s)
      = (if r = r' then Some out else peek_utxo (fst E) (snd E) r s)"
    by (simp add: peek_utxo_def store_utxo_def scale_codec.encode_inject [OF laws(1)]
        scale_codec.decode_value_encode [OF laws(2)])
qed

subsection \<open>The UTXO set and the runtime's own keys do not overlap\<close>

definition is_runtime_key :: "bytes \<Rightarrow> bool" where
  "is_runtime_key k \<longleftrightarrow> length k \<noteq> 36"

lemma runtime_keys [simp]:
  "is_runtime_key HEADER_KEY" "is_runtime_key HEIGHT_KEY" "is_runtime_key EXTRINSIC_KEY"
  by (simp_all add: is_runtime_key_def HEADER_KEY_def HEIGHT_KEY_def EXTRINSIC_KEY_def)

lemma runtime_keys_distinct [simp]:
  "HEADER_KEY \<noteq> HEIGHT_KEY" "HEIGHT_KEY \<noteq> HEADER_KEY"
  "HEADER_KEY \<noteq> EXTRINSIC_KEY" "EXTRINSIC_KEY \<noteq> HEADER_KEY"
  "HEIGHT_KEY \<noteq> EXTRINSIC_KEY" "EXTRINSIC_KEY \<noteq> HEIGHT_KEY"
  by (simp_all add: HEADER_KEY_def HEIGHT_KEY_def EXTRINSIC_KEY_def byte_string_def)

lemma output_ref_not_runtime_key:
  "host_laws H \<Longrightarrow> \<not> is_runtime_key (encode (output_ref_codec H) r)"
  by (simp add: is_runtime_key_def host_laws.output_ref_length)

lemma runtime_key_not_output_ref:
  "host_laws H \<Longrightarrow> is_runtime_key k \<Longrightarrow> encode (output_ref_codec H) r \<noteq> k"
  using output_ref_not_runtime_key by metis

lemma peek_utxo_runtime_key [simp]:
  "host_laws H \<Longrightarrow> is_runtime_key k \<Longrightarrow> peek_utxo H V r (s(k := v)) = peek_utxo H V r s"
  by (simp add: peek_utxo_def runtime_key_not_output_ref)

lemma consume_utxo_frame:
  "host_laws H \<Longrightarrow> is_runtime_key k \<Longrightarrow> fst (consume_utxo H V r s) k = s k"
  using runtime_key_not_output_ref [of H k r] by (auto simp: consume_utxo_def)

lemma store_utxo_frame:
  "host_laws H \<Longrightarrow> is_runtime_key k \<Longrightarrow> store_utxo H V r out s k = s k"
  using runtime_key_not_output_ref [of H k r] by (auto simp: store_utxo_def)

end
