(* ===== verification/Executive.thy ===== *)
theory Executive
  imports Utxo_Set
begin

text \<open>
  \<^verbatim>\<open>tuxedo-core/src/executive.rs\<close>: the orchestrator of a Tuxedo runtime. Every method of
  \<^verbatim>\<open>Executive<V, C>\<close> is a definition here, with the dictionaries of the two type parameters and
  the host as explicit arguments and the storage threaded through.

  Logging is the only thing left out. \<^verbatim>\<open>index as u32\<close> is \<open>of_nat\<close> into a 32-bit word, with its
  truncation. A panic is \<open>Panic\<close> where the method returns a \<^verbatim>\<open>Result\<close> and \<open>None\<close> where not.
\<close>

subsection \<open>Validating a transaction\<close>

record ValidTransaction =
  requires :: "bytes list"
  provides :: "bytes list"
  priority :: TransactionPriority
  longevity :: u64
  propagate :: bool

definition block_height :: "host \<Rightarrow> storage \<Rightarrow> u32 option" where
  "block_height H s = Option.bind (s HEIGHT_KEY) (decode_value (u32_codec H))"

text \<open>The hash that identifies a transaction, and the references of its outputs.\<close>

definition transaction_hash ::
  "host \<Rightarrow> ('v, 'r) Verifier \<Rightarrow> 'c codec \<Rightarrow> ('v, 'c) Transaction \<Rightarrow> H256" where
  "transaction_hash H V cc tx = hash_of H (bytes_codec H) (encode (transaction_codec H V cc) tx)"

definition output_refs_of ::
  "host \<Rightarrow> ('v, 'r) Verifier \<Rightarrow> 'c codec \<Rightarrow> ('v, 'c) Transaction \<Rightarrow> OutputRef list" where
  "output_refs_of H V cc tx =
     map (\<lambda>i. \<lparr>tx_hash = transaction_hash H V cc tx, index = of_nat i\<rparr>)
       [0..<length (outputs tx)]"

definition strip_transaction :: "('v, 'c) Transaction \<Rightarrow> ('v, 'c) Transaction" where
  "strip_transaction tx =
     tx\<lparr>inputs := map (\<lambda>i. i\<lparr>redeemer := default_redemption\<rparr>) (inputs tx)\<rparr>"

text \<open>
  One round of the loop over the inputs. The accumulator holds the payloads of the redeemed
  inputs, the payloads of the evicted inputs and the encoded references that are missing.
\<close>

type_synonym input_acc =
  "DynamicallyTypedData list \<times> DynamicallyTypedData list \<times> bytes list"

fun validate_input ::
  "host \<Rightarrow> ('v, 'r) Verifier \<Rightarrow> bytes \<Rightarrow> storage \<Rightarrow> input_acc \<Rightarrow> Input
     \<Rightarrow> (input_acc, 'e UtxoError) result" where
  "validate_input H V stripped_encoded s (input_data, evicted_input_data, missing_inputs) input =
     (case peek_utxo H V (output_ref input) s of
        Some input_utxo \<Rightarrow>
          (case redeemer input of
             Redemption raw \<Rightarrow>
               bind_result (ok_or (decode_value (redeemer_codec V) raw) VerifierError) (\<lambda>red.
               bind_result (expect (block_height H s)) (\<lambda>height.
               bind_result (expect (verify V (verifier input_utxo) stripped_encoded height red)) (\<lambda>b.
               ensure b VerifierError
                 (Ok (input_data @ [payload input_utxo], evicted_input_data, missing_inputs)))))
           | Eviction \<Rightarrow>
               Ok (input_data, evicted_input_data @ [payload input_utxo], missing_inputs))
      | None \<Rightarrow>
          Ok (input_data, evicted_input_data,
              missing_inputs @ [encode (output_ref_codec H) (output_ref input)]))"

fun collect_peek ::
  "host \<Rightarrow> ('v, 'r) Verifier \<Rightarrow> storage \<Rightarrow> DynamicallyTypedData list \<times> bytes list \<Rightarrow> OutputRef
     \<Rightarrow> DynamicallyTypedData list \<times> bytes list" where
  "collect_peek H V s (peek_data, missing_inputs) r =
     (case peek_utxo H V r s of
        Some utxo \<Rightarrow> (peek_data @ [payload utxo], missing_inputs)
      | None \<Rightarrow> (peek_data, missing_inputs @ [encode (output_ref_codec H) r]))"

text \<open>
  Everything \<open>validate_tuxedo_transaction\<close> does before it reaches the constraint checker; the
  result is the data for the checker, the missing references and the tags provided.
\<close>

definition gather_transaction ::
  "host \<Rightarrow> ('v, 'r) Verifier \<Rightarrow> 'c codec \<Rightarrow> ('v, 'c) Transaction \<Rightarrow> storage
     \<Rightarrow> (DynamicallyTypedData list \<times> DynamicallyTypedData list \<times> DynamicallyTypedData list
          \<times> bytes list \<times> bytes list, 'e UtxoError) result" where
  "gather_transaction H V cc tx s =
     ensure (card (set (map (encode (input_codec H)) (inputs tx))) = length (inputs tx))
       DuplicateInput
     (let stripped_encoded = encode (transaction_codec H V cc) (strip_transaction tx) in
     bind_result (fold_result (validate_input H V stripped_encoded s) ([], [], []) (inputs tx))
       (\<lambda>(input_data, evicted_input_data, missing_inputs).
     (let (peek_data, missing) = foldl (collect_peek H V s) ([], missing_inputs) (peeks tx) in
     bind_result (for_result
         (\<lambda>r. ensure (peek_utxo H V r s = None) PreExistingOutput (Ok ()))
         (output_refs_of H V cc tx)) (\<lambda>_.
     (let tags = map (encode (output_ref_codec H)) (output_refs_of H V cc tx) in
     Ok (input_data, evicted_input_data, peek_data, missing, tags))))))"

definition validate_tuxedo_transaction ::
  "host \<Rightarrow> ('v, 'r) Verifier \<Rightarrow> ('v, 'c, 'e) ConstraintChecker \<Rightarrow> ('v, 'c) Transaction \<Rightarrow> storage
     \<Rightarrow> storage \<times> (ValidTransaction, 'e UtxoError) result" where
  "validate_tuxedo_transaction H V C tx s =
     (case gather_transaction H V (checker_codec C) tx s of
        Ok (input_data, evicted_input_data, peek_data, missing_inputs, tags) \<Rightarrow>
          (if missing_inputs \<noteq> []
           then (s, Ok \<lparr>requires = missing_inputs, provides = tags, priority = 0,
                        longevity = - 1, propagate = True\<rparr>)
           else
             (let output_data = map payload (outputs tx);
                  (s', r) = check C (checker tx) input_data evicted_input_data peek_data
                    output_data s
              in (s', bind_result (map_err ConstraintCheckerError r)
                   (\<lambda>_. Ok \<lparr>requires = [], provides = tags, priority = 0,
                            longevity = - 1, propagate = True\<rparr>))))
      | Err e \<Rightarrow> (s, Err e)
      | Panic \<Rightarrow> (s, Panic))"

subsection \<open>Applying a transaction\<close>

definition update_storage ::
  "host \<Rightarrow> ('v, 'r) Verifier \<Rightarrow> 'c codec \<Rightarrow> ('v, 'c) Transaction \<Rightarrow> storage \<Rightarrow> storage" where
  "update_storage H V cc tx s =
     (let s1 = fold (\<lambda>i s. fst (consume_utxo H V (output_ref i) s)) (inputs tx) s
      in fold (\<lambda>(i, out) s. store_utxo H V
             \<lparr>tx_hash = transaction_hash H V cc tx, index = of_nat i\<rparr> out s)
           (enumerate 0 (outputs tx)) s1)"

definition apply_tuxedo_transaction ::
  "host \<Rightarrow> ('v, 'r) Verifier \<Rightarrow> ('v, 'c, 'e) ConstraintChecker \<Rightarrow> ('v, 'c) Transaction \<Rightarrow> storage
     \<Rightarrow> storage \<times> 'e DispatchResult" where
  "apply_tuxedo_transaction H V C tx s =
     (case validate_tuxedo_transaction H V C tx s of
        (s', Ok valid_transaction) \<Rightarrow>
          (if requires valid_transaction = []
           then (update_storage H V (checker_codec C) tx s', Ok ())
           else (s', Err MissingInput))
      | (s', Err e) \<Rightarrow> (s', Err e)
      | (s', Panic) \<Rightarrow> (s', Panic))"

subsection \<open>Authoring a block\<close>

definition open_block :: "host \<Rightarrow> Header \<Rightarrow> storage \<Rightarrow> storage" where
  "open_block H h s =
     s(HEADER_KEY \<mapsto> encode (header_codec H) h, HEIGHT_KEY \<mapsto> encode (u32_codec H) (number h))"

definition noted_extrinsics :: "host \<Rightarrow> storage \<Rightarrow> bytes list" where
  "noted_extrinsics H s =
     (case Option.bind (s EXTRINSIC_KEY) (decode_value (bytes_list_codec H)) of
        Some xs \<Rightarrow> xs | None \<Rightarrow> [])"

definition apply_extrinsic ::
  "host \<Rightarrow> ('v, 'r) Verifier \<Rightarrow> ('v, 'c, 'e) ConstraintChecker \<Rightarrow> ('v, 'c) Transaction \<Rightarrow> storage
     \<Rightarrow> storage \<times> (unit, InvalidTransaction) result" where
  "apply_extrinsic H V C tx s =
     (let xs = noted_extrinsics H s @ [encode (transaction_codec H V (checker_codec C)) tx];
          s1 = s(EXTRINSIC_KEY \<mapsto> encode (bytes_list_codec H) xs);
          (s2, r) = apply_tuxedo_transaction H V C tx s1
      in (s2, map_err invalid_transaction_from r))"

definition current_state_root :: "host \<Rightarrow> storage \<Rightarrow> H256 option" where
  "current_state_root H s = decode_value (h256_codec H) (raw_storage_root H s)"

definition close_block :: "host \<Rightarrow> storage \<Rightarrow> (storage \<times> Header) option" where
  "close_block H s =
     Option.bind (Option.bind (s HEADER_KEY) (decode_value (header_codec H))) (\<lambda>h.
     (let s1 = s(HEADER_KEY := None);
          xs = noted_extrinsics H s1;
          root = ordered_trie_root H xs;
          s2 = s1(EXTRINSIC_KEY := None);
          h1 = h\<lparr>extrinsics_root := root\<rparr>
      in Option.bind (current_state_root H s2) (\<lambda>sr.
         Some (s2, h1\<lparr>state_root := sr\<rparr>))))"

subsection \<open>Executing a block\<close>

fun execute_extrinsics ::
  "host \<Rightarrow> ('v, 'r) Verifier \<Rightarrow> ('v, 'c, 'e) ConstraintChecker \<Rightarrow> bool
     \<Rightarrow> ('v, 'c) Transaction list \<Rightarrow> storage \<Rightarrow> storage option" where
  "execute_extrinsics H V C finished [] s = Some s"
| "execute_extrinsics H V C finished (tx # txs) s =
     (let current_tx_is_inherent = is_inherent C (checker tx) in
      if current_tx_is_inherent \<and> finished then None
      else (let finished' = (if \<not> current_tx_is_inherent \<and> \<not> finished then True else finished)
            in case apply_tuxedo_transaction H V C tx s of
                 (s', Ok _) \<Rightarrow> execute_extrinsics H V C finished' txs s'
               | _ \<Rightarrow> None))"

definition execute_block ::
  "host \<Rightarrow> ('v, 'r) Verifier \<Rightarrow> ('v, 'c, 'e) ConstraintChecker \<Rightarrow> ('v, 'c) Block \<Rightarrow> storage
     \<Rightarrow> storage option" where
  "execute_block H V C block s =
     (let s1 = s(HEADER_KEY \<mapsto> encode (header_codec H) (header block),
                 HEIGHT_KEY \<mapsto> encode (u32_codec H) (number (header block)))
      in Option.bind (execute_extrinsics H V C False (extrinsics block) s1) (\<lambda>s2.
         (let s3 = s2(HEADER_KEY := None)
          in Option.bind (current_state_root H s3) (\<lambda>sr.
             (if state_root (header block) \<noteq> sr then None
              else if extrinsics_root (header block)
                  \<noteq> ordered_trie_root H
                      (map (encode (transaction_codec H V (checker_codec C))) (extrinsics block))
              then None
              else Some s3)))))"

subsection \<open>The transaction pool and the inherents\<close>

definition validate_transaction ::
  "host \<Rightarrow> ('v, 'r) Verifier \<Rightarrow> ('v, 'c, 'e) ConstraintChecker \<Rightarrow> ('v, 'c) Transaction \<Rightarrow> storage
     \<Rightarrow> storage \<times> (ValidTransaction, InvalidTransaction) result" where
  "validate_transaction H V C tx s =
     (if is_inherent C (checker tx) then (s, Err InvalidCall)
      else (case validate_tuxedo_transaction H V C tx s of
              (s', r) \<Rightarrow> (s', map_err invalid_transaction_from r)))"

definition PARENT_INHERENT_IDENTIFIER :: InherentIdentifier where
  "PARENT_INHERENT_IDENTIFIER = byte_string ''prnt_blk''"

definition opening_inherents ::
  "('v, 'c, 'e) ConstraintChecker \<Rightarrow> ('v, 'c) Block \<Rightarrow> ('v, 'c) Transaction list" where
  "opening_inherents C block =
     takeWhile (\<lambda>tx. is_inherent C (checker tx)) (extrinsics block)"

definition inherent_extrinsics ::
  "host \<Rightarrow> ('v, 'r) Verifier \<Rightarrow> ('v, 'c, 'e) ConstraintChecker \<Rightarrow> ('v, 'c) Block codec
     \<Rightarrow> InherentData \<Rightarrow> storage \<Rightarrow> ('v, 'c) Transaction list option" where
  "inherent_extrinsics H V C block_codec inh s =
     Option.bind (expect_data block_codec PARENT_INHERENT_IDENTIFIER inh) (\<lambda>parent.
       create_inherents C inh
         (map (\<lambda>tx. (tx, transaction_hash H V (checker_codec C) tx)) (opening_inherents C parent))
         s)"

definition check_block_inherents ::
  "('v, 'c, 'e) ConstraintChecker \<Rightarrow> ('v, 'c) Block \<Rightarrow> InherentData
     \<Rightarrow> CheckInherentsResult option" where
  "check_block_inherents C block inh =
     check_inherents C inh (opening_inherents C block) new_check_inherents_result"

end
