(* ===== verification/Ledger.thy ===== *)
theory Ledger
  imports Executive
begin

text \<open>
  What the executive promises of the UTXO set.

  \<^item> The locale \<open>framed_checker\<close> is the contract between the executive and a constraint checker:
    checking may write runtime keys of its own, but it leaves the UTXO set and the block height
    alone, and it neither reads nor writes the two transient keys (the partial header and the
    noted extrinsics). Every piece's theory discharges it.
  \<^item> \<open>ledger_accepts\<close> and \<open>ledger_update\<close> are the abstract specification: a UTXO ledger as a
    partial map from references to outputs.
  \<^item> The locale \<open>executive\<close> puts the laws of the parameters together and holds the refinement.
\<close>

subsection \<open>The contract of a constraint checker\<close>

definition is_transient_key :: "bytes \<Rightarrow> bool" where
  "is_transient_key k \<longleftrightarrow> k = HEADER_KEY \<or> k = EXTRINSIC_KEY"

lemma transient_keys [simp]: "is_transient_key HEADER_KEY" "is_transient_key EXTRINSIC_KEY"
  by (simp_all add: is_transient_key_def)

lemma transient_key_runtime [simp]: "is_transient_key k \<Longrightarrow> is_runtime_key k"
  by (auto simp: is_transient_key_def)

lemma transient_key_not_height [simp]:
  "is_transient_key k \<Longrightarrow> k \<noteq> HEIGHT_KEY" "is_transient_key k \<Longrightarrow> HEIGHT_KEY \<noteq> k"
  by (auto simp: is_transient_key_def)

locale framed_checker =
  fixes C :: "('v, 'c, 'e) ConstraintChecker"
  assumes check_transient:
      "is_transient_key k \<Longrightarrow> check C c ins evs pks outs (s(k := v))
         = ((fst (check C c ins evs pks outs s))(k := v), snd (check C c ins evs pks outs s))"
    and check_frame:
      "\<not> is_runtime_key k \<or> k = HEIGHT_KEY \<Longrightarrow> fst (check C c ins evs pks outs s) k = s k"
begin

lemma check_frame_transient:
  assumes "is_transient_key k"
  shows "fst (check C c ins evs pks outs s) k = s k"
  using check_transient [OF assms, of c ins evs pks outs s "s k"]
  by (metis fst_conv fun_upd_same fun_upd_triv)

lemma check_peek:
  "host_laws H \<Longrightarrow> peek_utxo H V r (fst (check C c ins evs pks outs s)) = peek_utxo H V r s"
  by (simp add: peek_utxo_def check_frame output_ref_not_runtime_key)

end

subsection \<open>The abstract ledger\<close>

type_synonym 'v ledger = "OutputRef \<rightharpoonup> 'v Output"

definition ledger_of :: "host \<Rightarrow> ('v, 'r) Verifier \<Rightarrow> storage \<Rightarrow> 'v ledger" where
  "ledger_of H V s = (\<lambda>r. peek_utxo H V r s)"

text \<open>
  An input is authorised when it is in the ledger and either evicts the output or carries a
  redeemer that decodes and satisfies the output's verifier.
\<close>

definition authorised ::
  "('v, 'r) Verifier \<Rightarrow> bytes \<Rightarrow> u32 \<Rightarrow> 'v ledger \<Rightarrow> Input \<Rightarrow> bool" where
  "authorised V stripped height U i =
     (case U (output_ref i) of
        None \<Rightarrow> False
      | Some out \<Rightarrow>
          (case redeemer i of
             Eviction \<Rightarrow> True
           | Redemption raw \<Rightarrow>
               (case decode_value (redeemer_codec V) raw of
                  None \<Rightarrow> False
                | Some red \<Rightarrow> verify V (verifier out) stripped height red = Some True)))"

definition ledger_payloads :: "'v ledger \<Rightarrow> OutputRef list \<Rightarrow> DynamicallyTypedData list" where
  "ledger_payloads U rs = map (\<lambda>r. payload (the (U r))) rs"

definition redeemed_refs :: "('v, 'c) Transaction \<Rightarrow> OutputRef list" where
  "redeemed_refs tx = map output_ref (filter (\<lambda>i. redeemer i \<noteq> Eviction) (inputs tx))"

definition evicted_refs :: "('v, 'c) Transaction \<Rightarrow> OutputRef list" where
  "evicted_refs tx = map output_ref (filter (\<lambda>i. redeemer i = Eviction) (inputs tx))"

definition input_refs :: "('v, 'c) Transaction \<Rightarrow> OutputRef list" where
  "input_refs tx = map output_ref (inputs tx)"

definition ledger_update ::
  "OutputRef list \<Rightarrow> (OutputRef \<times> 'v Output) list \<Rightarrow> 'v ledger \<Rightarrow> 'v ledger" where
  "ledger_update spent created U =
     (\<lambda>r. case map_of created r of
            Some out \<Rightarrow> Some out
          | None \<Rightarrow> if r \<in> set spent then None else U r)"

text \<open>The transactions the ledger accepts at block height \<open>h\<close>; \<open>s\<close> is what the checker runs on.\<close>

definition ledger_accepts ::
  "host \<Rightarrow> ('v, 'r) Verifier \<Rightarrow> ('v, 'c, 'e) ConstraintChecker \<Rightarrow> u32 \<Rightarrow> 'v ledger \<Rightarrow> storage
     \<Rightarrow> ('v, 'c) Transaction \<Rightarrow> bool" where
  "ledger_accepts H V C h U s tx \<longleftrightarrow>
     distinct (inputs tx)
     \<and> (\<forall>i \<in> set (inputs tx). authorised V
          (encode (transaction_codec H V (checker_codec C)) (strip_transaction tx)) h U i)
     \<and> (\<forall>r \<in> set (peeks tx). U r \<noteq> None)
     \<and> (\<forall>r \<in> set (output_refs_of H V (checker_codec C) tx). U r = None)
     \<and> (\<exists>p. snd (check C (checker tx) (ledger_payloads U (redeemed_refs tx))
          (ledger_payloads U (evicted_refs tx)) (ledger_payloads U (peeks tx))
          (map payload (outputs tx)) s) = Ok p)"

definition created_outputs ::
  "host \<Rightarrow> ('v, 'r) Verifier \<Rightarrow> 'c codec \<Rightarrow> ('v, 'c) Transaction \<Rightarrow> (OutputRef \<times> 'v Output) list" where
  "created_outputs H V cc tx = zip (output_refs_of H V cc tx) (outputs tx)"

subsection \<open>The loops\<close>

lemma validate_input_None:
  "peek_utxo H V (output_ref i) s = None \<Longrightarrow>
   validate_input H V se s (a, b, m) i
     = Ok (a, b, m @ [encode (output_ref_codec H) (output_ref i)])"
  by simp

lemma validate_input_Ok_missing:
  assumes "validate_input H V se s (a, b, m) i = Ok (a', b', m')"
  shows "m' = m @ (if peek_utxo H V (output_ref i) s = None
                  then [encode (output_ref_codec H) (output_ref i)] else [])"
  using assms by (auto simp: result_ok split: option.splits RedemptionStrategy.splits)

lemma validate_inputs_missing:
  assumes "fold_result (validate_input H V se s) (a, b, m) ins
    = (Ok (a', b', m') :: (input_acc, 'e UtxoError) result)"
  shows "m' = m @ map (encode (output_ref_codec H))
                   (filter (\<lambda>r. peek_utxo H V r s = None) (map output_ref ins))"
  using assms
proof (induction ins arbitrary: a b m)
  case Nil
  then show ?case by simp
next
  case (Cons i ins)
  from Cons.prems obtain a1 b1 m1 where
    step: "validate_input H V se s (a, b, m) i
      = (Ok (a1, b1, m1) :: (input_acc, 'e UtxoError) result)" and
    rest: "fold_result (validate_input H V se s) (a1, b1, m1) ins
      = (Ok (a', b', m') :: (input_acc, 'e UtxoError) result)"
    by (auto simp: bind_result_Ok simp del: validate_input.simps)
  show ?case
    using Cons.IH [OF rest] validate_input_Ok_missing [OF step] by simp
qed

lemma validate_input_present:
  assumes "peek_utxo H V (output_ref i) s = Some out"
  shows "validate_input H V se s (a, b, m) i = Ok (a', b', m') \<longleftrightarrow>
     (case redeemer i of
        Eviction \<Rightarrow> a' = a \<and> b' = b @ [payload out]
      | Redemption raw \<Rightarrow> a' = a @ [payload out] \<and> b' = b \<and>
          (\<exists>h red. block_height H s = Some h \<and> decode_value (redeemer_codec V) raw = Some red
             \<and> verify V (verifier out) se h red = Some True)) \<and> m' = m"
  using assms by (auto simp: result_ok split: RedemptionStrategy.splits)

lemma validate_inputs_present:
  assumes "\<forall>i \<in> set ins. peek_utxo H V (output_ref i) s \<noteq> None"
    and "block_height H s = Some h"
  shows "fold_result (validate_input H V se s) (a, b, m) ins = Ok (a', b', m') \<longleftrightarrow>
     (\<forall>i \<in> set ins. authorised V se h (ledger_of H V s) i)
     \<and> a' = a @ ledger_payloads (ledger_of H V s)
               (map output_ref (filter (\<lambda>i. redeemer i \<noteq> Eviction) ins))
     \<and> b' = b @ ledger_payloads (ledger_of H V s)
               (map output_ref (filter (\<lambda>i. redeemer i = Eviction) ins))
     \<and> m' = m"
  using assms(1)
proof (induction ins arbitrary: a b m)
  case Nil
  then show ?case by (auto simp: ledger_payloads_def)
next
  case (Cons i ins)
  then obtain out where out: "peek_utxo H V (output_ref i) s = Some out" by auto
  have split3: "(\<exists>x. P x) \<longleftrightarrow> (\<exists>u v w. P (u, v, w))" for P :: "'x \<times> 'y \<times> 'z \<Rightarrow> bool"
    by auto
  show ?case
    using Cons.prems assms(2)
    by (cases "redeemer i")
      (auto simp: bind_result_Ok split3 validate_input_present [OF out] Cons.IH authorised_def
        ledger_of_def ledger_payloads_def out simp del: validate_input.simps
        split: option.splits)
qed

lemma collect_peeks:
  "foldl (collect_peek H V s) (a, m) rs
     = (a @ ledger_payloads (ledger_of H V s) (filter (\<lambda>r. peek_utxo H V r s \<noteq> None) rs),
        m @ map (encode (output_ref_codec H)) (filter (\<lambda>r. peek_utxo H V r s = None) rs))"
  by (induction rs arbitrary: a m)
    (auto simp: ledger_payloads_def ledger_of_def split: option.splits)

lemma authorised_present: "authorised V se h U i \<Longrightarrow> U (output_ref i) \<noteq> None"
  by (auto simp: authorised_def split: option.splits)

lemma ledger_accepts_present:
  "ledger_accepts H V C h U s tx \<Longrightarrow> r \<in> set (input_refs tx @ peeks tx) \<Longrightarrow> U r \<noteq> None"
  using authorised_present by (fastforce simp: ledger_accepts_def input_refs_def)

lemma validate_storage_cases:
  "fst (validate_tuxedo_transaction H V C tx s) = s
   \<or> (\<exists>a b p. fst (validate_tuxedo_transaction H V C tx s)
        = fst (check C (checker tx) a b p (map payload (outputs tx)) s))"
  by (fastforce simp: validate_tuxedo_transaction_def case_prod_unfold Let_def
      split: result.split)

lemma ledger_of_apply: "ledger_of H V s r = peek_utxo H V r s"
  by (simp add: ledger_of_def)

lemma gather_missing:
  assumes "gather_transaction H V cc tx s
    = (Ok (a, b, p, m, t) :: (_, 'e UtxoError) result)"
  shows "m = map (encode (output_ref_codec H))
      (filter (\<lambda>r. peek_utxo H V r s = None) (input_refs tx @ peeks tx))"
    and "t = map (encode (output_ref_codec H)) (output_refs_of H V cc tx)"
    and "\<forall>r \<in> set (output_refs_of H V cc tx). peek_utxo H V r s = None"
  using assms
  by (auto simp: gather_transaction_def result_ok collect_peeks input_refs_def Let_def
      dest: validate_inputs_missing split: prod.splits)

lemma inj_on_of_nat_u32: "n \<le> 2 ^ 32 \<Longrightarrow> inj_on (of_nat :: nat \<Rightarrow> u32) {0..<n}"
proof (rule inj_onI)
  fix i j
  assume "n \<le> 2 ^ 32" "i \<in> {0..<n}" "j \<in> {0..<n}" "(of_nat i :: u32) = of_nat j"
  then show "i = j" by (simp add: word_of_nat_eq_iff take_bit_eq_mod)
qed

lemma distinct_output_refs:
  "length (outputs tx) \<le> 2 ^ 32 \<Longrightarrow> distinct (output_refs_of H V cc tx)"
  using inj_on_of_nat_u32 [of "length (outputs tx)"]
  by (auto simp: output_refs_of_def distinct_map inj_on_def)

lemma length_output_refs [simp]: "length (output_refs_of H V cc tx) = length (outputs tx)"
  by (simp add: output_refs_of_def)

lemma map_fst_created [simp]: "map fst (created_outputs H V cc tx) = output_refs_of H V cc tx"
  by (simp add: created_outputs_def)

lemma update_storage_alt:
  "update_storage H V cc tx s =
     fold (\<lambda>(r, out). store_utxo H V r out) (created_outputs H V cc tx)
       (fold (\<lambda>r s. fst (consume_utxo H V r s)) (input_refs tx) s)"
proof -
  have "created_outputs H V cc tx = map (\<lambda>(i, out).
      (\<lparr>tx_hash = transaction_hash H V cc tx, index = of_nat i\<rparr>, out)) (enumerate 0 (outputs tx))"
    by (simp add: created_outputs_def output_refs_of_def zip_map1 enumerate_eq_zip)
  then show ?thesis
    by (simp add: update_storage_def input_refs_def fold_map comp_def case_prod_unfold)
qed

lemma update_storage_ledger:
  assumes "host_laws H" and "verifier_laws V" and "length (outputs tx) \<le> 2 ^ 32"
  shows "ledger_of H V (update_storage H V cc tx s)
     = ledger_update (input_refs tx) (created_outputs H V cc tx) (ledger_of H V s)"
proof
  fix r
  have "utxo_lawful (H, V)" using assms(1,2) by (simp add: utxo_lawful_def)
  then show "ledger_of H V (update_storage H V cc tx s) r
      = ledger_update (input_refs tx) (created_outputs H V cc tx) (ledger_of H V s) r"
    using utxo.peek_batch [of "(H, V)" "created_outputs H V cc tx" r "input_refs tx" s]
      distinct_output_refs [OF assms(3), of H V cc]
    by (auto simp: update_storage_alt ledger_update_def ledger_of_def split: option.splits)
qed

lemma update_storage_frame:
  assumes "host_laws H" and "is_runtime_key k"
  shows "update_storage H V cc tx s k = s k"
proof -
  have stores: "fold (\<lambda>(r, out). store_utxo H V r out) kvs u k = u k" for kvs u
    using assms by (induction kvs arbitrary: u) (auto simp: store_utxo_frame)
  have consumes: "fold (\<lambda>r s. fst (consume_utxo H V r s)) rs u k = u k" for rs u
    using assms by (induction rs arbitrary: u) (auto simp: consume_utxo_frame)
  show ?thesis by (simp add: update_storage_alt stores consumes)
qed

subsection \<open>Quantities held by a ledger\<close>

text \<open>The sum of a weight over all outputs of a ledger, and how an update changes it.\<close>

definition ledger_total :: "('v Output \<Rightarrow> nat) \<Rightarrow> 'v ledger \<Rightarrow> nat" where
  "ledger_total w U = (\<Sum>r \<in> dom U. w (the (U r)))"

lemma dom_ledger_update:
  "dom (ledger_update spent created U) = (dom U - set spent) \<union> set (map fst created)"
proof (rule set_eqI)
  fix r
  have "ledger_update spent created U r = None \<longleftrightarrow>
      r \<notin> fst ` set created \<and> (r \<in> set spent \<or> U r = None)"
    using map_of_eq_None_iff [of created r]
    by (cases "map_of created r") (simp_all add: ledger_update_def)
  then show "r \<in> dom (ledger_update spent created U)
      \<longleftrightarrow> r \<in> (dom U - set spent) \<union> set (map fst created)"
    unfolding domIff Un_iff Diff_iff set_map by metis
qed

lemma finite_ledger_update: "finite (dom U) \<Longrightarrow> finite (dom (ledger_update spent created U))"
  by (simp add: dom_ledger_update)

lemma ledger_total_created:
  assumes "distinct (map fst created)"
  shows "(\<Sum>r \<in> set (map fst created). w (the (ledger_update spent created U r)))
    = sum_list (map (\<lambda>(r, out). w out) created)"
proof -
  have "(\<Sum>r \<in> set (map fst created). w (the (ledger_update spent created U r)))
      = sum_list (map (\<lambda>r. w (the (ledger_update spent created U r))) (map fst created))"
    using assms by (rule sum_list_distinct_conv_sum_set [symmetric])
  also have "\<dots> = sum_list (map (\<lambda>(r, out). w out) created)"
    using assms by (auto simp: ledger_update_def comp_def intro!: arg_cong [of _ _ sum_list] map_cong)
  finally show ?thesis .
qed

lemma ledger_total_update:
  assumes fin: "finite (dom U)" and spent: "distinct spent" "set spent \<subseteq> dom U"
    and created: "distinct (map fst created)" "set (map fst created) \<inter> dom U = {}"
  shows "ledger_total w (ledger_update spent created U) + sum_list (map (\<lambda>r. w (the (U r))) spent)
    = ledger_total w U + sum_list (map (\<lambda>(r, out). w out) created)"
proof -
  let ?U' = "ledger_update spent created U"
  have kept: "?U' r = U r" if "r \<in> dom U - set spent" for r
  proof -
    have "map_of created r = None"
      using that created(2) by (auto simp: map_of_eq_None_iff)
    with that show ?thesis by (simp add: ledger_update_def)
  qed
  have "ledger_total w ?U' = (\<Sum>r \<in> dom U - set spent. w (the (?U' r)))
      + (\<Sum>r \<in> set (map fst created). w (the (?U' r)))"
    unfolding ledger_total_def dom_ledger_update
    using fin created(2) by (intro sum.union_disjoint) auto
  also have "(\<Sum>r \<in> dom U - set spent. w (the (?U' r))) = (\<Sum>r \<in> dom U - set spent. w (the (U r)))"
    using kept by (intro sum.cong) auto
  also have "(\<Sum>r \<in> set (map fst created). w (the (?U' r))) = sum_list (map (\<lambda>(r, out). w out) created)"
    by (rule ledger_total_created [OF created(1)])
  finally show ?thesis
    using sum.subset_diff [OF spent(2) fin, of "\<lambda>r. w (the (U r))"]
      sum_list_distinct_conv_sum_set [OF spent(1), of "\<lambda>r. w (the (U r))"]
    by (simp add: ledger_total_def)
qed

lemma sum_map_of_le:
  "(\<Sum>r \<in> fst ` set kvs. w (the (map_of kvs r))) \<le> sum_list (map (\<lambda>(r, out). w out) kvs)"
  for w :: "'b \<Rightarrow> nat"
proof (induction kvs)
  case Nil
  then show ?case by simp
next
  case (Cons kv kvs)
  obtain k v where kv: "kv = (k, v)" by force
  have "(\<Sum>r \<in> fst ` set (kv # kvs). w (the (map_of (kv # kvs) r)))
      = w v + (\<Sum>r \<in> fst ` set kvs - {k}. w (the (map_of kvs r)))"
    by (auto simp: kv sum.insert_remove intro!: sum.cong)
  also have "\<dots> \<le> w v + (\<Sum>r \<in> fst ` set kvs. w (the (map_of kvs r)))"
    by (simp add: sum_mono2)
  finally show ?case using Cons by (simp add: kv)
qed

text \<open>Whatever is spent and even if references coincide, an update adds at most what it creates.\<close>

lemma ledger_total_update_le:
  assumes "finite (dom U)"
  shows "ledger_total w (ledger_update spent created U)
    \<le> ledger_total w U + sum_list (map (\<lambda>(r, out). w out) created)"
proof -
  let ?U' = "ledger_update spent created U"
  let ?B = "fst ` set created" and ?A = "dom U - set spent - fst ` set created"
  have old: "?U' r = U r" if "r \<in> ?A" for r
  proof -
    have "map_of created r = None" using that by (auto simp: map_of_eq_None_iff)
    with that show ?thesis by (simp add: ledger_update_def)
  qed
  have new: "?U' r = map_of created r" if "r \<in> ?B" for r
  proof -
    have "map_of created r \<noteq> None" using that by (simp add: map_of_eq_None_iff)
    then show ?thesis by (auto simp: ledger_update_def)
  qed
  have dom: "dom ?U' = ?A \<union> ?B" by (auto simp: dom_ledger_update)
  have "ledger_total w ?U' = (\<Sum>r \<in> ?A. w (the (?U' r))) + (\<Sum>r \<in> ?B. w (the (?U' r)))"
    unfolding ledger_total_def dom using assms by (intro sum.union_disjoint) auto
  also have "(\<Sum>r \<in> ?A. w (the (?U' r))) = (\<Sum>r \<in> ?A. w (the (U r)))"
    using old by (intro sum.cong) auto
  also have "\<dots> \<le> ledger_total w U"
    unfolding ledger_total_def using assms by (intro sum_mono2) auto
  also have "(\<Sum>r \<in> ?B. w (the (?U' r))) = (\<Sum>r \<in> ?B. w (the (map_of created r)))"
    using new by (intro sum.cong) auto
  also have "\<dots> \<le> sum_list (map (\<lambda>(r, out). w out) created)"
    by (rule sum_map_of_le)
  finally show ?thesis by simp
qed

lemma created_total:
  "sum_list (map (\<lambda>(r, out). w out) (created_outputs H V cc tx)) = sum_list (map w (outputs tx))"
proof -
  have "map (\<lambda>(r, out). w out) (created_outputs H V cc tx) = map w (map snd (created_outputs H V cc tx))"
    by (simp add: case_prod_unfold)
  also have "map snd (created_outputs H V cc tx) = outputs tx"
    by (simp add: created_outputs_def)
  finally show ?thesis by simp
qed

text \<open>
  An accepted transaction whose inputs name pairwise different outputs changes the quantity by
  exactly what it creates minus what it spends. (Acceptance alone does not make them
  different: it compares whole inputs, redeemers included.)
\<close>

lemma accepted_total:
  assumes fin: "finite (dom U)" and acc: "ledger_accepts H V C h U s tx"
    and "distinct (input_refs tx)" and "length (outputs tx) \<le> 2 ^ 32"
  shows "ledger_total w (ledger_update (input_refs tx) (created_outputs H V (checker_codec C) tx) U)
      + sum_list (map (\<lambda>r. w (the (U r))) (input_refs tx))
    = ledger_total w U + sum_list (map w (outputs tx))"
proof -
  have "set (input_refs tx) \<subseteq> dom U"
    using ledger_accepts_present [OF acc] by auto
  moreover have "set (map fst (created_outputs H V (checker_codec C) tx)) \<inter> dom U = {}"
    using acc by (auto simp: ledger_accepts_def)
  ultimately show ?thesis
    using ledger_total_update [OF fin assms(3), of "created_outputs H V (checker_codec C) tx" w]
      distinct_output_refs [OF assms(4), of H V "checker_codec C"]
    by (simp add: created_total)
qed

subsection \<open>The executive refines the ledger\<close>

locale executive = executive_laws H V C + framed_checker C
  for H :: host and V :: "('v, 'r) Verifier" and C :: "('v, 'c, 'e) ConstraintChecker"
begin

lemma distinct_inputs_iff:
  "card (encode (input_codec H) ` set ins) = length ins \<longleftrightarrow> distinct ins"
  using card_set_length_distinct [of "map (encode (input_codec H)) ins"]
    scale_codec.distinct_map_encode [OF input_lawful, of ins]
  by simp

lemma gather_complete:
  assumes h: "block_height H s = Some h"
  shows "gather_transaction H V cc tx s = Ok (a, b, p, [], t) \<longleftrightarrow>
     distinct (inputs tx)
     \<and> (\<forall>i \<in> set (inputs tx). authorised V
          (encode (transaction_codec H V cc) (strip_transaction tx)) h (ledger_of H V s) i)
     \<and> (\<forall>r \<in> set (peeks tx). ledger_of H V s r \<noteq> None)
     \<and> (\<forall>r \<in> set (output_refs_of H V cc tx). ledger_of H V s r = None)
     \<and> a = ledger_payloads (ledger_of H V s) (redeemed_refs tx)
     \<and> b = ledger_payloads (ledger_of H V s) (evicted_refs tx)
     \<and> p = ledger_payloads (ledger_of H V s) (peeks tx)
     \<and> t = map (encode (output_ref_codec H)) (output_refs_of H V cc tx)"
  (is "?L \<longleftrightarrow> ?R")
proof -
  let ?se = "encode (transaction_codec H V cc) (strip_transaction tx)"
  have present: "\<forall>i \<in> set (inputs tx). peek_utxo H V (output_ref i) s \<noteq> None" if "?L \<or> ?R"
    using that gather_missing(1) [of H V cc tx s a b p "[]" t]
    by (auto simp: input_refs_def filter_empty_conv ledger_of_apply dest!: authorised_present)
  have peeks: "filter (\<lambda>r. peek_utxo H V r s \<noteq> None) (peeks tx) = peeks tx" if "?L \<or> ?R"
    using that gather_missing(1) [of H V cc tx s a b p "[]" t]
    by (auto simp: filter_empty_conv filter_id_conv ledger_of_apply)
  show ?thesis
  proof (cases "?L \<or> ?R")
    case True
    then show ?thesis
      using peeks [OF True]
      by (auto simp: validate_inputs_present [OF present [OF True] h] gather_transaction_def result_ok collect_peeks distinct_inputs_iff Let_def
          redeemed_refs_def evicted_refs_def ledger_of_apply filter_empty_conv
          simp del: validate_input.simps split: prod.splits)
  next
    case False
    then show ?thesis by blast
  qed
qed

lemma accepts_gather:
  assumes "block_height H s = Some h" and "ledger_accepts H V C h (ledger_of H V s) s tx"
  shows "gather_transaction H V (checker_codec C) tx s
    = (Ok (ledger_payloads (ledger_of H V s) (redeemed_refs tx),
          ledger_payloads (ledger_of H V s) (evicted_refs tx),
          ledger_payloads (ledger_of H V s) (peeks tx), [],
          map (encode (output_ref_codec H)) (output_refs_of H V (checker_codec C) tx))
        :: (_, 'e UtxoError) result)"
  using assms(2) by (simp add: gather_complete [OF assms(1)] ledger_accepts_def)

lemma validate_complete:
  assumes h: "block_height H s = Some h"
  shows "(\<exists>vt. snd (validate_tuxedo_transaction H V C tx s) = Ok vt \<and> requires vt = [])
     \<longleftrightarrow> ledger_accepts H V C h (ledger_of H V s) s tx"
proof (cases "gather_transaction H V (checker_codec C) tx s :: (_, 'e UtxoError) result")
  case (Ok g)
  then obtain a b p m t where g: "gather_transaction H V (checker_codec C) tx s
      = (Ok (a, b, p, m, t) :: (_, 'e UtxoError) result)"
    by (metis prod_cases5)
  show ?thesis
  proof (cases "m = []")
    case True
    with g show ?thesis
      using gather_complete [OF h, of "checker_codec C" tx a b p t]
      by (auto simp: validate_tuxedo_transaction_def ledger_accepts_def result_ok
          split: prod.splits)
  next
    case False
    then obtain r where "r \<in> set (input_refs tx @ peeks tx)" "peek_utxo H V r s = None"
      using gather_missing(1) [OF g] by (auto simp: filter_empty_conv)
    then have "\<not> ledger_accepts H V C h (ledger_of H V s) s tx"
      using ledger_accepts_present [of H V C h "ledger_of H V s" s tx r]
      by (auto simp: ledger_of_apply)
    with g False show ?thesis
      by (simp add: validate_tuxedo_transaction_def)
  qed
next
  case (Err e)
  then have "\<not> ledger_accepts H V C h (ledger_of H V s) s tx"
    using accepts_gather [OF h, of tx] by fastforce
  with Err show ?thesis by (simp add: validate_tuxedo_transaction_def)
next
  case Panic
  then have "\<not> ledger_accepts H V C h (ledger_of H V s) s tx"
    using accepts_gather [OF h, of tx] by fastforce
  with Panic show ?thesis by (simp add: validate_tuxedo_transaction_def)
qed

lemma apply_complete:
  assumes "block_height H s = Some h"
  shows "snd (apply_tuxedo_transaction H V C tx s) = Ok ()
     \<longleftrightarrow> ledger_accepts H V C h (ledger_of H V s) s tx"
  using validate_complete [OF assms, of tx]
  by (auto simp: apply_tuxedo_transaction_def split: prod.splits result.splits if_splits)

lemma validate_peek:
  "peek_utxo H V r (fst (validate_tuxedo_transaction H V C tx s)) = peek_utxo H V r s"
  using validate_storage_cases [of H V C tx s] check_peek [OF host_laws_axioms] by metis

lemma apply_ledger:
  assumes "snd (apply_tuxedo_transaction H V C tx s) = Ok ()"
    and "length (outputs tx) \<le> 2 ^ 32"
  shows "ledger_of H V (fst (apply_tuxedo_transaction H V C tx s))
     = ledger_update (input_refs tx) (created_outputs H V (checker_codec C) tx) (ledger_of H V s)"
proof -
  have "fst (apply_tuxedo_transaction H V C tx s)
      = update_storage H V (checker_codec C) tx (fst (validate_tuxedo_transaction H V C tx s))"
    using assms(1)
    by (auto simp: apply_tuxedo_transaction_def split: prod.splits result.splits if_splits)
  moreover have "ledger_of H V (fst (validate_tuxedo_transaction H V C tx s)) = ledger_of H V s"
    by (simp add: ledger_of_def validate_peek)
  ultimately show ?thesis
    using update_storage_ledger [OF host_laws_axioms verifier_laws_axioms assms(2)] by simp
qed

lemma apply_failed_ledger:
  assumes "snd (apply_tuxedo_transaction H V C tx s) \<noteq> Ok ()"
  shows "ledger_of H V (fst (apply_tuxedo_transaction H V C tx s)) = ledger_of H V s"
proof -
  have "fst (apply_tuxedo_transaction H V C tx s) = fst (validate_tuxedo_transaction H V C tx s)"
    using assms
    by (auto simp: apply_tuxedo_transaction_def split: prod.splits result.splits if_splits)
  then show ?thesis by (simp add: ledger_of_def validate_peek)
qed

end

text \<open>
  C1. The executive implements the UTXO ledger: with a block height stored, applying a transaction
  succeeds exactly when the abstract ledger accepts it (no two equal inputs, every input
  present and either evicted or redeemed to its verifier's satisfaction, every peek present,
  every output reference free, the constraint checker content with the payloads read from
  the ledger in the order of the transaction); then exactly the inputs' references leave the
  ledger and exactly the outputs enter it under their references, and on any failure the
  ledger is unchanged. (The output count is bounded by the \<^verbatim>\<open>as u32\<close> of their index.)
\<close>

theorem apply_refines_ledger:
  assumes "executive H V C" and "block_height H s = Some h" and "length (outputs tx) \<le> 2 ^ 32"
  shows "(snd (apply_tuxedo_transaction H V C tx s) = Ok ()
           \<longleftrightarrow> ledger_accepts H V C h (ledger_of H V s) s tx)
    \<and> ledger_of H V (fst (apply_tuxedo_transaction H V C tx s))
        = (if ledger_accepts H V C h (ledger_of H V s) s tx
           then ledger_update (input_refs tx) (created_outputs H V (checker_codec C) tx)
                  (ledger_of H V s)
           else ledger_of H V s)"
  using executive.apply_complete [OF assms(1,2)] executive.apply_ledger [OF assms(1) _ assms(3)]
    executive.apply_failed_ledger [OF assms(1)]
  by metis

end
