(* ===== verification/Block_Execution.thy ===== *)
theory Block_Execution
  imports Ledger
begin

text \<open>
  Authoring and importing blocks. A block author calls \<open>open_block\<close>, \<open>apply_extrinsic\<close> for each
  transaction and \<open>close_block\<close>; every other node calls \<open>execute_block\<close>. The two paths treat the
  transient keys differently (only the author notes extrinsics; the author stores the partial
  header, the importer the final one), and only the importer enforces that inherents come
  first. The theorems show that the two paths nevertheless agree.
\<close>

fun apply_extrinsics ::
  "host \<Rightarrow> ('v, 'r) Verifier \<Rightarrow> ('v, 'c, 'e) ConstraintChecker \<Rightarrow> ('v, 'c) Transaction list
     \<Rightarrow> storage \<Rightarrow> storage option" where
  "apply_extrinsics H V C [] s = Some s"
| "apply_extrinsics H V C (tx # txs) s =
     (case apply_extrinsic H V C tx s of
        (s', Ok _) \<Rightarrow> apply_extrinsics H V C txs s'
      | _ \<Rightarrow> None)"

definition author_block ::
  "host \<Rightarrow> ('v, 'r) Verifier \<Rightarrow> ('v, 'c, 'e) ConstraintChecker \<Rightarrow> Header
     \<Rightarrow> ('v, 'c) Transaction list \<Rightarrow> storage \<Rightarrow> (storage \<times> Header) option" where
  "author_block H V C h txs s =
     Option.bind (apply_extrinsics H V C txs (open_block H h s)) (close_block H)"

text \<open>Inherents come first: none after the first transaction that is not one.\<close>

fun inherents_first :: "('v, 'c, 'e) ConstraintChecker \<Rightarrow> bool \<Rightarrow> ('v, 'c) Transaction list \<Rightarrow> bool" where
  "inherents_first C finished [] = True"
| "inherents_first C finished (tx # txs) =
     (if is_inherent C (checker tx) then \<not> finished \<and> inherents_first C finished txs
      else inherents_first C True txs)"

text \<open>The state between two blocks: no transient entries, a readable height.\<close>

definition between_blocks :: "host \<Rightarrow> storage \<Rightarrow> bool" where
  "between_blocks H s \<longleftrightarrow>
     s HEADER_KEY = None \<and> s EXTRINSIC_KEY = None \<and> block_height H s \<noteq> None"

lemma inherents_first_True:
  "inherents_first C True txs \<longleftrightarrow> (\<forall>tx \<in> set txs. \<not> is_inherent C (checker tx))"
  by (induction txs) auto

lemma inherents_first_iff:
  "inherents_first C False txs \<longleftrightarrow>
     (\<forall>tx \<in> set (dropWhile (\<lambda>tx. is_inherent C (checker tx)) txs). \<not> is_inherent C (checker tx))"
  by (induction txs) (auto simp: inherents_first_True)

subsection \<open>Transient keys do not influence transactions\<close>

lemma block_height_transient [simp]:
  "is_transient_key k \<Longrightarrow> block_height H (s(k := v)) = block_height H s"
  by (simp add: block_height_def)

lemma validate_input_transient:
  assumes "host_laws H" and "is_transient_key k"
  shows "validate_input H V se (s(k := v)) = validate_input H V se s"
proof (intro ext)
  fix acc i
  show "validate_input H V se (s(k := v)) acc i = validate_input H V se s acc i"
    using assms by (cases acc) (simp split: option.split RedemptionStrategy.split)
qed

lemma collect_peek_transient:
  assumes "host_laws H" and "is_transient_key k"
  shows "collect_peek H V (s(k := v)) = collect_peek H V s"
proof (intro ext)
  fix acc r
  show "collect_peek H V (s(k := v)) acc r = collect_peek H V s acc r"
    using assms by (cases acc) simp
qed

lemma gather_transient:
  "host_laws H \<Longrightarrow> is_transient_key k \<Longrightarrow>
   gather_transaction H V cc tx (s(k := v)) = gather_transaction H V cc tx s"
  by (simp add: gather_transaction_def validate_input_transient collect_peek_transient)

lemma update_storage_transient:
  assumes "host_laws H" and "is_transient_key k"
  shows "update_storage H V cc tx (s(k := v)) = (update_storage H V cc tx s)(k := v)"
proof -
  have ne: "encode (output_ref_codec H) r \<noteq> k" for r
    using assms by (simp add: runtime_key_not_output_ref)
  have store: "store_utxo H V r out (u(k := v)) = (store_utxo H V r out u)(k := v)" for r out u
    by (simp add: store_utxo_def fun_upd_twist [OF ne])
  have stores: "fold (\<lambda>(r, out). store_utxo H V r out) kvs (u(k := v))
      = (fold (\<lambda>(r, out). store_utxo H V r out) kvs u)(k := v)" for kvs u
    by (induction kvs arbitrary: u) (auto simp: store)
  have consume: "fst (consume_utxo H V r (u(k := v))) = (fst (consume_utxo H V r u))(k := v)" for r u
    by (simp add: consume_utxo_def fun_upd_twist [OF ne])
  have consumes: "fold (\<lambda>r s. fst (consume_utxo H V r s)) rs (u(k := v))
      = (fold (\<lambda>r s. fst (consume_utxo H V r s)) rs u)(k := v)" for rs u
    by (induction rs arbitrary: u) (auto simp: consume)
  show ?thesis by (simp add: update_storage_alt stores consumes)
qed

lemma apply_extrinsics_Cons:
  "apply_extrinsics H V C (tx # txs) s =
     (if snd (apply_extrinsic H V C tx s) = Ok ()
      then apply_extrinsics H V C txs (fst (apply_extrinsic H V C tx s)) else None)"
  by (cases "apply_extrinsic H V C tx s", cases "snd (apply_extrinsic H V C tx s)") simp_all

lemma execute_extrinsics_Cons:
  "execute_extrinsics H V C finished (tx # txs) s =
     (if is_inherent C (checker tx) \<and> finished then None
      else if snd (apply_tuxedo_transaction H V C tx s) = Ok ()
      then execute_extrinsics H V C (finished \<or> \<not> is_inherent C (checker tx)) txs
             (fst (apply_tuxedo_transaction H V C tx s))
      else None)"
  by (cases "apply_tuxedo_transaction H V C tx s",
      cases "snd (apply_tuxedo_transaction H V C tx s)") (simp_all add: Let_def)

lemma inherents_first_Cons:
  "inherents_first C finished (tx # txs) \<longleftrightarrow> \<not> (is_inherent C (checker tx) \<and> finished)
     \<and> inherents_first C (finished \<or> \<not> is_inherent C (checker tx)) txs"
  by auto

declare apply_extrinsics.simps(2) [simp del]
declare execute_extrinsics.simps(2) [simp del]

context executive
begin

lemma validate_transient:
  assumes "is_transient_key k"
  shows "validate_tuxedo_transaction H V C tx (s(k := v))
     = ((fst (validate_tuxedo_transaction H V C tx s))(k := v),
        snd (validate_tuxedo_transaction H V C tx s))"
  using assms
  by (simp add: validate_tuxedo_transaction_def gather_transient host_laws_axioms check_transient
      case_prod_unfold Let_def split: result.splits)

lemma apply_transient:
  assumes "is_transient_key k"
  shows "apply_tuxedo_transaction H V C tx (s(k := v))
     = ((fst (apply_tuxedo_transaction H V C tx s))(k := v),
        snd (apply_tuxedo_transaction H V C tx s))"
  using assms
  by (simp add: apply_tuxedo_transaction_def validate_transient update_storage_transient
      host_laws_axioms case_prod_unfold split: result.splits)

lemma apply_frame:
  assumes "is_transient_key k \<or> k = HEIGHT_KEY"
  shows "fst (apply_tuxedo_transaction H V C tx s) k = s k"
proof -
  have "is_runtime_key k" using assms by auto
  moreover have "fst (validate_tuxedo_transaction H V C tx s) k = s k"
    using validate_storage_cases [of H V C tx s] check_frame_transient check_frame assms by metis
  ultimately show ?thesis
    by (auto simp: apply_tuxedo_transaction_def case_prod_unfold
        update_storage_frame host_laws_axioms split: result.splits)
qed

lemma apply_extrinsics_spec:
  assumes "apply_extrinsics H V C txs s = Some s'"
  shows "noted_extrinsics H s'
      = noted_extrinsics H s @ map (encode (transaction_codec H V (checker_codec C))) txs
    \<and> s' HEADER_KEY = s HEADER_KEY \<and> s' HEIGHT_KEY = s HEIGHT_KEY"
  using assms
proof (induction txs arbitrary: s)
  case Nil
  then show ?case by simp
next
  case (Cons tx txs)
  let ?xs = "noted_extrinsics H s @ [encode (transaction_codec H V (checker_codec C)) tx]"
  let ?s1 = "s(EXTRINSIC_KEY \<mapsto> encode (bytes_list_codec H) ?xs)"
  let ?s2 = "fst (apply_tuxedo_transaction H V C tx ?s1)"
  have step: "apply_extrinsics H V C txs ?s2 = Some s'"
    using Cons.prems
    by (simp add: apply_extrinsics_Cons apply_extrinsic_def Let_def case_prod_unfold split: if_splits)
  have noted: "noted_extrinsics H ?s2 = ?xs"
    by (simp add: noted_extrinsics_def apply_frame
        scale_codec.decode_value_encode [OF bytes_list_lawful])
  have keys: "?s2 HEADER_KEY = s HEADER_KEY" "?s2 HEIGHT_KEY = s HEIGHT_KEY"
    by (simp_all add: apply_frame)
  show ?case using Cons.IH [OF step] noted keys by simp
qed

text \<open>The importer's loop is the author's, up to the transient keys and the order check.\<close>

lemma execute_extrinsics_eq:
  "execute_extrinsics H V C finished txs (s(HEADER_KEY := hv, EXTRINSIC_KEY := xv))
     = (if inherents_first C finished txs
        then map_option (\<lambda>s'. s'(HEADER_KEY := hv, EXTRINSIC_KEY := xv))
               (apply_extrinsics H V C txs s)
        else None)"
proof (induction txs arbitrary: s finished)
  case Nil
  then show ?case by (simp add: fun_eq_iff)
next
  case (Cons tx txs)
  let ?xs = "noted_extrinsics H s @ [encode (transaction_codec H V (checker_codec C)) tx]"
  let ?s2 = "fst (apply_tuxedo_transaction H V C tx s)"
  let ?s3 = "?s2(EXTRINSIC_KEY \<mapsto> encode (bytes_list_codec H) ?xs)"
  have importer: "apply_tuxedo_transaction H V C tx (s(HEADER_KEY := hv, EXTRINSIC_KEY := xv))
      = (?s3(HEADER_KEY := hv, EXTRINSIC_KEY := xv), snd (apply_tuxedo_transaction H V C tx s))"
    by (simp add: apply_transient fun_upd_twist)
  have author: "apply_extrinsic H V C tx s
      = (?s3, map_err invalid_transaction_from (snd (apply_tuxedo_transaction H V C tx s)))"
    by (simp add: apply_extrinsic_def apply_transient Let_def)
  show ?case
    unfolding execute_extrinsics_Cons inherents_first_Cons importer author
      apply_extrinsics_Cons fst_conv snd_conv Cons.IH map_err_Ok
    by (cases "snd (apply_tuxedo_transaction H V C tx s) = Ok ()"; simp only: option.map if_True if_False split: if_split; blast)
qed

lemma author_block_Some:
  assumes fresh: "s EXTRINSIC_KEY = None"
  shows "author_block H V C h txs s = Some (s', h') \<longleftrightarrow>
     (\<exists>a sr. apply_extrinsics H V C txs (open_block H h s) = Some a
        \<and> s' = a(HEADER_KEY := None, EXTRINSIC_KEY := None)
        \<and> current_state_root H s' = Some sr
        \<and> h' = h\<lparr>extrinsics_root := ordered_trie_root H
             (map (encode (transaction_codec H V (checker_codec C))) txs), state_root := sr\<rparr>)"
proof (cases "apply_extrinsics H V C txs (open_block H h s)")
  case None
  then show ?thesis by (simp add: author_block_def)
next
  case (Some a)
  have header: "a HEADER_KEY = Some (encode (header_codec H) h)"
    using apply_extrinsics_spec [OF Some] by (simp add: open_block_def)
  have "noted_extrinsics H (open_block H h s) = []"
    using fresh by (simp add: noted_extrinsics_def open_block_def)
  then have noted: "noted_extrinsics H (a(HEADER_KEY := None))
      = map (encode (transaction_codec H V (checker_codec C))) txs"
    using apply_extrinsics_spec [OF Some] by (simp add: noted_extrinsics_def)
  show ?thesis
    by (auto simp: author_block_def Some close_block_def header noted Let_def
        scale_codec.decode_value_encode [OF header_lawful] split: Option.bind_splits)
qed

lemma execute_block_Some:
  assumes fresh: "s EXTRINSIC_KEY = None" and num: "number h0 = number h"
  shows "execute_block H V C \<lparr>header = h, extrinsics = txs\<rparr> s = Some s' \<longleftrightarrow>
     inherents_first C False txs
     \<and> (\<exists>a. apply_extrinsics H V C txs (open_block H h0 s) = Some a
          \<and> s' = a(HEADER_KEY := None, EXTRINSIC_KEY := None))
     \<and> current_state_root H s' = Some (state_root h)
     \<and> extrinsics_root h = ordered_trie_root H
          (map (encode (transaction_codec H V (checker_codec C))) txs)"
proof -
  let ?eh = "Some (encode (header_codec H) h)"
  have start: "s(HEADER_KEY := ?eh, HEIGHT_KEY \<mapsto> encode (u32_codec H) (number h))
      = (open_block H h0 s)(HEADER_KEY := ?eh, EXTRINSIC_KEY := None)"
    using fresh num by (auto simp: open_block_def fun_eq_iff)
  have tidy: "a(HEADER_KEY := ?eh, EXTRINSIC_KEY := None, HEADER_KEY := None)
      = a(HEADER_KEY := None, EXTRINSIC_KEY := None)" for a :: storage
    by (auto simp: fun_eq_iff)
  show ?thesis
    unfolding execute_block_def Let_def Block.simps start execute_extrinsics_eq
    by (cases "apply_extrinsics H V C txs (open_block H h0 s)")
      (auto simp: tidy bind_eq_Some_conv split: if_splits)
qed

lemma import_iff_author:
  assumes "s EXTRINSIC_KEY = None"
  shows "execute_block H V C \<lparr>header = h, extrinsics = txs\<rparr> s = Some s' \<longleftrightarrow>
     inherents_first C False txs \<and> author_block H V C h txs s = Some (s', h)"
  unfolding execute_block_Some [of s h h, OF assms refl] author_block_Some [of s, OF assms]
  by (cases h) auto

lemma import_authored:
  assumes fresh: "s EXTRINSIC_KEY = None"
    and author: "author_block H V C h txs s = Some (s', h')" and "inherents_first C False txs"
  shows "execute_block H V C \<lparr>header = h', extrinsics = txs\<rparr> s = Some s'"
proof -
  have "number h = number h'"
    using author by (auto simp: author_block_Some [of s, OF fresh])
  then show ?thesis
    using assms
    by (auto simp: execute_block_Some [of s h h', OF fresh] author_block_Some [of s, OF fresh])
qed

text \<open>Executing a block leaves no transient entry behind and stores the block's height.\<close>

lemma execute_block_between:
  assumes "between_blocks H s" and "execute_block H V C b s = Some s'"
  shows "between_blocks H s' \<and> block_height H s' = Some (number (header b))"
proof -
  obtain h txs where b: "b = \<lparr>header = h, extrinsics = txs\<rparr>" by (cases b)
  have fresh: "s EXTRINSIC_KEY = None" using assms(1) by (simp add: between_blocks_def)
  obtain a where a: "apply_extrinsics H V C txs (open_block H h s) = Some a"
    and s': "s' = a(HEADER_KEY := None, EXTRINSIC_KEY := None)"
    using assms(2) by (auto simp: b execute_block_Some [of s h h, OF fresh])
  have "a HEIGHT_KEY = Some (encode (u32_codec H) (number h))"
    using apply_extrinsics_spec [OF a] by (simp add: open_block_def)
  then show ?thesis
    by (simp add: b s' between_blocks_def block_height_def
        scale_codec.decode_value_encode [OF u32_lawful])
qed

end

subsection \<open>Authors and importers agree\<close>

text \<open>
  C2. Importing a block is re-authoring it: on a state with no extrinsics noted, \<open>execute_block\<close>
  accepts a block and reaches \<open>s'\<close> exactly when the block's inherents all come first and
  opening a block on the header, applying the same transactions one by one and closing it
  succeeds in the same state \<open>s'\<close> and reproduces the very header, both roots included.
\<close>

theorem execute_block_iff_author:
  assumes "executive H V C" and "s EXTRINSIC_KEY = None"
  shows "execute_block H V C \<lparr>header = h, extrinsics = txs\<rparr> s = Some s' \<longleftrightarrow>
     inherents_first C False txs \<and> author_block H V C h txs s = Some (s', h)"
  using assms by (rule executive.import_iff_author)

text \<open>
  Every honestly authored block is accepted: when an author, starting from a partial header
  whose roots are still arbitrary, opens a block, applies transactions with the inherents
  first and closes the block with the final header \<open>h'\<close>, every node that executes that block on the
  same state accepts it and reaches the author's state.
\<close>

theorem authored_block_executes:
  assumes "executive H V C" and "s EXTRINSIC_KEY = None"
    and "author_block H V C h txs s = Some (s', h')" and "inherents_first C False txs"
  shows "execute_block H V C \<lparr>header = h', extrinsics = txs\<rparr> s = Some s'"
  using assms by (rule executive.import_authored)

end
