(* ===== verification/Constraint_Checkers.thy ===== *)
theory Constraint_Checkers
  imports Ledger
begin

text \<open>
  \<^verbatim>\<open>tuxedo-core/src/constraint_checker.rs\<close> and \<^verbatim>\<open>tuxedo-core/src/inherents.rs\<close>: how a piece's
  checker becomes the executive's.

  \<^item> \<open>from_simple\<close> is the blanket implementation of \<^verbatim>\<open>ConstraintChecker\<close> for every
    \<^verbatim>\<open>SimpleConstraintChecker\<close>: never an inherent.
  \<^item> \<open>inherent_adapter\<close> is the implementation for \<^verbatim>\<open>InherentAdapter<C>\<close>: always an inherent,
    exactly one in a block, created from the one of the parent block.
  \<^item> The locale \<open>framed_simple\<close> is the piece's half of the contract \<open>framed_checker\<close>; a
    sublocale for each of the two implementations carries it to the executive.

  The encoding of an error for \<^verbatim>\<open>put_error\<close> and \<^verbatim>\<open>put_error\<close> itself are the host's.
\<close>

record ('c, 'e) SimpleConstraintChecker =
  simple_check :: "('c, 'e) check_fn"
  simple_codec :: "'c codec"

definition from_simple :: "('c, 'e) SimpleConstraintChecker \<Rightarrow> ('v, 'c, 'e) ConstraintChecker" where
  "from_simple S =
     \<lparr>check = simple_check S,
      is_inherent = (\<lambda>_. False),
      create_inherents = (\<lambda>_ _ _. Some []),
      check_inherents = (\<lambda>_ inherents results. if inherents = [] then Some results else None),
      genesis_transactions = Some [],
      checker_codec = simple_codec S\<rparr>"

subsection \<open>Inherents\<close>

record ('v, 'c) InherentHooks =
  INHERENT_IDENTIFIER :: InherentIdentifier
  create_inherent :: "InherentData \<Rightarrow> ('v, 'c) Transaction \<times> H256 \<Rightarrow> storage
    \<Rightarrow> ('v, 'c) Transaction option"
  check_inherent :: "InherentData \<Rightarrow> ('v, 'c) Transaction \<Rightarrow> CheckInherentsResult
    \<Rightarrow> CheckInherentsResult option"
  hook_genesis_transactions :: "('v, 'c) Transaction list option"

definition default_genesis_transactions :: "('v, 'c) Transaction list option" where
  "default_genesis_transactions = Some []"

datatype 'c InherentAdapter = InherentAdapter 'c

fun unwrap_adapter :: "'c InherentAdapter \<Rightarrow> 'c" where
  "unwrap_adapter (InherentAdapter c) = c"

definition wrap_transaction :: "('v, 'c) Transaction \<Rightarrow> ('v, 'c InherentAdapter) Transaction" where
  "wrap_transaction tx =
     \<lparr>inputs = inputs tx, peeks = peeks tx, outputs = outputs tx,
      checker = InherentAdapter (checker tx)\<rparr>"

definition unwrap_transaction :: "('v, 'c InherentAdapter) Transaction \<Rightarrow> ('v, 'c) Transaction" where
  "unwrap_transaction tx =
     \<lparr>inputs = inputs tx, peeks = peeks tx, outputs = outputs tx,
      checker = unwrap_adapter (checker tx)\<rparr>"

definition ADAPTER_ERROR_IDENTIFIER :: InherentIdentifier where
  "ADAPTER_ERROR_IDENTIFIER = byte_string ''12345678''"

definition adapter_create_inherents ::
  "('v, 'c) InherentHooks \<Rightarrow> InherentData \<Rightarrow> (('v, 'c InherentAdapter) Transaction \<times> H256) list
     \<Rightarrow> storage \<Rightarrow> ('v, 'c InherentAdapter) Transaction list option" where
  "adapter_create_inherents K inh previous_inherents s =
     (if length previous_inherents > 1 then None
      else (case previous_inherents of
              [] \<Rightarrow> None
            | (previous_inherent, h) # _ \<Rightarrow>
                Option.bind (create_inherent K inh (unwrap_transaction previous_inherent, h) s)
                  (\<lambda>current. Some [wrap_transaction current])))"

definition adapter_check_inherents ::
  "host \<Rightarrow> ('v, 'c) InherentHooks \<Rightarrow> InherentData \<Rightarrow> ('v, 'c InherentAdapter) Transaction list
     \<Rightarrow> CheckInherentsResult \<Rightarrow> CheckInherentsResult option" where
  "adapter_check_inherents H K inh inherents results =
     (case inherents of
        [] \<Rightarrow> put_error H results ADAPTER_ERROR_IDENTIFIER (encode (bytes_codec H) (byte_string
                ''Tuxedo inherent expected exactly one inherent extrinsic but found zero'')) True
      | [inherent] \<Rightarrow> check_inherent K inh (unwrap_transaction inherent) results
      | _ \<Rightarrow> put_error H results ADAPTER_ERROR_IDENTIFIER (encode (bytes_codec H) (byte_string
                ''Tuxedo inherent expected exactly one inherent extrinsic but found multiple'')) True)"

definition inherent_adapter ::
  "host \<Rightarrow> ('c, 'e) SimpleConstraintChecker \<Rightarrow> ('v, 'c) InherentHooks
     \<Rightarrow> ('v, 'c InherentAdapter, 'e) ConstraintChecker" where
  "inherent_adapter H S K =
     \<lparr>check = (\<lambda>c. simple_check S (unwrap_adapter c)),
      is_inherent = (\<lambda>_. True),
      create_inherents = adapter_create_inherents K,
      check_inherents = adapter_check_inherents H K,
      genesis_transactions = map_option (map wrap_transaction) (hook_genesis_transactions K),
      checker_codec = map_codec InherentAdapter unwrap_adapter (simple_codec S)\<rparr>"

text \<open>The parent block provider puts the block into the inherent data under its identifier.\<close>

definition provide_parent_block ::
  "'b codec \<Rightarrow> 'b \<Rightarrow> InherentData \<Rightarrow> (InherentData, unit) result" where
  "provide_parent_block block_codec b inh =
     (if inh PARENT_INHERENT_IDENTIFIER = None
      then Ok (inh(PARENT_INHERENT_IDENTIFIER \<mapsto> encode block_codec b))
      else Err ())"

text \<open>The provider answers for errors under its own identifier, with the message the error's bytes hold; it never excuses one.\<close>

definition try_handle_error ::
  "string codec \<Rightarrow> InherentIdentifier \<Rightarrow> bytes \<Rightarrow> (unit, string) result option" where
  "try_handle_error string_codec ident error =
     (if ident = PARENT_INHERENT_IDENTIFIER
      then map_option Err (decode_value string_codec error)
      else None)"

lemma try_handle_error_Some:
  "try_handle_error string_codec ident error = Some r \<longleftrightarrow>
     ident = PARENT_INHERENT_IDENTIFIER \<and> (\<exists>msg. decode_value string_codec error = Some msg \<and> r = Err msg)"
  by (auto simp: try_handle_error_def)

subsection \<open>The checker of the framework's tests\<close>

record TestConstraintChecker =
  checks :: bool
  inherent :: bool

definition test_constraint_checker ::
  "TestConstraintChecker codec \<Rightarrow> ('v, TestConstraintChecker, unit) ConstraintChecker" where
  "test_constraint_checker cc =
     \<lparr>check = (\<lambda>c _ _ _ _. stateless (if checks c then Ok 0 else Err ())),
      is_inherent = inherent,
      create_inherents = (\<lambda>_ _ _. None),
      check_inherents = (\<lambda>_ _ _. None),
      genesis_transactions = None,
      checker_codec = cc\<rparr>"

interpretation testc: framed_checker "test_constraint_checker cc" for cc
  by unfold_locales (simp_all add: test_constraint_checker_def)

subsection \<open>The piece's half of the contract\<close>

locale framed_simple =
  fixes S :: "('c, 'e) SimpleConstraintChecker"
  assumes simple_transient:
      "is_transient_key k \<Longrightarrow> simple_check S c ins evs pks outs (s(k := v))
         = ((fst (simple_check S c ins evs pks outs s))(k := v),
            snd (simple_check S c ins evs pks outs s))"
    and simple_frame:
      "\<not> is_runtime_key k \<or> k = HEIGHT_KEY
         \<Longrightarrow> fst (simple_check S c ins evs pks outs s) k = s k"

sublocale framed_simple \<subseteq> plain: framed_checker "from_simple S"
  by unfold_locales (simp_all add: from_simple_def simple_transient simple_frame)

sublocale framed_simple \<subseteq> adapted: framed_checker "inherent_adapter H S K" for H K
  by unfold_locales (simp_all add: inherent_adapter_def simple_transient simple_frame)

subsection \<open>Pieces inside a larger checker\<close>

text \<open>
  \<open>follows C c f k\<close>: whatever the executive's checker \<open>C\<close> accepts under the selector \<open>c\<close>, the
  piece's check \<open>f\<close> accepts under its own selector \<open>k\<close>, with the same priority. It holds of a
  piece installed alone and of every aggregation of it, so that what a piece enforces on the
  ledger is proved once.
\<close>

definition follows :: "('v, 'c, 'e) ConstraintChecker \<Rightarrow> 'c \<Rightarrow> ('k, 'd) check_fn \<Rightarrow> 'k \<Rightarrow> bool" where
  "follows C c f k \<longleftrightarrow>
     (\<forall>ins evs pks outs s p. snd (check C c ins evs pks outs s) = Ok p
        \<longrightarrow> snd (f k ins evs pks outs s) = Ok p)"

lemma follows_from_simple: "follows (from_simple S) k (simple_check S) k"
  by (simp add: follows_def from_simple_def)

lemma follows_adapter: "follows (inherent_adapter H S K) (InherentAdapter k) (simple_check S) k"
  by (simp add: follows_def inherent_adapter_def)

lemma accepted_follows:
  assumes "follows C (checker tx) f k" and "ledger_accepts H V C h U s tx"
  obtains p where "snd (f k (ledger_payloads U (redeemed_refs tx)) (ledger_payloads U (evicted_refs tx))
    (ledger_payloads U (peeks tx)) (map payload (outputs tx)) s) = Ok p"
  using assms unfolding follows_def ledger_accepts_def by blast

lemma no_evictions_redeem_all:
  assumes "ledger_payloads U (evicted_refs tx) = []"
  shows "redeemed_refs tx = input_refs tx"
proof -
  have "filter (\<lambda>i. redeemer i \<noteq> Eviction) (inputs tx) = inputs tx"
    using assms by (simp add: evicted_refs_def ledger_payloads_def filter_empty_conv filter_id_conv)
  then show ?thesis by (simp add: redeemed_refs_def input_refs_def)
qed

lemma no_redemptions_evict_all:
  assumes "ledger_payloads U (redeemed_refs tx) = []"
  shows "evicted_refs tx = input_refs tx"
proof -
  have "filter (\<lambda>i. redeemer i = Eviction) (inputs tx) = inputs tx"
    using assms by (simp add: redeemed_refs_def ledger_payloads_def filter_empty_conv filter_id_conv)
  then show ?thesis by (simp add: evicted_refs_def input_refs_def)
qed

subsection \<open>Facts\<close>

lemma unwrap_wrap [simp]: "unwrap_transaction (wrap_transaction tx) = tx"
  by (simp add: unwrap_transaction_def wrap_transaction_def)

lemma wrap_unwrap [simp]: "wrap_transaction (unwrap_transaction tx) = tx"
  by (cases tx, cases "checker tx") (simp add: unwrap_transaction_def wrap_transaction_def)

lemma adapter_unwrap [simp]: "InherentAdapter (unwrap_adapter c) = c"
  by (cases c) simp

lemma scale_codec_adapter:
  "scale_codec c \<Longrightarrow> scale_codec (map_codec InherentAdapter unwrap_adapter c)"
  by (rule scale_codec_map) simp_all

lemma adapter_encodes_like_inner:
  "encode (map_codec InherentAdapter unwrap_adapter c) (InherentAdapter x) = encode c x"
  by (simp add: map_codec_def)

text \<open>What Substrate documents of \<^verbatim>\<open>put_error\<close>: a result that holds an error is not okay.\<close>

definition put_error_law :: "host \<Rightarrow> bool" where
  "put_error_law H \<longleftrightarrow>
     (\<forall>r i b f r'. put_error H r i b f = Some r' \<longrightarrow> \<not> okay r' \<and> fatal_error r' = f)"

text \<open>
  C24. An inherent appears exactly once. The off-chain check of a block leaves the result okay only
  when there is exactly one inherent of the adapted piece at the front of the block and the piece's own check of
  it (with the adapter's wrapping removed) leaves the result okay; zero or several inherents
  are a fatal error. The author's side creates exactly one inherent, from the only one of
  the parent block, and panics when the parent block has none or several.
\<close>

theorem adapter_exactly_one:
  assumes "put_error_law H"
  shows "(\<forall>r'. adapter_check_inherents H K inh txs r = Some r' \<and> okay r' \<longrightarrow>
           (\<exists>tx. txs = [tx] \<and> check_inherent K inh (unwrap_transaction tx) r = Some r'))
    \<and> (\<forall>r'. adapter_check_inherents H K inh txs r = Some r' \<and> length txs \<noteq> 1 \<longrightarrow> fatal_error r')
    \<and> (\<forall>new. adapter_create_inherents K inh prev s = Some new \<longrightarrow>
           (\<exists>tx h current. prev = [(tx, h)] \<and> new = [wrap_transaction current]
              \<and> create_inherent K inh (unwrap_transaction tx, h) s = Some current))"
  using assms
  by (auto simp: put_error_law_def adapter_check_inherents_def adapter_create_inherents_def
      bind_eq_Some_conv split: list.splits if_splits)

end
