(* ===== verification/Parachain_Core.thy ===== *)
theory Parachain_Core
  imports Block_Execution Constraint_Checkers
begin

text \<open>
  \<^verbatim>\<open>tuxedo-parachain-core\<close>: what a Tuxedo chain needs to be a parachain.

  \<^item> The relay parent number, stored under its own key by the parachain inherent.
  \<^item> \<open>collect_collation_info\<close> (\<^verbatim>\<open>collation_api.rs\<close>), what the collator reports about an authored block.
  \<^item> \<open>validate_block\<close> (\<^verbatim>\<open>validate_block.rs\<close>), what the relay chain's validators run. The state a storage
    proof stands for under a root is the parameter \<open>proof_storage\<close> (\<open>None\<close> when the proof does not decode);
    the block data's codec is a parameter as well. The replacement of the host functions makes the
    executive's storage calls work on that state, so it is the explicit storage argument here. The proof has to cover what the
    execution reads: where it does not, the source panics and the block is rejected, and \<^verbatim>\<open>Host_Storage\<close> shows that an incomplete proof has
    no other effect.

  The structs of Cumulus and Polkadot that the source builds or takes apart are records with their
  documented fields. A panic is \<open>None\<close>.
\<close>

subsection \<open>The relay parent number\<close>

definition RELAY_PARENT_NUMBER_KEY :: bytes where
  "RELAY_PARENT_NUMBER_KEY = byte_string ''relay_parent_number''"

definition get_relay_parent_number :: "host \<Rightarrow> storage \<Rightarrow> u32 option" where
  "get_relay_parent_number H s =
     Option.bind (s RELAY_PARENT_NUMBER_KEY) (decode_value (u32_codec H))"

definition set_relay_parent_number :: "host \<Rightarrow> u32 \<Rightarrow> storage \<Rightarrow> storage" where
  "set_relay_parent_number H new_parent_number s =
     s(RELAY_PARENT_NUMBER_KEY \<mapsto> encode (u32_codec H) new_parent_number)"

definition mock_set_relay_parent_number :: "u32 \<Rightarrow> storage \<Rightarrow> storage" where
  "mock_set_relay_parent_number new_parent_number s = s"

subsection \<open>The parachain inherent data\<close>

record PersistedValidationData =
  parent_head :: bytes
  relay_parent_number :: u32
  relay_parent_storage_root :: H256
  max_pov_size :: u32

record ParachainInherentData =
  validation_data :: PersistedValidationData
  relay_chain_state :: "bytes list"
  downward_messages :: "(u32 \<times> bytes) list"
  horizontal_messages :: "(u32 \<times> (u32 \<times> bytes) list) list"

datatype ParachainInherentDataUtxo = ParachainInherentDataUtxo ParachainInherentData

fun from_parachain_utxo :: "ParachainInherentDataUtxo \<Rightarrow> ParachainInherentData" where
  "from_parachain_utxo (ParachainInherentDataUtxo v) = v"

definition into_parachain_utxo :: "ParachainInherentData \<Rightarrow> ParachainInherentDataUtxo" where
  "into_parachain_utxo v = ParachainInherentDataUtxo v"

definition parachain_data :: "ParachainInherentDataUtxo codec \<Rightarrow> ParachainInherentDataUtxo UtxoData" where
  "parachain_data pc = \<lparr>TYPE_ID = byte_string4 ''para'', data_codec = pc\<rparr>"

subsection \<open>Collation\<close>

record CollationInfo =
  col_upward_messages :: "bytes list"
  col_horizontal_messages :: "(u32 \<times> bytes) list"
  col_new_validation_code :: "bytes option"
  col_processed_downward_messages :: u32
  col_hrmp_watermark :: u32
  col_head_data :: bytes

definition collect_collation_info :: "host \<Rightarrow> Header \<Rightarrow> storage \<Rightarrow> CollationInfo option" where
  "collect_collation_info H h s =
     Option.bind (get_relay_parent_number H s) (\<lambda>hrmp_watermark.
     Some \<lparr>col_upward_messages = [], col_horizontal_messages = [], col_new_validation_code = None,
           col_processed_downward_messages = 0, col_hrmp_watermark = hrmp_watermark,
           col_head_data = encode (header_codec H) h\<rparr>)"

subsection \<open>Validating a block\<close>

record MemoryOptimizedValidationParams =
  params_parent_head :: bytes
  params_block_data :: bytes
  params_relay_parent_number :: u32
  params_relay_parent_storage_root :: H256

record ValidationResult =
  res_head_data :: bytes
  res_new_validation_code :: "bytes option"
  res_upward_messages :: "bytes list"
  res_horizontal_messages :: "(u32 \<times> bytes) list"
  res_processed_downward_messages :: u32
  res_hrmp_watermark :: u32

definition validate_validation_data :: "PersistedValidationData \<Rightarrow> u32 \<Rightarrow> H256 \<Rightarrow> bytes \<Rightarrow> unit option" where
  "validate_validation_data vd relay_number root head =
     (if head \<noteq> parent_head vd then None
      else if relay_number \<noteq> relay_parent_number vd then None
      else if root \<noteq> relay_parent_storage_root vd then None
      else Some ())"

text \<open>The search for the parachain inherent among the extrinsics at the front that are not signed.\<close>

definition parachain_inherent_data ::
  "('v, 'c, 'e) ConstraintChecker \<Rightarrow> ('c \<Rightarrow> bool) \<Rightarrow> ParachainInherentDataUtxo codec \<Rightarrow> ('v, 'c) Transaction list
     \<Rightarrow> ParachainInherentData option" where
  "parachain_inherent_data C is_parachain pc txs =
     Option.bind (find (\<lambda>e. is_parachain (checker e))
       (takeWhile (\<lambda>e. \<not> (case is_signed C e of Some b \<Rightarrow> b | None \<Rightarrow> True)) txs)) (\<lambda>tx.
     (case outputs tx of
        [] \<Rightarrow> None
      | out # _ \<Rightarrow>
          (case extract_data (parachain_data pc) (payload out) of
             Ok d \<Rightarrow> Some (from_parachain_utxo d)
           | _ \<Rightarrow> None)))"

definition validate_block ::
  "host \<Rightarrow> ('v, 'r) Verifier \<Rightarrow> ('v, 'c, 'e) ConstraintChecker \<Rightarrow> ('c \<Rightarrow> bool) \<Rightarrow> ParachainInherentDataUtxo codec
     \<Rightarrow> (Header \<times> ('v, 'c) Transaction list \<times> 'p) codec \<Rightarrow> ('p \<Rightarrow> H256 \<Rightarrow> storage option)
     \<Rightarrow> MemoryOptimizedValidationParams \<Rightarrow> ValidationResult option" where
  "validate_block H V C is_parachain pc block_data_codec proof_storage params =
     Option.bind (decode_value block_data_codec (params_block_data params)) (\<lambda>(h, txs, storage_proof).
     Option.bind (decode_value (header_codec H) (params_parent_head params)) (\<lambda>parent_header.
     (let b = \<lparr>header = h, extrinsics = txs\<rparr> in
      if hash_of H (header_codec H) parent_header \<noteq> parent_hash h then None
      else Option.bind (parachain_inherent_data C is_parachain pc (extrinsics b)) (\<lambda>inherent_data.
        Option.bind (validate_validation_data (validation_data inherent_data)
            (params_relay_parent_number params) (params_relay_parent_storage_root params)
            (params_parent_head params)) (\<lambda>_.
        Option.bind (proof_storage storage_proof (state_root parent_header)) (\<lambda>s.
        Option.bind (execute_block H V C b s) (\<lambda>s'.
        Option.bind (get_relay_parent_number H s') (\<lambda>hrmp_watermark.
        Some \<lparr>res_head_data = encode (header_codec H) (header b), res_new_validation_code = None,
              res_upward_messages = [], res_horizontal_messages = [],
              res_processed_downward_messages = 0, res_hrmp_watermark = hrmp_watermark\<rparr>))))))))"

text \<open>The wasm entry point around it: the arguments are decoded from the shared memory's bytes.\<close>

definition validate_block_entry ::
  "host \<Rightarrow> ('v, 'r) Verifier \<Rightarrow> ('v, 'c, 'e) ConstraintChecker \<Rightarrow> ('c \<Rightarrow> bool) \<Rightarrow> ParachainInherentDataUtxo codec
     \<Rightarrow> (Header \<times> ('v, 'c) Transaction list \<times> 'p) codec \<Rightarrow> ('p \<Rightarrow> H256 \<Rightarrow> storage option)
     \<Rightarrow> MemoryOptimizedValidationParams codec \<Rightarrow> ValidationResult codec \<Rightarrow> bytes \<Rightarrow> bytes option" where
  "validate_block_entry H V C is_parachain pc block_data_codec proof_storage params_codec result_codec arguments =
     Option.bind (decode_value params_codec arguments) (\<lambda>params.
     Option.bind (validate_block H V C is_parachain pc block_data_codec proof_storage params) (\<lambda>res.
     Some (encode result_codec res)))"

subsection \<open>Facts\<close>

lemma relay_key [simp]:
  "is_runtime_key RELAY_PARENT_NUMBER_KEY" "RELAY_PARENT_NUMBER_KEY \<noteq> HEIGHT_KEY"
  "RELAY_PARENT_NUMBER_KEY \<noteq> HEADER_KEY" "RELAY_PARENT_NUMBER_KEY \<noteq> EXTRINSIC_KEY"
  by (simp_all add: is_runtime_key_def RELAY_PARENT_NUMBER_KEY_def HEIGHT_KEY_def HEADER_KEY_def
      EXTRINSIC_KEY_def byte_string_def)

lemma relay_key_not_transient [simp]: "\<not> is_transient_key RELAY_PARENT_NUMBER_KEY"
  by (simp add: is_transient_key_def)

lemma get_set_relay_parent_number [simp]:
  "host_laws H \<Longrightarrow> get_relay_parent_number H (set_relay_parent_number H n s) = Some n"
  by (simp add: get_relay_parent_number_def set_relay_parent_number_def
      scale_codec.decode_value_encode [OF host_laws.u32_lawful])

lemma validate_validation_data_Some:
  "validate_validation_data vd n root head = Some u \<longleftrightarrow>
     parent_head vd = head \<and> relay_parent_number vd = n \<and> relay_parent_storage_root vd = root"
  by (auto simp: validate_validation_data_def)

lemma is_signed_front:
  "takeWhile (\<lambda>e. \<not> (case is_signed C e of Some b \<Rightarrow> b | None \<Rightarrow> True)) txs
    = takeWhile (\<lambda>e. is_inherent C (checker e)) txs"
  by (rule arg_cong [where f = "\<lambda>P. takeWhile P txs"]) (auto simp: is_signed_def)

text \<open>The data the validator finds is in the first parachain inherent that opens the block.\<close>

lemma parachain_inherent_data_Some:
  assumes "parachain_inherent_data C isp pc txs = Some d"
  obtains tx out rest where
    "find (\<lambda>e. isp (checker e)) (takeWhile (\<lambda>e. is_inherent C (checker e)) txs) = Some tx"
    "outputs tx = out # rest" "view (parachain_data pc) (payload out) = Some (ParachainInherentDataUtxo d)"
proof -
  from assms obtain tx where
    found: "find (\<lambda>e. isp (checker e)) (takeWhile (\<lambda>e. is_inherent C (checker e)) txs) = Some tx"
    and tx: "(case outputs tx of [] \<Rightarrow> None
      | out # _ \<Rightarrow> (case extract_data (parachain_data pc) (payload out) of
          Ok d \<Rightarrow> Some (from_parachain_utxo d) | _ \<Rightarrow> None)) = Some d"
    unfolding parachain_inherent_data_def is_signed_front by (auto simp: bind_eq_Some_conv)
  from tx obtain out rest u where
    out: "outputs tx = out # rest" "extract_data (parachain_data pc) (payload out) = Ok u"
      "d = from_parachain_utxo u"
    by (auto split: list.split_asm result.split_asm)
  have "view (parachain_data pc) (payload out) = Some (ParachainInherentDataUtxo d)"
    using out(2,3) by (cases u) (simp add: view_def extract_Ok_iff)
  with found out(1) show thesis by (intro that)
qed

lemma validate_block_Some:
  "validate_block H V C isp pc bdc proof_storage params = Some r \<longleftrightarrow>
    (\<exists>h txs pf ph d s s' n.
        decode_value bdc (params_block_data params) = Some (h, txs, pf)
      \<and> decode_value (header_codec H) (params_parent_head params) = Some ph
      \<and> parent_hash h = hash_of H (header_codec H) ph
      \<and> parachain_inherent_data C isp pc txs = Some d
      \<and> validate_validation_data (validation_data d) (params_relay_parent_number params)
          (params_relay_parent_storage_root params) (params_parent_head params) = Some ()
      \<and> proof_storage pf (state_root ph) = Some s
      \<and> execute_block H V C \<lparr>header = h, extrinsics = txs\<rparr> s = Some s'
      \<and> get_relay_parent_number H s' = Some n
      \<and> r = \<lparr>res_head_data = encode (header_codec H) h, res_new_validation_code = None,
              res_upward_messages = [], res_horizontal_messages = [],
              res_processed_downward_messages = 0, res_hrmp_watermark = n\<rparr>)"
  (is "_ \<longleftrightarrow> ?rhs")
proof
  assume "validate_block H V C isp pc bdc proof_storage params = Some r"
  then show ?rhs
    unfolding validate_block_def Let_def
    by (clarsimp simp: bind_eq_Some_conv split: if_split_asm)
next
  assume ?rhs
  then show "validate_block H V C isp pc bdc proof_storage params = Some r"
    by (elim exE conjE) (simp add: validate_block_def)
qed

text \<open>
  C7. Validators accept exactly what a collator can author. On proofs of states between blocks,
  \<open>validate_block\<close> returns a result exactly when the block's parent is the parent head, the first
  parachain inherent at the front of the block carries the parent head, relay parent number and storage
  root the relay chain supplied, and authoring these extrinsics on the proved state (inherents first) reproduces
  the block's header; and the result is then the one the collator reports for that block:
  the same head data and the same watermark.
\<close>

theorem validate_block_iff_collated:
  assumes "executive H V C"
    and "\<And>pf root s. proof_storage pf root = Some s \<Longrightarrow> s EXTRINSIC_KEY = None"
  shows "validate_block H V C isp pc bdc proof_storage params = Some r \<longleftrightarrow>
    (\<exists>h txs pf ph d s s' info.
        decode_value bdc (params_block_data params) = Some (h, txs, pf)
      \<and> decode_value (header_codec H) (params_parent_head params) = Some ph
      \<and> parent_hash h = hash_of H (header_codec H) ph
      \<and> parachain_inherent_data C isp pc txs = Some d
      \<and> parent_head (validation_data d) = params_parent_head params
      \<and> relay_parent_number (validation_data d) = params_relay_parent_number params
      \<and> relay_parent_storage_root (validation_data d) = params_relay_parent_storage_root params
      \<and> proof_storage pf (state_root ph) = Some s
      \<and> inherents_first C False txs \<and> author_block H V C h txs s = Some (s', h)
      \<and> collect_collation_info H h s' = Some info
      \<and> r = \<lparr>res_head_data = col_head_data info, res_new_validation_code = col_new_validation_code info,
              res_upward_messages = col_upward_messages info,
              res_horizontal_messages = col_horizontal_messages info,
              res_processed_downward_messages = col_processed_downward_messages info,
              res_hrmp_watermark = col_hrmp_watermark info\<rparr>)"
  (is "?lhs \<longleftrightarrow> ?rhs")
proof -
  have author: "execute_block H V C \<lparr>header = h, extrinsics = txs\<rparr> s = Some s' \<longleftrightarrow>
      inherents_first C False txs \<and> author_block H V C h txs s = Some (s', h)"
    if "proof_storage pf root = Some s" for h txs pf root s s'
    using assms(1) assms(2) [OF that] by (rule executive.import_iff_author)
  show ?thesis
    unfolding validate_block_Some validate_validation_data_Some collect_collation_info_def
    using author by (auto simp: bind_eq_Some_conv)
qed

end
