(* ===== verification/Transaction_Pool.thy ===== *)
theory Transaction_Pool
  imports Block_Execution
begin

text \<open>
  What \<open>validate_transaction\<close> tells the transaction pool. The pool orders transactions by
  their tags: \<open>requires\<close> are the references a transaction still misses, \<open>provides\<close> those it
  will create. The lemmas relate the tags to the ledger and to what applying a transaction does;
  the theorems say that a pool that trusts the tags behaves correctly.
\<close>

definition missing_refs ::
  "host \<Rightarrow> ('v, 'r) Verifier \<Rightarrow> ('v, 'c) Transaction \<Rightarrow> storage \<Rightarrow> OutputRef list" where
  "missing_refs H V tx s = filter (\<lambda>r. ledger_of H V s r = None) (input_refs tx @ peeks tx)"

context executive
begin

lemma validate_tags:
  assumes "snd (validate_tuxedo_transaction H V C tx s) = Ok vt"
  shows "requires vt = map (encode (output_ref_codec H)) (missing_refs H V tx s)
    \<and> provides vt = map (encode (output_ref_codec H)) (output_refs_of H V (checker_codec C) tx)
    \<and> priority vt = 0 \<and> propagate vt"
proof (cases "gather_transaction H V (checker_codec C) tx s :: (_, 'e UtxoError) result")
  case (Ok g)
  then obtain a b p m t where g: "gather_transaction H V (checker_codec C) tx s
      = (Ok (a, b, p, m, t) :: (_, 'e UtxoError) result)"
    by (metis prod_cases5)
  show ?thesis
    using assms gather_missing [OF g] g
    by (auto simp: validate_tuxedo_transaction_def missing_refs_def ledger_of_apply result_ok
        split: prod.splits if_splits)
qed (use assms in \<open>simp_all add: validate_tuxedo_transaction_def\<close>)

lemma validate_transaction_Ok:
  "snd (validate_transaction H V C tx s) = Ok vt \<longleftrightarrow>
     \<not> is_inherent C (checker tx) \<and> snd (validate_tuxedo_transaction H V C tx s) = Ok vt"
  by (auto simp: validate_transaction_def map_err_Ok split: prod.splits)

lemma ready_iff_applies:
  assumes "block_height H s = Some h" and "snd (validate_tuxedo_transaction H V C tx s) = Ok vt"
  shows "requires vt = [] \<longleftrightarrow> snd (apply_tuxedo_transaction H V C tx s) = Ok ()"
  using validate_complete [OF assms(1), of tx] apply_complete [OF assms(1), of tx] assms(2)
  by auto

lemma encode_refs_mem [simp]:
  "encode (output_ref_codec H) r \<in> set (map (encode (output_ref_codec H)) rs) \<longleftrightarrow> r \<in> set rs"
  by auto

text \<open>Applying a transaction satisfies the tags it provides and can only void its own inputs.\<close>

lemma missing_after_apply:
  assumes "snd (apply_tuxedo_transaction H V C tx1 s) = Ok ()" and "length (outputs tx1) \<le> 2 ^ 32"
  shows "set (missing_refs H V tx2 (fst (apply_tuxedo_transaction H V C tx1 s)))
    = ((set (missing_refs H V tx2 s)
         \<union> (set (input_refs tx1) \<inter> set (input_refs tx2 @ peeks tx2)))
       - set (output_refs_of H V (checker_codec C) tx1))"
proof -
  have created: "map_of (created_outputs H V (checker_codec C) tx1) r = None
      \<longleftrightarrow> r \<notin> set (output_refs_of H V (checker_codec C) tx1)" for r
    by (metis map_fst_created map_of_eq_None_iff set_map)
  have "ledger_of H V (fst (apply_tuxedo_transaction H V C tx1 s)) r = None \<longleftrightarrow>
      r \<notin> set (output_refs_of H V (checker_codec C) tx1)
      \<and> (r \<in> set (input_refs tx1) \<or> ledger_of H V s r = None)" for r
    using created [of r]
    by (cases "map_of (created_outputs H V (checker_codec C) tx1) r")
      (simp_all add: apply_ledger [OF assms] ledger_update_def)
  then show ?thesis by (auto simp: missing_refs_def)
qed

lemma requires_after_apply:
  assumes "snd (apply_tuxedo_transaction H V C tx1 s) = Ok ()" and "length (outputs tx1) \<le> 2 ^ 32"
    and "snd (validate_tuxedo_transaction H V C tx1 s) = Ok vt1"
    and "snd (validate_tuxedo_transaction H V C tx2 s) = Ok vt2"
    and "snd (validate_tuxedo_transaction H V C tx2
                (fst (apply_tuxedo_transaction H V C tx1 s))) = Ok vt2'"
  shows "set (requires vt2') =
    (set (requires vt2)
      \<union> encode (output_ref_codec H) ` (set (input_refs tx1) \<inter> set (input_refs tx2 @ peeks tx2)))
    - set (provides vt1)"
  using validate_tags [OF assms(3)] validate_tags [OF assms(4)] validate_tags [OF assms(5)]
    missing_after_apply [OF assms(1,2), of tx2] oref.inj_encode
  by (simp add: image_set_diff image_Un)

end

subsection \<open>The pool's contract\<close>

text \<open>
  C19. The pool's view of a transaction is exact. A transaction that validates is not an inherent;
  it requires precisely the references among its inputs and peeks that are not in the ledger, in
  order, and provides precisely the references of its outputs; and it is ready (requires
  nothing) exactly when applying it to that state succeeds. Its priority is always 0.
\<close>

theorem validate_transaction_exact:
  assumes "executive H V C" and "block_height H s = Some h"
    and "snd (validate_transaction H V C tx s) = Ok vt"
  shows "\<not> is_inherent C (checker tx)
    \<and> requires vt = map (encode (output_ref_codec H)) (missing_refs H V tx s)
    \<and> provides vt = map (encode (output_ref_codec H)) (output_refs_of H V (checker_codec C) tx)
    \<and> priority vt = 0
    \<and> (requires vt = [] \<longleftrightarrow> snd (apply_tuxedo_transaction H V C tx s) = Ok ())"
  using assms executive.validate_transaction_Ok [OF assms(1)] executive.validate_tags [OF assms(1)]
    executive.ready_iff_applies [OF assms(1,2)]
  by blast

text \<open>
  Tags compose: when \<open>tx1\<close> has been applied and \<open>tx1\<close> and \<open>tx2\<close> had both validated before,
  then validating \<open>tx2\<close> again, if it succeeds, requires exactly the tags it required before and those
  of its own references that \<open>tx1\<close> spent, less every tag \<open>tx1\<close> provides.
\<close>

theorem provided_tags_resolve:
  assumes "executive H V C" and "length (outputs tx1) \<le> 2 ^ 32"
    and "snd (apply_tuxedo_transaction H V C tx1 s) = Ok ()"
    and "snd (validate_tuxedo_transaction H V C tx1 s) = Ok vt1"
    and "snd (validate_tuxedo_transaction H V C tx2 s) = Ok vt2"
    and "snd (validate_tuxedo_transaction H V C tx2
                (fst (apply_tuxedo_transaction H V C tx1 s))) = Ok vt2'"
  shows "set (requires vt2') =
    (set (requires vt2)
      \<union> encode (output_ref_codec H) ` (set (input_refs tx1) \<inter> set (input_refs tx2 @ peeks tx2)))
    - set (provides vt1)"
  using assms(1,3,2,4-6) by (rule executive.requires_after_apply)

end
