(* ===== verification/Genesis.thy ===== *)
theory Genesis
  imports Transaction_Pool
begin

text \<open>
  \<^verbatim>\<open>tuxedo-core/src/genesis/\<close>: how a chain starts, and what holds along it.

  \<open>build\<close> is \<^verbatim>\<open>TuxedoGenesisConfigBuilder::build\<close>, \<open>build_genesis_block\<close> the node's
  \<^verbatim>\<open>TuxedoGenesisBlockBuilder\<close>; the client (record \<open>genesis_client\<close>) and the encoding of a
  transaction list are parameters. The step relation \<open>chain\<close> puts genesis and
  \<open>execute_block\<close> together: \<open>chain \<dots> gtxs bs s\<close> holds when genesis from \<open>gtxs\<close> followed
  by the blocks \<open>bs\<close> reaches \<open>s\<close>. By rule induction: no transient key survives a block, the
  stored height is the last block's number, and the ledger is the replay of the history.
\<close>

subsection \<open>The genesis state\<close>

definition store_genesis_outputs ::
  "host \<Rightarrow> ('v, 'r) Verifier \<Rightarrow> 'c codec \<Rightarrow> ('v, 'c) Transaction \<Rightarrow> storage \<Rightarrow> storage" where
  "store_genesis_outputs H V cc tx s =
     (let h = hash_of H (bytes_codec H) (encode (transaction_codec H V cc) tx) in
      fold (\<lambda>(i, utxo) s. s(encode (output_ref_codec H) \<lparr>tx_hash = h, index = of_nat i\<rparr>
                              \<mapsto> encode (output_codec V) utxo))
        (enumerate 0 (outputs tx)) s)"

fun build_transactions ::
  "host \<Rightarrow> ('v, 'r) Verifier \<Rightarrow> ('v, 'c, 'e) ConstraintChecker \<Rightarrow> bool
     \<Rightarrow> ('v, 'c) Transaction list \<Rightarrow> storage \<Rightarrow> storage \<times> (unit, string) result" where
  "build_transactions H V C finished [] s = (s, Ok ())"
| "build_transactions H V C finished (tx # txs) s =
     (let current_tx_is_inherent = is_inherent C (checker tx) in
      if current_tx_is_inherent \<and> finished
      then (s, Err ''Tried to execute opening inherent after switching to non-inherents.'')
      else (let finished' = (if \<not> current_tx_is_inherent \<and> \<not> finished then True else finished) in
        if \<not> (inputs tx = [] \<and> peeks tx = [])
        then (s, Err ''Genesis transactions must not have any inputs or peeks.'')
        else build_transactions H V C finished' txs
               (store_genesis_outputs H V (checker_codec C) tx s)))"

definition build ::
  "host \<Rightarrow> ('v, 'r) Verifier \<Rightarrow> ('v, 'c, 'e) ConstraintChecker \<Rightarrow> ('v, 'c) Transaction list codec
     \<Rightarrow> ('v, 'c) Transaction list \<Rightarrow> storage \<Rightarrow> storage \<times> (unit, string) result" where
  "build H V C txs_codec gtxs s =
     build_transactions H V C False gtxs
       (s(EXTRINSIC_KEY \<mapsto> encode txs_codec gtxs, HEIGHT_KEY \<mapsto> encode (u32_codec H) 0))"

text \<open>
  \<^verbatim>\<open>genesis_storage.top.remove(EXTRINSIC_KEY)\<close> and the genesis block around it. The record holds
  what the block builder calls in the client: the state version of the runtime's code, the trie
  root at a version, \<^verbatim>\<open>begin_operation\<close> and \<^verbatim>\<open>set_genesis_state\<close>, each with the client's error.
\<close>

datatype StateVersion = V0 | V1

record 'x genesis_client =
  resolve_state_version :: "storage \<Rightarrow> (StateVersion, 'x) result"
  versioned_trie_root :: "StateVersion \<Rightarrow> bytes list \<Rightarrow> H256"
  begin_operation :: "(unit, 'x) result"
  set_genesis_state :: "storage \<Rightarrow> StateVersion \<Rightarrow> (H256, 'x) result"

definition build_genesis_block ::
  "host \<Rightarrow> ('v, 'r) Verifier \<Rightarrow> ('v, 'c, 'e) ConstraintChecker \<Rightarrow> ('v, 'c) Transaction list codec
     \<Rightarrow> 'x genesis_client \<Rightarrow> storage \<Rightarrow> (('v, 'c) Block \<times> storage, 'x) result" where
  "build_genesis_block H V C txs_codec B s =
     bind_result (resolve_state_version B s) (\<lambda>state_version.
     (let txs = (case s EXTRINSIC_KEY of
                   Some v \<Rightarrow> (case decode_value txs_codec v of Some xs \<Rightarrow> xs | None \<Rightarrow> [])
                 | None \<Rightarrow> []);
          s' = s(EXTRINSIC_KEY := None);
          root = versioned_trie_root B state_version
            (map (encode (transaction_codec H V (checker_codec C))) txs)
      in bind_result (begin_operation B) (\<lambda>_.
         bind_result (set_genesis_state B s' state_version) (\<lambda>sr.
         Ok (\<lparr>header = \<lparr>parent_hash = 0, number = 0, state_root = sr, extrinsics_root = root,
                         digest = []\<rparr>, extrinsics = txs\<rparr>, s')))))"

text \<open>
  The builder that the nodes hand to Substrate: it builds the storage of the chain specification first. Whether the client commits the genesis state is
  an argument of its \<^verbatim>\<open>set_genesis_state\<close>.
\<close>

record 'x TuxedoGenesisBlockBuilder =
  build_genesis_storage :: "(storage, 'x) result"
  commit_genesis_state :: bool
  builder_client :: "bool \<Rightarrow> 'x genesis_client"

definition new_genesis_block_builder ::
  "(storage, 'x) result \<Rightarrow> bool \<Rightarrow> (bool \<Rightarrow> 'x genesis_client) \<Rightarrow> ('x TuxedoGenesisBlockBuilder, 'x) result" where
  "new_genesis_block_builder build_storage commit client =
     Ok \<lparr>build_genesis_storage = build_storage, commit_genesis_state = commit, builder_client = client\<rparr>"

definition run_genesis_block_builder ::
  "host \<Rightarrow> ('v, 'r) Verifier \<Rightarrow> ('v, 'c, 'e) ConstraintChecker \<Rightarrow> ('v, 'c) Transaction list codec
     \<Rightarrow> 'x TuxedoGenesisBlockBuilder \<Rightarrow> (('v, 'c) Block \<times> storage, 'x) result" where
  "run_genesis_block_builder H V C txs_codec D =
     bind_result (build_genesis_storage D)
       (build_genesis_block H V C txs_codec (builder_client D (commit_genesis_state D)))"

lemma run_genesis_block_builder_clears:
  "run_genesis_block_builder H V C txs_codec D = Ok (b, s) \<Longrightarrow> s EXTRINSIC_KEY = None \<and> number (header b) = 0"
  by (auto simp: run_genesis_block_builder_def build_genesis_block_def result_ok Let_def)

subsection \<open>Chains\<close>

definition genesis_base :: "host \<Rightarrow> ('v, 'r) Verifier \<Rightarrow> storage \<Rightarrow> bool" where
  "genesis_base H V s \<longleftrightarrow> s HEADER_KEY = None \<and> ledger_of H V s = Map.empty"

inductive chain ::
  "host \<Rightarrow> ('v, 'r) Verifier \<Rightarrow> ('v, 'c, 'e) ConstraintChecker \<Rightarrow> ('v, 'c) Transaction list codec
     \<Rightarrow> 'x genesis_client \<Rightarrow> ('v, 'c) Transaction list \<Rightarrow> ('v, 'c) Block list
     \<Rightarrow> storage \<Rightarrow> bool"
  for H V C txs_codec B gtxs where
  chain_genesis:
    "genesis_base H V s0 \<Longrightarrow> build H V C txs_codec gtxs s0 = (s, Ok ())
      \<Longrightarrow> build_genesis_block H V C txs_codec B s = Ok (b, s')
      \<Longrightarrow> chain H V C txs_codec B gtxs [] s'"
| chain_block:
    "chain H V C txs_codec B gtxs bs s \<Longrightarrow> execute_block H V C b s = Some s'
      \<Longrightarrow> chain H V C txs_codec B gtxs (bs @ [b]) s'"

inductive_cases chain_snocE: "chain H V C txs_codec B gtxs (bs @ [b]) s"

definition replay ::
  "host \<Rightarrow> ('v, 'r) Verifier \<Rightarrow> 'c codec \<Rightarrow> ('v, 'c) Transaction list \<Rightarrow> 'v ledger \<Rightarrow> 'v ledger" where
  "replay H V cc txs U =
     fold (\<lambda>tx. ledger_update (input_refs tx) (created_outputs H V cc tx)) txs U"

definition chain_history :: "('v, 'c) Transaction list \<Rightarrow> ('v, 'c) Block list \<Rightarrow> ('v, 'c) Transaction list" where
  "chain_history gtxs bs = gtxs @ concat (map extrinsics bs)"

definition small_outputs :: "('v, 'c) Transaction list \<Rightarrow> bool" where
  "small_outputs txs \<longleftrightarrow> list_all (\<lambda>tx. length (outputs tx) \<le> 2 ^ 32) txs"

subsection \<open>Facts about genesis\<close>

lemma store_genesis_outputs_update:
  "inputs tx = [] \<Longrightarrow> store_genesis_outputs H V cc tx s = update_storage H V cc tx s"
  by (simp add: store_genesis_outputs_def update_storage_def transaction_hash_def Let_def
      store_utxo_def)

lemma build_genesis_block_storage:
  "build_genesis_block H V C txs_codec sgs s = Ok (b, s') \<Longrightarrow> s' = s(EXTRINSIC_KEY := None)"
  by (auto simp: build_genesis_block_def Let_def result_ok)

lemma replay_append: "replay H V cc (xs @ ys) U = replay H V cc ys (replay H V cc xs U)"
  by (simp add: replay_def)

lemma replay_Cons:
  "replay H V cc (tx # txs) U
     = replay H V cc txs (ledger_update (input_refs tx) (created_outputs H V cc tx) U)"
  by (simp add: replay_def)

lemma small_outputs_simps [simp]:
  "small_outputs []"
  "small_outputs (tx # txs) \<longleftrightarrow> length (outputs tx) \<le> 2 ^ 32 \<and> small_outputs txs"
  "small_outputs (xs @ ys) \<longleftrightarrow> small_outputs xs \<and> small_outputs ys"
  by (auto simp: small_outputs_def)

lemma build_transactions_Ok:
  "snd (build_transactions H V C finished txs s) = Ok () \<longleftrightarrow>
     inherents_first C finished txs \<and> (\<forall>tx \<in> set txs. inputs tx = [] \<and> peeks tx = [])"
  by (induction txs arbitrary: finished s) (auto simp: Let_def)

lemma ledger_of_runtime_key:
  "host_laws H \<Longrightarrow> is_runtime_key k \<Longrightarrow> ledger_of H V (s(k := v)) = ledger_of H V s"
  by (simp add: ledger_of_def)

text \<open>Where a replayed ledger's entries come from.\<close>

lemma replay_provenance:
  assumes "replay H V cc txs U r = Some out"
  shows "U r = Some out \<or> (\<exists>tx \<in> set txs. (r, out) \<in> set (created_outputs H V cc tx))"
  using assms
proof (induction txs arbitrary: U)
  case Nil
  then show ?case by (simp add: replay_def)
next
  case (Cons tx txs)
  from Cons.IH [OF Cons.prems [unfolded replay_Cons]] show ?case
    by (auto simp: ledger_update_def dest: map_of_SomeD split: option.splits if_splits)
qed

context executive
begin

lemma build_transactions_ledger:
  assumes "snd (build_transactions H V C finished txs s) = Ok ()" and "small_outputs txs"
  shows "ledger_of H V (fst (build_transactions H V C finished txs s))
      = replay H V (checker_codec C) txs (ledger_of H V s)"
  using assms
proof (induction txs arbitrary: finished s)
  case Nil
  then show ?case by (simp add: replay_def)
next
  case (Cons tx txs)
  then show ?case
    by (auto simp: Let_def store_genesis_outputs_update replay_Cons
        update_storage_ledger [OF host_laws_axioms verifier_laws_axioms] split: if_splits)
qed

lemma build_transactions_frame:
  assumes "is_runtime_key k"
  shows "fst (build_transactions H V C finished txs s) k = s k"
  by (induction txs arbitrary: finished s)
    (auto simp: Let_def store_genesis_outputs_update
      update_storage_frame [OF host_laws_axioms assms])

lemma apply_extrinsics_ledger:
  assumes "apply_extrinsics H V C txs s = Some s'" and "small_outputs txs"
  shows "ledger_of H V s' = replay H V (checker_codec C) txs (ledger_of H V s)"
  using assms
proof (induction txs arbitrary: s)
  case Nil
  then show ?case by (simp add: replay_def)
next
  case (Cons tx txs)
  let ?s1 = "s(EXTRINSIC_KEY \<mapsto> encode (bytes_list_codec H)
      (noted_extrinsics H s @ [encode (transaction_codec H V (checker_codec C)) tx]))"
  have ok: "snd (apply_tuxedo_transaction H V C tx ?s1) = Ok ()"
    and rest: "apply_extrinsics H V C txs (fst (apply_tuxedo_transaction H V C tx ?s1)) = Some s'"
    using Cons.prems(1)
    by (simp_all add: apply_extrinsics_Cons apply_extrinsic_def Let_def case_prod_unfold map_err_Ok
        split: if_splits)
  have "ledger_of H V (fst (apply_tuxedo_transaction H V C tx ?s1))
      = ledger_update (input_refs tx) (created_outputs H V (checker_codec C) tx) (ledger_of H V s)"
    using apply_ledger [OF ok] Cons.prems(2)
    by (simp add: ledger_of_runtime_key host_laws_axioms)
  then show ?case
    using Cons.IH [OF rest] Cons.prems(2) by (simp add: replay_Cons)
qed

lemma execute_block_ledger:
  assumes "between_blocks H s" and "execute_block H V C b s = Some s'"
    and "small_outputs (extrinsics b)"
  shows "ledger_of H V s' = replay H V (checker_codec C) (extrinsics b) (ledger_of H V s)"
proof -
  obtain h txs where b: "b = \<lparr>header = h, extrinsics = txs\<rparr>" by (cases b)
  have fresh: "s EXTRINSIC_KEY = None" using assms(1) by (simp add: between_blocks_def)
  obtain a where a: "apply_extrinsics H V C txs (open_block H h s) = Some a"
    and s': "s' = a(HEADER_KEY := None, EXTRINSIC_KEY := None)"
    using assms(2) by (auto simp: b execute_block_Some [of s h h, OF fresh])
  show ?thesis
    using apply_extrinsics_ledger [OF a] assms(3)
    by (simp add: b s' open_block_def ledger_of_runtime_key host_laws_axioms)
qed

lemma genesis_between:
  assumes "genesis_base H V s0" and "build H V C txs_codec gtxs s0 = (s, Ok ())"
  shows "between_blocks H (s(EXTRINSIC_KEY := None)) \<and> block_height H s = Some 0"
proof -
  have "s k = (s0(EXTRINSIC_KEY \<mapsto> encode txs_codec gtxs,
      HEIGHT_KEY \<mapsto> encode (u32_codec H) 0)) k" if "is_runtime_key k" for k
    using assms(2) build_transactions_frame [OF that, of False gtxs]
    by (metis build_def fst_conv)
  then show ?thesis
    using assms(1)
    by (simp add: between_blocks_def genesis_base_def block_height_def
        scale_codec.decode_value_encode [OF u32_lawful])
qed

lemma genesis_ledger:
  assumes "genesis_base H V s0" and "build H V C txs_codec gtxs s0 = (s, Ok ())"
    and "small_outputs gtxs"
  shows "ledger_of H V s = replay H V (checker_codec C) gtxs Map.empty"
  using build_transactions_ledger [of False gtxs
      "s0(EXTRINSIC_KEY \<mapsto> encode txs_codec gtxs, HEIGHT_KEY \<mapsto> encode (u32_codec H) 0)"] assms
  by (simp add: build_def genesis_base_def ledger_of_runtime_key host_laws_axioms)

lemma chain_between:
  assumes "chain H V C txs_codec B gtxs bs s"
  shows "between_blocks H s
    \<and> block_height H s = Some (if bs = [] then 0 else number (header (last bs)))"
  using assms
proof (induction rule: chain.induct)
  case (chain_genesis s0 s b s')
  have s': "s' = s(EXTRINSIC_KEY := None)"
    using chain_genesis(3) by (rule build_genesis_block_storage)
  have "between_blocks H (s(EXTRINSIC_KEY := None))
      \<and> block_height H (s(EXTRINSIC_KEY := None)) = Some 0"
    using genesis_between [OF chain_genesis(1,2)] by simp
  then show ?case by (fold s') simp
next
  case (chain_block bs s b s')
  then show ?case using execute_block_between [of s b s'] by simp
qed

lemma chain_ledger:
  assumes "chain H V C txs_codec B gtxs bs s" and "small_outputs (chain_history gtxs bs)"
  shows "ledger_of H V s = replay H V (checker_codec C) (chain_history gtxs bs) Map.empty"
  using assms
proof (induction rule: chain.induct)
  case (chain_genesis s0 s b s')
  have s': "s' = s(EXTRINSIC_KEY := None)"
    using chain_genesis(3) by (rule build_genesis_block_storage)
  have "ledger_of H V s' = ledger_of H V s"
    unfolding s' by (simp add: ledger_of_runtime_key host_laws_axioms)
  with chain_genesis show ?case
    using genesis_ledger [of s0 txs_codec gtxs s] by (simp add: chain_history_def)
next
  case (chain_block bs s b s')
  then show ?case
    using execute_block_ledger [of s b s'] chain_between [OF chain_block.hyps(1)]
    by (simp add: chain_history_def replay_append)
qed

end

text \<open>
  Induction over a chain, transaction by transaction: a relation between the history and the
  ledger that genesis establishes and every accepted transaction preserves holds along the chain.
\<close>

context executive
begin

lemma apply_extrinsics_induct:
  assumes "apply_extrinsics H V C txs s = Some s'" and "block_height H s = Some h"
    and "small_outputs txs" and "P hist (ledger_of H V s)"
    and step: "\<And>hist tx s. ledger_accepts H V C h (ledger_of H V s) s tx
      \<Longrightarrow> length (outputs tx) \<le> 2 ^ 32 \<Longrightarrow> P hist (ledger_of H V s)
      \<Longrightarrow> P (hist @ [tx])
           (ledger_update (input_refs tx) (created_outputs H V (checker_codec C) tx) (ledger_of H V s))"
  shows "P (hist @ txs) (ledger_of H V s')"
  using assms(1-4)
proof (induction txs arbitrary: s hist)
  case Nil
  then show ?case by simp
next
  case (Cons tx txs)
  let ?s1 = "s(EXTRINSIC_KEY \<mapsto> encode (bytes_list_codec H)
      (noted_extrinsics H s @ [encode (transaction_codec H V (checker_codec C)) tx]))"
  let ?s2 = "fst (apply_tuxedo_transaction H V C tx ?s1)"
  have ok: "snd (apply_tuxedo_transaction H V C tx ?s1) = Ok ()"
    and rest: "apply_extrinsics H V C txs ?s2 = Some s'"
    using Cons.prems(1)
    by (simp_all add: apply_extrinsics_Cons apply_extrinsic_def Let_def case_prod_unfold map_err_Ok
        split: if_splits)
  have h1: "block_height H ?s1 = Some h" using Cons.prems(2) by simp
  have h2: "block_height H ?s2 = Some h"
    using h1 by (simp add: block_height_def apply_frame)
  have small: "length (outputs tx) \<le> 2 ^ 32" "small_outputs txs" using Cons.prems(3) by simp_all
  have P1: "P hist (ledger_of H V ?s1)"
    using Cons.prems(4) by (simp add: ledger_of_runtime_key host_laws_axioms)
  have acc: "ledger_accepts H V C h (ledger_of H V ?s1) ?s1 tx"
    using apply_complete [OF h1] ok by blast
  have "P (hist @ [tx]) (ledger_of H V ?s2)"
    unfolding apply_ledger [OF ok small(1)] using acc small(1) P1 by (rule step)
  then have "P ((hist @ [tx]) @ txs) (ledger_of H V s')"
    by (rule Cons.IH [OF rest h2 small(2)])
  then show ?case by simp
qed

lemma chain_tx_induct:
  assumes "chain H V C txs_codec B gtxs bs s"
    and "small_outputs (chain_history gtxs bs)"
    and genesis: "P gtxs (replay H V (checker_codec C) gtxs Map.empty)"
    and step: "\<And>hist tx s h. ledger_accepts H V C h (ledger_of H V s) s tx
      \<Longrightarrow> length (outputs tx) \<le> 2 ^ 32 \<Longrightarrow> P hist (ledger_of H V s)
      \<Longrightarrow> P (hist @ [tx])
           (ledger_update (input_refs tx) (created_outputs H V (checker_codec C) tx) (ledger_of H V s))"
  shows "P (chain_history gtxs bs) (ledger_of H V s)"
  using assms(1,2)
proof (induction rule: chain.induct)
  case (chain_genesis s0 s b s')
  have "chain H V C txs_codec B gtxs [] s'"
    using chain_genesis(1-3) by (rule chain.chain_genesis)
  from chain_ledger [OF this chain_genesis(4)] genesis show ?case
    by (simp add: chain_history_def)
next
  case (chain_block bs s b s')
  obtain h txs where b: "b = \<lparr>header = h, extrinsics = txs\<rparr>" by (cases b)
  have fresh: "s EXTRINSIC_KEY = None"
    using chain_between [OF chain_block.hyps(1)] by (simp add: between_blocks_def)
  obtain a where a: "apply_extrinsics H V C txs (open_block H h s) = Some a"
    and s': "s' = a(HEADER_KEY := None, EXTRINSIC_KEY := None)"
    using chain_block.hyps(2) by (auto simp: b execute_block_Some [of s h h, OF fresh])
  have small: "small_outputs txs" "small_outputs (chain_history gtxs bs)"
    using chain_block.prems by (simp_all add: b chain_history_def)
  have height: "block_height H (open_block H h s) = Some (number h)"
    by (simp add: block_height_def open_block_def scale_codec.decode_value_encode [OF u32_lawful])
  have P0: "P (chain_history gtxs bs) (ledger_of H V (open_block H h s))"
    using chain_block.IH [OF small(2)]
    by (simp add: open_block_def ledger_of_runtime_key host_laws_axioms)
  have "P (chain_history gtxs bs @ txs) (ledger_of H V a)"
    using a height small(1) P0 step by (rule apply_extrinsics_induct)
  moreover have "ledger_of H V s' = ledger_of H V a"
    unfolding s' by (simp add: ledger_of_runtime_key host_laws_axioms)
  ultimately show ?case by (simp add: b chain_history_def)
qed

end

subsection \<open>Invariants of a chain\<close>

text \<open>
  C20. Along every chain, from any genesis and after any number of executed blocks, neither
  transient key is left in the state, and the stored height reads back as the number of the
  last block (0 at genesis).
\<close>

theorem chain_invariant:
  assumes "executive H V C" and "chain H V C txs_codec B gtxs bs s"
  shows "s HEADER_KEY = None \<and> s EXTRINSIC_KEY = None
    \<and> block_height H s = Some (if bs = [] then 0 else number (header (last bs)))"
  using executive.chain_between [OF assms] by (auto simp: between_blocks_def)

text \<open>
  C3. The UTXO set is the replay of the chain's history: starting from nothing, each transaction of
  genesis and of the blocks in order removes the references of its inputs and adds its
  outputs. In particular every unspent output was created by a transaction of the history, under
  that transaction's hash.
\<close>

theorem chain_replays_history:
  assumes "executive H V C" and "chain H V C txs_codec B gtxs bs s"
    and "small_outputs (chain_history gtxs bs)"
  shows "ledger_of H V s = replay H V (checker_codec C) (chain_history gtxs bs) Map.empty
    \<and> (\<forall>r out. ledger_of H V s r = Some out \<longrightarrow>
         (\<exists>tx \<in> set (chain_history gtxs bs). tx_hash r = transaction_hash H V (checker_codec C) tx
            \<and> out \<in> set (outputs tx)))"
proof -
  have eq: "ledger_of H V s = replay H V (checker_codec C) (chain_history gtxs bs) Map.empty"
    using assms by (rule executive.chain_ledger)
  have "tx_hash r = transaction_hash H V (checker_codec C) tx \<and> out \<in> set (outputs tx)"
    if "(r, out) \<in> set (created_outputs H V (checker_codec C) tx)" for r out tx
    using that by (auto simp: created_outputs_def output_refs_of_def in_set_zip)
  then show ?thesis
    using eq replay_provenance [of H V "checker_codec C" "chain_history gtxs bs" Map.empty]
    by fastforce
qed

end
