(* ===== verification/Parachain_Piece.thy ===== *)
theory Parachain_Piece
  imports Parachain_Core Genesis
begin

text \<open>
  \<^verbatim>\<open>wardrobe/parachain\<close>: the inherent that brings the relay chain's validation data into a block. Its check has a
  side effect: it stores the relay parent number as soon as the new output is well typed, before
  the remaining guards. The storage the piece writes to is its configuration's \<open>set_storage\<close>; the
  identifier and codec of Cumulus' inherent data and the default relay chain proof are the record
  \<open>parachain_host\<close>.

  The theorems: the exact condition of the check with its effect on the storage, and that an applied
  transaction of the piece replaces one parachain info by a newer one.
\<close>

record ParachainPieceConfig =
  PARA_ID :: u32
  set_storage :: "u32 \<Rightarrow> storage \<Rightarrow> storage"

definition default_parachain_config :: "(u32 \<Rightarrow> storage \<Rightarrow> storage) \<Rightarrow> ParachainPieceConfig" where
  "default_parachain_config st = \<lparr>PARA_ID = 2000, set_storage = st\<rparr>"

datatype ParachainError =
    ParachainBadlyTyped
  | MissingNewInfo
  | ExtraOutputs
  | MissingPreviousInfo
  | ExtraInputs
  | RelayBlockNotIncreasing

datatype SetParachainInfo = SetParachainInfo

definition info_number :: "ParachainInherentDataUtxo \<Rightarrow> u32" where
  "info_number d = relay_parent_number (validation_data (from_parachain_utxo d))"

text \<open>What follows the side effect.\<close>

definition check_previous_info ::
  "ParachainInherentDataUtxo codec \<Rightarrow> u32 \<Rightarrow> DynamicallyTypedData list \<Rightarrow> DynamicallyTypedData list
     \<Rightarrow> (TransactionPriority, ParachainError) result" where
  "check_previous_info pc current_number input_data evicted_input_data =
     ensure (input_data = []) ExtraInputs
     (ensure (evicted_input_data \<noteq> []) MissingPreviousInfo
     (ensure (length evicted_input_data = 1) ExtraInputs
     (bind_result (extract_or (parachain_data pc) ParachainBadlyTyped (evicted_input_data ! 0)) (\<lambda>previous.
     ensure (current_number > info_number previous) RelayBlockNotIncreasing
     (Ok 0)))))"

definition parachain_check ::
  "ParachainPieceConfig \<Rightarrow> ParachainInherentDataUtxo codec \<Rightarrow> (SetParachainInfo, ParachainError) check_fn" where
  "parachain_check T pc c input_data evicted_input_data peek_data output_data s =
     (case ensure (output_data \<noteq> []) MissingNewInfo
            (ensure (length output_data = 1) ExtraOutputs
            (extract_or (parachain_data pc) ParachainBadlyTyped (output_data ! 0))) of
        Ok current \<Rightarrow>
          (set_storage T (info_number current) s,
           check_previous_info pc (info_number current) input_data evicted_input_data)
      | Err e \<Rightarrow> (s, Err e)
      | Panic \<Rightarrow> (s, Panic))"

definition parachain_checker ::
  "ParachainPieceConfig \<Rightarrow> ParachainInherentDataUtxo codec \<Rightarrow> SetParachainInfo codec
     \<Rightarrow> (SetParachainInfo, ParachainError) SimpleConstraintChecker" where
  "parachain_checker T pc kc = \<lparr>simple_check = parachain_check T pc, simple_codec = kc\<rparr>"

subsection \<open>The inherent hooks\<close>

record parachain_host =
  parachain_identifier :: InherentIdentifier
  inherent_info_codec :: "ParachainInherentData codec"
  default_root_and_proof :: "H256 \<times> bytes list"

definition parachain_create_inherent ::
  "parachain_host \<Rightarrow> ParachainInherentDataUtxo codec \<Rightarrow> ('v, 'r) Verifier \<Rightarrow> InherentData
     \<Rightarrow> ('v, SetParachainInfo) Transaction \<times> H256 \<Rightarrow> ('v, SetParachainInfo) Transaction option" where
  "parachain_create_inherent P pc V inh previous =
     Option.bind (expect_data (inherent_info_codec P) (parachain_identifier P) inh) (\<lambda>current_info.
     (let output_ref = \<lparr>tx_hash = snd previous, index = 0\<rparr>;
          input = \<lparr>output_ref = output_ref, redeemer = Eviction\<rparr>
      in Option.bind (new_unspendable V) (\<lambda>unspendable.
         Some \<lparr>inputs = [input], peeks = [],
               outputs = [\<lparr>payload = into_data (parachain_data pc) (into_parachain_utxo current_info),
                           verifier = unspendable\<rparr>],
               checker = SetParachainInfo\<rparr>)))"

definition parachain_check_inherent ::
  "InherentData \<Rightarrow> ('v, SetParachainInfo) Transaction \<Rightarrow> CheckInherentsResult \<Rightarrow> CheckInherentsResult option" where
  "parachain_check_inherent inh tx results = Some results"

definition new_data_from_relay_parent_number :: "parachain_host \<Rightarrow> u32 \<Rightarrow> ParachainInherentDataUtxo" where
  "new_data_from_relay_parent_number P relay_number =
     (let (root, pf) = default_root_and_proof P in
      into_parachain_utxo
        \<lparr>validation_data = \<lparr>parent_head = [], relay_parent_number = relay_number,
           relay_parent_storage_root = root, max_pov_size = 0\<rparr>,
         relay_chain_state = pf, downward_messages = [], horizontal_messages = []\<rparr>)"

definition parachain_genesis_transactions ::
  "parachain_host \<Rightarrow> ParachainInherentDataUtxo codec \<Rightarrow> ('v, 'r) Verifier
     \<Rightarrow> ('v, SetParachainInfo) Transaction list option" where
  "parachain_genesis_transactions P pc V =
     Option.bind (new_unspendable V) (\<lambda>unspendable.
     Some [\<lparr>inputs = [], peeks = [],
            outputs = [\<lparr>payload = into_data (parachain_data pc) (new_data_from_relay_parent_number P 0),
                        verifier = unspendable\<rparr>],
            checker = SetParachainInfo\<rparr>])"

definition parachain_hooks ::
  "parachain_host \<Rightarrow> ParachainInherentDataUtxo codec \<Rightarrow> ('v, 'r) Verifier \<Rightarrow> ('v, SetParachainInfo) InherentHooks" where
  "parachain_hooks P pc V =
     \<lparr>INHERENT_IDENTIFIER = parachain_identifier P,
      create_inherent = (\<lambda>inh previous s. parachain_create_inherent P pc V inh previous),
      check_inherent = parachain_check_inherent,
      hook_genesis_transactions = parachain_genesis_transactions P pc V\<rparr>"

subsection \<open>The contract\<close>

text \<open>The configuration of \<^verbatim>\<open>parachainify!\<close>: the relay parent number goes to the real storage.\<close>

definition runtime_parachain_config :: "host \<Rightarrow> ParachainPieceConfig" where
  "runtime_parachain_config H = \<lparr>PARA_ID = 2000, set_storage = set_relay_parent_number H\<rparr>"

interpretation parachain: framed_simple "parachain_checker (runtime_parachain_config H) pc kc" for H pc kc
  by unfold_locales
    (auto simp: parachain_checker_def parachain_check_def runtime_parachain_config_def
      set_relay_parent_number_def is_transient_key_def fun_upd_twist split: result.splits)

subsection \<open>Facts\<close>

lemma check_previous_info_Ok:
  "check_previous_info pc n ins evs = Ok p \<longleftrightarrow>
     p = 0 \<and> ins = [] \<and> (\<exists>d previous. evs = [d] \<and> view (parachain_data pc) d = Some previous
       \<and> info_number previous < n)"
  by (auto simp: check_previous_info_def result_ok length_Suc_conv)

lemma parachain_check_Ok:
  "snd (parachain_check T pc c ins evs pks outs s) = Ok p \<longleftrightarrow>
     p = 0 \<and> ins = [] \<and> (\<exists>d d' current previous. outs = [d] \<and> evs = [d']
       \<and> view (parachain_data pc) d = Some current \<and> view (parachain_data pc) d' = Some previous
       \<and> info_number previous < info_number current)"
  by (auto simp: parachain_check_def check_previous_info_Ok result_ok length_Suc_conv ensure_def extract_or_view
      split: result.splits option.splits)

lemma parachain_check_storage:
  "fst (parachain_check T pc c ins evs pks outs s)
     = (case outs of
          [d] \<Rightarrow> (case view (parachain_data pc) d of
                    Some current \<Rightarrow> set_storage T (info_number current) s
                  | None \<Rightarrow> s)
        | _ \<Rightarrow> s)"
  by (auto simp: parachain_check_def ensure_def extract_or_view split: list.splits option.splits)

text \<open>
  The parachain inherent is accepted exactly when it consumes nothing but evicts one previous parachain info and
  creates one with a strictly greater relay parent number. The relay parent number is written to
  the storage whenever the created info is well typed, also when the check then fails.
\<close>

theorem parachain_check_exact:
  "(snd (parachain_check T pc c ins evs pks outs s) = Ok p \<longleftrightarrow>
      p = 0 \<and> ins = [] \<and> (\<exists>d d' current previous. outs = [d] \<and> evs = [d']
        \<and> view (parachain_data pc) d = Some current \<and> view (parachain_data pc) d' = Some previous
        \<and> info_number previous < info_number current))
   \<and> fst (parachain_check T pc c ins evs pks outs s)
      = (case outs of
           [d] \<Rightarrow> (case view (parachain_data pc) d of
                     Some current \<Rightarrow> set_storage T (info_number current) s
                   | None \<Rightarrow> s)
         | _ \<Rightarrow> s)"
  by (intro conjI parachain_check_Ok parachain_check_storage)

end
