(* ===== verification/Verifiers.thy ===== *)
theory Verifiers
  imports Ledger
begin

text \<open>
  \<^verbatim>\<open>tuxedo-core/src/verifier.rs\<close> and the modules under \<^verbatim>\<open>verifier/\<close>: the verifiers that come with
  the framework. Each is its struct, its \<open>verify\<close> and its \<open>new_unspendable\<close>; a dictionary
  puts them together with the codecs of the trait's bounds, which are parameters. Hashes and
  signatures are the host's. A \<open>verify\<close> is an option only where the source can panic.

  The locale \<open>unspendable_contract\<close> is what the inherents rely on: no redeemer satisfies the
  verifier that \<open>new_unspendable\<close> returns, so such an output leaves the ledger by eviction only.
\<close>

type_synonym ('v, 'r) verifier_codecs = "'r codec \<times> 'v Output codec \<times> 'v Output list codec"

definition verifier_dictionary ::
  "('v \<Rightarrow> bytes \<Rightarrow> u32 \<Rightarrow> 'r \<Rightarrow> bool option) \<Rightarrow> 'v option \<Rightarrow> ('v, 'r) verifier_codecs
     \<Rightarrow> ('v, 'r) Verifier" where
  "verifier_dictionary f u K =
     \<lparr>verify = f, new_unspendable = u, redeemer_codec = fst K, output_codec = fst (snd K),
      outputs_codec = snd (snd K)\<rparr>"

text \<open>The default method of the trait.\<close>

definition default_new_unspendable :: "'v option" where
  "default_new_unspendable = None"

subsection \<open>Trivial verifiers\<close>

datatype UpForGrabs = UpForGrabs
datatype Unspendable = Unspendable

record TestVerifier =
  verifies :: bool

definition verify_up_for_grabs :: "UpForGrabs \<Rightarrow> bytes \<Rightarrow> u32 \<Rightarrow> unit \<Rightarrow> bool" where
  "verify_up_for_grabs v simplified_tx height red = True"

definition verify_unspendable :: "Unspendable \<Rightarrow> bytes \<Rightarrow> u32 \<Rightarrow> unit \<Rightarrow> bool" where
  "verify_unspendable v simplified_tx height red = False"

definition verify_test :: "TestVerifier \<Rightarrow> bytes \<Rightarrow> u32 \<Rightarrow> unit \<Rightarrow> bool" where
  "verify_test v simplified_tx height red = verifies v"

subsection \<open>Signatures\<close>

record Sr25519Signature =
  owner_pubkey :: H256

record P2PKH =
  owner_pubkey_hash :: H256

definition sr25519_signature_new :: "H256 \<Rightarrow> Sr25519Signature" where
  "sr25519_signature_new k = \<lparr>owner_pubkey = k\<rparr>"

definition verify_sr25519 :: "host \<Rightarrow> Sr25519Signature \<Rightarrow> bytes \<Rightarrow> u32 \<Rightarrow> Signature \<Rightarrow> bool" where
  "verify_sr25519 H v simplified_tx height sig = sr25519_verify H sig simplified_tx (owner_pubkey v)"

definition new_unspendable_sr25519 :: "Sr25519Signature option" where
  "new_unspendable_sr25519 = Some (sr25519_signature_new 0)"

definition verify_p2pkh :: "host \<Rightarrow> P2PKH \<Rightarrow> bytes \<Rightarrow> u32 \<Rightarrow> Public \<times> Signature \<Rightarrow> bool" where
  "verify_p2pkh H v simplified_tx height red =
     (blake2_256 H (encode (h256_codec H) (fst red)) = owner_pubkey_hash v
      \<and> sr25519_verify H (snd red) simplified_tx (fst red))"

definition new_unspendable_p2pkh :: "P2PKH option" where
  "new_unspendable_p2pkh = Some \<lparr>owner_pubkey_hash = 0\<rparr>"

subsection \<open>Threshold multisignatures\<close>

record ThresholdMultiSignature =
  threshold :: u8
  signatories :: "H256 list"

record SignatureAndIndex =
  sig_signature :: Signature
  sig_index :: u8

definition has_duplicate_signatories :: "ThresholdMultiSignature \<Rightarrow> bool" where
  "has_duplicate_signatories v = (card (set (signatories v)) < length (signatories v))"

text \<open>
  \<^verbatim>\<open>self.signatories[sig.index as usize]\<close> panics out of range. The closure of the last map ends
  in a semicolon: the result of the signature check is dropped and every element is \<^verbatim>\<open>()\<close>.
\<close>

definition check_member_signature ::
  "host \<Rightarrow> ThresholdMultiSignature \<Rightarrow> bytes \<Rightarrow> SignatureAndIndex \<Rightarrow> unit option" where
  "check_member_signature H v simplified_tx sig =
     (if unat (sig_index sig) < length (signatories v)
      then (let _ = sr25519_verify H (sig_signature sig) simplified_tx
                      (signatories v ! unat (sig_index sig))
            in Some ())
      else None)"

definition verify_multi ::
  "host \<Rightarrow> ThresholdMultiSignature \<Rightarrow> bytes \<Rightarrow> u32 \<Rightarrow> SignatureAndIndex list \<Rightarrow> bool option" where
  "verify_multi H v simplified_tx height sigs =
     (if has_duplicate_signatories v then Some False
      else if length sigs < unat (threshold v) then Some False
      else if list_ex (\<lambda>sig. unat (sig_index sig) \<ge> length sigs) sigs then Some False
      else if card (set (map sig_index sigs)) < length sigs then Some False
      else map_option (\<lambda>valid_sigs. unat (threshold v) \<le> length valid_sigs)
             (those (map (check_member_signature H v simplified_tx) sigs)))"

definition new_unspendable_multi :: "ThresholdMultiSignature option" where
  "new_unspendable_multi = Some \<lparr>threshold = 1, signatories = []\<rparr>"

subsection \<open>Time locks and hash locks\<close>

record TimeLock =
  unlock_block_height :: u32

record BlakeTwoHashLock =
  hash_lock :: H256

record HashTimeLockContract =
  htlc_hash_lock :: H256
  recipient_pubkey :: Public
  claim_period_end :: u32
  refunder_pubkey :: Public

datatype HtlcSpendPath = Claim bytes Signature | Refund Signature

definition verify_time_lock :: "TimeLock \<Rightarrow> bytes \<Rightarrow> u32 \<Rightarrow> unit \<Rightarrow> bool" where
  "verify_time_lock v simplified_tx height red = (unlock_block_height v \<le> height)"

definition hash_lock_from_secret :: "host \<Rightarrow> bytes \<Rightarrow> BlakeTwoHashLock" where
  "hash_lock_from_secret H secret = \<lparr>hash_lock = blake2_256 H secret\<rparr>"

definition verify_hash_lock :: "host \<Rightarrow> BlakeTwoHashLock \<Rightarrow> bytes \<Rightarrow> u32 \<Rightarrow> bytes \<Rightarrow> bool" where
  "verify_hash_lock H v simplified_tx height secret = (blake2_256 H secret = hash_lock v)"

definition new_unspendable_hash_lock :: "BlakeTwoHashLock option" where
  "new_unspendable_hash_lock = Some \<lparr>hash_lock = 0\<rparr>"

fun verify_htlc ::
  "host \<Rightarrow> HashTimeLockContract \<Rightarrow> bytes \<Rightarrow> u32 \<Rightarrow> HtlcSpendPath \<Rightarrow> bool" where
  "verify_htlc H v simplified_tx height (Claim secret sig) =
     (blake2_256 H secret = htlc_hash_lock v
      \<and> sr25519_verify H sig simplified_tx (recipient_pubkey v))"
| "verify_htlc H v simplified_tx height (Refund sig) =
     (claim_period_end v \<le> height
      \<and> sr25519_verify H sig simplified_tx (refunder_pubkey v))"

subsection \<open>The dictionaries\<close>

definition lift_verify :: "('v \<Rightarrow> bytes \<Rightarrow> u32 \<Rightarrow> 'r \<Rightarrow> bool) \<Rightarrow> 'v \<Rightarrow> bytes \<Rightarrow> u32 \<Rightarrow> 'r \<Rightarrow> bool option" where
  "lift_verify f v tx h red = Some (f v tx h red)"

definition up_for_grabs_verifier :: "(UpForGrabs, unit) verifier_codecs \<Rightarrow> (UpForGrabs, unit) Verifier" where
  "up_for_grabs_verifier = verifier_dictionary (lift_verify verify_up_for_grabs) default_new_unspendable"

definition unspendable_verifier :: "(Unspendable, unit) verifier_codecs \<Rightarrow> (Unspendable, unit) Verifier" where
  "unspendable_verifier = verifier_dictionary (lift_verify verify_unspendable) (Some Unspendable)"

definition test_verifier :: "(TestVerifier, unit) verifier_codecs \<Rightarrow> (TestVerifier, unit) Verifier" where
  "test_verifier = verifier_dictionary (lift_verify verify_test) (Some \<lparr>verifies = False\<rparr>)"

definition sr25519_verifier ::
  "host \<Rightarrow> (Sr25519Signature, Signature) verifier_codecs \<Rightarrow> (Sr25519Signature, Signature) Verifier" where
  "sr25519_verifier H = verifier_dictionary (lift_verify (verify_sr25519 H)) new_unspendable_sr25519"

definition p2pkh_verifier ::
  "host \<Rightarrow> (P2PKH, Public \<times> Signature) verifier_codecs \<Rightarrow> (P2PKH, Public \<times> Signature) Verifier" where
  "p2pkh_verifier H = verifier_dictionary (lift_verify (verify_p2pkh H)) new_unspendable_p2pkh"

definition multi_verifier ::
  "host \<Rightarrow> (ThresholdMultiSignature, SignatureAndIndex list) verifier_codecs
     \<Rightarrow> (ThresholdMultiSignature, SignatureAndIndex list) Verifier" where
  "multi_verifier H = verifier_dictionary (verify_multi H) new_unspendable_multi"

definition time_lock_verifier :: "(TimeLock, unit) verifier_codecs \<Rightarrow> (TimeLock, unit) Verifier" where
  "time_lock_verifier = verifier_dictionary (lift_verify verify_time_lock) default_new_unspendable"

definition hash_lock_verifier ::
  "host \<Rightarrow> (BlakeTwoHashLock, bytes) verifier_codecs \<Rightarrow> (BlakeTwoHashLock, bytes) Verifier" where
  "hash_lock_verifier H = verifier_dictionary (lift_verify (verify_hash_lock H)) new_unspendable_hash_lock"

definition htlc_verifier ::
  "host \<Rightarrow> (HashTimeLockContract, HtlcSpendPath) verifier_codecs
     \<Rightarrow> (HashTimeLockContract, HtlcSpendPath) Verifier" where
  "htlc_verifier H = verifier_dictionary (lift_verify (verify_htlc H)) default_new_unspendable"

lemmas verifier_dictionaries =
  verifier_dictionary_def default_new_unspendable_def lift_verify_def
  up_for_grabs_verifier_def unspendable_verifier_def test_verifier_def sr25519_verifier_def
  p2pkh_verifier_def multi_verifier_def time_lock_verifier_def hash_lock_verifier_def
  htlc_verifier_def

lemma verifier_dictionary_laws:
  assumes "scale_codec (fst K)" and "scale_codec (fst (snd K))" and "scale_codec (snd (snd K))"
  shows "verifier_laws (verifier_dictionary f u K)"
  by unfold_locales (use assms in \<open>simp_all add: verifier_dictionary_def scale_codec_def\<close>)

subsection \<open>The contract of an unspendable output\<close>

locale unspendable_contract =
  fixes V :: "('v, 'r) Verifier"
  assumes unspendable: "new_unspendable V = Some u \<Longrightarrow> verify V u tx h red \<noteq> Some True"
begin

lemma unspendable_needs_eviction:
  assumes "U (output_ref i) = Some out" and "new_unspendable V = Some (verifier out)"
    and "authorised V se h U i"
  shows "redeemer i = Eviction"
  using assms
  by (cases "redeemer i") (auto simp: authorised_def unspendable split: option.splits)

end

interpretation upg: unspendable_contract "up_for_grabs_verifier K" for K
  by unfold_locales (simp add: verifier_dictionaries)

interpretation unsp: unspendable_contract "unspendable_verifier K" for K
  by unfold_locales (simp add: verifier_dictionaries verify_unspendable_def)

interpretation testv: unspendable_contract "test_verifier K" for K
  by unfold_locales (auto simp: verifier_dictionaries verify_test_def)

interpretation timel: unspendable_contract "time_lock_verifier K" for K
  by unfold_locales (simp add: verifier_dictionaries)

interpretation htlc: unspendable_contract "htlc_verifier H K" for H K
  by unfold_locales (simp add: verifier_dictionaries)

subsection \<open>What the multisignature accepts\<close>

lemma no_duplicate_iff: "card (set xs) < length xs \<longleftrightarrow> \<not> distinct xs"
  using card_length [of xs] card_set_length_distinct [of xs] by auto

lemma check_members:
  "those (map (check_member_signature H v tx) sigs)
    = (if \<forall>sig \<in> set sigs. unat (sig_index sig) < length (signatories v)
       then Some (replicate (length sigs) ()) else None)"
  by (induction sigs) (auto simp: check_member_signature_def Let_def)

lemma distinct_below_length:
  assumes "distinct (map f xs)" and "\<forall>x \<in> set xs. f x < length xs"
  shows "f ` set xs = {..<length xs}"
proof (rule card_seteq)
  show "card {..<length xs} \<le> card (f ` set xs)"
    using distinct_card [OF assms(1)] by simp
qed (use assms(2) in auto)

lemma members_in_range:
  assumes "distinct (map sig_index sigs)" and "\<forall>sig \<in> set sigs. unat (sig_index sig) < length sigs"
  shows "(\<forall>sig \<in> set sigs. unat (sig_index sig) < n) \<longleftrightarrow> length sigs \<le> n"
proof
  assume below: "\<forall>sig \<in> set sigs. unat (sig_index sig) < n"
  have "inj_on unat (set (map sig_index sigs))"
    by (auto intro!: inj_onI simp: word_unat_eq_iff)
  then have "distinct (map (\<lambda>sig. unat (sig_index sig)) sigs)"
    using assms(1) distinct_map [of unat "map sig_index sigs"] by (simp add: comp_def)
  from distinct_below_length [OF this assms(2)]
  have "(\<lambda>sig. unat (sig_index sig)) ` set sigs = {..<length sigs}" .
  moreover have "(\<lambda>sig. unat (sig_index sig)) ` set sigs \<subseteq> {..<n}" using below by auto
  ultimately have "{..<length sigs} \<subseteq> {..<n}" by simp
  then show "length sigs \<le> n" by simp
qed (use assms(2) in fastforce)

lemma verify_multi_alt:
  "verify_multi H v tx h sigs =
     (if distinct (signatories v) \<and> unat (threshold v) \<le> length sigs
         \<and> (\<forall>sig \<in> set sigs. unat (sig_index sig) < length sigs) \<and> distinct (map sig_index sigs)
      then (if length sigs \<le> length (signatories v) then Some True else None)
      else Some False)"
proof -
  have dup: "card (set (map sig_index sigs)) < length sigs \<longleftrightarrow> \<not> distinct (map sig_index sigs)"
    using no_duplicate_iff [of "map sig_index sigs"] by simp
  show ?thesis
    unfolding verify_multi_def dup check_members has_duplicate_signatories_def no_duplicate_iff
    using members_in_range [of sigs "length (signatories v)"]
    by (simp add: list_ex_iff not_le not_less)
qed

lemma verify_multi_True:
  "verify_multi H v tx h sigs = Some True \<longleftrightarrow>
     distinct (signatories v) \<and> distinct (map sig_index sigs)
     \<and> unat (threshold v) \<le> length sigs \<and> length sigs \<le> length (signatories v)
     \<and> (\<forall>sig \<in> set sigs. unat (sig_index sig) < length sigs)"
  by (auto simp: verify_multi_alt)

interpretation multi: unspendable_contract "multi_verifier H K" for H K
  by unfold_locales
    (auto simp: verifier_dictionaries new_unspendable_multi_def verify_multi_True)

text \<open>
  C12. The threshold multisignature accepts a redeemer exactly when the signatories are pairwise
  different, there are at least \<open>threshold\<close> and at most as many entries as signatories, and
  the entries' indices are pairwise different and below the number of entries supplied. No
  signature takes part in the decision, whatever the host's signature check answers.
\<close>

theorem multisig_accepts_iff:
  "verify_multi H v tx h sigs = Some True \<longleftrightarrow>
     distinct (signatories v) \<and> distinct (map sig_index sigs)
     \<and> unat (threshold v) \<le> length sigs \<and> length sigs \<le> length (signatories v)
     \<and> list_all (\<lambda>sig. unat (sig_index sig) < length sigs) sigs"
  by (simp add: verify_multi_True list_all_iff)

text \<open>
  C22. The multisignature panics on inputs anybody can supply: with more (pairwise different, in
  range) indices than signatories, the index into the signatories is out of bounds. The
  verifier that \<open>new_unspendable_multi\<close> returns, with no signatories, panics on one entry.
\<close>

theorem multisig_panics:
  "verify_multi H \<lparr>threshold = t, signatories = ks\<rparr> tx h sigs = None \<longleftrightarrow>
     distinct ks \<and> unat t \<le> length sigs \<and> length ks < length sigs
     \<and> distinct (map sig_index sigs) \<and> list_all (\<lambda>sig. unat (sig_index sig) < length sigs) sigs"
  by (auto simp: verify_multi_alt list_all_iff)

end
