(* ===== verification/Aggregation.thy ===== *)
theory Aggregation
  imports Constraint_Checkers Verifiers
begin

text \<open>
  \<^verbatim>\<open>tuxedo-core/aggregator\<close>: the code the macros \<^verbatim>\<open>#[aggregate]\<close>, \<^verbatim>\<open>#[tuxedo_verifier]\<close> and
  \<^verbatim>\<open>#[tuxedo_constraint_checker]\<close> generate for an enum with one field per variant.

  A variant is described by its constructor \<open>wrap\<close> and the partial inverse \<open>unwrap\<close> (the
  generated \<^verbatim>\<open>From\<close> implementations; unwrapping another variant panics, \<open>None\<close>).
  \<open>checker_variant\<close> and \<open>verifier_variant\<close> lift an inner implementation to the outer types,
  as one arm of each generated \<^verbatim>\<open>match\<close> or one repetition of each generated block does;
  \<open>aggregate_checker\<close> and \<open>aggregate_verifier\<close> put the list of variants together.

  The locale \<open>variant\<close> is the contract of a wrapping; \<open>aggregation\<close> that of a list of variants, and
  shows that an aggregate of framed checkers is framed and follows each of its pieces.
\<close>

subsection \<open>Aggregated constraint checkers\<close>

record ('v, 'c, 'e) checker_impl =
  impl_matches :: "'c \<Rightarrow> bool"
  impl_check :: "('c, 'e) check_fn"
  impl_is_inherent :: "'c \<Rightarrow> bool"
  impl_create_inherents :: "InherentData \<Rightarrow> (('v, 'c) Transaction \<times> H256) list \<Rightarrow> storage
    \<Rightarrow> ('v, 'c) Transaction list option"
  impl_check_inherents :: "InherentData \<Rightarrow> ('v, 'c) Transaction list \<Rightarrow> CheckInherentsResult
    \<Rightarrow> CheckInherentsResult option"
  impl_genesis_transactions :: "('v, 'c) Transaction list option"

text \<open>\<^verbatim>\<open>filter_map\<close> of the generated code: this variant's transactions, transformed to the inner type.\<close>

fun select_variant :: "('c \<Rightarrow> 'k option) \<Rightarrow> ('v, 'c) Transaction list \<Rightarrow> ('v, 'k) Transaction list" where
  "select_variant unwrap [] = []"
| "select_variant unwrap (tx # txs) =
     (case unwrap (checker tx) of
        Some k \<Rightarrow> transform (\<lambda>_. k) tx # select_variant unwrap txs
      | None \<Rightarrow> select_variant unwrap txs)"

fun select_annotated ::
  "('c \<Rightarrow> 'k option) \<Rightarrow> (('v, 'c) Transaction \<times> H256) list \<Rightarrow> (('v, 'k) Transaction \<times> H256) list" where
  "select_annotated unwrap [] = []"
| "select_annotated unwrap ((tx, h) # txs) =
     (case unwrap (checker tx) of
        Some k \<Rightarrow> (transform (\<lambda>_. k) tx, h) # select_annotated unwrap txs
      | None \<Rightarrow> select_annotated unwrap txs)"

definition checker_variant ::
  "('k \<Rightarrow> 'c) \<Rightarrow> ('c \<Rightarrow> 'k option) \<Rightarrow> ('d \<Rightarrow> 'e) \<Rightarrow> ('v, 'k, 'd) ConstraintChecker
     \<Rightarrow> ('v, 'c, 'e) checker_impl" where
  "checker_variant wrap unwrap wrap_error C =
     \<lparr>impl_matches = (\<lambda>c. unwrap c \<noteq> None),
      impl_check = (\<lambda>c ins evs pks outs s. case unwrap c of
          Some k \<Rightarrow> (let (s', r) = check C k ins evs pks outs s in (s', map_err wrap_error r))
        | None \<Rightarrow> (s, Panic)),
      impl_is_inherent = (\<lambda>c. case unwrap c of Some k \<Rightarrow> is_inherent C k | None \<Rightarrow> False),
      impl_create_inherents = (\<lambda>inh previous_inherents s.
          map_option (map (transform wrap))
            (create_inherents C inh (select_annotated unwrap previous_inherents) s)),
      impl_check_inherents = (\<lambda>inh inherents results.
          check_inherents C inh (select_variant unwrap inherents) results),
      impl_genesis_transactions = map_option (map (transform wrap)) (genesis_transactions C)\<rparr>"

text \<open>The arm of the \<^verbatim>\<open>match\<close>; every value of the enum has one.\<close>

definition dispatch :: "('v, 'c, 'e) checker_impl list \<Rightarrow> 'c \<Rightarrow> ('v, 'c, 'e) checker_impl option" where
  "dispatch vs c = find (\<lambda>v. impl_matches v c) vs"

fun extend_all :: "('a \<Rightarrow> 'b list option) \<Rightarrow> 'a list \<Rightarrow> 'b list option" where
  "extend_all f [] = Some []"
| "extend_all f (x # xs) = Option.bind (f x) (\<lambda>ys. map_option (\<lambda>zs. ys @ zs) (extend_all f xs))"

fun check_each ::
  "('v, 'c, 'e) checker_impl list \<Rightarrow> InherentData \<Rightarrow> ('v, 'c) Transaction list
     \<Rightarrow> CheckInherentsResult \<Rightarrow> CheckInherentsResult option" where
  "check_each [] inh inherents results = Some results"
| "check_each (v # vs) inh inherents results =
     Option.bind (impl_check_inherents v inh inherents results) (\<lambda>results'.
       if fatal_error results' then Some results'
       else check_each vs inh inherents results')"

definition aggregate_checker ::
  "('v, 'c, 'e) checker_impl list \<Rightarrow> 'c codec \<Rightarrow> ('v, 'c, 'e) ConstraintChecker" where
  "aggregate_checker vs cc =
     \<lparr>check = (\<lambda>c ins evs pks outs s. case dispatch vs c of
          Some v \<Rightarrow> impl_check v c ins evs pks outs s
        | None \<Rightarrow> (s, Panic)),
      is_inherent = (\<lambda>c. case dispatch vs c of Some v \<Rightarrow> impl_is_inherent v c | None \<Rightarrow> False),
      create_inherents = (\<lambda>inh previous_inherents s.
          extend_all (\<lambda>v. impl_create_inherents v inh previous_inherents s) vs),
      check_inherents = check_each vs,
      genesis_transactions = extend_all impl_genesis_transactions vs,
      checker_codec = cc\<rparr>"

subsection \<open>Aggregated verifiers\<close>

record ('v, 'r) verifier_impl =
  vimpl_matches :: "'v \<Rightarrow> bool"
  vimpl_verify :: "'v \<Rightarrow> bytes \<Rightarrow> u32 \<Rightarrow> 'r \<Rightarrow> bool option"
  vimpl_new_unspendable :: "'v option"

text \<open>\<open>as_variant\<close> is the generated \<^verbatim>\<open>.as_variant()\<close>; its \<^verbatim>\<open>expect\<close> panics on another variant's redeemer.\<close>

definition verifier_variant ::
  "('k \<Rightarrow> 'v) \<Rightarrow> ('v \<Rightarrow> 'k option) \<Rightarrow> ('r \<Rightarrow> 'q option) \<Rightarrow> ('k \<Rightarrow> bytes \<Rightarrow> u32 \<Rightarrow> 'q \<Rightarrow> bool option)
     \<Rightarrow> 'k option \<Rightarrow> ('v, 'r) verifier_impl" where
  "verifier_variant wrap unwrap as_variant verify_inner unspendable_inner =
     \<lparr>vimpl_matches = (\<lambda>v. unwrap v \<noteq> None),
      vimpl_verify = (\<lambda>v simplified_tx block_number red. case unwrap v of
          Some inner \<Rightarrow> Option.bind (as_variant red) (verify_inner inner simplified_tx block_number)
        | None \<Rightarrow> None),
      vimpl_new_unspendable = map_option wrap unspendable_inner\<rparr>"

definition aggregate_verify ::
  "('v, 'r) verifier_impl list \<Rightarrow> 'v \<Rightarrow> bytes \<Rightarrow> u32 \<Rightarrow> 'r \<Rightarrow> bool option" where
  "aggregate_verify vs v simplified_tx block_number red =
     (case find (\<lambda>i. vimpl_matches i v) vs of
        Some i \<Rightarrow> vimpl_verify i v simplified_tx block_number red
      | None \<Rightarrow> None)"

text \<open>The first variant supplies the unspendable instance.\<close>

definition aggregate_new_unspendable :: "('v, 'r) verifier_impl list \<Rightarrow> 'v option" where
  "aggregate_new_unspendable vs = (case vs of [] \<Rightarrow> None | i # _ \<Rightarrow> vimpl_new_unspendable i)"

definition aggregate_verifier ::
  "('v, 'r) verifier_impl list \<Rightarrow> ('v, 'r) verifier_codecs \<Rightarrow> ('v, 'r) Verifier" where
  "aggregate_verifier vs K = verifier_dictionary (aggregate_verify vs) (aggregate_new_unspendable vs) K"

subsection \<open>The contract of a variant\<close>

locale variant =
  fixes wrap :: "'k \<Rightarrow> 'c" and unwrap :: "'c \<Rightarrow> 'k option"
  assumes unwrap_wrap: "unwrap (wrap k) = Some k"
    and unwrap_Some: "unwrap c = Some k \<Longrightarrow> c = wrap k"
begin

lemma wrap_inject: "wrap k = wrap k' \<longleftrightarrow> k = k'"
  by (metis option.inject unwrap_wrap)

lemma transform_round_trip: "select_variant unwrap (map (transform wrap) txs) = txs"
  by (induction txs) (simp_all add: unwrap_wrap transform_compose transform_def)

lemma select_filter:
  "map (transform wrap) (select_variant unwrap txs) = filter (\<lambda>tx. unwrap (checker tx) \<noteq> None) txs"
  by (induction txs) (auto simp: transform_def dest: unwrap_Some split: option.splits)

lemma variant_check:
  "impl_check (checker_variant wrap unwrap we C) (wrap k) ins evs pks outs s
     = (fst (check C k ins evs pks outs s), map_err we (snd (check C k ins evs pks outs s)))"
  by (simp add: checker_variant_def unwrap_wrap case_prod_unfold Let_def)

end

subsection \<open>Frames of aggregates\<close>

definition framed_impl :: "('v, 'c, 'e) checker_impl \<Rightarrow> bool" where
  "framed_impl v \<longleftrightarrow>
     (\<forall>c ins evs pks outs s k x. is_transient_key k \<longrightarrow> impl_check v c ins evs pks outs (s(k := x))
        = ((fst (impl_check v c ins evs pks outs s))(k := x), snd (impl_check v c ins evs pks outs s)))
     \<and> (\<forall>c ins evs pks outs s k. \<not> is_runtime_key k \<or> k = HEIGHT_KEY \<longrightarrow>
          fst (impl_check v c ins evs pks outs s) k = s k)"

lemma framed_variant:
  assumes "framed_checker C"
  shows "framed_impl (checker_variant wrap unwrap we C)"
  using assms
  by (auto simp: framed_impl_def checker_variant_def case_prod_unfold Let_def
      framed_checker.check_transient framed_checker.check_frame split: option.split)

locale aggregation =
  fixes vs :: "('v, 'c, 'e) checker_impl list" and cc :: "'c codec"
  assumes all_framed: "v \<in> set vs \<Longrightarrow> framed_impl v"

sublocale aggregation \<subseteq> framed_checker "aggregate_checker vs cc"
proof
  fix k s x c ins evs pks outs
  have framed: "framed_impl v" if "dispatch vs c = Some v" for v
    using that all_framed by (auto simp: dispatch_def find_Some_iff in_set_conv_nth)
  show "check (aggregate_checker vs cc) c ins evs pks outs (s(k := x))
      = ((fst (check (aggregate_checker vs cc) c ins evs pks outs s))(k := x),
         snd (check (aggregate_checker vs cc) c ins evs pks outs s))" if "is_transient_key k"
    using framed that by (cases "dispatch vs c") (simp_all add: aggregate_checker_def framed_impl_def)
  show "fst (check (aggregate_checker vs cc) c ins evs pks outs s) k = s k"
    if "\<not> is_runtime_key k \<or> k = HEIGHT_KEY"
    using framed that by (cases "dispatch vs c") (simp_all add: aggregate_checker_def framed_impl_def)
qed

subsection \<open>Facts about the generated loops\<close>

text \<open>What a checker proposes as inherents it calls inherents.\<close>

definition proposes_inherents :: "('v, 'c, 'e) ConstraintChecker \<Rightarrow> bool" where
  "proposes_inherents C \<longleftrightarrow>
     (\<forall>inh prev s txs. create_inherents C inh prev s = Some txs \<longrightarrow> list_all (\<lambda>tx. is_inherent C (checker tx)) txs)"

lemma proposes_adapter: "proposes_inherents (inherent_adapter H S K)"
  by (simp add: proposes_inherents_def inherent_adapter_def list_all_iff)

lemma follows_aggregate:
  assumes "dispatch vs c = Some (checker_variant wrap unwrap we C)" and "unwrap c = Some k"
    and "follows C k f k'"
  shows "follows (aggregate_checker vs cc) c f k'"
  using assms
  by (simp add: follows_def aggregate_checker_def checker_variant_def case_prod_unfold Let_def map_err_Ok)

lemma simple_variant_create:
  "impl_create_inherents (checker_variant wrap unwrap we (from_simple S)) inh prev s = Some []"
  by (simp add: checker_variant_def from_simple_def)

lemma simple_variant_check:
  "select_variant unwrap txs = [] \<Longrightarrow>
   impl_check_inherents (checker_variant wrap unwrap we (from_simple S)) inh txs r = Some r"
  by (simp add: checker_variant_def from_simple_def)

lemma simple_variant_genesis:
  "impl_genesis_transactions (checker_variant wrap unwrap we (from_simple S)) = Some []"
  by (simp add: checker_variant_def from_simple_def)

lemma select_variant_empty:
  "(\<And>tx. tx \<in> set txs \<Longrightarrow> unwrap (checker tx) = None) \<Longrightarrow> select_variant unwrap txs = []"
  by (induction txs) auto

lemma select_annotated_map:
  "map fst (select_annotated unwrap prev) = select_variant unwrap (map fst prev)"
  by (induction prev rule: select_annotated.induct) (auto split: option.splits)

end
