(* ===== verification/Money.thy ===== *)
theory Money
  imports Genesis Constraint_Checkers
begin

text \<open>
  \<^verbatim>\<open>wardrobe/money\<close>: a fungible token. \<open>Coin\<close> wraps a \<open>u128\<close>; the const parameter \<^verbatim>\<open>ID\<close> of the
  source is the argument \<open>ID\<close>, the coin's codec the argument \<open>cc\<close>. \<open>money_check\<close> is the whole
  \<^verbatim>\<open>check\<close> of \<^verbatim>\<open>MoneyConstraintChecker\<close>, with its checked additions at 128 bits.

  The lemmas characterise acceptance, bound the priority, and lift the check to the ledger: a
  spend never creates value as long as its inputs name different outputs.
\<close>

datatype Coin = Coin u128

fun coin_value :: "Coin \<Rightarrow> u128" where
  "coin_value (Coin v) = v"

datatype MoneyConstraintChecker = Spend | Mint

datatype MoneyError =
    MoneyBadlyTyped
  | MoneyNoEvictionsAllowed
  | MintingWithInputs
  | MintingNothing
  | SpendingNothing
  | OutputsExceedInputs
  | ValueOverflow
  | ZeroValueCoin

definition coin_new :: "u128 \<Rightarrow> Coin" where
  "coin_new amt = Coin amt"

definition coin_data :: "u8 \<Rightarrow> Coin codec \<Rightarrow> Coin UtxoData" where
  "coin_data ID cc = \<lparr>TYPE_ID = (of_char CHR ''c'', of_char CHR ''o'', of_char CHR ''i'', ID), data_codec = cc\<rparr>"

definition coin_mint ::
  "u8 \<Rightarrow> Coin codec \<Rightarrow> ('w \<Rightarrow> 'v) \<Rightarrow> (MoneyConstraintChecker \<Rightarrow> 'c) \<Rightarrow> u128 \<Rightarrow> 'w \<Rightarrow> ('v, 'c) Transaction" where
  "coin_mint ID cc into_v into_c amt v =
     \<lparr>inputs = [], peeks = [],
      outputs = [output_from_pair (coin_data ID cc) into_v (coin_new amt, v)],
      checker = into_c Mint\<rparr>"

text \<open>The two summing loops of a spend; the loop over outputs also refuses zero values.\<close>

definition add_input_value ::
  "Coin UtxoData \<Rightarrow> u128 \<Rightarrow> DynamicallyTypedData \<Rightarrow> (u128, MoneyError) result" where
  "add_input_value T tot d =
     bind_result (extract_or T MoneyBadlyTyped d) (\<lambda>coin.
     ok_or (checked_add tot (coin_value coin)) ValueOverflow)"

definition add_output_value ::
  "Coin UtxoData \<Rightarrow> u128 \<Rightarrow> DynamicallyTypedData \<Rightarrow> (u128, MoneyError) result" where
  "add_output_value T tot d =
     bind_result (extract_or T MoneyBadlyTyped d) (\<lambda>coin.
     ensure (coin_value coin > 0) ZeroValueCoin
       (ok_or (checked_add tot (coin_value coin)) ValueOverflow))"

definition money_priority :: "u128 \<Rightarrow> TransactionPriority" where
  "money_priority burned = (if burned < ucast (- 1 :: u64) then ucast burned else - 1)"

fun money_check :: "u8 \<Rightarrow> Coin codec \<Rightarrow> (MoneyConstraintChecker, MoneyError) check_fn" where
  "money_check ID cc Spend input_data evicted_input_data peek_data output_data =
     stateless (ensure (evicted_input_data = []) MoneyNoEvictionsAllowed
       (ensure (input_data \<noteq> []) SpendingNothing
       (bind_result (fold_result (add_input_value (coin_data ID cc)) 0 input_data) (\<lambda>total_input_value.
       bind_result (fold_result (add_output_value (coin_data ID cc)) 0 output_data) (\<lambda>total_output_value.
       ensure (total_output_value \<le> total_input_value) OutputsExceedInputs
         (Ok (money_priority (total_input_value - total_output_value))))))))"
| "money_check ID cc Mint input_data evicted_input_data peek_data output_data =
     stateless (ensure (evicted_input_data = []) MoneyNoEvictionsAllowed
       (ensure (input_data = []) MintingWithInputs
       (ensure (output_data \<noteq> []) MintingNothing
       (bind_result (for_result (\<lambda>utxo.
            bind_result (extract_or (coin_data ID cc) MoneyBadlyTyped utxo) (\<lambda>coin.
            ensure (coin_value coin > 0) ZeroValueCoin (Ok ()))) output_data) (\<lambda>_.
       Ok 0)))))"

definition money_checker ::
  "u8 \<Rightarrow> Coin codec \<Rightarrow> MoneyConstraintChecker codec
     \<Rightarrow> (MoneyConstraintChecker, MoneyError) SimpleConstraintChecker" where
  "money_checker ID cc kc = \<lparr>simple_check = money_check ID cc, simple_codec = kc\<rparr>"

text \<open>A runtime whose only piece is money.\<close>

definition money_runtime ::
  "u8 \<Rightarrow> Coin codec \<Rightarrow> MoneyConstraintChecker codec
     \<Rightarrow> ('v, MoneyConstraintChecker, MoneyError) ConstraintChecker" where
  "money_runtime ID cc kc = from_simple (money_checker ID cc kc)"

subsection \<open>Specification\<close>

text \<open>The value of a payload as a coin of this currency; nothing else has any.\<close>

definition coin_worth :: "u8 \<Rightarrow> Coin codec \<Rightarrow> DynamicallyTypedData \<Rightarrow> nat" where
  "coin_worth ID cc d = (case view (coin_data ID cc) d of Some c \<Rightarrow> unat (coin_value c) | None \<Rightarrow> 0)"

definition is_coin :: "u8 \<Rightarrow> Coin codec \<Rightarrow> DynamicallyTypedData \<Rightarrow> bool" where
  "is_coin ID cc d \<longleftrightarrow> view (coin_data ID cc) d \<noteq> None"

definition total_worth :: "u8 \<Rightarrow> Coin codec \<Rightarrow> DynamicallyTypedData list \<Rightarrow> nat" where
  "total_worth ID cc ds = sum_list (map (coin_worth ID cc) ds)"

definition coin_supply :: "u8 \<Rightarrow> Coin codec \<Rightarrow> 'v ledger \<Rightarrow> nat" where
  "coin_supply ID cc U = ledger_total (\<lambda>out. coin_worth ID cc (payload out)) U"

interpretation money: framed_simple "money_checker ID cc kc" for ID cc kc
proof
  fix k s v and c :: MoneyConstraintChecker and ins evs pks outs
  show "simple_check (money_checker ID cc kc) c ins evs pks outs (s(k := v))
      = ((fst (simple_check (money_checker ID cc kc) c ins evs pks outs s))(k := v),
         snd (simple_check (money_checker ID cc kc) c ins evs pks outs s))"
    by (cases c) (simp_all add: money_checker_def)
  show "fst (simple_check (money_checker ID cc kc) c ins evs pks outs s) k = s k"
    by (cases c) (simp_all add: money_checker_def)
qed

subsection \<open>The loops\<close>

lemma coin_worth_view: "view (coin_data ID cc) d = Some c \<Longrightarrow> coin_worth ID cc d = unat (coin_value c)"
  by (simp add: coin_worth_def)

lemma coin_worth_into [simp]:
  "scale_codec cc \<Longrightarrow> coin_worth ID cc (into_data (coin_data ID cc) c) = unat (coin_value c)"
  "scale_codec cc \<Longrightarrow> is_coin ID cc (into_data (coin_data ID cc) c)"
  by (simp_all add: coin_worth_def is_coin_def utxo_data.view_into_data [OF utxo_data.intro] coin_data_def)

lemma add_input_value_Ok:
  "add_input_value (coin_data ID cc) tot d = Ok tot' \<longleftrightarrow>
     is_coin ID cc d \<and> unat tot + coin_worth ID cc d < 2 ^ 128
     \<and> unat tot' = unat tot + coin_worth ID cc d"
  by (auto simp: add_input_value_def is_coin_def coin_worth_def result_ok checked_add_Some
      word_unat_eq_iff unat_word_add_no_wrap split: option.splits)

lemma add_output_value_Ok:
  "add_output_value (coin_data ID cc) tot d = Ok tot' \<longleftrightarrow>
     is_coin ID cc d \<and> 0 < coin_worth ID cc d \<and> unat tot + coin_worth ID cc d < 2 ^ 128
     \<and> unat tot' = unat tot + coin_worth ID cc d"
  by (auto simp: add_output_value_def is_coin_def coin_worth_def result_ok checked_add_Some
      word_unat_eq_iff unat_word_add_no_wrap word_less_nat_alt split: option.splits)

lemma total_worth_simps [simp]:
  "total_worth ID cc [] = 0"
  "total_worth ID cc (d # ds) = coin_worth ID cc d + total_worth ID cc ds"
  by (simp_all add: total_worth_def)

text \<open>A fold of checked additions succeeds exactly when the sum fits, with that sum.\<close>

lemma sum_loop_Ok:
  fixes f :: "u128 \<Rightarrow> DynamicallyTypedData \<Rightarrow> (u128, MoneyError) result"
  assumes f: "\<And>t d t'. f t d = Ok t' \<longleftrightarrow> good d \<and> unat t + coin_worth ID cc d < 2 ^ 128
      \<and> unat t' = unat t + coin_worth ID cc d"
  shows "fold_result f t ds = Ok t' \<longleftrightarrow>
     (\<forall>d \<in> set ds. good d) \<and> unat t' = unat t + total_worth ID cc ds"
proof (induction ds arbitrary: t)
  case Nil
  then show ?case by (auto simp: word_unat_eq_iff)
next
  case (Cons d ds)
  have bound: "unat t' < 2 ^ 128" using unsigned_less [of t'] by simp
  show ?case
  proof
    assume "fold_result f t (d # ds) = Ok t'"
    then show "(\<forall>d \<in> set (d # ds). good d) \<and> unat t' = unat t + total_worth ID cc (d # ds)"
      by (auto simp: bind_result_Ok f Cons.IH)
  next
    assume R: "(\<forall>d \<in> set (d # ds). good d) \<and> unat t' = unat t + total_worth ID cc (d # ds)"
    then have less: "unat t + coin_worth ID cc d < 2 ^ 128" using bound by simp
    define u :: u128 where "u = of_nat (unat t + coin_worth ID cc d)"
    have "unat u = (unat t + coin_worth ID cc d) mod 2 ^ 128"
      unfolding u_def by (simp only: unat_of_nat) simp
    then have "unat u = unat t + coin_worth ID cc d"
      using less by simp
    then show "fold_result f t (d # ds) = Ok t'"
      using R less by (auto simp: bind_result_Ok f Cons.IH intro!: exI [of _ u])
  qed
qed

lemmas input_loop = sum_loop_Ok [where f = "add_input_value (coin_data ID cc)"
    and good = "is_coin ID cc" and ID = ID and cc = cc for ID cc, OF add_input_value_Ok]

lemma output_loop:
  "fold_result (add_output_value (coin_data ID cc)) t ds = Ok t' \<longleftrightarrow>
     (\<forall>d \<in> set ds. is_coin ID cc d \<and> 0 < coin_worth ID cc d)
     \<and> unat t' = unat t + total_worth ID cc ds"
  by (rule sum_loop_Ok [where good = "\<lambda>d. is_coin ID cc d \<and> 0 < coin_worth ID cc d"])
    (simp add: add_output_value_Ok)

lemma money_priority_unat: "unat (money_priority b) = min (unat b) (2 ^ 64 - 1)"
proof -
  have max: "unat (ucast (- 1 :: u64) :: u128) = 2 ^ 64 - 1" "unat (- 1 :: u64) = 2 ^ 64 - 1"
    by (simp_all add: unsigned_ucast_eq unsigned_minus_1_eq_mask mask_eq_exp_minus_1)
  show ?thesis
  proof (cases "unat b < 2 ^ 64 - 1")
    case True
    then have "unat (ucast b :: u64) = unat b"
      by (simp add: unsigned_ucast_eq take_bit_nat_eq_self)
    with True max show ?thesis by (simp add: money_priority_def word_less_nat_alt)
  next
    case False
    with max show ?thesis by (simp add: money_priority_def word_less_nat_alt)
  qed
qed

subsection \<open>What the check accepts\<close>

lemma money_spend_Ok:
  "snd (money_check ID cc Spend ins evs pks outs s) = Ok p \<longleftrightarrow>
     evs = [] \<and> ins \<noteq> [] \<and> (\<forall>d \<in> set ins. is_coin ID cc d)
     \<and> (\<forall>d \<in> set outs. is_coin ID cc d \<and> 0 < coin_worth ID cc d)
     \<and> total_worth ID cc ins < 2 ^ 128
     \<and> total_worth ID cc outs \<le> total_worth ID cc ins
     \<and> unat p = min (total_worth ID cc ins - total_worth ID cc outs) (2 ^ 64 - 1)"
  (is "?L \<longleftrightarrow> ?R")
proof
  assume ?L
  then obtain ti tout where "evs = []" "ins \<noteq> []"
    and loops: "fold_result (add_input_value (coin_data ID cc)) 0 ins = Ok ti"
      "fold_result (add_output_value (coin_data ID cc)) 0 outs = Ok tout"
    and le: "tout \<le> ti" and p: "p = money_priority (ti - tout)"
    by (auto simp: result_ok)
  moreover have "unat (ti - tout) = unat ti - unat tout"
    using le by (rule unat_sub)
  moreover have "unat ti < 2 ^ 128"
    using unsigned_less [of ti] by simp
  ultimately show ?R
    by (simp add: input_loop output_loop money_priority_unat word_le_nat_alt)
next
  assume R: ?R
  define ti :: u128 where "ti = of_nat (total_worth ID cc ins)"
  define tout :: u128 where "tout = of_nat (total_worth ID cc outs)"
  have ti: "unat ti = total_worth ID cc ins" and tout: "unat tout = total_worth ID cc outs"
    using R unat_of_nat [of "total_worth ID cc ins", where ?'a = 128]
      unat_of_nat [of "total_worth ID cc outs", where ?'a = 128]
    by (simp_all add: ti_def tout_def)
  have le: "tout \<le> ti" using R ti tout by (simp add: word_le_nat_alt)
  have "unat (money_priority (ti - tout)) = unat p"
    using R ti tout unat_sub [OF le] by (simp add: money_priority_unat)
  then have "money_priority (ti - tout) = p" by (simp add: word_unat_eq_iff)
  moreover have "fold_result (add_input_value (coin_data ID cc)) 0 ins = Ok ti"
    "fold_result (add_output_value (coin_data ID cc)) 0 outs = Ok tout"
    using R ti tout by (simp_all add: input_loop output_loop)
  ultimately show ?L using R le by simp
qed

lemma money_mint_Ok:
  "snd (money_check ID cc Mint ins evs pks outs s) = Ok p \<longleftrightarrow>
     evs = [] \<and> ins = [] \<and> outs \<noteq> []
     \<and> (\<forall>d \<in> set outs. is_coin ID cc d \<and> 0 < coin_worth ID cc d) \<and> p = 0"
  by (auto simp: result_ok is_coin_def coin_worth_def word_less_nat_alt split: option.splits)

subsection \<open>Money on the ledger\<close>

lemma follows_money: "follows (money_runtime ID cc kc) k (money_check ID cc) k"
  using follows_from_simple [of "money_checker ID cc kc" k]
  by (simp add: money_runtime_def money_checker_def)

definition output_worth :: "u8 \<Rightarrow> Coin codec \<Rightarrow> ('v, 'c) Transaction \<Rightarrow> nat" where
  "output_worth ID cc tx = total_worth ID cc (map payload (outputs tx))"

definition input_worth :: "u8 \<Rightarrow> Coin codec \<Rightarrow> 'v ledger \<Rightarrow> ('v, 'c) Transaction \<Rightarrow> nat" where
  "input_worth ID cc U tx = total_worth ID cc (ledger_payloads U (input_refs tx))"

lemma output_worth_sum:
  "output_worth ID cc tx = sum_list (map (\<lambda>out. coin_worth ID cc (payload out)) (outputs tx))"
  by (simp add: output_worth_def total_worth_def comp_def)

lemma input_worth_sum:
  "input_worth ID cc U tx = sum_list (map (\<lambda>r. coin_worth ID cc (payload (the (U r)))) (input_refs tx))"
  by (simp add: input_worth_def total_worth_def ledger_payloads_def comp_def)

lemma accepted_spend_worth:
  assumes "follows C (checker tx) (money_check ID cc) Spend" and "ledger_accepts H V C h U s tx"
  shows "output_worth ID cc tx \<le> input_worth ID cc U tx"
proof -
  obtain p where "snd (money_check ID cc Spend (ledger_payloads U (redeemed_refs tx))
      (ledger_payloads U (evicted_refs tx)) (ledger_payloads U (peeks tx)) (map payload (outputs tx)) s) = Ok p"
    using assms by (rule accepted_follows)
  then show ?thesis
    unfolding money_spend_Ok output_worth_def input_worth_def
    using no_evictions_redeem_all by metis
qed

lemma accepted_mint_worth:
  assumes "follows C (checker tx) (money_check ID cc) Mint" and "ledger_accepts H V C h U s tx"
  shows "inputs tx = []"
proof -
  obtain p where "snd (money_check ID cc Mint (ledger_payloads U (redeemed_refs tx))
      (ledger_payloads U (evicted_refs tx)) (ledger_payloads U (peeks tx)) (map payload (outputs tx)) s) = Ok p"
    using assms by (rule accepted_follows)
  then have "ledger_payloads U (evicted_refs tx) = []" "ledger_payloads U (redeemed_refs tx) = []"
    unfolding money_mint_Ok by auto
  then show ?thesis
    using no_evictions_redeem_all [of U tx] by (simp add: ledger_payloads_def input_refs_def)
qed

lemma accepted_supply:
  assumes "finite (dom U)" and "ledger_accepts H V C h U s tx"
    and "distinct (input_refs tx)" and "length (outputs tx) \<le> 2 ^ 32"
  shows "coin_supply ID cc (ledger_update (input_refs tx) (created_outputs H V (checker_codec C) tx) U)
      + input_worth ID cc U tx = coin_supply ID cc U + output_worth ID cc tx"
  using accepted_total [OF assms, of "\<lambda>out. coin_worth ID cc (payload out)"]
  by (simp add: coin_supply_def output_worth_sum input_worth_sum)

text \<open>
  What a chain has issued: everything in genesis and everything minted since. \<open>mints\<close> says which
  selectors mint.
\<close>

definition issued ::
  "('c \<Rightarrow> bool) \<Rightarrow> u8 \<Rightarrow> Coin codec \<Rightarrow> ('v, 'c) Transaction list \<Rightarrow> ('v, 'c) Transaction list \<Rightarrow> nat" where
  "issued mints ID cc gtxs txs =
     sum_list (map (output_worth ID cc) gtxs)
     + sum_list (map (output_worth ID cc) (filter (\<lambda>tx. mints (checker tx)) txs))"

lemma finite_replay: "finite (dom U) \<Longrightarrow> finite (dom (replay H V cdc txs U))"
  by (induction txs arbitrary: U) (auto simp: replay_Cons finite_ledger_update, simp add: replay_def)

lemma genesis_supply:
  assumes "finite (dom U)"
  shows "coin_supply ID cc (replay H V cdc txs U)
    \<le> coin_supply ID cc U + sum_list (map (output_worth ID cc) txs)"
  using assms
proof (induction txs arbitrary: U)
  case Nil
  then show ?case by (simp add: replay_def)
next
  case (Cons tx txs)
  let ?U' = "ledger_update (input_refs tx) (created_outputs H V cdc tx) U"
  have "coin_supply ID cc ?U' \<le> coin_supply ID cc U + output_worth ID cc tx"
    using ledger_total_update_le [OF Cons.prems, of "\<lambda>out. coin_worth ID cc (payload out)"
        "input_refs tx" "created_outputs H V cdc tx"]
    by (simp add: coin_supply_def output_worth_sum created_total)
  with Cons.IH [OF finite_ledger_update [OF Cons.prems], of "input_refs tx" "created_outputs H V cdc tx"]
  show ?case by (simp add: replay_Cons)
qed

text \<open>
  The supply is bounded by what was issued, in every runtime in which only minting transactions
  create more value than they consume.
\<close>

lemma chain_supply_bound:
  assumes exec: "executive H V C" and c: "chain H V C txs_codec B gtxs bs s"
    and small: "small_outputs (chain_history gtxs bs)"
    and refs: "\<forall>tx \<in> set (concat (map extrinsics bs)). distinct (input_refs tx)"
    and honest: "\<And>tx U s h. ledger_accepts H V C h U s tx \<Longrightarrow> \<not> mints (checker tx)
      \<Longrightarrow> output_worth ID cc tx \<le> input_worth ID cc U tx"
  shows "coin_supply ID cc (ledger_of H V s) \<le> issued mints ID cc gtxs (concat (map extrinsics bs))"
proof -
  let ?P = "\<lambda>hist U. \<exists>txs. hist = gtxs @ txs \<and> finite (dom U)
      \<and> ((\<forall>tx \<in> set txs. distinct (input_refs tx)) \<longrightarrow> coin_supply ID cc U \<le> issued mints ID cc gtxs txs)"
  have "?P (chain_history gtxs bs) (ledger_of H V s)"
    using exec c small
  proof (rule executive.chain_tx_induct)
    show "?P gtxs (replay H V (checker_codec C) gtxs Map.empty)"
      using genesis_supply [of Map.empty ID cc H V "checker_codec C" gtxs]
      by (simp add: finite_replay issued_def coin_supply_def ledger_total_def)
  next
    fix hist tx s h
    assume acc: "ledger_accepts H V C h (ledger_of H V s) s tx" and small: "length (outputs tx) \<le> 2 ^ 32"
      and P: "?P hist (ledger_of H V s)"
    then obtain txs where hist: "hist = gtxs @ txs" and fin: "finite (dom (ledger_of H V s))"
      and IH: "(\<forall>tx \<in> set txs. distinct (input_refs tx)) \<longrightarrow>
        coin_supply ID cc (ledger_of H V s) \<le> issued mints ID cc gtxs txs" by blast
    let ?U' = "ledger_update (input_refs tx) (created_outputs H V (checker_codec C) tx) (ledger_of H V s)"
    have "coin_supply ID cc ?U' \<le> coin_supply ID cc (ledger_of H V s)
        + (if mints (checker tx) then output_worth ID cc tx else 0)" if "distinct (input_refs tx)"
      using accepted_supply [OF fin acc that small, of ID cc] honest [OF acc]
      by (cases "mints (checker tx)") simp_all
    then have "coin_supply ID cc ?U' \<le> issued mints ID cc gtxs (txs @ [tx])"
      if "\<forall>tx \<in> set (txs @ [tx]). distinct (input_refs tx)"
      using that IH by (fastforce simp: issued_def)
    then show "?P (hist @ [tx]) ?U'"
      using hist fin by (auto simp: finite_ledger_update intro!: exI [of _ "txs @ [tx]"])
  qed
  then show ?thesis using refs by (auto simp: chain_history_def)
qed

subsection \<open>Theorems\<close>

text \<open>
  C18. The money piece accepts a spend exactly when nothing is evicted, at least one input is consumed,
  every input and output is a coin of this currency, no output is worth zero, the inputs' sum fits
  in 128 bits and covers the outputs' sum; the priority it returns is the value burned,
  capped at the largest \<open>u64\<close>.
\<close>

theorem money_spend_accepts_iff:
  "snd (money_check ID cc Spend ins evs pks outs s) = Ok p \<longleftrightarrow>
     evs = [] \<and> ins \<noteq> [] \<and> list_all (is_coin ID cc) ins
     \<and> list_all (\<lambda>d. is_coin ID cc d \<and> 0 < coin_worth ID cc d) outs
     \<and> total_worth ID cc ins < 2 ^ 128
     \<and> total_worth ID cc outs \<le> total_worth ID cc ins
     \<and> unat p = min (total_worth ID cc ins - total_worth ID cc outs) (2 ^ 64 - 1)"
  unfolding list_all_iff by (rule money_spend_Ok)

text \<open>
  C14. A spend conserves the supply up to what it burns: when the executive applies a transaction
  checked as a money spend whose inputs name pairwise different outputs (the executive does not make sure of it), the total value of this
  currency's coins in the ledger goes down by exactly the difference between the inputs'
  and the outputs' value, and never goes up.
\<close>

theorem spend_conserves_supply:
  assumes "executive H V C" and "block_height H s = Some h"
    and "finite (dom (ledger_of H V s))" and "length (outputs tx) \<le> 2 ^ 32"
    and "follows C (checker tx) (money_check ID cc) Spend" and "distinct (input_refs tx)"
    and "snd (apply_tuxedo_transaction H V C tx s) = Ok ()"
  shows "coin_supply ID cc (ledger_of H V (fst (apply_tuxedo_transaction H V C tx s)))
      + (input_worth ID cc (ledger_of H V s) tx - output_worth ID cc tx)
    = coin_supply ID cc (ledger_of H V s)
    \<and> output_worth ID cc tx \<le> input_worth ID cc (ledger_of H V s) tx"
proof -
  have acc: "ledger_accepts H V C h (ledger_of H V s) s tx"
    using executive.apply_complete [OF assms(1,2)] assms(7) by blast
  have "output_worth ID cc tx \<le> input_worth ID cc (ledger_of H V s) tx"
    by (rule accepted_spend_worth [OF assms(5) acc])
  then show ?thesis
    using accepted_supply [OF assms(3) acc assms(6,4), of ID cc]
      executive.apply_ledger [OF assms(1,7,4)] by simp
qed

text \<open>
  Minting adds exactly what it creates: when the executive applies a transaction checked as a
  mint, it consumes nothing and the supply grows by the value of its outputs.
\<close>

theorem mint_adds_supply:
  assumes "executive H V C" and "block_height H s = Some h"
    and "finite (dom (ledger_of H V s))" and "length (outputs tx) \<le> 2 ^ 32"
    and "follows C (checker tx) (money_check ID cc) Mint"
    and "snd (apply_tuxedo_transaction H V C tx s) = Ok ()"
  shows "coin_supply ID cc (ledger_of H V (fst (apply_tuxedo_transaction H V C tx s)))
    = coin_supply ID cc (ledger_of H V s) + output_worth ID cc tx"
proof -
  have acc: "ledger_accepts H V C h (ledger_of H V s) s tx"
    using executive.apply_complete [OF assms(1,2)] assms(6) by blast
  have "inputs tx = []" by (rule accepted_mint_worth [OF assms(5) acc])
  then have refs: "input_refs tx = []" by (simp add: input_refs_def)
  have "input_worth ID cc (ledger_of H V s) tx = 0"
    by (simp add: input_worth_def refs ledger_payloads_def)
  then show ?thesis
    using accepted_supply [OF assms(3) acc _ assms(4), of ID cc] refs
      executive.apply_ledger [OF assms(1,6,4)] by simp
qed

text \<open>
  No money out of nothing: along every chain whose checker is the money piece, as long as each
  block transaction's inputs name pairwise different outputs, the value of all unspent coins is at most
  what genesis and the chain's mint transactions have issued.
\<close>

theorem money_chain_supply:
  assumes "executive H V (money_runtime ID cc kc)"
    and "chain H V (money_runtime ID cc kc) txs_codec B gtxs bs s"
    and "small_outputs (chain_history gtxs bs)"
    and "\<forall>tx \<in> set (concat (map extrinsics bs)). distinct (input_refs tx)"
  shows "coin_supply ID cc (ledger_of H V s)
    \<le> issued (\<lambda>c. c = Mint) ID cc gtxs (concat (map extrinsics bs))"
proof (rule chain_supply_bound [OF assms])
  fix tx U s h
  assume "ledger_accepts H V (money_runtime ID cc kc) h U s tx" and "checker tx \<noteq> Mint"
  then show "output_worth ID cc tx \<le> input_worth ID cc U tx"
    by (intro accepted_spend_worth) (cases "checker tx", auto simp: follows_money)
qed

end
