(* ===== verification/Kitties.thy ===== *)
theory Kitties
  imports Genesis Constraint_Checkers
begin

text \<open>
  \<^verbatim>\<open>wardrobe/kitties\<close>: breeding of kitties. The helper functions of the trait \<^verbatim>\<open>Breed\<close> are one definition
  each, in the source's order of checks; breeding counters are words with the source's checked
  and unchecked arithmetic. The encoding of the tuple that is hashed to the child's DNA is the
  argument \<open>fc\<close>.

  The lemmas give the exact relation between the old and the new family without wrap-around, and
  lift it to the ledger: breeding adds one kitty and conserves the free breedings.
\<close>

datatype DadKittyStatus = DadRearinToGo | Tired
datatype MomKittyStatus = MomRearinToGo | HadBirthRecently
datatype Parent = Mom MomKittyStatus | Dad DadKittyStatus
datatype KittyDNA = KittyDNA H256
datatype FreeKittyConstraintChecker = FreeKittyConstraintChecker

definition parent_dad :: Parent where "parent_dad = Dad DadRearinToGo"
definition parent_mom :: Parent where "parent_mom = Mom MomRearinToGo"
definition default_parent :: Parent where "default_parent = Mom MomRearinToGo"

record KittyData =
  parent :: Parent
  free_breedings :: u64
  dna :: KittyDNA
  num_breedings :: u128

definition default_kitty :: "(bytes \<Rightarrow> H256) \<Rightarrow> KittyData" where
  "default_kitty from_slice =
     \<lparr>parent = Mom MomRearinToGo, free_breedings = 2,
      dna = KittyDNA (from_slice (byte_string ''mom_kitty_1asdfasdfasdfasdfasdfa'')), num_breedings = 3\<rparr>"

definition kitty_data :: "KittyData codec \<Rightarrow> KittyData UtxoData" where
  "kitty_data kc = \<lparr>TYPE_ID = byte_string4 ''Kitt'', data_codec = kc\<rparr>"

definition kitty_mint ::
  "host \<Rightarrow> KittyData codec \<Rightarrow> (bytes \<Rightarrow> H256) \<Rightarrow> ('w \<Rightarrow> 'v) \<Rightarrow> (FreeKittyConstraintChecker \<Rightarrow> 'c)
     \<Rightarrow> Parent \<Rightarrow> bytes \<Rightarrow> 'w \<Rightarrow> ('v, 'c) Transaction" where
  "kitty_mint H kc from_slice into_v into_c par dna_preimage v =
     \<lparr>inputs = [], peeks = [],
      outputs = [output_from_pair (kitty_data kc) into_v
        ((default_kitty from_slice)\<lparr>parent := par, dna := KittyDNA (blake2_256 H dna_preimage)\<rparr>, v)],
      checker = into_c FreeKittyConstraintChecker\<rparr>"

datatype KittyError =
    KittyBadlyTyped
  | KittyNoEvictionsAllowed
  | MinimumSpendAndBreedNotMet
  | TwoParentsDoNotExist
  | NotEnoughFamilyMembers
  | MomNotReadyYet
  | DadTooTired
  | TwoMomsNotValid
  | TwoDadsNotValid
  | NewMomIsStillRearinToGo
  | NewDadIsStillRearinToGo
  | NewParentFreeBreedingsIncorrect
  | NewParentDnaDoesntMatchOld
  | NewParentNumberBreedingsIncorrect
  | NewChildDnaIncorrect
  | NewChildFreeBreedingsIncorrect
  | NewChildHasNonZeroBreedings
  | NewChildIncorrectParentInfo
  | TooManyBreedingsForKitty
  | NotEnoughFreeBreedings

definition COST :: u128 where "COST = 5"
definition NUM_FREE_BREEDINGS :: u64 where "NUM_FREE_BREEDINGS = 2"

definition check_mom_can_breed :: "KittyData \<Rightarrow> (unit, KittyError) result" where
  "check_mom_can_breed mom =
     (case parent mom of
        Mom HadBirthRecently \<Rightarrow> Err MomNotReadyYet
      | Dad _ \<Rightarrow> Err TwoDadsNotValid
      | Mom MomRearinToGo \<Rightarrow>
          bind_result (ok_or (checked_add (num_breedings mom) 1) TooManyBreedingsForKitty) (\<lambda>_. Ok ()))"

definition check_dad_can_breed :: "KittyData \<Rightarrow> (unit, KittyError) result" where
  "check_dad_can_breed dad =
     (case parent dad of
        Dad Tired \<Rightarrow> Err DadTooTired
      | Mom _ \<Rightarrow> Err TwoMomsNotValid
      | Dad DadRearinToGo \<Rightarrow>
          bind_result (ok_or (checked_add (num_breedings dad) 1) TooManyBreedingsForKitty) (\<lambda>_. Ok ()))"

definition check_free_breedings :: "KittyData \<Rightarrow> KittyData \<Rightarrow> (unit, KittyError) result" where
  "check_free_breedings mom dad =
     (let mom_breedings = free_breedings mom; dad_breedings = free_breedings dad in
      if mom_breedings = 0 \<or> dad_breedings = 0 then Err NotEnoughFreeBreedings else Ok ())"

definition can_breed :: "KittyData \<Rightarrow> KittyData \<Rightarrow> (unit, KittyError) result" where
  "can_breed mom dad =
     bind_result (check_mom_can_breed mom) (\<lambda>_.
     bind_result (check_dad_can_breed dad) (\<lambda>_.
     bind_result (check_free_breedings mom dad) (\<lambda>_. Ok ())))"

definition check_new_mom :: "KittyData \<Rightarrow> KittyData \<Rightarrow> (unit, KittyError) result" where
  "check_new_mom old_mom new_mom =
     (case parent new_mom of
        Mom MomRearinToGo \<Rightarrow> Err NewMomIsStillRearinToGo
      | Dad _ \<Rightarrow> Err TwoDadsNotValid
      | Mom HadBirthRecently \<Rightarrow>
          ensure (free_breedings new_mom = free_breedings old_mom - 1) NewParentFreeBreedingsIncorrect
          (ensure (num_breedings new_mom = num_breedings old_mom + 1) NewParentNumberBreedingsIncorrect
          (ensure (dna new_mom = dna old_mom) NewParentDnaDoesntMatchOld
          (Ok ()))))"

definition check_new_dad :: "KittyData \<Rightarrow> KittyData \<Rightarrow> (unit, KittyError) result" where
  "check_new_dad old_dad new_dad =
     (case parent new_dad of
        Dad DadRearinToGo \<Rightarrow> Err NewDadIsStillRearinToGo
      | Mom _ \<Rightarrow> Err TwoMomsNotValid
      | Dad Tired \<Rightarrow>
          ensure (free_breedings new_dad = free_breedings old_dad - 1) NewParentFreeBreedingsIncorrect
          (ensure (num_breedings new_dad = num_breedings old_dad + 1) NewParentNumberBreedingsIncorrect
          (ensure (dna new_dad = dna old_dad) NewParentDnaDoesntMatchOld
          (Ok ()))))"

type_synonym family_codec = "(KittyDNA \<times> KittyDNA \<times> u128 \<times> u128) codec"

definition check_child ::
  "host \<Rightarrow> family_codec \<Rightarrow> KittyData \<Rightarrow> KittyData \<Rightarrow> KittyData \<Rightarrow> (unit, KittyError) result" where
  "check_child H fc new_mom new_dad child =
     (let new_dna = hash_of H fc (dna new_mom, dna new_dad, num_breedings new_mom, num_breedings new_dad) in
      ensure (dna child = KittyDNA new_dna) NewChildDnaIncorrect
      (ensure (free_breedings child = NUM_FREE_BREEDINGS) NewChildFreeBreedingsIncorrect
      (ensure (num_breedings child = 0) NewChildHasNonZeroBreedings
      (case parent child of
         Mom HadBirthRecently \<Rightarrow> Err NewChildIncorrectParentInfo
       | Dad Tired \<Rightarrow> Err NewChildIncorrectParentInfo
       | _ \<Rightarrow> Ok ()))))"

text \<open>The \<^verbatim>\<open>TryFrom<&DynamicallyTypedData>\<close> implementation.\<close>

definition kitty_try_from :: "KittyData codec \<Rightarrow> DynamicallyTypedData \<Rightarrow> (KittyData, KittyError) result" where
  "kitty_try_from kc d = extract_or (kitty_data kc) KittyBadlyTyped d"

definition check_new_family ::
  "host \<Rightarrow> family_codec \<Rightarrow> KittyData codec \<Rightarrow> KittyData \<Rightarrow> KittyData
     \<Rightarrow> DynamicallyTypedData list \<Rightarrow> (unit, KittyError) result" where
  "check_new_family H fc kc old_mom old_dad new_family =
     ensure (length new_family = 3) NotEnoughFamilyMembers
     (bind_result (kitty_try_from kc (new_family ! 0)) (\<lambda>new_mom.
     bind_result (kitty_try_from kc (new_family ! 1)) (\<lambda>new_dad.
     bind_result (kitty_try_from kc (new_family ! 2)) (\<lambda>child.
     bind_result (check_new_mom old_mom new_mom) (\<lambda>_.
     bind_result (check_new_dad old_dad new_dad) (\<lambda>_.
     bind_result (check_child H fc new_mom new_dad child) (\<lambda>_. Ok ())))))))"

definition kitty_check ::
  "host \<Rightarrow> family_codec \<Rightarrow> KittyData codec \<Rightarrow> (FreeKittyConstraintChecker, KittyError) check_fn" where
  "kitty_check H fc kc c input_data evicted_input_data peek_data output_data = stateless
     (ensure (evicted_input_data = []) KittyNoEvictionsAllowed
     (ensure (length input_data = 2) TwoParentsDoNotExist
     (bind_result (kitty_try_from kc (input_data ! 0)) (\<lambda>mom.
     bind_result (kitty_try_from kc (input_data ! 1)) (\<lambda>dad.
     bind_result (can_breed mom dad) (\<lambda>_.
     ensure (length output_data = 3) NotEnoughFamilyMembers
     (bind_result (check_new_family H fc kc mom dad output_data) (\<lambda>_.
     Ok 0))))))))"

definition kitty_checker ::
  "host \<Rightarrow> family_codec \<Rightarrow> KittyData codec \<Rightarrow> FreeKittyConstraintChecker codec
     \<Rightarrow> (FreeKittyConstraintChecker, KittyError) SimpleConstraintChecker" where
  "kitty_checker H fc kc cdc = \<lparr>simple_check = kitty_check H fc kc, simple_codec = cdc\<rparr>"

interpretation kitties: framed_simple "kitty_checker H fc kc cdc" for H fc kc cdc
  by unfold_locales (simp_all add: kitty_checker_def kitty_check_def)

subsection \<open>The relation between the families\<close>

text \<open>A parent before and after: the same kitty, one breeding further, without wrap-around.\<close>

definition bred_once :: "KittyData \<Rightarrow> KittyData \<Rightarrow> bool" where
  "bred_once old new \<longleftrightarrow> dna new = dna old
     \<and> unat (free_breedings old) = unat (free_breedings new) + 1
     \<and> unat (num_breedings new) = unat (num_breedings old) + 1"

definition newborn :: "host \<Rightarrow> family_codec \<Rightarrow> KittyData \<Rightarrow> KittyData \<Rightarrow> KittyData \<Rightarrow> bool" where
  "newborn H fc new_mom new_dad child \<longleftrightarrow>
     dna child = KittyDNA (hash_of H fc (dna new_mom, dna new_dad, num_breedings new_mom, num_breedings new_dad))
     \<and> free_breedings child = 2 \<and> num_breedings child = 0
     \<and> (parent child = Mom MomRearinToGo \<or> parent child = Dad DadRearinToGo)"

lemma can_breed_Ok:
  "can_breed mom dad = Ok u \<longleftrightarrow>
     parent mom = Mom MomRearinToGo \<and> parent dad = Dad DadRearinToGo
     \<and> unat (num_breedings mom) + 1 < 2 ^ 128 \<and> unat (num_breedings dad) + 1 < 2 ^ 128
     \<and> free_breedings mom \<noteq> 0 \<and> free_breedings dad \<noteq> 0"
  by (auto simp: can_breed_def check_mom_can_breed_def check_dad_can_breed_def
      check_free_breedings_def result_ok checked_add_Some Let_def
      split: Parent.splits MomKittyStatus.splits DadKittyStatus.splits if_splits)

lemma new_mom_Ok:
  assumes "free_breedings m \<noteq> 0" and "unat (num_breedings m) + 1 < 2 ^ 128"
  shows "check_new_mom m m' = Ok u \<longleftrightarrow> parent m' = Mom HadBirthRecently \<and> bred_once m m'"
  using assms word_pred_iff [of "free_breedings m" "free_breedings m'"]
    word_succ_iff [of "num_breedings m" "num_breedings m'"]
  by (auto simp: check_new_mom_def bred_once_def result_ok split: Parent.splits MomKittyStatus.splits)

lemma new_dad_Ok:
  assumes "free_breedings m \<noteq> 0" and "unat (num_breedings m) + 1 < 2 ^ 128"
  shows "check_new_dad m m' = Ok u \<longleftrightarrow> parent m' = Dad Tired \<and> bred_once m m'"
  using assms word_pred_iff [of "free_breedings m" "free_breedings m'"]
    word_succ_iff [of "num_breedings m" "num_breedings m'"]
  by (auto simp: check_new_dad_def bred_once_def result_ok split: Parent.splits DadKittyStatus.splits)

lemma child_Ok: "check_child H fc m d c = Ok u \<longleftrightarrow> newborn H fc m d c"
  by (auto simp: check_child_def newborn_def result_ok Let_def NUM_FREE_BREEDINGS_def
      split: Parent.splits MomKittyStatus.splits DadKittyStatus.splits)

lemma bred_once_bounds:
  assumes "bred_once old new"
  shows "free_breedings old \<noteq> 0" and "unat (num_breedings old) + 1 < 2 ^ 128"
  using assms unat_less_exp [of "num_breedings new"] by (auto simp: bred_once_def)

lemma family_Ok:
  "can_breed mom dad = Ok () \<and> check_new_mom mom mom' = Ok () \<and> check_new_dad dad dad' = Ok () \<longleftrightarrow>
     parent mom = Mom MomRearinToGo \<and> parent dad = Dad DadRearinToGo
     \<and> parent mom' = Mom HadBirthRecently \<and> parent dad' = Dad Tired
     \<and> bred_once mom mom' \<and> bred_once dad dad'"
  using bred_once_bounds by (auto simp: can_breed_Ok new_mom_Ok new_dad_Ok)

lemma kitty_Ok:
  "snd (kitty_check H fc kc c ins evs pks outs s) = Ok p \<longleftrightarrow>
     p = 0 \<and> evs = [] \<and> (\<exists>dm dd em ed ec mom dad mom' dad' child.
       ins = [dm, dd] \<and> outs = [em, ed, ec]
       \<and> view (kitty_data kc) dm = Some mom \<and> view (kitty_data kc) dd = Some dad
       \<and> view (kitty_data kc) em = Some mom' \<and> view (kitty_data kc) ed = Some dad'
       \<and> view (kitty_data kc) ec = Some child
       \<and> parent mom = Mom MomRearinToGo \<and> parent dad = Dad DadRearinToGo
       \<and> parent mom' = Mom HadBirthRecently \<and> parent dad' = Dad Tired
       \<and> bred_once mom mom' \<and> bred_once dad dad' \<and> newborn H fc mom' dad' child)"
  (is "_ = ?R")
proof -
  have "snd (kitty_check H fc kc c ins evs pks outs s) = Ok p \<longleftrightarrow>
     p = 0 \<and> evs = [] \<and> (\<exists>dm dd em ed ec mom dad mom' dad' child.
       ins = [dm, dd] \<and> outs = [em, ed, ec]
       \<and> view (kitty_data kc) dm = Some mom \<and> view (kitty_data kc) dd = Some dad
       \<and> view (kitty_data kc) em = Some mom' \<and> view (kitty_data kc) ed = Some dad'
       \<and> view (kitty_data kc) ec = Some child
       \<and> (can_breed mom dad = Ok () \<and> check_new_mom mom mom' = Ok () \<and> check_new_dad dad dad' = Ok ())
       \<and> newborn H fc mom' dad' child)"
    by (auto simp: kitty_check_def check_new_family_def kitty_try_from_def result_ok length_conv child_Ok)
  then show ?thesis unfolding family_Ok by simp
qed

subsection \<open>Kitties on the ledger\<close>

definition kitty_count :: "KittyData codec \<Rightarrow> DynamicallyTypedData \<Rightarrow> nat" where
  "kitty_count kc d = (if view (kitty_data kc) d = None then 0 else 1)"

definition free_count :: "KittyData codec \<Rightarrow> DynamicallyTypedData \<Rightarrow> nat" where
  "free_count kc d = (case view (kitty_data kc) d of Some k \<Rightarrow> unat (free_breedings k) | None \<Rightarrow> 0)"

definition num_kitties :: "KittyData codec \<Rightarrow> 'v ledger \<Rightarrow> nat" where
  "num_kitties kc U = ledger_total (\<lambda>out. kitty_count kc (payload out)) U"

definition total_free_breedings :: "KittyData codec \<Rightarrow> 'v ledger \<Rightarrow> nat" where
  "total_free_breedings kc U = ledger_total (\<lambda>out. free_count kc (payload out)) U"

text \<open>
  Breeding is accepted exactly for a ready mom and a ready dad, consumed in this order, and outputs that
  are the same mom (who had birth recently) and the same dad (now tired), each with one free
  breeding less and one breeding more, both without wrap-around, followed by a fresh child
  whose DNA is the hash of the parents' DNA and new breeding counts.
\<close>

theorem breed_accepts_iff:
  "snd (kitty_check H fc kc c ins evs pks outs s) = Ok p \<longleftrightarrow>
     p = 0 \<and> evs = [] \<and> (\<exists>dm dd em ed ec mom dad mom' dad' child.
       ins = [dm, dd] \<and> outs = [em, ed, ec]
       \<and> view (kitty_data kc) dm = Some mom \<and> view (kitty_data kc) dd = Some dad
       \<and> view (kitty_data kc) em = Some mom' \<and> view (kitty_data kc) ed = Some dad'
       \<and> view (kitty_data kc) ec = Some child
       \<and> parent mom = Mom MomRearinToGo \<and> parent dad = Dad DadRearinToGo
       \<and> parent mom' = Mom HadBirthRecently \<and> parent dad' = Dad Tired
       \<and> bred_once mom mom' \<and> bred_once dad dad' \<and> newborn H fc mom' dad' child)"
  by (rule kitty_Ok)

text \<open>
  C26. Breeding adds exactly one kitty to the ledger and conserves the total number of free breedings: the
  parents lose one each, the child has two.
\<close>

theorem breed_conserves_free_breedings:
  assumes "executive H V C" and "block_height H s = Some h"
    and "finite (dom (ledger_of H V s))" and "length (outputs tx) \<le> 2 ^ 32"
    and "follows C (checker tx) (kitty_check H fc kc) FreeKittyConstraintChecker"
    and "snd (apply_tuxedo_transaction H V C tx s) = Ok ()"
  shows "num_kitties kc (ledger_of H V (fst (apply_tuxedo_transaction H V C tx s)))
      = num_kitties kc (ledger_of H V s) + 1
    \<and> total_free_breedings kc (ledger_of H V (fst (apply_tuxedo_transaction H V C tx s)))
      = total_free_breedings kc (ledger_of H V s)"
proof -
  let ?U = "ledger_of H V s"
  have acc: "ledger_accepts H V C h ?U s tx"
    using executive.apply_complete [OF assms(1,2)] assms(6) by blast
  obtain p where "snd (kitty_check H fc kc FreeKittyConstraintChecker (ledger_payloads ?U (redeemed_refs tx))
      (ledger_payloads ?U (evicted_refs tx)) (ledger_payloads ?U (peeks tx)) (map payload (outputs tx)) s) = Ok p"
    using assms(5) acc by (rule accepted_follows)
  then obtain dm dd em ed ec mom dad mom' dad' child where
    ins: "ledger_payloads ?U (input_refs tx) = [dm, dd]" and outs: "map payload (outputs tx) = [em, ed, ec]"
    and views: "view (kitty_data kc) dm = Some mom" "view (kitty_data kc) dd = Some dad"
      "view (kitty_data kc) em = Some mom'" "view (kitty_data kc) ed = Some dad'"
      "view (kitty_data kc) ec = Some child"
    and kinds: "parent mom = Mom MomRearinToGo" "parent dad = Dad DadRearinToGo"
    and bred: "bred_once mom mom'" "bred_once dad dad'" "newborn H fc mom' dad' child"
    unfolding kitty_Ok by (metis no_evictions_redeem_all)
  have "dm \<noteq> dd" using views(1,2) kinds by auto
  then have refs: "distinct (input_refs tx)"
    using ins by (auto simp: ledger_payloads_def)
  have total: "ledger_total (\<lambda>out. w (payload out)) (ledger_of H V (fst (apply_tuxedo_transaction H V C tx s)))
      + (w dm + w dd) = ledger_total (\<lambda>out. w (payload out)) ?U + (w em + w ed + w ec)" for w
  proof -
    have "map (\<lambda>r. w (payload (the (?U r)))) (input_refs tx) = map w (ledger_payloads ?U (input_refs tx))"
      "map (\<lambda>out. w (payload out)) (outputs tx) = map w (map payload (outputs tx))"
      by (simp_all add: ledger_payloads_def)
    then show ?thesis
      using accepted_total [OF assms(3) acc refs assms(4), of "\<lambda>out. w (payload out)"]
      unfolding executive.apply_ledger [OF assms(1,6,4)] ins outs by simp
  qed
  show ?thesis
    using total [of "kitty_count kc"] total [of "free_count kc"] views bred
    by (simp add: kitty_count_def free_count_def num_kitties_def total_free_breedings_def
        bred_once_def newborn_def)
qed

text \<open>
  C27. A kitty breeds once: a mom or dad produced by an accepted breeding is never accepted as a parent again, and
  since no transaction of the piece changes that status back, resting does not exist. The
  transaction \<open>kitty_mint\<close> builds is refused by the piece's own checker.
\<close>

theorem parents_breed_once:
  assumes "snd (kitty_check H fc kc c [dm, dd] evs pks [em, ed, ec] s) = Ok p"
  shows "(\<forall>d evs' pks' outs' s' p'. snd (kitty_check H fc kc c [em, d] evs' pks' outs' s') \<noteq> Ok p'
       \<and> snd (kitty_check H fc kc c [d, em] evs' pks' outs' s') \<noteq> Ok p'
       \<and> snd (kitty_check H fc kc c [ed, d] evs' pks' outs' s') \<noteq> Ok p'
       \<and> snd (kitty_check H fc kc c [d, ed] evs' pks' outs' s') \<noteq> Ok p')
    \<and> (\<forall>par pre v s'. snd (kitty_check H fc kc c [] [] []
         (map payload (outputs (kitty_mint H kc dd' id id par pre v))) s') = Err TwoParentsDoNotExist)"
proof -
  from assms obtain mom' dad' where "view (kitty_data kc) em = Some mom'" "view (kitty_data kc) ed = Some dad'"
    "parent mom' = Mom HadBirthRecently" "parent dad' = Dad Tired"
    unfolding kitty_Ok by auto
  then show ?thesis
    unfolding kitty_Ok by (auto simp: kitty_check_def)
qed

end
