(* ===== verification/Amoeba.thy ===== *)
theory Amoeba
  imports Genesis Constraint_Checkers
begin

text \<open>
  \<^verbatim>\<open>wardrobe/amoeba\<close>: amoebas are created, divide and die. Each of the three checkers is a
  definition; the generation is a 32-bit counter and its increment wraps, as in the source. The
  lemmas characterise acceptance and lift it to the ledger: how each accepted transaction
  changes the number of living amoebas.
\<close>

record AmoebaDetails =
  generation :: u32
  four_bytes :: byte4

definition amoeba_data :: "AmoebaDetails codec \<Rightarrow> AmoebaDetails UtxoData" where
  "amoeba_data ac = \<lparr>TYPE_ID = byte_string4 ''amoe'', data_codec = ac\<rparr>"

datatype AmoebaError =
    AmoebaBadlyTypedInput
  | AmoebaBadlyTypedOutput
  | AmoebaNoEvictionsAllowed
  | CreatedNothing
  | CreatedTooMany
  | CreationMayNotConsume
  | NoVictim
  | TooManyVictims
  | DeathMayNotCreate
  | WrongNumberOfDaughters
  | WrongNumberOfMothers
  | WrongGeneration

datatype AmoebaMitosis = AmoebaMitosis
datatype AmoebaDeath = AmoebaDeath
datatype AmoebaCreation = AmoebaCreation

definition mitosis_check :: "AmoebaDetails codec \<Rightarrow> (AmoebaMitosis, AmoebaError) check_fn" where
  "mitosis_check ac c input_data evicted_input_data peek_data output_data = stateless
     (ensure (evicted_input_data = []) AmoebaNoEvictionsAllowed
     (ensure (length input_data = 1) WrongNumberOfMothers
     (bind_result (extract_or (amoeba_data ac) AmoebaBadlyTypedInput (input_data ! 0)) (\<lambda>mother.
     ensure (length output_data = 2) WrongNumberOfDaughters
     (bind_result (extract_or (amoeba_data ac) AmoebaBadlyTypedOutput (output_data ! 0)) (\<lambda>first_daughter.
     bind_result (extract_or (amoeba_data ac) AmoebaBadlyTypedOutput (output_data ! 1)) (\<lambda>second_daughter.
     ensure (generation first_daughter = generation mother + 1) WrongGeneration
     (ensure (generation second_daughter = generation mother + 1) WrongGeneration
     (Ok 0)))))))))"

definition death_check :: "AmoebaDetails codec \<Rightarrow> (AmoebaDeath, AmoebaError) check_fn" where
  "death_check ac c input_data evicted_input_data peek_data output_data = stateless
     (ensure (evicted_input_data = []) AmoebaNoEvictionsAllowed
     (ensure (input_data \<noteq> []) NoVictim
     (ensure (length input_data = 1) TooManyVictims
     (bind_result (extract_or (amoeba_data ac) AmoebaBadlyTypedInput (input_data ! 0)) (\<lambda>_.
     ensure (output_data = []) DeathMayNotCreate
     (Ok 0))))))"

definition creation_check :: "AmoebaDetails codec \<Rightarrow> (AmoebaCreation, AmoebaError) check_fn" where
  "creation_check ac c input_data evicted_input_data peek_data output_data = stateless
     (ensure (evicted_input_data = []) AmoebaNoEvictionsAllowed
     (ensure (output_data \<noteq> []) CreatedNothing
     (ensure (length output_data = 1) CreatedTooMany
     (bind_result (extract_or (amoeba_data ac) AmoebaBadlyTypedOutput (output_data ! 0)) (\<lambda>eve.
     ensure (generation eve = 0) WrongGeneration
     (ensure (input_data = []) CreationMayNotConsume
     (Ok 0)))))))"

definition mitosis_checker ::
  "AmoebaDetails codec \<Rightarrow> AmoebaMitosis codec \<Rightarrow> (AmoebaMitosis, AmoebaError) SimpleConstraintChecker" where
  "mitosis_checker ac kc = \<lparr>simple_check = mitosis_check ac, simple_codec = kc\<rparr>"

definition death_checker ::
  "AmoebaDetails codec \<Rightarrow> AmoebaDeath codec \<Rightarrow> (AmoebaDeath, AmoebaError) SimpleConstraintChecker" where
  "death_checker ac kc = \<lparr>simple_check = death_check ac, simple_codec = kc\<rparr>"

definition creation_checker ::
  "AmoebaDetails codec \<Rightarrow> AmoebaCreation codec \<Rightarrow> (AmoebaCreation, AmoebaError) SimpleConstraintChecker" where
  "creation_checker ac kc = \<lparr>simple_check = creation_check ac, simple_codec = kc\<rparr>"

interpretation mitosis: framed_simple "mitosis_checker ac kc" for ac kc
  by unfold_locales (simp_all add: mitosis_checker_def mitosis_check_def)

interpretation death: framed_simple "death_checker ac kc" for ac kc
  by unfold_locales (simp_all add: death_checker_def death_check_def)

interpretation creation: framed_simple "creation_checker ac kc" for ac kc
  by unfold_locales (simp_all add: creation_checker_def creation_check_def)

subsection \<open>What the checks accept\<close>

lemma mitosis_Ok:
  "snd (mitosis_check ac c ins evs pks outs s) = Ok p \<longleftrightarrow>
     p = 0 \<and> evs = [] \<and> (\<exists>dm d1 d2 m a b. ins = [dm] \<and> outs = [d1, d2]
        \<and> view (amoeba_data ac) dm = Some m \<and> view (amoeba_data ac) d1 = Some a
        \<and> view (amoeba_data ac) d2 = Some b
        \<and> generation a = generation m + 1 \<and> generation b = generation m + 1)"
  by (auto simp: mitosis_check_def result_ok length_conv)

lemma death_Ok:
  "snd (death_check ac c ins evs pks outs s) = Ok p \<longleftrightarrow>
     p = 0 \<and> evs = [] \<and> outs = [] \<and> (\<exists>d m. ins = [d] \<and> view (amoeba_data ac) d = Some m)"
  by (auto simp: death_check_def result_ok length_conv)

lemma creation_Ok:
  "snd (creation_check ac c ins evs pks outs s) = Ok p \<longleftrightarrow>
     p = 0 \<and> evs = [] \<and> ins = []
     \<and> (\<exists>d eve. outs = [d] \<and> view (amoeba_data ac) d = Some eve \<and> generation eve = 0)"
  by (auto simp: creation_check_def result_ok length_conv)

subsection \<open>The population\<close>

definition amoebas_in :: "AmoebaDetails codec \<Rightarrow> DynamicallyTypedData \<Rightarrow> nat" where
  "amoebas_in ac d = (if view (amoeba_data ac) d = None then 0 else 1)"

definition population :: "AmoebaDetails codec \<Rightarrow> 'v ledger \<Rightarrow> nat" where
  "population ac U = ledger_total (\<lambda>out. amoebas_in ac (payload out)) U"

lemma accepted_population:
  assumes "finite (dom U)" and "ledger_accepts H V C h U s tx"
    and "distinct (input_refs tx)" and "length (outputs tx) \<le> 2 ^ 32"
  shows "population ac (ledger_update (input_refs tx) (created_outputs H V (checker_codec C) tx) U)
      + sum_list (map (amoebas_in ac) (ledger_payloads U (input_refs tx)))
    = population ac U + sum_list (map (amoebas_in ac) (map payload (outputs tx)))"
  using accepted_total [OF assms, of "\<lambda>out. amoebas_in ac (payload out)"]
  by (simp add: population_def ledger_payloads_def comp_def)

lemma one_payload_distinct: "ledger_payloads U (input_refs tx) = [d] \<Longrightarrow> distinct (input_refs tx)"
  by (auto simp: ledger_payloads_def)

text \<open>
  C31. The amoeba population follows its transactions: an applied mitosis replaces one amoeba by two,
  an applied death removes one, an applied creation adds one, whatever else the ledger holds.
\<close>

theorem amoeba_population:
  assumes "executive H V C" and "block_height H s = Some h"
    and "finite (dom (ledger_of H V s))" and "length (outputs tx) \<le> 2 ^ 32"
    and "snd (apply_tuxedo_transaction H V C tx s) = Ok ()"
  shows "(follows C (checker tx) (mitosis_check ac) AmoebaMitosis \<longrightarrow>
           population ac (ledger_of H V (fst (apply_tuxedo_transaction H V C tx s)))
             = population ac (ledger_of H V s) + 1)
    \<and> (follows C (checker tx) (death_check ac) AmoebaDeath \<longrightarrow>
           population ac (ledger_of H V (fst (apply_tuxedo_transaction H V C tx s))) + 1
             = population ac (ledger_of H V s))
    \<and> (follows C (checker tx) (creation_check ac) AmoebaCreation \<longrightarrow>
           population ac (ledger_of H V (fst (apply_tuxedo_transaction H V C tx s)))
             = population ac (ledger_of H V s) + 1)"
proof -
  let ?U = "ledger_of H V s" and ?U' = "ledger_of H V (fst (apply_tuxedo_transaction H V C tx s))"
  have acc: "ledger_accepts H V C h ?U s tx"
    using executive.apply_complete [OF assms(1,2)] assms(5) by blast
  have upd: "?U' = ledger_update (input_refs tx) (created_outputs H V (checker_codec C) tx) ?U"
    by (rule executive.apply_ledger [OF assms(1,5,4)])
  have pop: "population ac ?U' + sum_list (map (amoebas_in ac) (ledger_payloads ?U (input_refs tx)))
      = population ac ?U + sum_list (map (amoebas_in ac) (map payload (outputs tx)))"
    if "distinct (input_refs tx)"
    unfolding upd by (rule accepted_population [OF assms(3) acc that assms(4)])
  have mitosis: "population ac ?U' = population ac ?U + 1"
    if "follows C (checker tx) (mitosis_check ac) AmoebaMitosis"
    using that acc
  proof (rule accepted_follows)
    fix p
    assume "snd (mitosis_check ac AmoebaMitosis (ledger_payloads ?U (redeemed_refs tx))
      (ledger_payloads ?U (evicted_refs tx)) (ledger_payloads ?U (peeks tx)) (map payload (outputs tx)) s) = Ok p"
    then obtain dm d1 d2 m a b where ins: "ledger_payloads ?U (input_refs tx) = [dm]"
      and "map payload (outputs tx) = [d1, d2]" "view (amoeba_data ac) dm = Some m"
      "view (amoeba_data ac) d1 = Some a" "view (amoeba_data ac) d2 = Some b"
      unfolding mitosis_Ok by (metis no_evictions_redeem_all)
    then show ?thesis using pop [OF one_payload_distinct [OF ins]] by (simp add: amoebas_in_def)
  qed
  have death: "population ac ?U' + 1 = population ac ?U"
    if "follows C (checker tx) (death_check ac) AmoebaDeath"
    using that acc
  proof (rule accepted_follows)
    fix p
    assume "snd (death_check ac AmoebaDeath (ledger_payloads ?U (redeemed_refs tx))
      (ledger_payloads ?U (evicted_refs tx)) (ledger_payloads ?U (peeks tx)) (map payload (outputs tx)) s) = Ok p"
    then obtain d m where ins: "ledger_payloads ?U (input_refs tx) = [d]"
      and "map payload (outputs tx) = []" "view (amoeba_data ac) d = Some m"
      unfolding death_Ok by (metis no_evictions_redeem_all)
    then show ?thesis using pop [OF one_payload_distinct [OF ins]] by (simp add: amoebas_in_def)
  qed
  have creation: "population ac ?U' = population ac ?U + 1"
    if "follows C (checker tx) (creation_check ac) AmoebaCreation"
    using that acc
  proof (rule accepted_follows)
    fix p
    assume "snd (creation_check ac AmoebaCreation (ledger_payloads ?U (redeemed_refs tx))
      (ledger_payloads ?U (evicted_refs tx)) (ledger_payloads ?U (peeks tx)) (map payload (outputs tx)) s) = Ok p"
    then obtain d eve where ins: "ledger_payloads ?U (input_refs tx) = []"
      and "map payload (outputs tx) = [d]" "view (amoeba_data ac) d = Some eve"
      unfolding creation_Ok by (metis no_evictions_redeem_all)
    moreover from ins have "input_refs tx = []" by (simp add: ledger_payloads_def)
    ultimately show ?thesis using pop by (simp add: amoebas_in_def)
  qed
  show ?thesis using mitosis death creation by blast
qed

text \<open>
  Mitosis is accepted exactly for one amoeba mother and two amoeba daughters of the next
  generation, where the next generation after \<open>2 ^ 32 - 1\<close> is 0.
\<close>

theorem mitosis_accepts_iff:
  "snd (mitosis_check ac c ins evs pks outs s) = Ok p \<longleftrightarrow>
     p = 0 \<and> evs = [] \<and> (\<exists>dm d1 d2 m a b. ins = [dm] \<and> outs = [d1, d2]
        \<and> view (amoeba_data ac) dm = Some m \<and> view (amoeba_data ac) d1 = Some a
        \<and> view (amoeba_data ac) d2 = Some b
        \<and> unat (generation a) = (unat (generation m) + 1) mod 2 ^ 32
        \<and> unat (generation b) = (unat (generation m) + 1) mod 2 ^ 32)"
proof -
  have "x = y + 1 \<longleftrightarrow> unat x = (unat y + 1) mod 2 ^ 32" for x y :: u32
    by (simp add: word_unat_eq_iff unat_word_ariths)
  then show ?thesis unfolding mitosis_Ok by presburger
qed

end
