(* ===== verification/Poe.thy ===== *)
theory Poe
  imports Genesis Constraint_Checkers
begin

text \<open>
  \<^verbatim>\<open>wardrobe/poe\<close>: proof of existence. Claims are registered at a height, revoked by their owner,
  and disputed by anyone who can show an older claim for the same hash. The configuration
  trait's \<^verbatim>\<open>block_height\<close> is the argument \<open>height_of\<close>, which panics (\<open>None\<close>) where the executive's does.
\<close>

record ClaimData =
  claim :: H256
  effective_height :: u32

definition claim_data :: "ClaimData codec \<Rightarrow> ClaimData UtxoData" where
  "claim_data cdc = \<lparr>TYPE_ID = byte_string4 ''poe_'', data_codec = cdc\<rparr>"

datatype PoeError =
    PoeWrongNumberInputs
  | PoeWrongNumberOutputs
  | PoeBadlyTypedInput
  | PoeBadlyTypedOutput
  | EffectiveHeightInPast
  | DisputingMismatchedClaims
  | IncorrectDisputeWinner

datatype PoeClaim = PoeClaim
datatype PoeRevoke = PoeRevoke
datatype PoeDispute = PoeDispute

definition poe_claim_check ::
  "(storage \<Rightarrow> u32 option) \<Rightarrow> ClaimData codec \<Rightarrow> (PoeClaim, PoeError) check_fn" where
  "poe_claim_check height_of cdc c input_data evicted_input_data peek_data output_data = reading (\<lambda>s.
     ensure (input_data = []) PoeWrongNumberInputs
     (ensure (evicted_input_data = []) PoeWrongNumberInputs
     (bind_result (for_result (\<lambda>untyped_output.
          bind_result (extract_or (claim_data cdc) PoeBadlyTypedOutput untyped_output) (\<lambda>out.
          bind_result (expect (height_of s)) (\<lambda>height.
          ensure (effective_height out \<ge> height) EffectiveHeightInPast (Ok ())))) output_data) (\<lambda>_.
     Ok 0))))"

definition poe_revoke_check :: "ClaimData codec \<Rightarrow> (PoeRevoke, PoeError) check_fn" where
  "poe_revoke_check cdc c input_data evicted_input_data peek_data output_data = stateless
     (ensure (evicted_input_data = []) PoeWrongNumberInputs
     (ensure (output_data = []) PoeWrongNumberOutputs
     (bind_result (for_result (\<lambda>untyped_input.
          bind_result (extract_or (claim_data cdc) PoeBadlyTypedInput untyped_input) (\<lambda>_. Ok ()))
          input_data) (\<lambda>_.
     Ok 0))))"

definition poe_dispute_check :: "ClaimData codec \<Rightarrow> (PoeDispute, PoeError) check_fn" where
  "poe_dispute_check cdc c input_data evicted_input_data peek_data output_data = stateless
     (ensure (input_data = []) PoeWrongNumberInputs
     (ensure (output_data = []) PoeWrongNumberOutputs
     (bind_result (case peek_data of [] \<Rightarrow> Err PoeWrongNumberInputs | d # _ \<Rightarrow> Ok d) (\<lambda>first.
     bind_result (extract_or (claim_data cdc) PoeBadlyTypedInput first) (\<lambda>winner.
     bind_result (for_result (\<lambda>untyped_loser.
          bind_result (extract_or (claim_data cdc) PoeBadlyTypedInput untyped_loser) (\<lambda>loser.
          ensure (claim winner = claim loser) DisputingMismatchedClaims
          (ensure (effective_height winner < effective_height loser) IncorrectDisputeWinner
          (Ok ())))) evicted_input_data) (\<lambda>_.
     Ok 0))))))"

definition poe_claim_checker ::
  "(storage \<Rightarrow> u32 option) \<Rightarrow> ClaimData codec \<Rightarrow> PoeClaim codec
     \<Rightarrow> (PoeClaim, PoeError) SimpleConstraintChecker" where
  "poe_claim_checker height_of cdc kc = \<lparr>simple_check = poe_claim_check height_of cdc, simple_codec = kc\<rparr>"

definition poe_revoke_checker ::
  "ClaimData codec \<Rightarrow> PoeRevoke codec \<Rightarrow> (PoeRevoke, PoeError) SimpleConstraintChecker" where
  "poe_revoke_checker cdc kc = \<lparr>simple_check = poe_revoke_check cdc, simple_codec = kc\<rparr>"

definition poe_dispute_checker ::
  "ClaimData codec \<Rightarrow> PoeDispute codec \<Rightarrow> (PoeDispute, PoeError) SimpleConstraintChecker" where
  "poe_dispute_checker cdc kc = \<lparr>simple_check = poe_dispute_check cdc, simple_codec = kc\<rparr>"

text \<open>Installed with the executive's block height, as the runtimes do.\<close>

interpretation poe_claim: framed_simple "poe_claim_checker (block_height H) cdc kc" for H cdc kc
  by unfold_locales (simp_all add: poe_claim_checker_def poe_claim_check_def)

interpretation poe_revoke: framed_simple "poe_revoke_checker cdc kc" for cdc kc
  by unfold_locales (simp_all add: poe_revoke_checker_def poe_revoke_check_def)

interpretation poe_dispute: framed_simple "poe_dispute_checker cdc kc" for cdc kc
  by unfold_locales (simp_all add: poe_dispute_checker_def poe_dispute_check_def)

subsection \<open>What the checks accept\<close>

lemma poe_claim_Ok:
  "snd (poe_claim_check height_of cdc c ins evs pks outs s) = Ok p \<longleftrightarrow>
     p = 0 \<and> ins = [] \<and> evs = []
     \<and> (\<forall>d \<in> set outs. \<exists>out h. view (claim_data cdc) d = Some out \<and> height_of s = Some h
          \<and> h \<le> effective_height out)"
  by (auto simp: poe_claim_check_def result_ok)

lemma poe_revoke_Ok:
  "snd (poe_revoke_check cdc c ins evs pks outs s) = Ok p \<longleftrightarrow>
     p = 0 \<and> evs = [] \<and> outs = [] \<and> (\<forall>d \<in> set ins. view (claim_data cdc) d \<noteq> None)"
  by (auto simp: poe_revoke_check_def result_ok)

lemma poe_dispute_Ok:
  "snd (poe_dispute_check cdc c ins evs pks outs s) = Ok p \<longleftrightarrow>
     p = 0 \<and> ins = [] \<and> outs = []
     \<and> (\<exists>d rest w. pks = d # rest \<and> view (claim_data cdc) d = Some w
          \<and> (\<forall>d' \<in> set evs. \<exists>l. view (claim_data cdc) d' = Some l
               \<and> claim w = claim l \<and> effective_height w < effective_height l))"
  by (auto simp: poe_dispute_check_def result_ok split: list.splits)

text \<open>
  C30. A dispute removes only what loses to a claim that stays. When the executive applies a dispute, one of
  the peeks is a claim that is still in the ledger afterwards, nothing is added, and every
  output that disappears is a claim for the same hash with a strictly later effective height.
  The owners' redeemers play no part.
\<close>

theorem dispute_keeps_oldest:
  assumes "executive H V C" and "block_height H s = Some h" and "length (outputs tx) \<le> 2 ^ 32"
    and "follows C (checker tx) (poe_dispute_check cdc) PoeDispute"
    and "snd (apply_tuxedo_transaction H V C tx s) = Ok ()"
  shows "\<exists>r out w. r \<in> set (peeks tx)
      \<and> ledger_of H V (fst (apply_tuxedo_transaction H V C tx s)) r = Some out
      \<and> view (claim_data cdc) (payload out) = Some w
      \<and> ledger_of H V (fst (apply_tuxedo_transaction H V C tx s)) \<subseteq>\<^sub>m ledger_of H V s
      \<and> (\<forall>r' out'. ledger_of H V s r' = Some out'
           \<and> ledger_of H V (fst (apply_tuxedo_transaction H V C tx s)) r' = None \<longrightarrow>
           (\<exists>l. view (claim_data cdc) (payload out') = Some l \<and> claim w = claim l
              \<and> effective_height w < effective_height l))"
proof -
  let ?U = "ledger_of H V s" and ?U' = "ledger_of H V (fst (apply_tuxedo_transaction H V C tx s))"
  have acc: "ledger_accepts H V C h ?U s tx"
    using executive.apply_complete [OF assms(1,2)] assms(5) by blast
  obtain p where "snd (poe_dispute_check cdc PoeDispute (ledger_payloads ?U (redeemed_refs tx))
      (ledger_payloads ?U (evicted_refs tx)) (ledger_payloads ?U (peeks tx)) (map payload (outputs tx)) s) = Ok p"
    using assms(4) acc by (rule accepted_follows)
  then obtain d rest w where redeemed: "ledger_payloads ?U (redeemed_refs tx) = []"
    and outs: "outputs tx = []" and peek: "ledger_payloads ?U (peeks tx) = d # rest"
    and w: "view (claim_data cdc) d = Some w"
    and losers: "\<forall>d' \<in> set (ledger_payloads ?U (evicted_refs tx)). \<exists>l. view (claim_data cdc) d' = Some l
         \<and> claim w = claim l \<and> effective_height w < effective_height l"
    unfolding poe_dispute_Ok by auto
  have refs: "evicted_refs tx = input_refs tx" by (rule no_redemptions_evict_all [OF redeemed])
  obtain r where r: "r \<in> set (peeks tx)" "d = payload (the (?U r))"
    using peek by (cases "peeks tx") (auto simp: ledger_payloads_def)
  then obtain out where out: "?U r = Some out"
    using ledger_accepts_present [OF acc, of r] by auto
  have upd: "?U' = (\<lambda>r. if r \<in> set (input_refs tx) then None else ?U r)"
    unfolding executive.apply_ledger [OF assms(1,5,3)]
    by (rule ext) (simp add: ledger_update_def created_outputs_def outs)
  have lost: "\<exists>l. view (claim_data cdc) (payload out') = Some l \<and> claim w = claim l
      \<and> effective_height w < effective_height l"
    if "r' \<in> set (input_refs tx)" "?U r' = Some out'" for r' out'
    using losers that by (force simp: refs ledger_payloads_def)
  have "r \<notin> set (input_refs tx)"
    using lost [of r out] out r(2) w by auto
  then have "?U' r = Some out" using out by (simp add: upd)
  moreover have "?U' \<subseteq>\<^sub>m ?U" by (auto simp: upd map_le_def split: if_splits)
  moreover have "view (claim_data cdc) (payload out) = Some w" using w r(2) out by simp
  ultimately show ?thesis
    using r(1) lost by (intro exI [of _ r] exI [of _ out] exI [of _ w]) (auto simp: upd split: if_splits)
qed

text \<open>
  A claim is never backdated: a transaction checked as a claim is accepted exactly when it consumes
  nothing and each of its outputs is a claim whose effective height is at least the current
  block height (and, without any output, whatever the height).
\<close>

theorem claim_accepts_iff:
  "snd (poe_claim_check height_of cdc c ins evs pks outs s) = Ok p \<longleftrightarrow>
     p = 0 \<and> ins = [] \<and> evs = []
     \<and> list_all (\<lambda>d. \<exists>out h. view (claim_data cdc) d = Some out \<and> height_of s = Some h
          \<and> h \<le> effective_height out) outs"
  by (simp add: poe_claim_Ok list_all_iff)

end
