(* ===== verification/Timestamp.thy ===== *)
theory Timestamp
  imports Genesis Constraint_Checkers Verifiers
begin

text \<open>
  \<^verbatim>\<open>wardrobe/timestamp\<close>: the timestamp inherent and the cleanup of old timestamps. The configuration
  trait is the record \<open>TimestampConfig\<close> (its block height, as for every piece, a function of the
  storage that may panic); additions on times and heights wrap. The inherent hooks are written
  out: what the author creates, what an importer checks, what genesis contains.

  The inherent data's entry and the error pushed for a drifting clock come from
  \<^verbatim>\<open>sp_timestamp\<close>: its identifier and the encoding of \<^verbatim>\<open>InherentError::TooFarInFuture\<close> are arguments.
\<close>

record Timestamp =
  time :: u64
  block :: u32

definition timestamp_new :: "u64 \<Rightarrow> u32 \<Rightarrow> Timestamp" where
  "timestamp_new t b = \<lparr>time = t, block = b\<rparr>"

definition timestamp_data :: "Timestamp codec \<Rightarrow> Timestamp UtxoData" where
  "timestamp_data tc = \<lparr>TYPE_ID = byte_string4 ''time'', data_codec = tc\<rparr>"

record TimestampConfig =
  config_block_height :: "storage \<Rightarrow> u32 option"
  MINIMUM_TIME_INTERVAL :: u64
  MAX_DRIFT :: u64
  MIN_TIME_BEFORE_CLEANUP :: u64
  MIN_BLOCKS_BEFORE_CLEANUP :: u32

definition default_timestamp_config :: "(storage \<Rightarrow> u32 option) \<Rightarrow> TimestampConfig" where
  "default_timestamp_config height_of =
     \<lparr>config_block_height = height_of, MINIMUM_TIME_INTERVAL = 2000, MAX_DRIFT = 60000,
      MIN_TIME_BEFORE_CLEANUP = 1000 * 60 * 60 * 24, MIN_BLOCKS_BEFORE_CLEANUP = 15000\<rparr>"

datatype TimestampError =
    TimestampBadlyTyped
  | MissingNewTimestamp
  | NewTimestampWrongHeight
  | TooManyOutputsWhileSettingTimestamp
  | PreviousTimestampWrongHeight
  | MissingPreviousTimestamp
  | InputsWhileSettingTimestamp
  | TimestampTooOld
  | CleanupRequiresOneReference
  | CleanupCannotCreateState
  | DontBeSoHasty
  | CleanupEvictionsOnly

datatype SetTimestamp = SetTimestamp
datatype CleanUpTimestamp = CleanUpTimestamp

definition set_timestamp_check ::
  "TimestampConfig \<Rightarrow> Timestamp codec \<Rightarrow> (SetTimestamp, TimestampError) check_fn" where
  "set_timestamp_check T tc c input_data evicted_input_data peek_data output_data = reading (\<lambda>s.
     ensure (input_data = []) InputsWhileSettingTimestamp
     (ensure (evicted_input_data = []) InputsWhileSettingTimestamp
     (ensure (output_data \<noteq> []) MissingNewTimestamp
     (bind_result (extract_or (timestamp_data tc) TimestampBadlyTyped (output_data ! 0)) (\<lambda>new_timestamp.
     ensure (length output_data = 1) TooManyOutputsWhileSettingTimestamp
     (bind_result (expect (config_block_height T s)) (\<lambda>height.
     ensure (block new_timestamp = height) NewTimestampWrongHeight
     (ensure (peek_data \<noteq> []) MissingPreviousTimestamp
     (bind_result (extract_or (timestamp_data tc) TimestampBadlyTyped (peek_data ! 0)) (\<lambda>old_timestamp.
     ensure (block old_timestamp = 0
          \<or> time new_timestamp \<ge> time old_timestamp + MINIMUM_TIME_INTERVAL T) TimestampTooOld
     (ensure (block new_timestamp = block old_timestamp + 1) PreviousTimestampWrongHeight
     (Ok 0))))))))))))"

definition cleanup_check ::
  "TimestampConfig \<Rightarrow> Timestamp codec \<Rightarrow> (CleanUpTimestamp, TimestampError) check_fn" where
  "cleanup_check T tc c input_data evicted_input_data peek_data output_data = reading (\<lambda>s.
     ensure (input_data = []) CleanupEvictionsOnly
     (ensure (peek_data \<noteq> []) CleanupRequiresOneReference
     (bind_result (extract_or (timestamp_data tc) TimestampBadlyTyped (peek_data ! 0)) (\<lambda>new_reference_timestamp.
     ensure (output_data = []) CleanupCannotCreateState
     (bind_result (for_result (\<lambda>eviction_datum.
          bind_result (extract_or (timestamp_data tc) TimestampBadlyTyped eviction_datum) (\<lambda>old_timestamp.
          ensure (time old_timestamp + MIN_TIME_BEFORE_CLEANUP T < time new_reference_timestamp) DontBeSoHasty
          (bind_result (expect (config_block_height T s)) (\<lambda>height.
          ensure (block old_timestamp + MIN_BLOCKS_BEFORE_CLEANUP T < height) DontBeSoHasty
          (Ok ())))))
          evicted_input_data) (\<lambda>_.
     Ok 0))))))"

definition set_timestamp_checker ::
  "TimestampConfig \<Rightarrow> Timestamp codec \<Rightarrow> SetTimestamp codec
     \<Rightarrow> (SetTimestamp, TimestampError) SimpleConstraintChecker" where
  "set_timestamp_checker T tc kc = \<lparr>simple_check = set_timestamp_check T tc, simple_codec = kc\<rparr>"

definition cleanup_checker ::
  "TimestampConfig \<Rightarrow> Timestamp codec \<Rightarrow> CleanUpTimestamp codec
     \<Rightarrow> (CleanUpTimestamp, TimestampError) SimpleConstraintChecker" where
  "cleanup_checker T tc kc = \<lparr>simple_check = cleanup_check T tc, simple_codec = kc\<rparr>"

subsection \<open>The inherent hooks\<close>

text \<open>What the piece takes from \<^verbatim>\<open>sp_timestamp\<close>.\<close>

record timestamp_host =
  sp_timestamp_identifier :: InherentIdentifier
  inherent_time_codec :: "u64 codec"
  too_far_in_future :: bytes
  too_far_is_fatal :: bool

definition timestamp_create_inherent ::
  "timestamp_host \<Rightarrow> TimestampConfig \<Rightarrow> Timestamp codec \<Rightarrow> ('v, 'r) Verifier \<Rightarrow> InherentData
     \<Rightarrow> ('v, SetTimestamp) Transaction \<times> H256 \<Rightarrow> storage \<Rightarrow> ('v, SetTimestamp) Transaction option" where
  "timestamp_create_inherent P T tc V inh previous_inherent s =
     Option.bind (expect_data (inherent_time_codec P) (sp_timestamp_identifier P) inh) (\<lambda>current_timestamp.
     Option.bind (config_block_height T s) (\<lambda>height.
     (let new_timestamp = \<lparr>time = current_timestamp, block = height\<rparr>;
          old_output = \<lparr>tx_hash = snd previous_inherent, index = 0\<rparr>
      in Option.bind (new_unspendable V) (\<lambda>unspendable.
         Some \<lparr>inputs = [], peeks = [old_output],
               outputs = [\<lparr>payload = into_data (timestamp_data tc) new_timestamp,
                           verifier = unspendable\<rparr>],
               checker = SetTimestamp\<rparr>))))"

definition timestamp_check_inherent ::
  "host \<Rightarrow> timestamp_host \<Rightarrow> TimestampConfig \<Rightarrow> Timestamp codec \<Rightarrow> InherentData
     \<Rightarrow> ('v, SetTimestamp) Transaction \<Rightarrow> CheckInherentsResult \<Rightarrow> CheckInherentsResult option" where
  "timestamp_check_inherent H P T tc inh inherent_tx results =
     Option.bind (expect_data (inherent_time_codec P) (sp_timestamp_identifier P) inh) (\<lambda>local_time.
     (case outputs inherent_tx of
        [] \<Rightarrow> None
      | out # _ \<Rightarrow>
          (case extract_data (timestamp_data tc) (payload out) of
             Ok on_chain_timestamp \<Rightarrow>
               (if time on_chain_timestamp > local_time + MAX_DRIFT T
                then put_error H results (sp_timestamp_identifier P) (too_far_in_future P) (too_far_is_fatal P)
                else Some results)
           | _ \<Rightarrow> None)))"

definition timestamp_genesis_transactions ::
  "Timestamp codec \<Rightarrow> ('v, 'r) Verifier \<Rightarrow> ('v, SetTimestamp) Transaction list option" where
  "timestamp_genesis_transactions tc V =
     Option.bind (new_unspendable V) (\<lambda>unspendable.
     Some [\<lparr>inputs = [], peeks = [],
            outputs = [\<lparr>payload = into_data (timestamp_data tc) (timestamp_new 0 0), verifier = unspendable\<rparr>],
            checker = SetTimestamp\<rparr>])"

definition timestamp_hooks ::
  "host \<Rightarrow> timestamp_host \<Rightarrow> TimestampConfig \<Rightarrow> Timestamp codec \<Rightarrow> ('v, 'r) Verifier
     \<Rightarrow> ('v, SetTimestamp) InherentHooks" where
  "timestamp_hooks H P T tc V =
     \<lparr>INHERENT_IDENTIFIER = sp_timestamp_identifier P,
      create_inherent = timestamp_create_inherent P T tc V,
      check_inherent = timestamp_check_inherent H P T tc,
      hook_genesis_transactions = timestamp_genesis_transactions tc V\<rparr>"

text \<open>Installed with the executive's block height, as the runtimes do.\<close>

interpretation set_timestamp: framed_simple
  "set_timestamp_checker (default_timestamp_config (block_height H)) tc kc" for H tc kc
  by unfold_locales (simp_all add: set_timestamp_checker_def set_timestamp_check_def
      default_timestamp_config_def)

interpretation cleanup: framed_simple
  "cleanup_checker (default_timestamp_config (block_height H)) tc kc" for H tc kc
  by unfold_locales (simp_all add: cleanup_checker_def cleanup_check_def
      default_timestamp_config_def)

subsection \<open>What the checks accept\<close>

lemma set_timestamp_Ok:
  "snd (set_timestamp_check T tc c ins evs pks outs s) = Ok p \<longleftrightarrow>
     p = 0 \<and> ins = [] \<and> evs = [] \<and> (\<exists>d d' rest new old. outs = [d] \<and> pks = d' # rest
       \<and> view (timestamp_data tc) d = Some new \<and> view (timestamp_data tc) d' = Some old
       \<and> config_block_height T s = Some (block new) \<and> block new = block old + 1
       \<and> (block old = 0 \<or> time old + MINIMUM_TIME_INTERVAL T \<le> time new))"
  by (cases pks) (auto simp: set_timestamp_check_def result_ok length_conv neq_Nil_conv)


lemma timestamp_view [simp]:
  "scale_codec tc \<Longrightarrow> view (timestamp_data tc) (into_data (timestamp_data tc) t) = Some t"
  "scale_codec tc \<Longrightarrow> extract_data (timestamp_data tc) (into_data (timestamp_data tc) t) = Ok t"
  by (simp_all add: utxo_data.view_into_data utxo_data.extract_into_data utxo_data.intro timestamp_data_def)

lemma timestamp_check_inherent_okay:
  assumes law: "put_error_law H" and chk: "timestamp_check_inherent H P T tc inh tx r0 = Some r" and "okay r"
  obtains now out rest ts
  where "expect_data (inherent_time_codec P) (sp_timestamp_identifier P) inh = Some now"
    and "outputs tx = out # rest" and "view (timestamp_data tc) (payload out) = Some ts"
    and "time ts \<le> now + MAX_DRIFT T"
proof -
  from chk obtain now where now: "expect_data (inherent_time_codec P) (sp_timestamp_identifier P) inh = Some now"
    by (auto simp: timestamp_check_inherent_def bind_eq_Some_conv)
  from chk now obtain out rest where out: "outputs tx = out # rest"
    by (cases "outputs tx") (auto simp: timestamp_check_inherent_def)
  from chk now out obtain ts where ts: "extract_data (timestamp_data tc) (payload out) = Ok ts"
    by (cases "extract_data (timestamp_data tc) (payload out)") (auto simp: timestamp_check_inherent_def)
  have "\<not> time ts > now + MAX_DRIFT T"
    using chk now out ts law \<open>okay r\<close> by (auto simp: timestamp_check_inherent_def put_error_law_def)
  moreover have "view (timestamp_data tc) (payload out) = Some ts"
    using ts by (auto simp: view_def extract_Ok_iff)
  ultimately show thesis using now out that by force
qed

text \<open>
  The timestamp an author creates is a valid inherent. When the inherent data carries the time \<open>t\<close>, the
  executive's height is \<open>h\<close>, and the output that the created transaction peeks at is a timestamp of
  the previous block that is old enough, then the on-chain check accepts the created
  transaction, its output can be redeemed by nobody the verifier's contract excludes, and an
  importing node whose clock shows the same time has no objection (short of the clock's
  own wrap-around).
\<close>

theorem created_timestamp_checks:
  assumes "scale_codec tc"
    and "expect_data (inherent_time_codec P) (sp_timestamp_identifier P) inh = Some t"
    and "config_block_height T s = Some h" and "new_unspendable V = Some u"
    and "view (timestamp_data tc) d = Some old" and "h = block old + 1"
    and "block old = 0 \<or> time old + MINIMUM_TIME_INTERVAL T \<le> t"
    and "t \<le> t + MAX_DRIFT T"
  shows "\<exists>tx. timestamp_create_inherent P T tc V inh prev s = Some tx
    \<and> peeks tx = [\<lparr>tx_hash = snd prev, index = 0\<rparr>] \<and> map verifier (outputs tx) = [u]
    \<and> snd (set_timestamp_check T tc (checker tx) [] [] [d] (map payload (outputs tx)) s) = Ok 0
    \<and> timestamp_check_inherent H P T tc inh tx r = Some r"
  using assms
  by (auto simp: timestamp_create_inherent_def timestamp_check_inherent_def set_timestamp_Ok)

text \<open>
  C28. Time moves forward: an accepted timestamp is for the current block, the peeked one is for the block
  before (modulo \<open>2 ^ 32\<close>), and unless the peeked one is the genesis timestamp or adding the interval wraps around,
  the new time is later by at least the minimum interval.
\<close>

theorem timestamp_advances:
  assumes "snd (set_timestamp_check T tc c ins evs pks outs s) = Ok p"
  shows "\<exists>d d' rest new old. outs = [d] \<and> pks = d' # rest
    \<and> view (timestamp_data tc) d = Some new \<and> view (timestamp_data tc) d' = Some old
    \<and> config_block_height T s = Some (block new) \<and> block new = block old + 1
    \<and> (block old \<noteq> 0 \<and> unat (time old) + unat (MINIMUM_TIME_INTERVAL T) < 2 ^ 64 \<longrightarrow>
         unat (time old) + unat (MINIMUM_TIME_INTERVAL T) \<le> unat (time new))"
proof -
  have "unat a + unat b \<le> unat c" if "a + b \<le> c" "unat a + unat b < 2 ^ 64" for a b c :: u64
    using that by (simp add: word_le_nat_alt unat_word_add_no_wrap)
  with assms show ?thesis unfolding set_timestamp_Ok by blast
qed


end
