(* ===== verification/Runtime_Upgrade.thy ===== *)
theory Runtime_Upgrade
  imports Genesis Constraint_Checkers
begin

text \<open>
  \<^verbatim>\<open>wardrobe/runtime_upgrade\<close>: the checker that replaces the runtime code. It is the one piece whose check
  writes to the storage (the well-known key \<^verbatim>\<open>:code\<close>), so the whole check is a state
  transformer; a missing code entry is the panic of its \<^verbatim>\<open>expect\<close>.
\<close>

definition CODE :: bytes where "CODE = byte_string '':code''"

record RuntimeRef =
  runtime_hash :: H256

definition runtime_ref_data :: "RuntimeRef codec \<Rightarrow> RuntimeRef UtxoData" where
  "runtime_ref_data rc = \<lparr>TYPE_ID = byte_string4 ''upgd'', data_codec = rc\<rparr>"

datatype UpgradeError =
    UpgradeWrongNumberInputs
  | UpgradeWrongNumberOutputs
  | UpgradeBadlyTypedInput
  | UpgradeBadlyTypedOutput
  | UpgradeNoEvictionsAllowed
  | InputMismatch
  | OutputMismatch

record RuntimeUpgrade =
  full_wasm :: bytes

text \<open>The guards, and then the side effect once they all hold.\<close>

definition upgrade_guard ::
  "host \<Rightarrow> RuntimeRef codec \<Rightarrow> RuntimeUpgrade \<Rightarrow> DynamicallyTypedData list \<Rightarrow> DynamicallyTypedData list
     \<Rightarrow> DynamicallyTypedData list \<Rightarrow> storage \<Rightarrow> (unit, UpgradeError) result" where
  "upgrade_guard H rc c input_data evicted_input_data output_data s =
     ensure (evicted_input_data = []) UpgradeNoEvictionsAllowed
     (ensure (length input_data = 1) UpgradeWrongNumberInputs
     (bind_result (extract_or (runtime_ref_data rc) UpgradeBadlyTypedInput (input_data ! 0)) (\<lambda>consumed.
     bind_result (expect (s CODE)) (\<lambda>outgoing_runtime.
     ensure (runtime_hash consumed = blake2_256 H outgoing_runtime) InputMismatch
     (ensure (length output_data = 1) UpgradeWrongNumberOutputs
     (bind_result (extract_or (runtime_ref_data rc) UpgradeBadlyTypedOutput (output_data ! 0)) (\<lambda>created.
     ensure (runtime_hash created = blake2_256 H (full_wasm c)) OutputMismatch
     (Ok ()))))))))"

definition upgrade_check ::
  "host \<Rightarrow> RuntimeRef codec \<Rightarrow> (RuntimeUpgrade, UpgradeError) check_fn" where
  "upgrade_check H rc c input_data evicted_input_data peek_data output_data s =
     (case upgrade_guard H rc c input_data evicted_input_data output_data s of
        Ok _ \<Rightarrow> (s(CODE \<mapsto> full_wasm c), Ok 0)
      | Err e \<Rightarrow> (s, Err e)
      | Panic \<Rightarrow> (s, Panic))"

definition upgrade_checker ::
  "host \<Rightarrow> RuntimeRef codec \<Rightarrow> RuntimeUpgrade codec
     \<Rightarrow> (RuntimeUpgrade, UpgradeError) SimpleConstraintChecker" where
  "upgrade_checker H rc kc = \<lparr>simple_check = upgrade_check H rc, simple_codec = kc\<rparr>"

lemma CODE_keys [simp]:
  "is_runtime_key CODE" "CODE \<noteq> HEIGHT_KEY" "\<not> is_transient_key CODE"
  by (simp_all add: is_runtime_key_def CODE_def HEIGHT_KEY_def is_transient_key_def HEADER_KEY_def
      EXTRINSIC_KEY_def byte_string_def)

lemma upgrade_guard_transient:
  "is_transient_key k \<Longrightarrow> upgrade_guard H rc c ins evs outs (s(k := v)) = upgrade_guard H rc c ins evs outs s"
proof -
  assume "is_transient_key k"
  then have "CODE \<noteq> k" using CODE_keys(3) by blast
  then show ?thesis by (simp add: upgrade_guard_def)
qed

interpretation upgrade: framed_simple "upgrade_checker H rc kc" for H rc kc
proof
  fix k s v and c :: RuntimeUpgrade and ins evs pks outs
  show "simple_check (upgrade_checker H rc kc) c ins evs pks outs (s(k := v))
      = ((fst (simple_check (upgrade_checker H rc kc) c ins evs pks outs s))(k := v),
         snd (simple_check (upgrade_checker H rc kc) c ins evs pks outs s))" if "is_transient_key k"
  proof -
    have "CODE \<noteq> k" using that CODE_keys(3) by blast
    then show ?thesis
      by (simp add: upgrade_checker_def upgrade_check_def upgrade_guard_transient [OF that]
          fun_upd_twist split: result.split)
  qed
  show "fst (simple_check (upgrade_checker H rc kc) c ins evs pks outs s) k = s k"
    if "\<not> is_runtime_key k \<or> k = HEIGHT_KEY"
  proof -
    have "CODE \<noteq> k" using that CODE_keys by metis
    then show ?thesis by (simp add: upgrade_checker_def upgrade_check_def split: result.split)
  qed
qed

subsection \<open>What the check accepts and does\<close>

lemma upgrade_guard_Ok:
  "upgrade_guard H rc c ins evs outs s = Ok u \<longleftrightarrow>
     evs = [] \<and> (\<exists>d d' old new wasm. ins = [d] \<and> outs = [d'] \<and> s CODE = Some wasm
       \<and> view (runtime_ref_data rc) d = Some old \<and> runtime_hash old = blake2_256 H wasm
       \<and> view (runtime_ref_data rc) d' = Some new \<and> runtime_hash new = blake2_256 H (full_wasm c))"
  by (auto simp: upgrade_guard_def result_ok length_conv)

text \<open>
  A runtime upgrade keeps the code and its UTXO in step. The check succeeds exactly when it
  consumes one reference that hashes the stored code and creates one that hashes the new code;
  then the stored code is the new code, so the created reference hashes what is stored, and no
  other entry changes. On every failure and panic the storage is untouched.
\<close>

theorem upgrade_exact:
  "(snd (upgrade_check H rc c ins evs pks outs s) = Ok p \<longleftrightarrow>
      p = 0 \<and> evs = [] \<and> (\<exists>d d' old new wasm. ins = [d] \<and> outs = [d'] \<and> s CODE = Some wasm
        \<and> view (runtime_ref_data rc) d = Some old \<and> runtime_hash old = blake2_256 H wasm
        \<and> view (runtime_ref_data rc) d' = Some new \<and> runtime_hash new = blake2_256 H (full_wasm c)))
   \<and> fst (upgrade_check H rc c ins evs pks outs s)
       = (if \<exists>p. snd (upgrade_check H rc c ins evs pks outs s) = Ok p
          then s(CODE \<mapsto> full_wasm c) else s)"
proof -
  have "snd (upgrade_check H rc c ins evs pks outs s) = Ok p \<longleftrightarrow>
      p = 0 \<and> upgrade_guard H rc c ins evs outs s = Ok ()" for p
    by (auto simp: upgrade_check_def split: result.splits)
  moreover have "fst (upgrade_check H rc c ins evs pks outs s)
      = (if upgrade_guard H rc c ins evs outs s = Ok () then s(CODE \<mapsto> full_wasm c) else s)"
    by (auto simp: upgrade_check_def split: result.splits)
  ultimately show ?thesis unfolding upgrade_guard_Ok by simp
qed

end
