(* ===== verification/Template_Runtime.thy ===== *)
theory Template_Runtime
  imports Aggregation Money Kitties Amoeba Poe Timestamp Runtime_Upgrade
begin

text \<open>
  \<^verbatim>\<open>tuxedo-template-runtime\<close>: the runtime that puts the wardrobe's pieces together. The two enums are datatypes
  with the source's variants; their trait implementations are the aggregates of
  \<^verbatim>\<open>Aggregation\<close> over the variants in the source's order. Block heights are the executive's.

  Everything the pieces take from outside (their codecs, the hash's tuple encoding,
  \<^verbatim>\<open>sp_timestamp\<close>) is collected in the record \<open>runtime_host\<close>. The theorems show that the runtime is an
  instance of the executive's contracts, that each piece's rules hold inside it, and how its
  inherents and its genesis behave.
\<close>

subsection \<open>The outer verifier\<close>

datatype OuterVerifier =
    OuterSr25519Signature Sr25519Signature
  | OuterUpForGrabs UpForGrabs
  | OuterThresholdMultiSignature ThresholdMultiSignature

datatype OuterVerifierRedeemer =
    RedeemSr25519Signature Signature
  | RedeemUpForGrabs unit
  | RedeemThresholdMultiSignature "SignatureAndIndex list"

fun as_sr_25519_signature :: "OuterVerifierRedeemer \<Rightarrow> Signature option" where
  "as_sr_25519_signature (RedeemSr25519Signature r) = Some r"
| "as_sr_25519_signature _ = None"

fun as_up_for_grabs :: "OuterVerifierRedeemer \<Rightarrow> unit option" where
  "as_up_for_grabs (RedeemUpForGrabs r) = Some r"
| "as_up_for_grabs _ = None"

fun as_threshold_multi_signature :: "OuterVerifierRedeemer \<Rightarrow> SignatureAndIndex list option" where
  "as_threshold_multi_signature (RedeemThresholdMultiSignature r) = Some r"
| "as_threshold_multi_signature _ = None"

fun un_sr25519 :: "OuterVerifier \<Rightarrow> Sr25519Signature option" where
  "un_sr25519 (OuterSr25519Signature v) = Some v"
| "un_sr25519 _ = None"

fun un_up_for_grabs :: "OuterVerifier \<Rightarrow> UpForGrabs option" where
  "un_up_for_grabs (OuterUpForGrabs v) = Some v"
| "un_up_for_grabs _ = None"

fun un_threshold :: "OuterVerifier \<Rightarrow> ThresholdMultiSignature option" where
  "un_threshold (OuterThresholdMultiSignature v) = Some v"
| "un_threshold _ = None"

definition outer_verifier_variants :: "host \<Rightarrow> (OuterVerifier, OuterVerifierRedeemer) verifier_impl list" where
  "outer_verifier_variants H =
     [verifier_variant OuterSr25519Signature un_sr25519 as_sr_25519_signature
        (lift_verify (verify_sr25519 H)) new_unspendable_sr25519,
      verifier_variant OuterUpForGrabs un_up_for_grabs as_up_for_grabs
        (lift_verify verify_up_for_grabs) default_new_unspendable,
      verifier_variant OuterThresholdMultiSignature un_threshold as_threshold_multi_signature
        (verify_multi H) new_unspendable_multi]"

definition outer_verifier ::
  "host \<Rightarrow> (OuterVerifier, OuterVerifierRedeemer) verifier_codecs
     \<Rightarrow> (OuterVerifier, OuterVerifierRedeemer) Verifier" where
  "outer_verifier H K = aggregate_verifier (outer_verifier_variants H) K"

subsection \<open>The outer constraint checker\<close>

datatype OuterConstraintChecker =
    OuterMoney MoneyConstraintChecker
  | OuterFreeKitty FreeKittyConstraintChecker
  | OuterAmoebaMitosis AmoebaMitosis
  | OuterAmoebaDeath AmoebaDeath
  | OuterAmoebaCreation AmoebaCreation
  | OuterPoeClaim PoeClaim
  | OuterPoeRevoke PoeRevoke
  | OuterPoeDispute PoeDispute
  | OuterSetTimestamp "SetTimestamp InherentAdapter"
  | OuterRuntimeUpgrade RuntimeUpgrade

datatype OuterConstraintCheckerError =
    OuterMoneyError MoneyError
  | OuterFreeKittyError KittyError
  | OuterAmoebaMitosisError AmoebaError
  | OuterAmoebaDeathError AmoebaError
  | OuterAmoebaCreationError AmoebaError
  | OuterPoeClaimError PoeError
  | OuterPoeRevokeError PoeError
  | OuterPoeDisputeError PoeError
  | OuterSetTimestampError TimestampError
  | OuterRuntimeUpgradeError UpgradeError

fun un_money :: "OuterConstraintChecker \<Rightarrow> MoneyConstraintChecker option" where
  "un_money (OuterMoney c) = Some c" | "un_money _ = None"

fun un_free_kitty :: "OuterConstraintChecker \<Rightarrow> FreeKittyConstraintChecker option" where
  "un_free_kitty (OuterFreeKitty c) = Some c" | "un_free_kitty _ = None"

fun un_mitosis :: "OuterConstraintChecker \<Rightarrow> AmoebaMitosis option" where
  "un_mitosis (OuterAmoebaMitosis c) = Some c" | "un_mitosis _ = None"

fun un_death :: "OuterConstraintChecker \<Rightarrow> AmoebaDeath option" where
  "un_death (OuterAmoebaDeath c) = Some c" | "un_death _ = None"

fun un_creation :: "OuterConstraintChecker \<Rightarrow> AmoebaCreation option" where
  "un_creation (OuterAmoebaCreation c) = Some c" | "un_creation _ = None"

fun un_poe_claim :: "OuterConstraintChecker \<Rightarrow> PoeClaim option" where
  "un_poe_claim (OuterPoeClaim c) = Some c" | "un_poe_claim _ = None"

fun un_poe_revoke :: "OuterConstraintChecker \<Rightarrow> PoeRevoke option" where
  "un_poe_revoke (OuterPoeRevoke c) = Some c" | "un_poe_revoke _ = None"

fun un_poe_dispute :: "OuterConstraintChecker \<Rightarrow> PoeDispute option" where
  "un_poe_dispute (OuterPoeDispute c) = Some c" | "un_poe_dispute _ = None"

fun un_set_timestamp :: "OuterConstraintChecker \<Rightarrow> SetTimestamp InherentAdapter option" where
  "un_set_timestamp (OuterSetTimestamp c) = Some c" | "un_set_timestamp _ = None"

fun un_upgrade :: "OuterConstraintChecker \<Rightarrow> RuntimeUpgrade option" where
  "un_upgrade (OuterRuntimeUpgrade c) = Some c" | "un_upgrade _ = None"

record runtime_host =
  coin_codec :: "Coin codec"
  kitty_codec :: "KittyData codec"
  family_dna_codec :: family_codec
  amoeba_codec :: "AmoebaDetails codec"
  claim_codec :: "ClaimData codec"
  timestamp_codec :: "Timestamp codec"
  runtime_ref_codec :: "RuntimeRef codec"
  sp_timestamp :: timestamp_host
  h256_from_slice :: "bytes \<Rightarrow> H256"
  outer_verifier_codecs :: "(OuterVerifier, OuterVerifierRedeemer) verifier_codecs"
  outer_checker_codec :: "OuterConstraintChecker codec"
  money_selector_codec :: "MoneyConstraintChecker codec"
  kitty_selector_codec :: "FreeKittyConstraintChecker codec"
  mitosis_selector_codec :: "AmoebaMitosis codec"
  death_selector_codec :: "AmoebaDeath codec"
  creation_selector_codec :: "AmoebaCreation codec"
  poe_claim_selector_codec :: "PoeClaim codec"
  poe_revoke_selector_codec :: "PoeRevoke codec"
  poe_dispute_selector_codec :: "PoeDispute codec"
  timestamp_selector_codec :: "SetTimestamp codec"
  upgrade_selector_codec :: "RuntimeUpgrade codec"

definition template_verifier :: "host \<Rightarrow> runtime_host \<Rightarrow> (OuterVerifier, OuterVerifierRedeemer) Verifier" where
  "template_verifier H R = outer_verifier H (outer_verifier_codecs R)"

text \<open>The runtime's configuration of the timestamp piece: the defaults, with the executive's height.\<close>

definition template_timestamp_config :: "host \<Rightarrow> TimestampConfig" where
  "template_timestamp_config H = default_timestamp_config (block_height H)"

type_synonym template_impl = "(OuterVerifier, OuterConstraintChecker, OuterConstraintCheckerError) checker_impl"

definition money_variant :: "runtime_host \<Rightarrow> template_impl" where
  "money_variant R = checker_variant OuterMoney un_money OuterMoneyError
     (from_simple (money_checker 0 (coin_codec R) (money_selector_codec R)))"

definition kitty_variant :: "host \<Rightarrow> runtime_host \<Rightarrow> template_impl" where
  "kitty_variant H R = checker_variant OuterFreeKitty un_free_kitty OuterFreeKittyError
     (from_simple (kitty_checker H (family_dna_codec R) (kitty_codec R) (kitty_selector_codec R)))"

definition mitosis_variant :: "runtime_host \<Rightarrow> template_impl" where
  "mitosis_variant R = checker_variant OuterAmoebaMitosis un_mitosis OuterAmoebaMitosisError
     (from_simple (mitosis_checker (amoeba_codec R) (mitosis_selector_codec R)))"

definition death_variant :: "runtime_host \<Rightarrow> template_impl" where
  "death_variant R = checker_variant OuterAmoebaDeath un_death OuterAmoebaDeathError
     (from_simple (death_checker (amoeba_codec R) (death_selector_codec R)))"

definition creation_variant :: "runtime_host \<Rightarrow> template_impl" where
  "creation_variant R = checker_variant OuterAmoebaCreation un_creation OuterAmoebaCreationError
     (from_simple (creation_checker (amoeba_codec R) (creation_selector_codec R)))"

definition poe_claim_variant :: "host \<Rightarrow> runtime_host \<Rightarrow> template_impl" where
  "poe_claim_variant H R = checker_variant OuterPoeClaim un_poe_claim OuterPoeClaimError
     (from_simple (poe_claim_checker (block_height H) (claim_codec R) (poe_claim_selector_codec R)))"

definition poe_revoke_variant :: "runtime_host \<Rightarrow> template_impl" where
  "poe_revoke_variant R = checker_variant OuterPoeRevoke un_poe_revoke OuterPoeRevokeError
     (from_simple (poe_revoke_checker (claim_codec R) (poe_revoke_selector_codec R)))"

definition poe_dispute_variant :: "runtime_host \<Rightarrow> template_impl" where
  "poe_dispute_variant R = checker_variant OuterPoeDispute un_poe_dispute OuterPoeDisputeError
     (from_simple (poe_dispute_checker (claim_codec R) (poe_dispute_selector_codec R)))"

definition template_timestamp :: "host \<Rightarrow> runtime_host \<Rightarrow>
    (OuterVerifier, SetTimestamp InherentAdapter, TimestampError) ConstraintChecker" where
  "template_timestamp H R = inherent_adapter H
     (set_timestamp_checker (template_timestamp_config H) (timestamp_codec R) (timestamp_selector_codec R))
     (timestamp_hooks H (sp_timestamp R) (template_timestamp_config H) (timestamp_codec R) (template_verifier H R))"

definition timestamp_variant :: "host \<Rightarrow> runtime_host \<Rightarrow> template_impl" where
  "timestamp_variant H R = checker_variant OuterSetTimestamp un_set_timestamp OuterSetTimestampError
     (template_timestamp H R)"

definition upgrade_variant :: "host \<Rightarrow> runtime_host \<Rightarrow> template_impl" where
  "upgrade_variant H R = checker_variant OuterRuntimeUpgrade un_upgrade OuterRuntimeUpgradeError
     (from_simple (upgrade_checker H (runtime_ref_codec R) (upgrade_selector_codec R)))"

definition template_variants :: "host \<Rightarrow> runtime_host \<Rightarrow> template_impl list" where
  "template_variants H R =
     [money_variant R, kitty_variant H R, mitosis_variant R, death_variant R, creation_variant R,
      poe_claim_variant H R, poe_revoke_variant R, poe_dispute_variant R, timestamp_variant H R,
      upgrade_variant H R]"

definition template_checker :: "host \<Rightarrow> runtime_host \<Rightarrow>
    (OuterVerifier, OuterConstraintChecker, OuterConstraintCheckerError) ConstraintChecker" where
  "template_checker H R = aggregate_checker (template_variants H R) (outer_checker_codec R)"

subsection \<open>The development genesis\<close>

definition SHAWN_PUB_KEY_BYTES :: H256 where
  "SHAWN_PUB_KEY_BYTES = 0xd2bf4b844dfefd6772a8843e669f943408966a977e3ae2af1dd78e0f55f4df67"

definition ANDREW_PUB_KEY_BYTES :: H256 where
  "ANDREW_PUB_KEY_BYTES = 0xbaa81e58b1b4d053c2e86d93045765036f9d265c7dfe8b9693bbc2c0f048d93a"

definition development_genesis_transactions ::
  "host \<Rightarrow> runtime_host \<Rightarrow> (OuterVerifier, OuterConstraintChecker) Transaction list option" where
  "development_genesis_transactions H R =
     (let signatories = [SHAWN_PUB_KEY_BYTES, ANDREW_PUB_KEY_BYTES] in
      map_option (\<lambda>inherents. inherents @
        [coin_mint 0 (coin_codec R) OuterSr25519Signature OuterMoney 100
           (sr25519_signature_new SHAWN_PUB_KEY_BYTES),
         coin_mint 0 (coin_codec R) OuterThresholdMultiSignature OuterMoney 100
           \<lparr>threshold = 1, signatories = signatories\<rparr>,
         kitty_mint H (kitty_codec R) (h256_from_slice R) OuterUpForGrabs OuterFreeKitty parent_mom
           (byte_string ''mother'') UpForGrabs,
         kitty_mint H (kitty_codec R) (h256_from_slice R) OuterUpForGrabs OuterFreeKitty parent_dad
           (byte_string ''father'') UpForGrabs])
        (genesis_transactions (template_checker H R)))"

subsection \<open>The variants satisfy their contract\<close>

interpretation v_money: variant OuterMoney un_money
  by unfold_locales (simp, erule un_money.elims, simp_all)

interpretation v_kitty: variant OuterFreeKitty un_free_kitty
  by unfold_locales (simp, erule un_free_kitty.elims, simp_all)

interpretation v_mitosis: variant OuterAmoebaMitosis un_mitosis
  by unfold_locales (simp, erule un_mitosis.elims, simp_all)

interpretation v_death: variant OuterAmoebaDeath un_death
  by unfold_locales (simp, erule un_death.elims, simp_all)

interpretation v_creation: variant OuterAmoebaCreation un_creation
  by unfold_locales (simp, erule un_creation.elims, simp_all)

interpretation v_poe_claim: variant OuterPoeClaim un_poe_claim
  by unfold_locales (simp, erule un_poe_claim.elims, simp_all)

interpretation v_poe_revoke: variant OuterPoeRevoke un_poe_revoke
  by unfold_locales (simp, erule un_poe_revoke.elims, simp_all)

interpretation v_poe_dispute: variant OuterPoeDispute un_poe_dispute
  by unfold_locales (simp, erule un_poe_dispute.elims, simp_all)

interpretation v_timestamp: variant OuterSetTimestamp un_set_timestamp
  by unfold_locales (simp, erule un_set_timestamp.elims, simp_all)

interpretation v_upgrade: variant OuterRuntimeUpgrade un_upgrade
  by unfold_locales (simp, erule un_upgrade.elims, simp_all)

lemmas template_variant_defs =
  money_variant_def kitty_variant_def mitosis_variant_def death_variant_def creation_variant_def
  poe_claim_variant_def poe_revoke_variant_def poe_dispute_variant_def timestamp_variant_def
  upgrade_variant_def

interpretation template: aggregation "template_variants H R" "outer_checker_codec R" for H R
proof
  fix v
  assume "v \<in> set (template_variants H R)"
  then consider "v = money_variant R" | "v = kitty_variant H R" | "v = mitosis_variant R"
    | "v = death_variant R" | "v = creation_variant R" | "v = poe_claim_variant H R"
    | "v = poe_revoke_variant R" | "v = poe_dispute_variant R" | "v = timestamp_variant H R"
    | "v = upgrade_variant H R"
    by (auto simp: template_variants_def)
  then show "framed_impl v"
    by cases (simp_all only: template_variant_defs template_timestamp_def template_timestamp_config_def,
      (rule framed_variant, rule money.plain.framed_checker_axioms
        kitties.plain.framed_checker_axioms mitosis.plain.framed_checker_axioms
        death.plain.framed_checker_axioms creation.plain.framed_checker_axioms
        poe_claim.plain.framed_checker_axioms poe_revoke.plain.framed_checker_axioms
        poe_dispute.plain.framed_checker_axioms set_timestamp.adapted.framed_checker_axioms
        upgrade.plain.framed_checker_axioms)+)
qed

end
