(* ===== verification/Template_Properties.thy ===== *)
theory Template_Properties
  imports Template_Runtime
begin

text \<open>
  What holds in the template runtime: the contracts of the framework are met, every piece's rules are
  enforced, money is only ever created by minting, exactly one timestamp inherent opens each block that
  passes the off-chain check, and the development genesis is well formed.
\<close>

subsection \<open>Dispatch\<close>

lemma impl_matches_variant [simp]: "impl_matches (checker_variant w u e C) c \<longleftrightarrow> u c \<noteq> None"
  by (simp add: checker_variant_def)

lemma template_dispatch:
  "dispatch (template_variants H R) (OuterMoney k1) = Some (money_variant R)"
  "dispatch (template_variants H R) (OuterFreeKitty k2) = Some (kitty_variant H R)"
  "dispatch (template_variants H R) (OuterAmoebaMitosis k3) = Some (mitosis_variant R)"
  "dispatch (template_variants H R) (OuterAmoebaDeath k4) = Some (death_variant R)"
  "dispatch (template_variants H R) (OuterAmoebaCreation k5) = Some (creation_variant R)"
  "dispatch (template_variants H R) (OuterPoeClaim k6) = Some (poe_claim_variant H R)"
  "dispatch (template_variants H R) (OuterPoeRevoke k7) = Some (poe_revoke_variant R)"
  "dispatch (template_variants H R) (OuterPoeDispute k8) = Some (poe_dispute_variant R)"
  "dispatch (template_variants H R) (OuterSetTimestamp k9) = Some (timestamp_variant H R)"
  "dispatch (template_variants H R) (OuterRuntimeUpgrade k10) = Some (upgrade_variant H R)"
  by (simp_all add: dispatch_def template_variants_def template_variant_defs)

text \<open>Inside the runtime each piece decides exactly as it does alone.\<close>

lemma template_check_Ok:
  "snd (check (template_checker H R) (OuterMoney k1) ins evs pks outs s) = Ok p
     \<longleftrightarrow> snd (money_check 0 (coin_codec R) k1 ins evs pks outs s) = Ok p"
  "snd (check (template_checker H R) (OuterFreeKitty k2) ins evs pks outs s) = Ok p
     \<longleftrightarrow> snd (kitty_check H (family_dna_codec R) (kitty_codec R) k2 ins evs pks outs s) = Ok p"
  "snd (check (template_checker H R) (OuterAmoebaMitosis k3) ins evs pks outs s) = Ok p
     \<longleftrightarrow> snd (mitosis_check (amoeba_codec R) k3 ins evs pks outs s) = Ok p"
  "snd (check (template_checker H R) (OuterAmoebaDeath k4) ins evs pks outs s) = Ok p
     \<longleftrightarrow> snd (death_check (amoeba_codec R) k4 ins evs pks outs s) = Ok p"
  "snd (check (template_checker H R) (OuterAmoebaCreation k5) ins evs pks outs s) = Ok p
     \<longleftrightarrow> snd (creation_check (amoeba_codec R) k5 ins evs pks outs s) = Ok p"
  "snd (check (template_checker H R) (OuterPoeClaim k6) ins evs pks outs s) = Ok p
     \<longleftrightarrow> snd (poe_claim_check (block_height H) (claim_codec R) k6 ins evs pks outs s) = Ok p"
  "snd (check (template_checker H R) (OuterPoeRevoke k7) ins evs pks outs s) = Ok p
     \<longleftrightarrow> snd (poe_revoke_check (claim_codec R) k7 ins evs pks outs s) = Ok p"
  "snd (check (template_checker H R) (OuterPoeDispute k8) ins evs pks outs s) = Ok p
     \<longleftrightarrow> snd (poe_dispute_check (claim_codec R) k8 ins evs pks outs s) = Ok p"
  "snd (check (template_checker H R) (OuterSetTimestamp (InherentAdapter k9)) ins evs pks outs s) = Ok p
     \<longleftrightarrow> snd (set_timestamp_check (template_timestamp_config H) (timestamp_codec R) k9 ins evs pks outs s) = Ok p"
  "snd (check (template_checker H R) (OuterRuntimeUpgrade k10) ins evs pks outs s) = Ok p
     \<longleftrightarrow> snd (upgrade_check H (runtime_ref_codec R) k10 ins evs pks outs s) = Ok p"
  by (simp_all add: template_checker_def aggregate_checker_def template_dispatch template_variant_defs
      checker_variant_def from_simple_def inherent_adapter_def template_timestamp_def case_prod_unfold Let_def
      map_err_Ok money_checker_def kitty_checker_def mitosis_checker_def death_checker_def
      creation_checker_def poe_claim_checker_def poe_revoke_checker_def poe_dispute_checker_def
      set_timestamp_checker_def upgrade_checker_def del: money_check.simps)

lemma template_follows:
  "follows (template_checker H R) (OuterMoney k1) (money_check 0 (coin_codec R)) k1"
  "follows (template_checker H R) (OuterFreeKitty k2) (kitty_check H (family_dna_codec R) (kitty_codec R)) k2"
  "follows (template_checker H R) (OuterAmoebaMitosis k3) (mitosis_check (amoeba_codec R)) k3"
  "follows (template_checker H R) (OuterAmoebaDeath k4) (death_check (amoeba_codec R)) k4"
  "follows (template_checker H R) (OuterAmoebaCreation k5) (creation_check (amoeba_codec R)) k5"
  "follows (template_checker H R) (OuterPoeClaim k6) (poe_claim_check (block_height H) (claim_codec R)) k6"
  "follows (template_checker H R) (OuterPoeRevoke k7) (poe_revoke_check (claim_codec R)) k7"
  "follows (template_checker H R) (OuterPoeDispute k8) (poe_dispute_check (claim_codec R)) k8"
  "follows (template_checker H R) (OuterSetTimestamp (InherentAdapter k9)) (set_timestamp_check (template_timestamp_config H) (timestamp_codec R)) k9"
  "follows (template_checker H R) (OuterRuntimeUpgrade k10) (upgrade_check H (runtime_ref_codec R)) k10"
  unfolding follows_def template_check_Ok by simp_all

lemma template_is_inherent:
  "is_inherent (template_checker H R) c \<longleftrightarrow> un_set_timestamp c \<noteq> None"
proof (cases c)
  case (OuterSetTimestamp k)
  then show ?thesis
    by (cases k) (simp add: template_checker_def aggregate_checker_def template_dispatch
        timestamp_variant_def checker_variant_def template_timestamp_def inherent_adapter_def)
qed (simp_all add: template_checker_def aggregate_checker_def template_dispatch
    template_variant_defs checker_variant_def from_simple_def)

subsection \<open>Money is only created by minting\<close>

lemma coin_worth_foreign:
  assumes "TYPE_ID (coin_data ID cc) \<noteq> TYPE_ID T" and "view T d = Some x"
  shows "coin_worth ID cc d = 0"
  using view_foreign [OF assms] by (simp add: coin_worth_def)

lemma coin_worth_into_foreign:
  "TYPE_ID (coin_data ID cc) \<noteq> TYPE_ID T \<Longrightarrow> coin_worth ID cc (into_data T x) = 0"
  by (simp add: coin_worth_def view_def)

lemma piece_types:
  "TYPE_ID (coin_data 0 cc) \<noteq> TYPE_ID (kitty_data kc)"
  "TYPE_ID (coin_data 0 cc) \<noteq> TYPE_ID (amoeba_data ac)"
  "TYPE_ID (coin_data 0 cc) \<noteq> TYPE_ID (claim_data pc)"
  "TYPE_ID (coin_data 0 cc) \<noteq> TYPE_ID (timestamp_data tc)"
  "TYPE_ID (coin_data 0 cc) \<noteq> TYPE_ID (runtime_ref_data rc)"
  by (simp_all add: coin_data_def kitty_data_def amoeba_data_def claim_data_def timestamp_data_def
      runtime_ref_data_def)

lemmas no_coin =
  coin_worth_foreign [OF piece_types(1)] coin_worth_foreign [OF piece_types(2)]
  coin_worth_foreign [OF piece_types(3)] coin_worth_foreign [OF piece_types(4)]
  coin_worth_foreign [OF piece_types(5)]

text \<open>Every accepted transaction of another piece creates no coins at all.\<close>

lemma template_check_no_coin:
  assumes "snd (check (template_checker H R) c ins evs pks outs s) = Ok p" and "un_money c = None"
  shows "\<forall>d \<in> set outs. coin_worth 0 cc d = 0"
proof (cases c)
  case (OuterMoney k)
  with assms(2) show ?thesis by simp
next
  case (OuterFreeKitty k)
  with assms(1) show ?thesis by (auto simp: template_check_Ok kitty_Ok no_coin(1))
next
  case (OuterAmoebaMitosis k)
  with assms(1) show ?thesis by (auto simp: template_check_Ok mitosis_Ok no_coin(2))
next
  case (OuterAmoebaDeath k)
  with assms(1) show ?thesis by (auto simp: template_check_Ok death_Ok)
next
  case (OuterAmoebaCreation k)
  with assms(1) show ?thesis by (auto simp: template_check_Ok creation_Ok no_coin(2))
next
  case (OuterPoeClaim k)
  with assms(1) show ?thesis by (fastforce simp: template_check_Ok poe_claim_Ok no_coin(3))
next
  case (OuterPoeRevoke k)
  with assms(1) show ?thesis by (auto simp: template_check_Ok poe_revoke_Ok)
next
  case (OuterPoeDispute k)
  with assms(1) show ?thesis by (auto simp: template_check_Ok poe_dispute_Ok)
next
  case (OuterSetTimestamp a)
  with assms(1) show ?thesis by (cases a) (auto simp: template_check_Ok set_timestamp_Ok no_coin(4))
next
  case (OuterRuntimeUpgrade k)
  with assms(1) show ?thesis
    by (auto simp: template_check_Ok upgrade_check_def upgrade_guard_Ok no_coin(5) split: result.splits)
qed

text \<open>
  Whatever enforces the template checker's rules under the selector \<open>c\<close> creates no value, unless \<open>c\<close> mints; this
  covers the runtime itself and every checker that contains it.
\<close>

lemma template_honest:
  assumes follows: "follows C (checker tx) (check (template_checker H R)) c"
    and acc: "ledger_accepts H' V C h U s tx" and "c \<noteq> OuterMoney Mint"
  shows "output_worth 0 (coin_codec R) tx \<le> input_worth 0 (coin_codec R) U tx"
proof (cases "un_money c")
  case None
  from follows acc obtain p where "snd (check (template_checker H R) c (ledger_payloads U (redeemed_refs tx))
      (ledger_payloads U (evicted_refs tx)) (ledger_payloads U (peeks tx)) (map payload (outputs tx)) s) = Ok p"
    by (rule accepted_follows)
  from template_check_no_coin [OF this None, of "coin_codec R"]
  have "output_worth 0 (coin_codec R) tx = 0" by (auto simp: output_worth_def total_worth_def)
  then show ?thesis by simp
next
  case (Some k)
  then have c: "c = OuterMoney k" by (rule v_money.unwrap_Some)
  with assms(3) have "k = Spend" by (cases k) auto
  with follows c have "follows C (checker tx) (money_check 0 (coin_codec R)) Spend"
    using template_follows(1) [of H R k] by (auto simp: follows_def simp del: money_check.simps)
  from this acc show ?thesis by (rule accepted_spend_worth)
qed

lemma follows_refl: "follows C c (check C) c"
  by (simp add: follows_def)

text \<open>
  C4. In the template runtime nobody gets richer except by minting: whichever of the ten checkers a
  chain's transactions select, as long as each block transaction's inputs name pairwise different
  outputs, the value of all unspent coins is at most what genesis and the mint
  transactions have issued. No kitty, amoeba, claim, timestamp or upgrade transaction can smuggle a coin in.
\<close>

theorem template_chain_supply:
  assumes "executive H (template_verifier H R) (template_checker H R)"
    and "chain H (template_verifier H R) (template_checker H R) txs_codec B gtxs bs s"
    and "small_outputs (chain_history gtxs bs)"
    and "\<forall>tx \<in> set (concat (map extrinsics bs)). distinct (input_refs tx)"
  shows "coin_supply 0 (coin_codec R) (ledger_of H (template_verifier H R) s)
    \<le> issued (\<lambda>c. c = OuterMoney Mint) 0 (coin_codec R) gtxs (concat (map extrinsics bs))"
  using assms template_honest [OF follows_refl] by (rule chain_supply_bound)

subsection \<open>The laws of the framework hold\<close>

locale template_laws = host_laws H for H :: host +
  fixes R :: runtime_host
  assumes outer_redeemer_lawful: "scale_codec (fst (outer_verifier_codecs R))"
    and outer_output_lawful: "scale_codec (fst (snd (outer_verifier_codecs R)))"
    and outer_outputs_lawful: "scale_codec (snd (snd (outer_verifier_codecs R)))"
    and outer_checker_lawful: "scale_codec (outer_checker_codec R)"

sublocale template_laws \<subseteq> template: executive H "template_verifier H R" "template_checker H R"
proof (rule executive.intro)
  have "verifier_laws (template_verifier H R)"
    unfolding template_verifier_def outer_verifier_def aggregate_verifier_def
    by (rule verifier_dictionary_laws) (rule outer_redeemer_lawful outer_output_lawful outer_outputs_lawful)+
  then show "executive_laws H (template_verifier H R) (template_checker H R)"
    by (simp add: executive_laws_def executive_laws_axioms_def host_laws_axioms template_checker_def
        aggregate_checker_def outer_checker_lawful)
  show "framed_checker (template_checker H R)"
    unfolding template_checker_def by (rule template.framed_checker_axioms)
qed

context template_laws
begin

lemma template_executive: "executive H (template_verifier H R) (template_checker H R)"
  by (rule template.executive_axioms)

end

subsection \<open>Inherents\<close>

abbreviation template_hooks :: "host \<Rightarrow> runtime_host \<Rightarrow> (OuterVerifier, SetTimestamp) InherentHooks" where
  "template_hooks H R \<equiv> timestamp_hooks H (sp_timestamp R) (template_timestamp_config H)
     (timestamp_codec R) (template_verifier H R)"

lemma opening_inherents_are_timestamps:
  "tx \<in> set (opening_inherents (template_checker H R) b) \<Longrightarrow> un_set_timestamp (checker tx) \<noteq> None"
  by (auto simp: opening_inherents_def template_is_inherent dest: set_takeWhileD)

lemma other_variants_empty:
  assumes "\<forall>tx \<in> set txs. un_set_timestamp (checker tx) \<noteq> None"
  shows "select_variant un_money txs = []" "select_variant un_free_kitty txs = []"
    "select_variant un_mitosis txs = []" "select_variant un_death txs = []"
    "select_variant un_creation txs = []" "select_variant un_poe_claim txs = []"
    "select_variant un_poe_revoke txs = []" "select_variant un_poe_dispute txs = []"
    "select_variant un_upgrade txs = []"
proof -
  have "\<exists>a. checker tx = OuterSetTimestamp a" if "tx \<in> set txs" for tx
    using assms that v_timestamp.unwrap_Some by blast
  then show "select_variant un_money txs = []" "select_variant un_free_kitty txs = []"
    "select_variant un_mitosis txs = []" "select_variant un_death txs = []"
    "select_variant un_creation txs = []" "select_variant un_poe_claim txs = []"
    "select_variant un_poe_revoke txs = []" "select_variant un_poe_dispute txs = []"
    "select_variant un_upgrade txs = []"
    by (intro select_variant_empty; fastforce)+
qed

text \<open>The stubs of the other nine checkers neither panic nor object.\<close>

lemma template_check_inherents:
  assumes "\<forall>tx \<in> set txs. un_set_timestamp (checker tx) \<noteq> None" and "\<not> fatal_error r"
  shows "check_inherents (template_checker H R) inh txs r
    = adapter_check_inherents H (template_hooks H R) inh (select_variant un_set_timestamp txs) r"
proof -
  have ts: "impl_check_inherents (timestamp_variant H R) inh txs r
      = adapter_check_inherents H (template_hooks H R) inh (select_variant un_set_timestamp txs) r"
    by (simp add: timestamp_variant_def checker_variant_def template_timestamp_def inherent_adapter_def)
  show ?thesis
    using other_variants_empty [OF assms(1)] assms(2)
    by (cases "adapter_check_inherents H (template_hooks H R) inh (select_variant un_set_timestamp txs) r")
      (simp_all add: template_checker_def aggregate_checker_def template_variants_def ts
        money_variant_def kitty_variant_def mitosis_variant_def death_variant_def creation_variant_def
        poe_claim_variant_def poe_revoke_variant_def poe_dispute_variant_def upgrade_variant_def
        simple_variant_check)
qed

lemma template_create_inherents:
  "create_inherents (template_checker H R) inh prev s
    = map_option (map (transform OuterSetTimestamp))
        (adapter_create_inherents (template_hooks H R) inh (select_annotated un_set_timestamp prev) s)"
proof -
  have ts: "impl_create_inherents (timestamp_variant H R) inh prev s
      = map_option (map (transform OuterSetTimestamp))
        (adapter_create_inherents (template_hooks H R) inh (select_annotated un_set_timestamp prev) s)"
    by (simp add: timestamp_variant_def checker_variant_def template_timestamp_def inherent_adapter_def)
  show ?thesis
    by (cases "adapter_create_inherents (template_hooks H R) inh (select_annotated un_set_timestamp prev) s")
      (simp_all add: template_checker_def aggregate_checker_def template_variants_def ts
        money_variant_def kitty_variant_def mitosis_variant_def death_variant_def creation_variant_def
        poe_claim_variant_def poe_revoke_variant_def poe_dispute_variant_def upgrade_variant_def
        simple_variant_create)
qed

text \<open>
  C25. A block that passes the off-chain inherent check opens with exactly one inherent, the timestamp, and its time is
  not ahead of the importing node's clock by more than the maximal drift. (The sum of the
  clock and the drift is the source's, which wraps.)
\<close>

theorem template_block_inherents:
  assumes "put_error_law H"
    and "check_block_inherents (template_checker H R) b inh = Some r" and "okay r"
  shows "\<exists>tx out rest ts now. opening_inherents (template_checker H R) b = [tx]
    \<and> un_set_timestamp (checker tx) \<noteq> None \<and> outputs tx = out # rest
    \<and> view (timestamp_data (timestamp_codec R)) (payload out) = Some ts
    \<and> expect_data (inherent_time_codec (sp_timestamp R)) (sp_timestamp_identifier (sp_timestamp R)) inh = Some now
    \<and> time ts \<le> now + 60000"
proof -
  let ?txs = "opening_inherents (template_checker H R) b"
  have stamps: "\<forall>tx \<in> set ?txs. un_set_timestamp (checker tx) \<noteq> None"
    using opening_inherents_are_timestamps by blast
  have "adapter_check_inherents H (template_hooks H R) inh (select_variant un_set_timestamp ?txs)
      new_check_inherents_result = Some r"
    using assms(2) template_check_inherents [OF stamps, of new_check_inherents_result H R inh]
    by (simp add: check_block_inherents_def new_check_inherents_result_def)
  then obtain itx where one: "select_variant un_set_timestamp ?txs = [itx]"
    and chk: "check_inherent (template_hooks H R) inh (unwrap_transaction itx) new_check_inherents_result = Some r"
    using assms(1,3)
    by (auto simp: put_error_law_def adapter_check_inherents_def split: list.splits)
  have "map (transform OuterSetTimestamp) (select_variant un_set_timestamp ?txs) = ?txs"
    using stamps by (simp add: v_timestamp.select_filter filter_id_conv)
  with one have txs: "?txs = [transform OuterSetTimestamp itx]" by simp
  have "timestamp_check_inherent H (sp_timestamp R) (template_timestamp_config H) (timestamp_codec R) inh
      (unwrap_transaction itx) new_check_inherents_result = Some r"
    using chk by (simp add: timestamp_hooks_def)
  with assms(1) show ?thesis using assms(3)
  proof (rule timestamp_check_inherent_okay)
    fix now out rest ts
    assume "expect_data (inherent_time_codec (sp_timestamp R)) (sp_timestamp_identifier (sp_timestamp R)) inh = Some now"
      "outputs (unwrap_transaction itx) = out # rest"
      "view (timestamp_data (timestamp_codec R)) (payload out) = Some ts"
      "time ts \<le> now + MAX_DRIFT (template_timestamp_config H)"
    then show ?thesis
      using txs stamps
      by (auto simp: unwrap_transaction_def template_timestamp_config_def default_timestamp_config_def)
  qed
qed

text \<open>
  What the template runtime proposes as inherents is one timestamp that builds on the parent's. When
  \<open>inherent_extrinsics\<close> returns, the parent block opened with exactly one inherent, and the
  result is exactly one timestamp transaction, which consumes nothing, peeks at the
  first output of the parent's inherent under its original hash, and carries the author's
  time and the current height.
\<close>

theorem template_inherent_extrinsics:
  assumes "inherent_extrinsics H (template_verifier H R) (template_checker H R) block_codec inh s = Some txs"
  shows "\<exists>b prev tx u now h.
      expect_data block_codec PARENT_INHERENT_IDENTIFIER inh = Some b
    \<and> opening_inherents (template_checker H R) b = [prev]
    \<and> expect_data (inherent_time_codec (sp_timestamp R)) (sp_timestamp_identifier (sp_timestamp R)) inh = Some now
    \<and> block_height H s = Some h \<and> new_unspendable (template_verifier H R) = Some u
    \<and> txs = [tx] \<and> inputs tx = []
    \<and> peeks tx = [\<lparr>tx_hash = transaction_hash H (template_verifier H R) (outer_checker_codec R) prev, index = 0\<rparr>]
    \<and> outputs tx = [\<lparr>payload = into_data (timestamp_data (timestamp_codec R)) \<lparr>time = now, block = h\<rparr>,
                       verifier = u\<rparr>]
    \<and> checker tx = OuterSetTimestamp (InherentAdapter SetTimestamp)"
proof -
  let ?hash = "transaction_hash H (template_verifier H R) (outer_checker_codec R)"
  obtain b where b: "expect_data block_codec PARENT_INHERENT_IDENTIFIER inh = Some b"
    and create: "create_inherents (template_checker H R) inh
      (map (\<lambda>tx. (tx, ?hash tx)) (opening_inherents (template_checker H R) b)) s = Some txs"
    using assms
    by (auto simp: inherent_extrinsics_def bind_eq_Some_conv template_checker_def aggregate_checker_def)
  let ?txs = "opening_inherents (template_checker H R) b"
  let ?prev = "select_annotated un_set_timestamp (map (\<lambda>tx. (tx, ?hash tx)) ?txs)"
  from create obtain ptx ph current where one: "?prev = [(ptx, ph)]"
    and txs: "txs = [transform OuterSetTimestamp (wrap_transaction current)]"
    and current: "timestamp_create_inherent (sp_timestamp R) (template_timestamp_config H) (timestamp_codec R)
      (template_verifier H R) inh (unwrap_transaction ptx, ph) s = Some current"
    unfolding template_create_inherents
    by (auto simp: adapter_create_inherents_def timestamp_hooks_def bind_eq_Some_conv
        split: list.splits if_splits)
  have stamps: "\<forall>tx \<in> set ?txs. un_set_timestamp (checker tx) \<noteq> None"
    using opening_inherents_are_timestamps by blast
  have annotated: "map snd (select_annotated un_set_timestamp (map (\<lambda>tx. (tx, ?hash tx)) xs)) = map ?hash xs"
    if "\<forall>tx \<in> set xs. un_set_timestamp (checker tx) \<noteq> None" for xs
    using that by (induction xs) auto
  obtain prev where "?txs = [prev]" "?hash prev = ph"
    using annotated [OF stamps] one by (cases ?txs) auto
  with b txs current show ?thesis
    by (auto simp: timestamp_create_inherent_def bind_eq_Some_conv Let_def wrap_transaction_def transform_def
        template_timestamp_config_def default_timestamp_config_def)
qed

subsection \<open>The outer verifier\<close>

text \<open>
  The outer verifier delegates to the variant that guards the output, and panics whenever the redeemer
  belongs to another variant (besides the panics of the multisignature itself). A user chooses the
  redeemer, so anyone can make the verification of an existing output panic.
\<close>

theorem outer_verify_panics_iff:
  "verify (template_verifier H R) v tx h red = None \<longleftrightarrow>
     (case v of
        OuterSr25519Signature _ \<Rightarrow> as_sr_25519_signature red = None
      | OuterUpForGrabs _ \<Rightarrow> as_up_for_grabs red = None
      | OuterThresholdMultiSignature m \<Rightarrow>
          (case as_threshold_multi_signature red of None \<Rightarrow> True
           | Some sigs \<Rightarrow> verify_multi H m tx h sigs = None))"
  by (cases v; cases red)
    (simp_all add: template_verifier_def outer_verifier_def aggregate_verifier_def verifier_dictionary_def
      aggregate_verify_def outer_verifier_variants_def verifier_variant_def lift_verify_def)

subsection \<open>Genesis\<close>

text \<open>
  The development genesis is well formed: its list of transactions exists, opens with the one timestamp
  inherent, and the genesis builder accepts it on every initial storage; starting from an
  empty ledger it issues coins worth at most 200.
\<close>

theorem development_genesis_builds:
  assumes "executive H (template_verifier H R) (template_checker H R)"
    and "genesis_base H (template_verifier H R) s0" and "scale_codec (coin_codec R)"
  shows "\<exists>gtxs s. development_genesis_transactions H R = Some gtxs \<and> length gtxs = 5
    \<and> map (\<lambda>tx. is_inherent (template_checker H R) (checker tx)) gtxs = [True, False, False, False, False]
    \<and> build H (template_verifier H R) (template_checker H R) txs_codec gtxs s0 = (s, Ok ())
    \<and> coin_supply 0 (coin_codec R) (ledger_of H (template_verifier H R) s) \<le> 200"
proof -
  let ?V = "template_verifier H R" and ?C = "template_checker H R"
  let ?u = "OuterSr25519Signature (sr25519_signature_new 0)"
  let ?stamp = "\<lparr>inputs = [], peeks = [], outputs = [\<lparr>payload = into_data (timestamp_data (timestamp_codec R))
      (timestamp_new 0 0), verifier = ?u\<rparr>], checker = OuterSetTimestamp (InherentAdapter SetTimestamp)\<rparr>"
  have unspendable: "new_unspendable ?V = Some ?u"
    by (simp add: template_verifier_def outer_verifier_def aggregate_verifier_def verifier_dictionary_def
        aggregate_new_unspendable_def outer_verifier_variants_def verifier_variant_def new_unspendable_sr25519_def)
  have ts: "impl_genesis_transactions (timestamp_variant H R) = Some [?stamp]"
    by (simp add: timestamp_variant_def checker_variant_def template_timestamp_def inherent_adapter_def
        timestamp_hooks_def timestamp_genesis_transactions_def unspendable wrap_transaction_def transform_def)
  have genesis: "genesis_transactions ?C = Some [?stamp]"
    by (simp add: template_checker_def aggregate_checker_def template_variants_def ts
        money_variant_def kitty_variant_def mitosis_variant_def death_variant_def creation_variant_def
        poe_claim_variant_def poe_revoke_variant_def poe_dispute_variant_def upgrade_variant_def
        simple_variant_genesis)
  obtain gtxs where gtxs: "development_genesis_transactions H R = Some gtxs"
    by (simp add: development_genesis_transactions_def Let_def genesis)
  have ok: "snd (build H ?V ?C txs_codec gtxs s0) = Ok ()"
    using gtxs unfolding build_def build_transactions_Ok
    by (auto simp: development_genesis_transactions_def Let_def genesis template_is_inherent
        coin_mint_def kitty_mint_def)
  then obtain s where s: "build H ?V ?C txs_codec gtxs s0 = (s, Ok ())" by (metis prod.collapse)
  have small: "small_outputs gtxs"
    using gtxs by (auto simp: development_genesis_transactions_def Let_def genesis coin_mint_def kitty_mint_def)
  have worth: "sum_list (map (output_worth 0 (coin_codec R)) gtxs) = 200"
    using gtxs assms(3)
    by (auto simp: development_genesis_transactions_def Let_def genesis coin_mint_def kitty_mint_def
        output_worth_sum output_from_pair_def coin_new_def
        coin_worth_into_foreign [OF piece_types(1)] coin_worth_into_foreign [OF piece_types(4)])
  have "coin_supply 0 (coin_codec R) (ledger_of H ?V s) \<le> 200"
    using genesis_supply [of Map.empty 0 "coin_codec R" H ?V "checker_codec ?C" gtxs] worth
      executive.genesis_ledger [OF assms(1,2) s small]
    by (simp add: coin_supply_def ledger_total_def)
  moreover have "length gtxs = 5 \<and> map (\<lambda>tx. is_inherent ?C (checker tx)) gtxs = [True, False, False, False, False]"
    using gtxs by (auto simp: development_genesis_transactions_def Let_def genesis template_is_inherent
        coin_mint_def kitty_mint_def)
  ultimately show ?thesis using gtxs s by (intro exI [of _ gtxs] exI [of _ s]) simp
qed

end
