(* ===== verification/Parachain_Runtime.thy ===== *)
theory Parachain_Runtime
  imports Parachain_Piece Template_Properties
begin

text \<open>
  \<^verbatim>\<open>tuxedo-parachain-runtime\<close> and the macro \<^verbatim>\<open>parachainify!\<close>: the template runtime with one more piece. The
  enum the macro writes aggregates the template's checker (itself an aggregate) and the parachain
  inherent; the verifiers are the template's.

  The theorems: the runtime meets the executive's contracts; money is still only created by minting; the
  watermark a validator returns is the relay parent number of the last parachain inherent of the block, while
  the one it compares with the relay chain's is the first.
\<close>

datatype ParachainConstraintChecker =
    ParaInner OuterConstraintChecker
  | ParachainInfo "SetParachainInfo InherentAdapter"

datatype ParachainConstraintCheckerError =
    ParaInnerError OuterConstraintCheckerError
  | ParachainInfoError ParachainError

fun un_inner :: "ParachainConstraintChecker \<Rightarrow> OuterConstraintChecker option" where
  "un_inner (ParaInner c) = Some c" | "un_inner _ = None"

fun un_parachain_info :: "ParachainConstraintChecker \<Rightarrow> SetParachainInfo InherentAdapter option" where
  "un_parachain_info (ParachainInfo c) = Some c" | "un_parachain_info _ = None"

fun is_parachain :: "ParachainConstraintChecker \<Rightarrow> bool" where
  "is_parachain (ParachainInfo _) = True" | "is_parachain (ParaInner _) = False"

record parachain_runtime_host =
  inner_host :: runtime_host
  cumulus :: parachain_host
  info_codec :: "ParachainInherentDataUtxo codec"
  info_selector_codec :: "SetParachainInfo codec"
  parachain_checker_codec :: "ParachainConstraintChecker codec"

abbreviation parachain_verifier :: "host \<Rightarrow> parachain_runtime_host \<Rightarrow> (OuterVerifier, OuterVerifierRedeemer) Verifier" where
  "parachain_verifier H P \<equiv> template_verifier H (inner_host P)"

type_synonym parachain_impl =
  "(OuterVerifier, ParachainConstraintChecker, ParachainConstraintCheckerError) checker_impl"

definition inner_variant :: "host \<Rightarrow> parachain_runtime_host \<Rightarrow> parachain_impl" where
  "inner_variant H P = checker_variant ParaInner un_inner ParaInnerError (template_checker H (inner_host P))"

definition parachain_info ::
  "host \<Rightarrow> parachain_runtime_host \<Rightarrow> (OuterVerifier, SetParachainInfo InherentAdapter, ParachainError) ConstraintChecker" where
  "parachain_info H P = inherent_adapter H
     (parachain_checker (runtime_parachain_config H) (info_codec P) (info_selector_codec P))
     (parachain_hooks (cumulus P) (info_codec P) (parachain_verifier H P))"

definition parachain_info_variant :: "host \<Rightarrow> parachain_runtime_host \<Rightarrow> parachain_impl" where
  "parachain_info_variant H P = checker_variant ParachainInfo un_parachain_info ParachainInfoError
     (parachain_info H P)"

definition parachain_variants :: "host \<Rightarrow> parachain_runtime_host \<Rightarrow> parachain_impl list" where
  "parachain_variants H P = [inner_variant H P, parachain_info_variant H P]"

definition parachain_runtime_checker ::
  "host \<Rightarrow> parachain_runtime_host
     \<Rightarrow> (OuterVerifier, ParachainConstraintChecker, ParachainConstraintCheckerError) ConstraintChecker" where
  "parachain_runtime_checker H P = aggregate_checker (parachain_variants H P) (parachain_checker_codec P)"

definition parachain_development_genesis ::
  "host \<Rightarrow> parachain_runtime_host \<Rightarrow> (OuterVerifier, ParachainConstraintChecker) Transaction list option" where
  "parachain_development_genesis H P =
     (let signatories = [SHAWN_PUB_KEY_BYTES, ANDREW_PUB_KEY_BYTES];
          user_genesis_transactions =
            map (transform ParaInner)
              [coin_mint 0 (coin_codec (inner_host P)) OuterSr25519Signature OuterMoney 100
                 (sr25519_signature_new SHAWN_PUB_KEY_BYTES),
               coin_mint 0 (coin_codec (inner_host P)) OuterThresholdMultiSignature OuterMoney 100
                 \<lparr>threshold = 1, signatories = signatories\<rparr>]
      in map_option (\<lambda>inherents. inherents @ user_genesis_transactions)
           (genesis_transactions (parachain_runtime_checker H P)))"

subsection \<open>The contracts hold\<close>

interpretation v_inner: variant ParaInner un_inner
  by unfold_locales (simp, erule un_inner.elims, simp_all)

interpretation v_info: variant ParachainInfo un_parachain_info
  by unfold_locales (simp, erule un_parachain_info.elims, simp_all)

interpretation para: aggregation "parachain_variants H P" "parachain_checker_codec P" for H P
proof
  fix v
  assume "v \<in> set (parachain_variants H P)"
  then consider "v = inner_variant H P" | "v = parachain_info_variant H P"
    by (auto simp: parachain_variants_def)
  then show "framed_impl v"
  proof cases
    case 1
    have "framed_checker (template_checker H (inner_host P))"
      unfolding template_checker_def by (rule template.framed_checker_axioms)
    with 1 show ?thesis by (simp add: inner_variant_def framed_variant)
  next
    case 2
    have "framed_checker (parachain_info H P)"
      unfolding parachain_info_def by (rule parachain.adapted.framed_checker_axioms)
    with 2 show ?thesis by (simp add: parachain_info_variant_def framed_variant)
  qed
qed

locale parachain_laws = template_laws H "inner_host P" for H :: host and P :: parachain_runtime_host +
  assumes parachain_checker_lawful: "scale_codec (parachain_checker_codec P)"

sublocale parachain_laws \<subseteq> parachain: executive H "parachain_verifier H P" "parachain_runtime_checker H P"
proof (rule executive.intro)
  show "executive_laws H (parachain_verifier H P) (parachain_runtime_checker H P)"
    by (simp add: executive_laws_def executive_laws_axioms_def host_laws_axioms
        template.verifier_laws_axioms parachain_runtime_checker_def aggregate_checker_def
        parachain_checker_lawful)
  show "framed_checker (parachain_runtime_checker H P)"
    unfolding parachain_runtime_checker_def by (rule para.framed_checker_axioms)
qed

subsection \<open>Dispatch\<close>

lemma parachain_dispatch:
  "dispatch (parachain_variants H P) (ParaInner c) = Some (inner_variant H P)"
  "dispatch (parachain_variants H P) (ParachainInfo k) = Some (parachain_info_variant H P)"
  by (simp_all add: dispatch_def parachain_variants_def inner_variant_def parachain_info_variant_def)

lemma parachain_runtime_check:
  "check (parachain_runtime_checker H P) (ParaInner c) ins evs pks outs s
     = map_prod id (map_err ParaInnerError) (check (template_checker H (inner_host P)) c ins evs pks outs s)"
  "check (parachain_runtime_checker H P) (ParachainInfo (InherentAdapter k)) ins evs pks outs s
     = map_prod id (map_err ParachainInfoError)
         (parachain_check (runtime_parachain_config H) (info_codec P) k ins evs pks outs s)"
  by (simp_all add: parachain_runtime_checker_def aggregate_checker_def parachain_dispatch inner_variant_def
      parachain_info_variant_def checker_variant_def parachain_info_def inherent_adapter_def
      parachain_checker_def case_prod_unfold map_prod_def Let_def)

lemma parachain_follows:
  "follows (parachain_runtime_checker H P) (ParaInner c) (check (template_checker H (inner_host P))) c"
  "follows (parachain_runtime_checker H P) (ParachainInfo (InherentAdapter k))
     (parachain_check (runtime_parachain_config H) (info_codec P)) k"
  by (simp_all add: follows_def parachain_runtime_check map_err_Ok)

lemma parachain_is_inherent:
  "is_inherent (parachain_runtime_checker H P) c \<longleftrightarrow>
     is_parachain c \<or> (\<exists>a. c = ParaInner (OuterSetTimestamp a))"
  using v_timestamp.unwrap_Some
  by (cases c) (auto simp: parachain_runtime_checker_def aggregate_checker_def parachain_dispatch
      inner_variant_def parachain_info_variant_def checker_variant_def parachain_info_def
      inherent_adapter_def template_is_inherent)

subsection \<open>Money\<close>

text \<open>
  C32. Becoming a parachain creates no money: along every chain of the parachain runtime, as long as each
  block transaction's inputs name pairwise different outputs, the value of all unspent coins is at
  most what genesis and the mint transactions have issued, although the checker is an aggregate of an
  aggregate and has one more piece.
\<close>

theorem parachain_chain_supply:
  assumes "executive H (parachain_verifier H P) (parachain_runtime_checker H P)"
    and "chain H (parachain_verifier H P) (parachain_runtime_checker H P) txs_codec B gtxs bs s"
    and "small_outputs (chain_history gtxs bs)"
    and "\<forall>tx \<in> set (concat (map extrinsics bs)). distinct (input_refs tx)"
  shows "coin_supply 0 (coin_codec (inner_host P)) (ledger_of H (parachain_verifier H P) s)
    \<le> issued (\<lambda>c. c = ParaInner (OuterMoney Mint)) 0 (coin_codec (inner_host P)) gtxs
        (concat (map extrinsics bs))"
  using assms
proof (rule chain_supply_bound)
  fix tx :: "(OuterVerifier, ParachainConstraintChecker) Transaction" and U s h
  let ?cc = "coin_codec (inner_host P)"
  assume acc: "ledger_accepts H (parachain_verifier H P) (parachain_runtime_checker H P) h U s tx"
    and other: "checker tx \<noteq> ParaInner (OuterMoney Mint)"
  show "output_worth 0 ?cc tx \<le> input_worth 0 ?cc U tx"
  proof (cases "checker tx")
    case (ParaInner c)
    with parachain_follows(1) [of H P c] acc other show ?thesis by (intro template_honest) auto
  next
    case (ParachainInfo a)
    obtain k where "a = InherentAdapter k" by (cases a)
    with ParachainInfo parachain_follows(2) [of H P k] have "follows (parachain_runtime_checker H P) (checker tx)
        (parachain_check (runtime_parachain_config H) (info_codec P)) k" by simp
    from this acc obtain d current where "map payload (outputs tx) = [d]"
      "view (parachain_data (info_codec P)) d = Some current"
      by (rule accepted_follows) (auto simp: parachain_check_Ok)
    moreover have "TYPE_ID (coin_data 0 ?cc) \<noteq> TYPE_ID (parachain_data (info_codec P))"
      by (simp add: coin_data_def parachain_data_def)
    ultimately show ?thesis by (simp add: output_worth_def coin_worth_foreign)
  qed
qed

subsection \<open>The relay parent number\<close>

text \<open>The number in the info a transaction creates.\<close>

definition created_number :: "ParachainInherentDataUtxo codec \<Rightarrow> ('v, 'c) Transaction \<Rightarrow> u32 option" where
  "created_number pc tx =
     (case outputs tx of
        [] \<Rightarrow> None
      | out # _ \<Rightarrow> map_option info_number (view (parachain_data pc) (payload out)))"

text \<open>Of the template's pieces only the runtime upgrade writes to the storage, and only the code.\<close>

lemma template_check_storage:
  "k \<noteq> CODE \<Longrightarrow> fst (check (template_checker H R) c ins evs pks outs s) k = s k"
proof -
  assume k: "k \<noteq> CODE"
  have adapter: "fst (check (template_checker H R) (OuterSetTimestamp a) ins evs pks outs s) = s" for a
    by (cases a) (simp add: template_checker_def aggregate_checker_def template_dispatch timestamp_variant_def
        checker_variant_def template_timestamp_def inherent_adapter_def set_timestamp_checker_def
        set_timestamp_check_def case_prod_unfold Let_def)
  have money: "fst (check (template_checker H R) (OuterMoney m) ins evs pks outs s) = s" for m
    by (cases m) (simp_all add: template_checker_def aggregate_checker_def template_dispatch money_variant_def
        checker_variant_def from_simple_def money_checker_def case_prod_unfold Let_def)
  have upgrade: "fst (check (template_checker H R) (OuterRuntimeUpgrade u) ins evs pks outs s) k = s k" for u
    using k by (simp add: template_checker_def aggregate_checker_def template_dispatch upgrade_variant_def
        checker_variant_def from_simple_def upgrade_checker_def upgrade_check_def case_prod_unfold Let_def
        split: result.split)
  show ?thesis
    by (cases c; simp only: adapter money upgrade)
      (simp_all add: template_checker_def aggregate_checker_def template_dispatch template_variant_defs
        checker_variant_def from_simple_def case_prod_unfold Let_def kitty_checker_def mitosis_checker_def
        death_checker_def creation_checker_def poe_claim_checker_def poe_revoke_checker_def
        poe_dispute_checker_def kitty_check_def mitosis_check_def death_check_def creation_check_def
        poe_claim_check_def poe_revoke_check_def poe_dispute_check_def)
qed

context executive
begin

lemma apply_runtime_entry:
  assumes h: "block_height H s = Some h" and ok: "snd (apply_tuxedo_transaction H V C tx s) = Ok ()"
    and k: "is_runtime_key k"
  shows "\<exists>ins evs pks p. fst (apply_tuxedo_transaction H V C tx s) k
      = fst (check C (checker tx) ins evs pks (map payload (outputs tx)) s) k
    \<and> snd (check C (checker tx) ins evs pks (map payload (outputs tx)) s) = Ok p"
proof -
  let ?U = "ledger_of H V s"
  let ?chk = "check C (checker tx) (ledger_payloads ?U (redeemed_refs tx)) (ledger_payloads ?U (evicted_refs tx))
      (ledger_payloads ?U (peeks tx)) (map payload (outputs tx)) s"
  have acc: "ledger_accepts H V C h ?U s tx" using apply_complete [OF h] ok by blast
  have "fst (validate_tuxedo_transaction H V C tx s) = fst ?chk"
    using accepts_gather [OF h acc] by (simp add: validate_tuxedo_transaction_def case_prod_unfold Let_def)
  moreover have "fst (apply_tuxedo_transaction H V C tx s) k = fst (validate_tuxedo_transaction H V C tx s) k"
    using ok k by (auto simp: apply_tuxedo_transaction_def case_prod_unfold update_storage_frame
        host_laws_axioms split: result.splits if_splits)
  moreover obtain p where "snd ?chk = Ok p" using acc by (auto simp: ledger_accepts_def)
  ultimately show ?thesis by metis
qed

end

lemma parachain_apply_number:
  assumes exec: "executive H (parachain_verifier H P) (parachain_runtime_checker H P)"
    and h: "block_height H s = Some h"
    and ok: "snd (apply_tuxedo_transaction H (parachain_verifier H P) (parachain_runtime_checker H P) tx s) = Ok ()"
  shows "get_relay_parent_number H
      (fst (apply_tuxedo_transaction H (parachain_verifier H P) (parachain_runtime_checker H P) tx s))
    = (if is_parachain (checker tx) then created_number (info_codec P) tx else get_relay_parent_number H s)"
proof -
  let ?C = "parachain_runtime_checker H P" and ?outs = "map payload (outputs tx)"
  have laws: "host_laws H" using exec by (simp add: executive_def executive_laws_def)
  obtain ins evs pks p where entry:
      "fst (apply_tuxedo_transaction H (parachain_verifier H P) ?C tx s) RELAY_PARENT_NUMBER_KEY
        = fst (check ?C (checker tx) ins evs pks ?outs s) RELAY_PARENT_NUMBER_KEY"
    and chk: "snd (check ?C (checker tx) ins evs pks ?outs s) = Ok p"
    using executive.apply_runtime_entry [OF exec h ok relay_key(1)] by blast
  show ?thesis
  proof (cases "checker tx")
    case (ParaInner c)
    have "RELAY_PARENT_NUMBER_KEY \<noteq> CODE"
      by (simp add: RELAY_PARENT_NUMBER_KEY_def CODE_def byte_string_def)
    with entry ParaInner show ?thesis
      by (simp add: get_relay_parent_number_def parachain_runtime_check template_check_storage)
  next
    case (ParachainInfo a)
    obtain k where a: "a = InherentAdapter k" by (cases a)
    from chk ParachainInfo a obtain d current where
      out: "?outs = [d]" "view (parachain_data (info_codec P)) d = Some current"
      by (auto simp: parachain_runtime_check map_err_Ok parachain_check_Ok)
    with entry ParachainInfo a
    have "fst (apply_tuxedo_transaction H (parachain_verifier H P) ?C tx s) RELAY_PARENT_NUMBER_KEY
        = Some (encode (u32_codec H) (info_number current))"
      by (simp add: parachain_runtime_check parachain_check_storage runtime_parachain_config_def
          set_relay_parent_number_def)
    with ParachainInfo out show ?thesis
      by (auto simp: get_relay_parent_number_def created_number_def
          scale_codec.decode_value_encode [OF host_laws.u32_lawful [OF laws]])
  qed
qed

lemma parachain_execute_number:
  assumes exec: "executive H (parachain_verifier H P) (parachain_runtime_checker H P)"
    and "execute_extrinsics H (parachain_verifier H P) (parachain_runtime_checker H P) fin txs s = Some s'"
    and "block_height H s = Some h"
  shows "get_relay_parent_number H s'
    = (case filter (\<lambda>tx. is_parachain (checker tx)) txs of
         [] \<Rightarrow> get_relay_parent_number H s
       | infos \<Rightarrow> created_number (info_codec P) (last infos))"
  using assms(2,3)
proof (induction txs arbitrary: fin s)
  case Nil
  then show ?case by simp
next
  case (Cons tx txs)
  let ?apply = "apply_tuxedo_transaction H (parachain_verifier H P) (parachain_runtime_checker H P) tx s"
  from Cons.prems(1) obtain fin' where ok: "snd ?apply = Ok ()"
    and rest: "execute_extrinsics H (parachain_verifier H P) (parachain_runtime_checker H P) fin' txs (fst ?apply)
      = Some s'"
    by (auto simp: execute_extrinsics_Cons simp del: execute_extrinsics.simps(2) split: if_splits)
  have "block_height H (fst ?apply) = Some h"
    using executive.apply_frame [OF exec, of HEIGHT_KEY] Cons.prems(2) by (simp add: block_height_def)
  from Cons.IH [OF rest this] parachain_apply_number [OF exec Cons.prems(2) ok]
  show ?case by (auto split: list.splits)
qed

lemma parachain_block_number:
  assumes exec: "executive H (parachain_verifier H P) (parachain_runtime_checker H P)"
    and ex: "execute_block H (parachain_verifier H P) (parachain_runtime_checker H P)
      \<lparr>header = h, extrinsics = txs\<rparr> s = Some s'"
    and infos: "filter (\<lambda>tx. is_parachain (checker tx)) txs \<noteq> []"
  shows "get_relay_parent_number H s'
    = created_number (info_codec P) (last (filter (\<lambda>tx. is_parachain (checker tx)) txs))"
proof -
  let ?V = "parachain_verifier H P" and ?C = "parachain_runtime_checker H P"
  obtain s1 s2 where run: "execute_extrinsics H ?V ?C False txs s1 = Some s2"
    and s1: "s1 HEIGHT_KEY = Some (encode (u32_codec H) (number h))" and s': "s' = s2(HEADER_KEY := None)"
    using ex by (fastforce simp: execute_block_def Let_def bind_eq_Some_conv split: if_splits)
  have "block_height H s1 = Some (number h)"
    using exec s1 by (simp add: block_height_def executive_def executive_laws_def
        scale_codec.decode_value_encode [OF host_laws.u32_lawful])
  then show ?thesis
    using parachain_execute_number [OF exec run] infos
    by (simp add: s' get_relay_parent_number_def neq_Nil_conv split: list.splits)
qed

lemma find_takeWhile_filter:
  "find Q (takeWhile I xs) = Some x \<Longrightarrow> \<exists>ys. filter Q xs = x # ys"
  by (induction xs) (auto split: if_splits)

lemma created_number_Some:
  assumes "outputs tx = out # rest" and "view (parachain_data pc) (payload out) = Some (ParachainInherentDataUtxo d)"
  shows "created_number pc tx = Some (relay_parent_number (validation_data d))"
  using assms by (simp add: created_number_def info_number_def)

text \<open>
  C15. The watermark of a validated block. When a validator accepts a block of the parachain runtime, the
  block contains a parachain inherent; the first one carries the relay parent number the relay chain
  supplied, and the watermark returned is the number in the last one. So the watermark is the relay
  chain's number when the block has exactly one parachain inherent, and that is all that ties
  the two together: \<open>validate_block\<close> does not check the inherents.
\<close>

theorem validated_watermark:
  assumes "executive H (parachain_verifier H P) (parachain_runtime_checker H P)"
    and "validate_block H (parachain_verifier H P) (parachain_runtime_checker H P) is_parachain (info_codec P)
      bdc proof_storage params = Some r"
  shows "\<exists>h txs pf infos. decode_value bdc (params_block_data params) = Some (h, txs, pf)
    \<and> infos = filter (\<lambda>tx. is_parachain (checker tx)) txs \<and> infos \<noteq> []
    \<and> created_number (info_codec P) (hd infos) = Some (params_relay_parent_number params)
    \<and> created_number (info_codec P) (last infos) = Some (res_hrmp_watermark r)
    \<and> (length infos = 1 \<longrightarrow> res_hrmp_watermark r = params_relay_parent_number params)"
proof -
  let ?V = "parachain_verifier H P" and ?C = "parachain_runtime_checker H P"
  obtain h txs pf d s s' n where
    dec: "decode_value bdc (params_block_data params) = Some (h, txs, pf)"
    and inh: "parachain_inherent_data ?C is_parachain (info_codec P) txs = Some d"
    and vd: "relay_parent_number (validation_data d) = params_relay_parent_number params"
    and ex: "execute_block H ?V ?C \<lparr>header = h, extrinsics = txs\<rparr> s = Some s'"
    and n: "get_relay_parent_number H s' = Some n" "res_hrmp_watermark r = n"
    using assms(2) unfolding validate_block_Some validate_validation_data_Some by auto
  let ?infos = "filter (\<lambda>tx. is_parachain (checker tx)) txs"
  obtain tx ys where first: "?infos = tx # ys"
    and num: "created_number (info_codec P) tx = Some (params_relay_parent_number params)"
    using inh by (rule parachain_inherent_data_Some)
      (auto simp: vd created_number_Some dest!: find_takeWhile_filter)
  have "get_relay_parent_number H s' = created_number (info_codec P) (last ?infos)"
    using assms(1) ex by (rule parachain_block_number) (simp add: first)
  with n have "created_number (info_codec P) (last ?infos) = Some (res_hrmp_watermark r)" by simp
  with dec first num show ?thesis by auto
qed

end
