(* ===== verification/Htlc_Swap.thy ===== *)
theory Htlc_Swap
  imports Verifiers Genesis
begin

text \<open>
  The hash time lock contract of \<^verbatim>\<open>tuxedo-core/src/verifier/htlc.rs\<close> on a chain. Its module comment says what it is
  for: atomic swaps between two chains. An output under the contract that leaves the ledger before its claim period ends
  has published a secret; with that secret the recipient of any output with the same hash lock can spend it on the other chain, at every height; and
  the refunder can take an output back from the end of its claim period on, and not before.

  The first part of the theory is about every verifier: what leaves the ledger while blocks are executed was evicted or was
  redeemed to its verifier's satisfaction at the height of one of the blocks.
\<close>

fun execute_blocks ::
  "host \<Rightarrow> ('v, 'r) Verifier \<Rightarrow> ('v, 'c, 'e) ConstraintChecker \<Rightarrow> ('v, 'c) Block list \<Rightarrow> storage \<Rightarrow> storage option" where
  "execute_blocks H V C [] s = Some s"
| "execute_blocks H V C (b # bs) s = Option.bind (execute_block H V C b s) (execute_blocks H V C bs)"

text \<open>What every verifier is shown of a transaction.\<close>

definition stripped_encoding :: "host \<Rightarrow> ('v, 'r) Verifier \<Rightarrow> ('v, 'c, 'e) ConstraintChecker \<Rightarrow> ('v, 'c) Transaction \<Rightarrow> bytes" where
  "stripped_encoding H V C tx = encode (transaction_codec H V (checker_codec C)) (strip_transaction tx)"

text \<open>The input takes the output under \<open>r\<close>, whose verifier is \<open>v\<close>, at this height with this redeemer.\<close>

definition redeems ::
  "host \<Rightarrow> ('v, 'r) Verifier \<Rightarrow> ('v, 'c, 'e) ConstraintChecker \<Rightarrow> u32 \<Rightarrow> OutputRef \<Rightarrow> 'v \<Rightarrow> ('v, 'c) Transaction \<Rightarrow> Input \<Rightarrow> 'r \<Rightarrow> bool" where
  "redeems H V C h r v tx i red \<longleftrightarrow> i \<in> set (inputs tx) \<and> output_ref i = r
     \<and> (\<exists>raw. redeemer i = Redemption raw \<and> decode_value (redeemer_codec V) raw = Some red)
     \<and> verify V v (stripped_encoding H V C tx) h red = Some True"

definition evicts_ref :: "OutputRef \<Rightarrow> ('v, 'c) Transaction \<Rightarrow> bool" where
  "evicts_ref r tx \<longleftrightarrow> r \<in> set (evicted_refs tx)"

definition taken ::
  "host \<Rightarrow> ('v, 'r) Verifier \<Rightarrow> ('v, 'c, 'e) ConstraintChecker \<Rightarrow> u32 \<Rightarrow> OutputRef \<Rightarrow> 'v \<Rightarrow> ('v, 'c) Transaction list \<Rightarrow> bool" where
  "taken H V C h r v txs \<longleftrightarrow> (\<exists>tx \<in> set txs. evicts_ref r tx \<or> (\<exists>i red. redeems H V C h r v tx i red))"

lemma taken_simps [simp]: "taken H V C h r v (xs @ ys) \<longleftrightarrow> taken H V C h r v xs \<or> taken H V C h r v ys" "\<not> taken H V C h r v []"
  by (auto simp: taken_def)

lemma authorised_takes:
  assumes "authorised V (stripped_encoding H V C tx) h U i" "i \<in> set (inputs tx)" "U (output_ref i) = Some out"
  shows "taken H V C h (output_ref i) (verifier out) [tx]"
  using assms
  by (cases "redeemer i") (auto simp: authorised_def taken_def evicts_ref_def evicted_refs_def redeems_def split: option.splits)

text \<open>All that a transaction needs but the consent of the verifiers of its inputs.\<close>

definition otherwise_accepted ::
  "host \<Rightarrow> ('v, 'r) Verifier \<Rightarrow> ('v, 'c, 'e) ConstraintChecker \<Rightarrow> 'v ledger \<Rightarrow> storage \<Rightarrow> ('v, 'c) Transaction \<Rightarrow> bool" where
  "otherwise_accepted H V C U s tx \<longleftrightarrow>
     distinct (inputs tx) \<and> (\<forall>r \<in> set (peeks tx). U r \<noteq> None)
     \<and> (\<forall>r \<in> set (output_refs_of H V (checker_codec C) tx). U r = None)
     \<and> (\<exists>p. snd (check C (checker tx) (ledger_payloads U (redeemed_refs tx))
          (ledger_payloads U (evicted_refs tx)) (ledger_payloads U (peeks tx))
          (map payload (outputs tx)) s) = Ok p)"

context executive
begin

lemma accepted_keeps_or_takes:
  assumes "ledger_accepts H V C h U s tx" "U r = Some out"
  shows "ledger_update (input_refs tx) (created_outputs H V (checker_codec C) tx) U r = Some out
    \<or> taken H V C h r (verifier out) [tx]"
proof (cases "r \<in> set (input_refs tx)")
  case True
  then obtain i where "i \<in> set (inputs tx)" "output_ref i = r" by (auto simp: input_refs_def)
  then show ?thesis
    using assms authorised_takes [of V H C tx h U i out] by (auto simp: ledger_accepts_def stripped_encoding_def)
next
  case False
  have "r \<notin> set (map fst (created_outputs H V (checker_codec C) tx))"
    using assms by (auto simp: ledger_accepts_def)
  then have "map_of (created_outputs H V (checker_codec C) tx) r = None" by (simp add: map_of_eq_None_iff del: map_fst_created)
  then show ?thesis using False assms(2) by (simp add: ledger_update_def)
qed

lemma block_keeps_or_takes:
  assumes "between_blocks H s" "execute_block H V C b s = Some s'" "small_outputs (extrinsics b)"
    and "ledger_of H V s r = Some out"
  shows "ledger_of H V s' r = Some out \<or> taken H V C (number (header b)) r (verifier out) (extrinsics b)"
proof -
  obtain h txs where b: "b = \<lparr>header = h, extrinsics = txs\<rparr>" by (cases b)
  have fresh: "s EXTRINSIC_KEY = None" using assms(1) by (simp add: between_blocks_def)
  obtain a where a: "apply_extrinsics H V C txs (open_block H h s) = Some a"
    and s': "s' = a(HEADER_KEY := None, EXTRINSIC_KEY := None)"
    using assms(2) by (auto simp: b execute_block_Some [of s h h, OF fresh])
  have height: "block_height H (open_block H h s) = Some (number h)"
    by (simp add: block_height_def open_block_def scale_codec.decode_value_encode [OF u32_lawful])
  let ?P = "\<lambda>hist U. U r = Some out \<or> taken H V C (number h) r (verifier out) hist"
  have start: "?P [] (ledger_of H V (open_block H h s))"
    using assms(4) by (simp add: open_block_def ledger_of_runtime_key host_laws_axioms)
  have small: "small_outputs txs" using assms(3) by (simp add: b)
  have "?P ([] @ txs) (ledger_of H V a)"
    by (rule apply_extrinsics_induct [where P = ?P, OF a height small start]) (auto dest: accepted_keeps_or_takes)
  then show ?thesis
    unfolding s' by (simp add: b ledger_of_runtime_key host_laws_axioms)
qed

lemma blocks_keep_or_take:
  assumes "between_blocks H s" "execute_blocks H V C bs s = Some s'" "small_outputs (concat (map extrinsics bs))"
    and "ledger_of H V s r = Some out"
  shows "ledger_of H V s' r = Some out \<or> (\<exists>b \<in> set bs. taken H V C (number (header b)) r (verifier out) (extrinsics b))"
  using assms
proof (induction bs arbitrary: s)
  case Nil
  then show ?case by simp
next
  case (Cons b bs)
  then obtain s1 where s1: "execute_block H V C b s = Some s1" "execute_blocks H V C bs s1 = Some s'"
    by (auto simp: bind_eq_Some_conv)
  have small: "small_outputs (extrinsics b)" "small_outputs (concat (map extrinsics bs))"
    using Cons.prems(3) by simp_all
  have "between_blocks H s1" using execute_block_between [OF Cons.prems(1) s1(1)] by simp
  with Cons.IH [OF _ s1(2) small(2)] block_keeps_or_takes [OF Cons.prems(1) s1(1) small(1) Cons.prems(4)]
  show ?case by auto
qed

text \<open>A transaction with one redeemed input applies exactly when the verifier consents and the rest is in order.\<close>

lemma single_redemption:
  assumes "block_height H s = Some h" "ledger_of H V s r = Some out"
    and "inputs tx = [\<lparr>output_ref = r, redeemer = Redemption (encode (redeemer_codec V) red)\<rparr>]"
    and "otherwise_accepted H V C (ledger_of H V s) s tx"
  shows "snd (apply_tuxedo_transaction H V C tx s) = Ok () \<longleftrightarrow> verify V (verifier out) (stripped_encoding H V C tx) h red = Some True"
  using assms
  by (simp add: apply_complete ledger_accepts_def otherwise_accepted_def authorised_def stripped_encoding_def
      scale_codec.decode_value_encode [OF redeemer_lawful])

end

subsection \<open>The contract\<close>

text \<open>The input claims the output under \<open>r\<close> and shows the secret.\<close>

definition reveals ::
  "host \<Rightarrow> (HashTimeLockContract, HtlcSpendPath) verifier_codecs \<Rightarrow> (HashTimeLockContract, 'c, 'e) ConstraintChecker
     \<Rightarrow> OutputRef \<Rightarrow> HashTimeLockContract \<Rightarrow> (HashTimeLockContract, 'c) Transaction \<Rightarrow> bytes \<Rightarrow> bool" where
  "reveals H K C r v tx secret \<longleftrightarrow>
     (\<exists>i \<in> set (inputs tx). \<exists>raw sig. output_ref i = r \<and> redeemer i = Redemption raw
        \<and> decode_value (redeemer_codec (htlc_verifier H K)) raw = Some (Claim secret sig)
        \<and> blake2_256 H secret = htlc_hash_lock v
        \<and> sr25519_verify H sig (stripped_encoding H (htlc_verifier H K) C tx) (recipient_pubkey v))"

text \<open>The transaction's only input takes the output under \<open>r\<close> on this path.\<close>

definition spends_on ::
  "host \<Rightarrow> (HashTimeLockContract, HtlcSpendPath) verifier_codecs \<Rightarrow> OutputRef \<Rightarrow> HtlcSpendPath
     \<Rightarrow> (HashTimeLockContract, 'c) Transaction \<Rightarrow> bool" where
  "spends_on H K r path tx \<longleftrightarrow>
     inputs tx = [\<lparr>output_ref = r, redeemer = Redemption (encode (redeemer_codec (htlc_verifier H K)) path)\<rparr>]"

lemma verify_htlc_verifier: "verify (htlc_verifier H K) v tx h path = Some (verify_htlc H v tx h path)"
  by (simp add: verifier_dictionaries)

lemma early_redemption_reveals:
  assumes "redeems H (htlc_verifier H K) C h r v tx i path" "h < claim_period_end v"
  shows "\<exists>secret. reveals H K C r v tx secret"
proof (cases path)
  case (Claim secret sig)
  then have "reveals H K C r v tx secret"
    using assms(1) by (auto simp: redeems_def reveals_def verify_htlc_verifier)
  then show ?thesis ..
next
  case (Refund sig)
  then show ?thesis using assms by (auto simp: redeems_def verify_htlc_verifier)
qed

lemma claim_applies:
  assumes "executive H (htlc_verifier H K) C" "block_height H s = Some h" "ledger_of H (htlc_verifier H K) s r = Some out"
    and "spends_on H K r path tx" "otherwise_accepted H (htlc_verifier H K) C (ledger_of H (htlc_verifier H K) s) s tx"
  shows "snd (apply_tuxedo_transaction H (htlc_verifier H K) C tx s) = Ok ()
    \<longleftrightarrow> verify_htlc H (verifier out) (stripped_encoding H (htlc_verifier H K) C tx) h path"
  using executive.single_redemption [OF assms(1-3) _ assms(5)] assms(4) by (simp add: spends_on_def verify_htlc_verifier)

text \<open>
  C23. Hash time lock contracts make a swap atomic. Take two chains with this verifier and one hash, and on each an output under a contract with the same
  hash lock. Execute any blocks on the first chain, all numbered below the end of its claim period, in which nothing evicts_ref its output. If
  the output is gone afterwards, then a transaction of these blocks has revealed a preimage of the hash lock, with the recipient's signature on the
  transaction. With that preimage, a transaction that claims the second output and is otherwise in order applies
  on the second chain, at whatever height, exactly when it carries the signature of the second recipient. And one that refunds
  the second output applies exactly when it carries the refunder's signature and the height has reached the end of the claim period.
\<close>

theorem htlc_swap_atomic:
  assumes "executive H (htlc_verifier H K1) C1" "between_blocks H s"
    and "execute_blocks H (htlc_verifier H K1) C1 bs s = Some s'" "small_outputs (concat (map extrinsics bs))"
    and "ledger_of H (htlc_verifier H K1) s r1 = Some out1" "ledger_of H (htlc_verifier H K1) s' r1 = None"
    and "\<forall>b \<in> set bs. number (header b) < claim_period_end (verifier out1)"
    and "\<forall>tx \<in> set (concat (map extrinsics bs)). \<not> evicts_ref r1 tx"
    and "executive H (htlc_verifier H K2) C2" "block_height H t = Some h"
    and "ledger_of H (htlc_verifier H K2) t r2 = Some out2"
    and "htlc_hash_lock (verifier out2) = htlc_hash_lock (verifier out1)"
  shows "(\<exists>tx1 secret. tx1 \<in> set (concat (map extrinsics bs)) \<and> reveals H K1 C1 r1 (verifier out1) tx1 secret
      \<and> (\<forall>tx2 sig. spends_on H K2 r2 (Claim secret sig) tx2
          \<longrightarrow> otherwise_accepted H (htlc_verifier H K2) C2 (ledger_of H (htlc_verifier H K2) t) t tx2
          \<longrightarrow> (snd (apply_tuxedo_transaction H (htlc_verifier H K2) C2 tx2 t) = Ok ()
               \<longleftrightarrow> sr25519_verify H sig (stripped_encoding H (htlc_verifier H K2) C2 tx2) (recipient_pubkey (verifier out2)))))
    \<and> (\<forall>tx2 sig. spends_on H K2 r2 (Refund sig) tx2
        \<longrightarrow> otherwise_accepted H (htlc_verifier H K2) C2 (ledger_of H (htlc_verifier H K2) t) t tx2
        \<longrightarrow> (snd (apply_tuxedo_transaction H (htlc_verifier H K2) C2 tx2 t) = Ok ()
             \<longleftrightarrow> claim_period_end (verifier out2) \<le> h
                 \<and> sr25519_verify H sig (stripped_encoding H (htlc_verifier H K2) C2 tx2) (refunder_pubkey (verifier out2))))"
proof (rule conjI)
  from executive.blocks_keep_or_take [OF assms(1-5)] assms(6)
  obtain b where b: "b \<in> set bs" "taken H (htlc_verifier H K1) C1 (number (header b)) r1 (verifier out1) (extrinsics b)"
    by auto
  then obtain tx1 i path where tx1: "tx1 \<in> set (concat (map extrinsics bs))"
    "redeems H (htlc_verifier H K1) C1 (number (header b)) r1 (verifier out1) tx1 i path"
    using assms(8) by (fastforce simp: taken_def)
  then obtain secret where rev: "reveals H K1 C1 r1 (verifier out1) tx1 secret"
    using early_redemption_reveals [OF tx1(2)] assms(7) b(1) by blast
  then have "blake2_256 H secret = htlc_hash_lock (verifier out2)" using assms(12) by (auto simp: reveals_def)
  with rev tx1(1) show "\<exists>tx1 secret. tx1 \<in> set (concat (map extrinsics bs)) \<and> reveals H K1 C1 r1 (verifier out1) tx1 secret
      \<and> (\<forall>tx2 sig. spends_on H K2 r2 (Claim secret sig) tx2
          \<longrightarrow> otherwise_accepted H (htlc_verifier H K2) C2 (ledger_of H (htlc_verifier H K2) t) t tx2
          \<longrightarrow> (snd (apply_tuxedo_transaction H (htlc_verifier H K2) C2 tx2 t) = Ok ()
               \<longleftrightarrow> sr25519_verify H sig (stripped_encoding H (htlc_verifier H K2) C2 tx2) (recipient_pubkey (verifier out2))))"
    using claim_applies [OF assms(9-11)] by (intro exI [of _ tx1] exI [of _ secret]) simp
qed (use claim_applies [OF assms(9-11)] in simp)

end
