(* ===== verification/Reference_Host.thy ===== *)
theory Reference_Host
  imports Htlc_Swap Constraint_Checkers
begin

text \<open>
  One concrete instance of every parameter, for the evaluation of concrete inputs: a host with
  lawful codecs, a hash and a signature check that are merely functions, and the executive's own test
  types \<^verbatim>\<open>TestVerifier\<close> and \<^verbatim>\<open>TestConstraintChecker\<close>. It shows that the laws the theorems
  assume of the parameters can be met together.
\<close>

subsection \<open>Codecs\<close>

definition bool_codec :: "bool codec" where
  "bool_codec = map_codec (\<lambda>x. x = Inr ()) (\<lambda>b. if b then Inr () else Inl ())
     (sum_codec unit_codec unit_codec)"

definition byte4_codec :: "byte4 codec" where
  "byte4_codec = pair_codec byte_codec (pair_codec byte_codec (pair_codec byte_codec byte_codec))"

definition ref_bytes_codec :: "bytes codec" where
  "ref_bytes_codec = list_codec byte_codec"

definition ref_output_ref_codec :: "OutputRef codec" where
  "ref_output_ref_codec = map_codec (\<lambda>(h, i). \<lparr>tx_hash = h, index = i\<rparr>)
     (\<lambda>r. (tx_hash r, index r)) (pair_codec (word_codec 32) (word_codec 4))"

definition ref_redemption_codec :: "RedemptionStrategy codec" where
  "ref_redemption_codec = map_codec (\<lambda>x. case x of Inl b \<Rightarrow> Redemption b | Inr _ \<Rightarrow> Eviction)
     (\<lambda>x. case x of Redemption b \<Rightarrow> Inl b | Eviction \<Rightarrow> Inr ())
     (sum_codec ref_bytes_codec unit_codec)"

definition ref_input_codec :: "Input codec" where
  "ref_input_codec = map_codec (\<lambda>(r, d). \<lparr>output_ref = r, redeemer = d\<rparr>)
     (\<lambda>i. (output_ref i, redeemer i)) (pair_codec ref_output_ref_codec ref_redemption_codec)"

definition ref_data_codec :: "DynamicallyTypedData codec" where
  "ref_data_codec = map_codec (\<lambda>(b, t). \<lparr>data = b, type_id = t\<rparr>)
     (\<lambda>d. (data d, type_id d)) (pair_codec ref_bytes_codec byte4_codec)"

definition ref_output_codec :: "'v codec \<Rightarrow> 'v Output codec" where
  "ref_output_codec vc = map_codec (\<lambda>(p, v). \<lparr>payload = p, verifier = v\<rparr>)
     (\<lambda>out. (payload out, verifier out)) (pair_codec ref_data_codec vc)"

definition ref_header_codec :: "Header codec" where
  "ref_header_codec = map_codec
     (\<lambda>(p, n, sr, er, d). \<lparr>parent_hash = p, number = n, state_root = sr, extrinsics_root = er,
        digest = d\<rparr>)
     (\<lambda>h. (parent_hash h, number h, state_root h, extrinsics_root h, digest h))
     (pair_codec (word_codec 32) (pair_codec (word_codec 4) (pair_codec (word_codec 32)
       (pair_codec (word_codec 32) (list_codec ref_bytes_codec)))))"

definition ref_verifier_codecs :: "'r codec \<Rightarrow> 'v codec \<Rightarrow> ('v, 'r) verifier_codecs" where
  "ref_verifier_codecs rc vc = (rc, ref_output_codec vc, list_codec (ref_output_codec vc))"

subsection \<open>The host\<close>

definition ref_hash :: "bytes \<Rightarrow> H256" where
  "ref_hash b = of_nat (le_value b)"

definition ref_host :: host where
  "ref_host =
     \<lparr>blake2_256 = ref_hash,
      sr25519_verify = (\<lambda>sig m pk. unat sig = unat pk),
      ordered_trie_root = (\<lambda>xs. ref_hash (concat xs)),
      raw_storage_root = (\<lambda>s. le_digits 32 (case s HEIGHT_KEY of Some b \<Rightarrow> le_value b | None \<Rightarrow> 0)),
      put_error = (\<lambda>r i b f. Some \<lparr>okay = False, fatal_error = f, errors = (errors r)(i \<mapsto> b)\<rparr>),
      h256_codec = word_codec 32,
      u32_codec = word_codec 4,
      compact_u32_codec = unary_codec,
      bytes_codec = ref_bytes_codec,
      bytes_list_codec = list_codec ref_bytes_codec,
      output_ref_codec = ref_output_ref_codec,
      output_refs_codec = list_codec ref_output_ref_codec,
      input_codec = ref_input_codec,
      inputs_codec = list_codec ref_input_codec,
      header_codec = ref_header_codec\<rparr>"

definition ref_test_verifier :: "(TestVerifier, unit) Verifier" where
  "ref_test_verifier = test_verifier (ref_verifier_codecs unit_codec
     (map_codec (\<lambda>b. \<lparr>verifies = b\<rparr>) verifies bool_codec))"

definition ref_test_checker :: "(TestVerifier, TestConstraintChecker, unit) ConstraintChecker" where
  "ref_test_checker = test_constraint_checker (map_codec (\<lambda>(a, b). \<lparr>checks = a, inherent = b\<rparr>)
     (\<lambda>c. (checks c, inherent c)) (pair_codec bool_codec bool_codec))"

subsection \<open>The laws hold\<close>

lemma scale_codec_bool [intro]: "scale_codec bool_codec"
  unfolding bool_codec_def by (rule scale_codec_map) auto

lemma scale_codec_byte4 [intro]: "scale_codec byte4_codec"
  unfolding byte4_codec_def by auto

lemma scale_codec_bytes [intro]: "scale_codec ref_bytes_codec"
  unfolding ref_bytes_codec_def by auto

lemma scale_codec_words [intro]:
  "scale_codec (word_codec 32 :: H256 codec)" "scale_codec (word_codec 4 :: u32 codec)"
  "scale_codec (word_codec 8 :: u64 codec)" "scale_codec (word_codec 16 :: u128 codec)"
  "scale_codec (word_codec 64 :: Signature codec)"
  by (rule scale_codec_word; simp)+

lemma scale_codec_output_ref [intro]: "scale_codec ref_output_ref_codec"
  unfolding ref_output_ref_codec_def by (rule scale_codec_map) auto

lemma scale_codec_redemption [intro]: "scale_codec ref_redemption_codec"
  unfolding ref_redemption_codec_def
  by (rule scale_codec_map) (auto split: RedemptionStrategy.splits)

lemma scale_codec_input [intro]: "scale_codec ref_input_codec"
  unfolding ref_input_codec_def by (rule scale_codec_map) auto

lemma scale_codec_data [intro]: "scale_codec ref_data_codec"
  unfolding ref_data_codec_def by (rule scale_codec_map) auto

lemma scale_codec_output [intro]: "scale_codec vc \<Longrightarrow> scale_codec (ref_output_codec vc)"
  unfolding ref_output_codec_def by (rule scale_codec_map) auto

lemma scale_codec_header [intro]: "scale_codec ref_header_codec"
  unfolding ref_header_codec_def
  by (rule scale_codec_map) (intro scale_codec_pair scale_codec_words scale_codec_list
    scale_codec_bytes, simp)

lemma length_word_codec [simp]: "length (encode (word_codec n) w) = n"
  by (simp add: word_codec_def)

interpretation ref: host_laws ref_host
proof (rule host_laws.intro)
  fix r
  show "length (encode (output_ref_codec ref_host) r) = 36"
    by (simp add: ref_host_def ref_output_ref_codec_def map_codec_def pair_codec_def)
qed (simp add: ref_host_def, blast)+

lemma ref_verifier_laws:
  assumes "scale_codec rc" and "scale_codec vc"
  shows "verifier_laws (verifier_dictionary f u (ref_verifier_codecs rc vc))"
  by (rule verifier_dictionary_laws) (use assms in \<open>auto simp: ref_verifier_codecs_def\<close>)

interpretation ref_test_verifier: verifier_laws ref_test_verifier
  unfolding ref_test_verifier_def test_verifier_def
  by (rule ref_verifier_laws) (auto intro: scale_codec_map)

interpretation ref_test: executive ref_host ref_test_verifier ref_test_checker
proof (rule executive.intro)
  have "scale_codec (checker_codec ref_test_checker)"
    unfolding ref_test_checker_def test_constraint_checker_def ConstraintChecker.simps
    by (rule scale_codec_map) auto
  then show "executive_laws ref_host ref_test_verifier ref_test_checker"
    by (simp add: executive_laws_def executive_laws_axioms_def ref.host_laws_axioms
        ref_test_verifier.verifier_laws_axioms)
  show "framed_checker ref_test_checker"
    unfolding ref_test_checker_def by (rule testc.framed_checker_axioms)
qed

subsection \<open>Concrete states\<close>

text \<open>A state that holds the given outputs at block height \<open>h\<close>.\<close>

definition utxo_state ::
  "('v, 'r) Verifier \<Rightarrow> (OutputRef \<times> 'v Output) list \<Rightarrow> u32 \<Rightarrow> storage" where
  "utxo_state V kvs h = fold (\<lambda>(r, out). store_utxo ref_host V r out) kvs
     [HEIGHT_KEY \<mapsto> encode (u32_codec ref_host) h]"

lemma utxo_state_key:
  assumes "is_runtime_key k"
  shows "utxo_state V kvs h k = (if k = HEIGHT_KEY then Some (encode (u32_codec ref_host) h) else None)"
proof -
  have "fold (\<lambda>(r, out). store_utxo ref_host V r out) kvs s k = s k" for s
    using assms by (induction kvs arbitrary: s) (auto simp: store_utxo_frame ref.host_laws_axioms)
  then show ?thesis by (simp add: utxo_state_def)
qed

lemma utxo_state_height: "block_height ref_host (utxo_state V kvs h) = Some h"
  by (simp add: block_height_def utxo_state_key scale_codec.decode_value_encode [OF ref.u32_lawful])

lemma utxo_state_ledger:
  assumes "verifier_laws V" and "distinct (map fst kvs)"
  shows "ledger_of ref_host V (utxo_state V kvs h) = map_of kvs"
proof
  fix r
  have lawful: "utxo_lawful (ref_host, V)"
    using assms(1) by (simp add: utxo_lawful_def ref.host_laws_axioms)
  have "peek_utxo ref_host V r [HEIGHT_KEY \<mapsto> b] = None" for b
    using runtime_key_not_output_ref [OF ref.host_laws_axioms, of HEIGHT_KEY r]
    by (simp add: peek_utxo_def)
  then show "ledger_of ref_host V (utxo_state V kvs h) r = map_of kvs r"
    using utxo.peek_store_all [OF lawful assms(2), of r "[HEIGHT_KEY \<mapsto> encode (u32_codec ref_host) h]"]
    by (simp add: ledger_of_def utxo_state_def split: option.splits)
qed

subsection \<open>A concrete state and a concrete transaction\<close>

definition demo_ref :: OutputRef where "demo_ref = \<lparr>tx_hash = 7, index = 5\<rparr>"

definition demo_output :: "TestVerifier Output" where
  "demo_output = \<lparr>payload = \<lparr>data = [1, 2], type_id = (0, 0, 0, 1)\<rparr>, verifier = \<lparr>verifies = True\<rparr>\<rparr>"

definition demo_state :: storage where
  "demo_state = utxo_state ref_test_verifier [(demo_ref, demo_output)] 1"

definition demo_tx :: "(TestVerifier, TestConstraintChecker) Transaction" where
  "demo_tx = \<lparr>inputs = [\<lparr>output_ref = demo_ref, redeemer = Redemption []\<rparr>], peeks = [],
     outputs = [demo_output], checker = \<lparr>checks = True, inherent = False\<rparr>\<rparr>"

definition demo_header :: Header where
  "demo_header = \<lparr>parent_hash = 0, number = 2, state_root = 0, extrinsics_root = 0, digest = []\<rparr>"

lemma ref_state_keys [simp]:
  "is_runtime_key k \<Longrightarrow> demo_state k = (if k = HEIGHT_KEY then Some (encode (u32_codec ref_host) 1) else None)"
  by (simp add: demo_state_def utxo_state_key)

lemma demo_state_height [simp]: "block_height ref_host demo_state = Some 1"
  by (simp add: demo_state_def utxo_state_height)

lemma demo_state_ledger:
  "ledger_of ref_host ref_test_verifier demo_state = [demo_ref \<mapsto> demo_output]"
  unfolding demo_state_def
  by (subst utxo_state_ledger) (simp_all add: ref_test_verifier.verifier_laws_axioms)

lemma decode_unit [simp]: "decode_value unit_codec b = Some ()"
  by (simp add: decode_value_def unit_codec_def)

text \<open>The transaction is accepted in every state with that output and some height.\<close>

lemma demo_tx_accepted:
  assumes "U demo_ref = Some demo_output" and "\<forall>r. index r = 0 \<longrightarrow> U r = None"
  shows "ledger_accepts ref_host ref_test_verifier ref_test_checker h U s demo_tx"
  using assms
  by (simp add: ledger_accepts_def demo_tx_def authorised_def demo_output_def
      ref_test_verifier_def verifier_dictionaries ref_verifier_codecs_def verify_test_def
      ref_test_checker_def test_constraint_checker_def output_refs_of_def)

lemma demo_state_accepts:
  "ledger_accepts ref_host ref_test_verifier ref_test_checker h
     (ledger_of ref_host ref_test_verifier demo_state) s demo_tx"
  by (rule demo_tx_accepted) (simp_all add: demo_state_ledger demo_ref_def)

subsection \<open>The executive on the concrete state\<close>

theorem transaction_round_trip_witness:
  "decode (transaction_codec ref_host ref_test_verifier (checker_codec ref_test_checker))
     (encode (transaction_codec ref_host ref_test_verifier (checker_codec ref_test_checker)) demo_tx @ [7])
   = Some (demo_tx, [7])"
  using transaction_round_trip [OF ref.host_laws_axioms ref_test_verifier.verifier_laws_axioms
      ref_test.checker_lawful]
  by blast

theorem apply_refines_ledger_witness:
  "snd (apply_tuxedo_transaction ref_host ref_test_verifier ref_test_checker demo_tx demo_state) = Ok ()
   \<and> ledger_of ref_host ref_test_verifier
       (fst (apply_tuxedo_transaction ref_host ref_test_verifier ref_test_checker demo_tx demo_state))
       demo_ref = None"
  using apply_refines_ledger [OF ref_test.executive_axioms demo_state_height, of demo_tx]
    demo_state_accepts [of 1 demo_state]
  by (simp add: demo_tx_def ledger_update_def created_outputs_def output_refs_of_def
      input_refs_def demo_ref_def)

text \<open>The same transaction in a block: the author's loop runs on the opened block.\<close>

lemma demo_apply_extrinsics:
  "\<exists>a. apply_extrinsics ref_host ref_test_verifier ref_test_checker [demo_tx]
        (open_block ref_host demo_header demo_state) = Some a"
proof -
  let ?o = "open_block ref_host demo_header demo_state"
  let ?s1 = "?o(EXTRINSIC_KEY \<mapsto> encode (bytes_list_codec ref_host)
      (noted_extrinsics ref_host ?o
        @ [encode (transaction_codec ref_host ref_test_verifier (checker_codec ref_test_checker)) demo_tx]))"
  have h: "block_height ref_host ?s1 = Some 2"
    by (simp add: block_height_def open_block_def demo_header_def
        scale_codec.decode_value_encode [OF ref.u32_lawful])
  have "ledger_of ref_host ref_test_verifier ?s1 = ledger_of ref_host ref_test_verifier demo_state"
    by (simp add: ledger_of_def open_block_def ref.host_laws_axioms)
  then have "snd (apply_tuxedo_transaction ref_host ref_test_verifier ref_test_checker demo_tx ?s1) = Ok ()"
    using ref_test.apply_complete [OF h, of demo_tx] demo_state_accepts by simp
  then show ?thesis
    by (simp add: apply_extrinsics_Cons apply_extrinsic_def Let_def case_prod_unfold)
qed

lemma ref_state_root: "\<exists>sr. current_state_root ref_host s = Some sr"
  by (simp add: current_state_root_def ref_host_def decode_value_def word_codec_def)

lemma demo_author:
  "\<exists>s' h'. author_block ref_host ref_test_verifier ref_test_checker demo_header [demo_tx] demo_state
     = Some (s', h')"
proof -
  obtain a where a: "apply_extrinsics ref_host ref_test_verifier ref_test_checker [demo_tx]
      (open_block ref_host demo_header demo_state) = Some a"
    using demo_apply_extrinsics by blast
  obtain sr where "current_state_root ref_host (a(HEADER_KEY := None, EXTRINSIC_KEY := None)) = Some sr"
    using ref_state_root by blast
  then show ?thesis
    using ref_test.author_block_Some [of demo_state demo_header "[demo_tx]"] a by fastforce
qed

lemma demo_not_inherent: "\<not> is_inherent ref_test_checker (checker demo_tx)"
  by (simp add: ref_test_checker_def test_constraint_checker_def demo_tx_def)

lemma demo_inherents_first: "inherents_first ref_test_checker False [demo_tx]"
  by (simp add: demo_not_inherent)

theorem execute_block_iff_author_witness:
  "\<exists>s' h'. author_block ref_host ref_test_verifier ref_test_checker h' [demo_tx] demo_state = Some (s', h')
     \<and> execute_block ref_host ref_test_verifier ref_test_checker
         \<lparr>header = h', extrinsics = [demo_tx]\<rparr> demo_state = Some s'"
proof -
  obtain s' h' where a: "author_block ref_host ref_test_verifier ref_test_checker demo_header
      [demo_tx] demo_state = Some (s', h')"
    using demo_author by blast
  have fresh: "demo_state EXTRINSIC_KEY = None" by simp
  have "execute_block ref_host ref_test_verifier ref_test_checker
      \<lparr>header = h', extrinsics = [demo_tx]\<rparr> demo_state = Some s'"
    using fresh a demo_inherents_first by (rule ref_test.import_authored)
  then show ?thesis
    using execute_block_iff_author [of ref_host ref_test_verifier ref_test_checker demo_state h'
        "[demo_tx]" s'] ref_test.executive_axioms fresh
    by blast
qed

theorem authored_block_executes_witness:
  "\<exists>s' h'. author_block ref_host ref_test_verifier ref_test_checker demo_header [demo_tx] demo_state
       = Some (s', h')
     \<and> execute_block ref_host ref_test_verifier ref_test_checker
         \<lparr>header = h', extrinsics = [demo_tx]\<rparr> demo_state = Some s'"
proof -
  obtain s' h' where a: "author_block ref_host ref_test_verifier ref_test_checker demo_header
      [demo_tx] demo_state = Some (s', h')"
    using demo_author by blast
  have "demo_state EXTRINSIC_KEY = None" by simp
  with a show ?thesis
    using authored_block_executes [OF ref_test.executive_axioms _ a demo_inherents_first] by blast
qed

theorem validate_transaction_exact_witness:
  "\<exists>vt. snd (validate_transaction ref_host ref_test_verifier ref_test_checker demo_tx demo_state) = Ok vt
     \<and> requires vt = []
     \<and> provides vt = map (encode (output_ref_codec ref_host))
         (output_refs_of ref_host ref_test_verifier (checker_codec ref_test_checker) demo_tx)
     \<and> snd (apply_tuxedo_transaction ref_host ref_test_verifier ref_test_checker demo_tx demo_state) = Ok ()"
proof -
  obtain vt where vt: "snd (validate_tuxedo_transaction ref_host ref_test_verifier ref_test_checker
      demo_tx demo_state) = Ok vt" "requires vt = []"
    using ref_test.validate_complete [OF demo_state_height, of demo_tx] demo_state_accepts by blast
  have ok: "snd (validate_transaction ref_host ref_test_verifier ref_test_checker demo_tx demo_state) = Ok vt"
    using vt(1) demo_not_inherent by (simp add: ref_test.validate_transaction_Ok)
  show ?thesis
    using validate_transaction_exact [OF ref_test.executive_axioms demo_state_height ok] ok vt(2) by blast
qed

text \<open>A second transaction that spends what the first one creates.\<close>

definition demo_child :: "(TestVerifier, TestConstraintChecker) Transaction" where
  "demo_child = \<lparr>inputs = [\<lparr>output_ref = \<lparr>tx_hash = transaction_hash ref_host ref_test_verifier
       (checker_codec ref_test_checker) demo_tx, index = 0\<rparr>, redeemer = Redemption []\<rparr>],
     peeks = [], outputs = [], checker = \<lparr>checks = True, inherent = False\<rparr>\<rparr>"

lemma demo_child_waits:
  "\<exists>vt. snd (validate_tuxedo_transaction ref_host ref_test_verifier ref_test_checker demo_child demo_state)
     = Ok vt \<and> requires vt \<noteq> []"
proof -
  have "peek_utxo ref_host ref_test_verifier \<lparr>tx_hash = h, index = 0\<rparr> demo_state = None" for h
    using fun_cong [OF demo_state_ledger, of "\<lparr>tx_hash = h, index = 0\<rparr>"]
    by (simp add: ledger_of_def demo_ref_def)
  then show ?thesis
    by (simp add: demo_child_def validate_tuxedo_transaction_def gather_transaction_def Let_def
        output_refs_of_def)
qed

lemma demo_child_ready:
  "\<exists>vt. snd (validate_tuxedo_transaction ref_host ref_test_verifier ref_test_checker demo_child
       (fst (apply_tuxedo_transaction ref_host ref_test_verifier ref_test_checker demo_tx demo_state)))
     = Ok vt"
proof -
  let ?s' = "fst (apply_tuxedo_transaction ref_host ref_test_verifier ref_test_checker demo_tx demo_state)"
  let ?r = "\<lparr>tx_hash = transaction_hash ref_host ref_test_verifier
       (checker_codec ref_test_checker) demo_tx, index = 0\<rparr>"
  have ok: "snd (apply_tuxedo_transaction ref_host ref_test_verifier ref_test_checker demo_tx demo_state) = Ok ()"
    using ref_test.apply_complete [OF demo_state_height, of demo_tx] demo_state_accepts by blast
  have h: "block_height ref_host ?s' = Some 1"
    using demo_state_height by (simp add: block_height_def ref_test.apply_frame)
  have "ledger_of ref_host ref_test_verifier ?s' ?r = Some demo_output"
    using ref_test.apply_ledger [OF ok]
    by (simp add: demo_tx_def ledger_update_def created_outputs_def output_refs_of_def)
  then have "ledger_accepts ref_host ref_test_verifier ref_test_checker 1
      (ledger_of ref_host ref_test_verifier ?s') ?s' demo_child"
    by (simp add: ledger_accepts_def demo_child_def authorised_def demo_output_def
        ref_test_verifier_def verifier_dictionaries ref_verifier_codecs_def verify_test_def
        ref_test_checker_def test_constraint_checker_def output_refs_of_def)
  then show ?thesis
    using ref_test.validate_complete [OF h, of demo_child] by blast
qed

theorem provided_tags_resolve_witness:
  "\<exists>vt1 vt2 vt2'.
     snd (validate_tuxedo_transaction ref_host ref_test_verifier ref_test_checker demo_tx demo_state) = Ok vt1
   \<and> snd (validate_tuxedo_transaction ref_host ref_test_verifier ref_test_checker demo_child demo_state) = Ok vt2
   \<and> requires vt2 \<noteq> []
   \<and> snd (validate_tuxedo_transaction ref_host ref_test_verifier ref_test_checker demo_child
       (fst (apply_tuxedo_transaction ref_host ref_test_verifier ref_test_checker demo_tx demo_state)))
     = Ok vt2'
   \<and> set (requires vt2') = set (requires vt2) - set (provides vt1)"
proof -
  have small: "length (outputs demo_tx) \<le> 2 ^ 32" by (simp add: demo_tx_def)
  have ok: "snd (apply_tuxedo_transaction ref_host ref_test_verifier ref_test_checker demo_tx demo_state) = Ok ()"
    using ref_test.apply_complete [OF demo_state_height, of demo_tx] demo_state_accepts by blast
  obtain vt1 where v1: "snd (validate_tuxedo_transaction ref_host ref_test_verifier ref_test_checker
      demo_tx demo_state) = Ok vt1"
    using ref_test.validate_complete [OF demo_state_height, of demo_tx] demo_state_accepts by blast
  obtain vt2 where v2: "snd (validate_tuxedo_transaction ref_host ref_test_verifier ref_test_checker
      demo_child demo_state) = Ok vt2" "requires vt2 \<noteq> []"
    using demo_child_waits by blast
  obtain vt2' where v2': "snd (validate_tuxedo_transaction ref_host ref_test_verifier ref_test_checker
      demo_child (fst (apply_tuxedo_transaction ref_host ref_test_verifier ref_test_checker demo_tx
        demo_state))) = Ok vt2'"
    using demo_child_ready by blast
  have "set (input_refs demo_tx) \<inter> set (input_refs demo_child @ peeks demo_child) = {}"
    by (simp add: input_refs_def demo_tx_def demo_child_def demo_ref_def)
  then show ?thesis
    using provided_tags_resolve [OF ref_test.executive_axioms small ok v1 v2(1) v2'] v1 v2 v2' by auto
qed

subsection \<open>A concrete chain\<close>

definition demo_genesis :: "(TestVerifier, TestConstraintChecker) Transaction" where
  "demo_genesis = \<lparr>inputs = [], peeks = [], outputs = [demo_output],
     checker = \<lparr>checks = True, inherent = False\<rparr>\<rparr>"

definition ref_client :: "unit genesis_client" where
  "ref_client =
     \<lparr>resolve_state_version = (\<lambda>_. Ok V1), versioned_trie_root = (\<lambda>_ xs. ref_hash (concat xs)),
      begin_operation = Ok (), set_genesis_state = (\<lambda>_ _. Ok 0)\<rparr>"

abbreviation demo_txs_codec :: "(TestVerifier, TestConstraintChecker) Transaction list codec" where
  "demo_txs_codec \<equiv> list_codec (transaction_codec ref_host ref_test_verifier (checker_codec ref_test_checker))"

lemma demo_chain:
  "\<exists>b s. chain ref_host ref_test_verifier ref_test_checker demo_txs_codec
     ref_client [demo_genesis] [b] s \<and> extrinsics b = []"
proof -
  let ?C = "chain ref_host ref_test_verifier ref_test_checker demo_txs_codec ref_client [demo_genesis]"
  have base: "genesis_base ref_host ref_test_verifier Map.empty"
    by (auto simp: genesis_base_def ledger_of_def peek_utxo_def)
  have "snd (build ref_host ref_test_verifier ref_test_checker demo_txs_codec [demo_genesis] Map.empty) = Ok ()"
    by (simp add: build_def build_transactions_Ok demo_genesis_def)
  then obtain s where s: "build ref_host ref_test_verifier ref_test_checker demo_txs_codec
      [demo_genesis] Map.empty = (s, Ok ())"
    by (metis prod.collapse)
  obtain g where "build_genesis_block ref_host ref_test_verifier ref_test_checker demo_txs_codec ref_client s
      = Ok (g, s(EXTRINSIC_KEY := None))"
    by (simp add: build_genesis_block_def ref_client_def Let_def)
  with base s have c0: "?C [] (s(EXTRINSIC_KEY := None))"
    by (rule chain_genesis)
  have fresh: "(s(EXTRINSIC_KEY := None)) EXTRINSIC_KEY = None" by simp
  obtain s' h' where "author_block ref_host ref_test_verifier ref_test_checker demo_header []
      (s(EXTRINSIC_KEY := None)) = Some (s', h')"
    using ref_test.author_block_Some [of "s(EXTRINSIC_KEY := None)" demo_header "[]"] fresh ref_state_root
    by fastforce
  then have "execute_block ref_host ref_test_verifier ref_test_checker
      \<lparr>header = h', extrinsics = []\<rparr> (s(EXTRINSIC_KEY := None)) = Some s'"
    using fresh by (intro ref_test.import_authored) simp_all
  with c0 have "?C ([] @ [\<lparr>header = h', extrinsics = []\<rparr>]) s'"
    by (rule chain_block)
  then show ?thesis by fastforce
qed

theorem chain_invariant_witness:
  "\<exists>b s. chain ref_host ref_test_verifier ref_test_checker demo_txs_codec
       ref_client [demo_genesis] [b] s
     \<and> block_height ref_host s = Some (number (header b))"
  using demo_chain chain_invariant [OF ref_test.executive_axioms] by fastforce

theorem chain_replays_history_witness:
  "\<exists>b s. chain ref_host ref_test_verifier ref_test_checker demo_txs_codec
       ref_client [demo_genesis] [b] s
     \<and> ledger_of ref_host ref_test_verifier s
         = replay ref_host ref_test_verifier (checker_codec ref_test_checker) [demo_genesis] Map.empty"
proof -
  obtain b s where c: "chain ref_host ref_test_verifier ref_test_checker demo_txs_codec
      ref_client [demo_genesis] [b] s" "extrinsics b = []"
    using demo_chain by blast
  have hist: "chain_history [demo_genesis] [b] = [demo_genesis]"
    using c(2) by (simp add: chain_history_def)
  have "small_outputs (chain_history [demo_genesis] [b])"
    unfolding hist by (simp add: demo_genesis_def)
  then show ?thesis
    using chain_replays_history [OF ref_test.executive_axioms c(1)] c(1) unfolding hist by blast
qed

subsection \<open>Inherents on the concrete host\<close>

definition demo_hooks :: "(TestVerifier, TestConstraintChecker) InherentHooks" where
  "demo_hooks = \<lparr>INHERENT_IDENTIFIER = byte_string ''demohook'',
     create_inherent = (\<lambda>_ prev _. Some (fst prev)), check_inherent = (\<lambda>_ _ r. Some r),
     hook_genesis_transactions = Some []\<rparr>"

lemma ref_put_error_law: "put_error_law ref_host"
  by (simp add: put_error_law_def ref_host_def)

theorem adapter_exactly_one_witness:
  "\<exists>r'. adapter_check_inherents ref_host demo_hooks Map.empty [] new_check_inherents_result = Some r'
      \<and> fatal_error r'"
proof -
  have "\<exists>r'. adapter_check_inherents ref_host demo_hooks Map.empty [] new_check_inherents_result = Some r'"
    by (simp add: adapter_check_inherents_def ref_host_def)
  then show ?thesis
    using adapter_exactly_one [OF ref_put_error_law, of demo_hooks Map.empty "[]"] by fastforce
qed

end
