(* ===== verification/Money_Instance.thy ===== *)
theory Money_Instance
  imports Money Reference_Host
begin

text \<open>
  The money piece on the reference host, with coins anyone may spend: the conservation theorems
  at concrete states, and the transaction that spends one coin twice.
\<close>

definition ref_coin_codec :: "Coin codec" where
  "ref_coin_codec = map_codec Coin coin_value (word_codec 16)"

definition ref_money_codec :: "MoneyConstraintChecker codec" where
  "ref_money_codec = map_codec (\<lambda>b. if b then Mint else Spend) (\<lambda>k. k = Mint) bool_codec"

definition grabs_verifier :: "(UpForGrabs, unit) Verifier" where
  "grabs_verifier = up_for_grabs_verifier (ref_verifier_codecs unit_codec
     (map_codec (\<lambda>_. UpForGrabs) (\<lambda>_. ()) unit_codec))"

abbreviation ref_money :: "(UpForGrabs, MoneyConstraintChecker, MoneyError) ConstraintChecker" where
  "ref_money \<equiv> money_runtime 0 ref_coin_codec ref_money_codec"

lemma scale_codec_coin: "scale_codec ref_coin_codec"
  unfolding ref_coin_codec_def
proof (rule scale_codec_map)
  show "Coin (coin_value c) = c" for c by (cases c) simp
qed auto

interpretation grabs: verifier_laws grabs_verifier
  unfolding grabs_verifier_def up_for_grabs_verifier_def
proof (rule ref_verifier_laws)
  show "scale_codec (map_codec (\<lambda>_. UpForGrabs) (\<lambda>_. ()) unit_codec)"
  proof (rule scale_codec_map)
    show "UpForGrabs = v" for v by (cases v) simp
  qed auto
qed auto

interpretation ref_money: executive ref_host grabs_verifier ref_money
proof (rule executive.intro)
  have "scale_codec (checker_codec ref_money)"
    unfolding money_runtime_def from_simple_def money_checker_def ConstraintChecker.simps
      SimpleConstraintChecker.simps ref_money_codec_def
  proof (rule scale_codec_map)
    show "(if k = Mint then Mint else Spend) = k" for k by (cases k) simp_all
  qed auto
  then show "executive_laws ref_host grabs_verifier ref_money"
    by (simp add: executive_laws_def executive_laws_axioms_def ref.host_laws_axioms
        grabs.verifier_laws_axioms)
  show "framed_checker ref_money"
    unfolding money_runtime_def by (rule money.plain.framed_checker_axioms)
qed

subsection \<open>A ledger with one coin\<close>

definition coin_output :: "u128 \<Rightarrow> UpForGrabs Output" where
  "coin_output v = \<lparr>payload = into_data (coin_data 0 ref_coin_codec) (Coin v), verifier = UpForGrabs\<rparr>"

definition coin_state :: storage where
  "coin_state = utxo_state grabs_verifier [(demo_ref, coin_output 5)] 1"

definition spend_tx :: "Input list \<Rightarrow> u128 \<Rightarrow> (UpForGrabs, MoneyConstraintChecker) Transaction" where
  "spend_tx ins v = \<lparr>inputs = ins, peeks = [], outputs = [coin_output v], checker = Spend\<rparr>"

definition coin_input :: "bytes \<Rightarrow> Input" where
  "coin_input raw = \<lparr>output_ref = demo_ref, redeemer = Redemption raw\<rparr>"

lemma coin_state_height: "block_height ref_host coin_state = Some 1"
  by (simp add: coin_state_def utxo_state_height)

lemma coin_state_ledger: "ledger_of ref_host grabs_verifier coin_state = [demo_ref \<mapsto> coin_output 5]"
  unfolding coin_state_def by (subst utxo_state_ledger) (simp_all add: grabs.verifier_laws_axioms)

lemma coin_output_worth [simp]:
  "coin_worth 0 ref_coin_codec (payload (coin_output v)) = unat v"
  "is_coin 0 ref_coin_codec (payload (coin_output v))"
  by (simp_all add: coin_output_def scale_codec_coin)

lemma authorised_grabs: "U (output_ref i) \<noteq> None \<Longrightarrow> authorised grabs_verifier se h U i"
  by (auto simp: authorised_def grabs_verifier_def verifier_dictionaries ref_verifier_codecs_def
      verify_up_for_grabs_def split: option.splits RedemptionStrategy.splits)

text \<open>A spend of the coin through any list of different inputs that all name it.\<close>

lemma spend_accepted:
  assumes "distinct ins" and "ins \<noteq> []" and "\<forall>i \<in> set ins. \<exists>raw. i = coin_input raw"
    and "0 < unat v" and "unat v \<le> 5 * length ins" and "5 * length ins < 2 ^ 128"
  shows "ledger_accepts ref_host grabs_verifier ref_money h [demo_ref \<mapsto> coin_output 5] s (spend_tx ins v)"
proof -
  let ?U = "[demo_ref \<mapsto> coin_output 5]"
  have ins: "output_ref i = demo_ref \<and> redeemer i \<noteq> Eviction" if "i \<in> set ins" for i
    using assms(3) that by (force simp: coin_input_def)
  have refs: "redeemed_refs (spend_tx ins v) = replicate (length ins) demo_ref"
    "evicted_refs (spend_tx ins v) = []"
    using ins
    by (auto simp: redeemed_refs_def evicted_refs_def spend_tx_def filter_id_conv filter_empty_conv
        map_replicate_const [symmetric] cong: map_cong)
  have worth: "total_worth 0 ref_coin_codec (ledger_payloads ?U (replicate n demo_ref)) = 5 * n" for n
    by (induction n) (auto simp: ledger_payloads_def)
  have "\<exists>p. snd (check ref_money Spend (ledger_payloads ?U (redeemed_refs (spend_tx ins v)))
      (ledger_payloads ?U (evicted_refs (spend_tx ins v))) [] [payload (coin_output v)] s) = Ok p"
    using assms(2,4-6) unfolding money_runtime_def from_simple_def money_checker_def
      ConstraintChecker.simps SimpleConstraintChecker.simps money_spend_Ok refs worth
    by (simp add: ledger_payloads_def)
      (rule exI [of _ "of_nat (min (5 * length ins - unat v) (2 ^ 64 - 1))"], simp add: unat_of_nat)
  then show ?thesis
    using assms(1) ins
    by (auto simp: ledger_accepts_def spend_tx_def authorised_grabs output_refs_of_def demo_ref_def
        ledger_payloads_def simp del: money_check.simps)
qed

lemma spend_applies:
  assumes "distinct ins" and "ins \<noteq> []" and "\<forall>i \<in> set ins. \<exists>raw. i = coin_input raw"
    and "0 < unat v" and "unat v \<le> 5 * length ins" and "5 * length ins < 2 ^ 128"
  shows "snd (apply_tuxedo_transaction ref_host grabs_verifier ref_money (spend_tx ins v) coin_state) = Ok ()"
  using ref_money.apply_complete [OF coin_state_height, of "spend_tx ins v"]
    spend_accepted [OF assms] coin_state_ledger by simp

lemma single_supply: "coin_supply 0 ref_coin_codec [r \<mapsto> coin_output v] = unat v"
  by (simp add: coin_supply_def ledger_total_def)

subsection \<open>Conservation at a concrete state\<close>

theorem spend_conserves_supply_witness:
  "coin_supply 0 ref_coin_codec (ledger_of ref_host grabs_verifier
     (fst (apply_tuxedo_transaction ref_host grabs_verifier ref_money
       (spend_tx [coin_input []] 3) coin_state))) = 3"
proof -
  let ?tx = "spend_tx [coin_input []] 3"
  have ok: "snd (apply_tuxedo_transaction ref_host grabs_verifier ref_money ?tx coin_state) = Ok ()"
    by (rule spend_applies) (auto simp: coin_input_def)
  have fin: "finite (dom (ledger_of ref_host grabs_verifier coin_state))"
    by (simp add: coin_state_ledger)
  have small: "length (outputs ?tx) \<le> 2 ^ 32" and refs: "distinct (input_refs ?tx)"
    by (simp_all add: spend_tx_def input_refs_def)
  have rules: "follows ref_money (checker ?tx) (money_check 0 ref_coin_codec) Spend"
    by (simp add: spend_tx_def follows_money)
  have worth: "input_worth 0 ref_coin_codec (ledger_of ref_host grabs_verifier coin_state) ?tx = 5"
    "output_worth 0 ref_coin_codec ?tx = 3"
    by (simp_all add: input_worth_sum output_worth_sum spend_tx_def input_refs_def coin_input_def
        coin_state_ledger)
  show ?thesis
    using spend_conserves_supply [OF ref_money.executive_axioms coin_state_height fin small rules refs ok]
    unfolding worth by (simp add: coin_state_ledger single_supply)
qed

definition mint_tx :: "u128 \<Rightarrow> (UpForGrabs, MoneyConstraintChecker) Transaction" where
  "mint_tx v = coin_mint 0 ref_coin_codec id id v UpForGrabs"

lemma mint_tx_fields: "mint_tx v = \<lparr>inputs = [], peeks = [], outputs = [coin_output v], checker = Mint\<rparr>"
  by (simp add: mint_tx_def coin_mint_def output_from_pair_def coin_output_def coin_new_def)

lemma mint_applies:
  "snd (apply_tuxedo_transaction ref_host grabs_verifier ref_money (mint_tx 7) coin_state) = Ok ()"
proof -
  have "snd (check ref_money Mint [] [] [] [payload (coin_output 7)] coin_state) = Ok 0"
    unfolding money_runtime_def from_simple_def money_checker_def
      ConstraintChecker.simps SimpleConstraintChecker.simps money_mint_Ok by simp
  then have "ledger_accepts ref_host grabs_verifier ref_money 1
      (ledger_of ref_host grabs_verifier coin_state) coin_state (mint_tx 7)"
    by (simp add: ledger_accepts_def mint_tx_fields output_refs_of_def coin_state_ledger demo_ref_def
        redeemed_refs_def evicted_refs_def ledger_payloads_def)
  then show ?thesis using ref_money.apply_complete [OF coin_state_height] by blast
qed

theorem mint_adds_supply_witness:
  "coin_supply 0 ref_coin_codec (ledger_of ref_host grabs_verifier
     (fst (apply_tuxedo_transaction ref_host grabs_verifier ref_money (mint_tx 7) coin_state))) = 12"
proof -
  have fin: "finite (dom (ledger_of ref_host grabs_verifier coin_state))"
    by (simp add: coin_state_ledger)
  have small: "length (outputs (mint_tx 7)) \<le> 2 ^ 32" by (simp add: mint_tx_fields)
  have rules: "follows ref_money (checker (mint_tx 7)) (money_check 0 ref_coin_codec) Mint"
    by (simp add: mint_tx_fields follows_money)
  show ?thesis
    using mint_adds_supply [OF ref_money.executive_axioms coin_state_height fin small rules mint_applies]
    by (simp add: coin_state_ledger single_supply output_worth_sum mint_tx_fields)
qed

abbreviation money_txs_codec :: "(UpForGrabs, MoneyConstraintChecker) Transaction list codec" where
  "money_txs_codec \<equiv> list_codec (transaction_codec ref_host grabs_verifier (checker_codec ref_money))"

theorem money_chain_supply_witness:
  "\<exists>s. chain ref_host grabs_verifier ref_money money_txs_codec ref_client
        [mint_tx 7] [] s
     \<and> coin_supply 0 ref_coin_codec (ledger_of ref_host grabs_verifier s) \<le> 7"
proof -
  have base: "genesis_base ref_host grabs_verifier Map.empty"
    by (auto simp: genesis_base_def ledger_of_def peek_utxo_def)
  have "snd (build ref_host grabs_verifier ref_money money_txs_codec [mint_tx 7] Map.empty) = Ok ()"
    by (simp add: build_def build_transactions_Ok mint_tx_fields)
  then obtain s where s: "build ref_host grabs_verifier ref_money money_txs_codec [mint_tx 7] Map.empty
      = (s, Ok ())"
    by (metis prod.collapse)
  obtain g where "build_genesis_block ref_host grabs_verifier ref_money money_txs_codec ref_client s
      = Ok (g, s(EXTRINSIC_KEY := None))"
    by (simp add: build_genesis_block_def ref_client_def Let_def)
  with base s have c: "chain ref_host grabs_verifier ref_money money_txs_codec ref_client [mint_tx 7] []
      (s(EXTRINSIC_KEY := None))"
    by (rule chain_genesis)
  have "small_outputs (chain_history [mint_tx 7] [])"
    by (simp add: chain_history_def mint_tx_fields)
  from money_chain_supply [OF ref_money.executive_axioms c this] c show ?thesis
    by (auto simp: issued_def output_worth_sum mint_tx_fields)
qed

subsection \<open>One coin spent twice\<close>

text \<open>
  C13. The duplicate check does not prevent double spending: two inputs that name the same output but
  carry different redeemer bytes are different inputs, both redeem the output, and the money piece counts
  it twice. On a ledger whose only coin is worth 5, the executive accepts a spend of that coin
  through two inputs (the second redeemer has a trailing byte the decoder ignores) into one
  output worth 10: the supply doubles although nothing is minted.
\<close>

theorem double_spend_inflates:
  "snd (apply_tuxedo_transaction ref_host grabs_verifier ref_money
       (spend_tx [coin_input [], coin_input [0]] 10) coin_state) = Ok ()
   \<and> coin_supply 0 ref_coin_codec (ledger_of ref_host grabs_verifier coin_state) = 5
   \<and> coin_supply 0 ref_coin_codec (ledger_of ref_host grabs_verifier
       (fst (apply_tuxedo_transaction ref_host grabs_verifier ref_money
         (spend_tx [coin_input [], coin_input [0]] 10) coin_state))) = 10"
proof -
  let ?tx = "spend_tx [coin_input [], coin_input [0]] 10"
  let ?r = "\<lparr>tx_hash = transaction_hash ref_host grabs_verifier (checker_codec ref_money) ?tx, index = 0\<rparr>"
  have ok: "snd (apply_tuxedo_transaction ref_host grabs_verifier ref_money ?tx coin_state) = Ok ()"
    by (rule spend_applies) (auto simp: coin_input_def)
  have small: "length (outputs ?tx) \<le> 2 ^ 32" by (simp add: spend_tx_def)
  have outs: "outputs ?tx = [coin_output 10]" and ins: "input_refs ?tx = [demo_ref, demo_ref]"
    by (simp_all add: spend_tx_def input_refs_def coin_input_def)
  have "ledger_of ref_host grabs_verifier (fst (apply_tuxedo_transaction ref_host grabs_verifier
      ref_money ?tx coin_state)) = [?r \<mapsto> coin_output 10]"
    unfolding ref_money.apply_ledger [OF ok small] coin_state_ledger
    by (rule ext) (simp add: ledger_update_def created_outputs_def output_refs_of_def outs ins)
  then show ?thesis using ok by (simp add: coin_state_ledger single_supply)
qed

end
