(* ===== verification/Template_Instance.thy ===== *)
theory Template_Instance
  imports Template_Properties Money_Instance
begin

text \<open>
  The template runtime on the reference host: concrete lawful codecs for its two enums and for the
  pieces' data, and the theorems about the pieces and the runtime at concrete states.
\<close>

subsection \<open>Codecs\<close>

definition tagged_codec :: "('a \<Rightarrow> u8 \<times> bytes) \<Rightarrow> (u8 \<times> bytes \<Rightarrow> 'a) \<Rightarrow> 'a codec" where
  "tagged_codec to_tag of_tag = map_codec of_tag to_tag (pair_codec byte_codec ref_bytes_codec)"

lemma scale_codec_tagged: "(\<And>x. of_tag (to_tag x) = x) \<Longrightarrow> scale_codec (tagged_codec to_tag of_tag)"
  unfolding tagged_codec_def by (rule scale_codec_map) auto

definition ref_keys_codec :: "(u8 \<times> H256 list) codec" where
  "ref_keys_codec = pair_codec byte_codec (list_codec (word_codec 32))"

definition ref_sigs_codec :: "(Signature \<times> u8) list codec" where
  "ref_sigs_codec = list_codec (pair_codec (word_codec 64) byte_codec)"

definition outer_verifier_tag :: "OuterVerifier \<Rightarrow> u8 \<times> bytes" where
  "outer_verifier_tag v = (case v of
      OuterSr25519Signature k \<Rightarrow> (0, encode (word_codec 32) (owner_pubkey k))
    | OuterUpForGrabs _ \<Rightarrow> (1, [])
    | OuterThresholdMultiSignature m \<Rightarrow> (2, encode ref_keys_codec (threshold m, signatories m)))"

definition outer_verifier_untag :: "u8 \<times> bytes \<Rightarrow> OuterVerifier" where
  "outer_verifier_untag tb = (case tb of (t, b) \<Rightarrow>
     if t = 0 then OuterSr25519Signature \<lparr>owner_pubkey = the (decode_value (word_codec 32) b)\<rparr>
     else if t = 1 then OuterUpForGrabs UpForGrabs
     else (case the (decode_value ref_keys_codec b) of (t, ks) \<Rightarrow>
        OuterThresholdMultiSignature \<lparr>threshold = t, signatories = ks\<rparr>))"

definition outer_redeemer_tag :: "OuterVerifierRedeemer \<Rightarrow> u8 \<times> bytes" where
  "outer_redeemer_tag r = (case r of
      RedeemSr25519Signature sig \<Rightarrow> (0, encode (word_codec 64) sig)
    | RedeemUpForGrabs _ \<Rightarrow> (1, [])
    | RedeemThresholdMultiSignature sigs \<Rightarrow>
        (2, encode ref_sigs_codec (map (\<lambda>s. (sig_signature s, sig_index s)) sigs)))"

definition outer_redeemer_untag :: "u8 \<times> bytes \<Rightarrow> OuterVerifierRedeemer" where
  "outer_redeemer_untag tb = (case tb of (t, b) \<Rightarrow>
     if t = 0 then RedeemSr25519Signature (the (decode_value (word_codec 64) b))
     else if t = 1 then RedeemUpForGrabs ()
     else RedeemThresholdMultiSignature
       (map (\<lambda>(s, i). \<lparr>sig_signature = s, sig_index = i\<rparr>) (the (decode_value ref_sigs_codec b))))"

definition outer_checker_tag :: "OuterConstraintChecker \<Rightarrow> u8 \<times> bytes" where
  "outer_checker_tag c = (case c of
      OuterMoney k \<Rightarrow> (0, if k = Mint then [1] else [0])
    | OuterFreeKitty _ \<Rightarrow> (1, []) | OuterAmoebaMitosis _ \<Rightarrow> (2, []) | OuterAmoebaDeath _ \<Rightarrow> (3, [])
    | OuterAmoebaCreation _ \<Rightarrow> (4, []) | OuterPoeClaim _ \<Rightarrow> (5, []) | OuterPoeRevoke _ \<Rightarrow> (6, [])
    | OuterPoeDispute _ \<Rightarrow> (7, []) | OuterSetTimestamp _ \<Rightarrow> (8, [])
    | OuterRuntimeUpgrade u \<Rightarrow> (9, full_wasm u))"

definition outer_checker_untag :: "u8 \<times> bytes \<Rightarrow> OuterConstraintChecker" where
  "outer_checker_untag tb = (case tb of (t, b) \<Rightarrow>
     if t = 0 then OuterMoney (if b = [1] then Mint else Spend)
     else if t = 1 then OuterFreeKitty FreeKittyConstraintChecker
     else if t = 2 then OuterAmoebaMitosis AmoebaMitosis
     else if t = 3 then OuterAmoebaDeath AmoebaDeath
     else if t = 4 then OuterAmoebaCreation AmoebaCreation
     else if t = 5 then OuterPoeClaim PoeClaim
     else if t = 6 then OuterPoeRevoke PoeRevoke
     else if t = 7 then OuterPoeDispute PoeDispute
     else if t = 8 then OuterSetTimestamp (InherentAdapter SetTimestamp)
     else OuterRuntimeUpgrade \<lparr>full_wasm = b\<rparr>)"

lemma scale_codec_keys: "scale_codec ref_keys_codec"
  unfolding ref_keys_codec_def by (intro scale_codec_pair scale_codec_byte scale_codec_list scale_codec_words)

lemma scale_codec_sigs: "scale_codec ref_sigs_codec"
  unfolding ref_sigs_codec_def by (intro scale_codec_pair scale_codec_byte scale_codec_list scale_codec_words)

lemma outer_verifier_untag_tag: "outer_verifier_untag (outer_verifier_tag v) = v"
proof (cases v)
  case (OuterUpForGrabs u)
  then show ?thesis by (cases u) (simp add: outer_verifier_tag_def outer_verifier_untag_def)
qed (simp_all add: outer_verifier_tag_def outer_verifier_untag_def
    scale_codec.decode_value_encode [OF scale_codec_words(1)]
    scale_codec.decode_value_encode [OF scale_codec_keys])

lemma outer_redeemer_untag_tag: "outer_redeemer_untag (outer_redeemer_tag r) = r"
  by (cases r)
    (simp_all add: outer_redeemer_tag_def outer_redeemer_untag_def comp_def map_idI
      scale_codec.decode_value_encode [OF scale_codec_words(5)]
      scale_codec.decode_value_encode [OF scale_codec_sigs])

lemma outer_checker_untag_tag: "outer_checker_untag (outer_checker_tag c) = c"
proof (cases c)
  case (OuterMoney k)
  then show ?thesis by (cases k) (simp_all add: outer_checker_tag_def outer_checker_untag_def)
next
  case (OuterSetTimestamp k)
  then show ?thesis
    by (cases k, cases "unwrap_adapter k") (simp add: outer_checker_tag_def outer_checker_untag_def)
qed (simp_all add: outer_checker_tag_def outer_checker_untag_def,
    (metis FreeKittyConstraintChecker.exhaust AmoebaMitosis.exhaust AmoebaDeath.exhaust
      AmoebaCreation.exhaust PoeClaim.exhaust PoeRevoke.exhaust PoeDispute.exhaust)+)

definition ref_kitty_codec :: "KittyData codec" where
  "ref_kitty_codec = map_codec
     (\<lambda>(t, f, d, n). \<lparr>parent = (if t = 0 then Mom MomRearinToGo else if t = 1 then Mom HadBirthRecently
        else if t = 2 then Dad DadRearinToGo else Dad Tired), free_breedings = f, dna = KittyDNA d,
        num_breedings = n\<rparr>)
     (\<lambda>k. (case parent k of Mom MomRearinToGo \<Rightarrow> 0 | Mom HadBirthRecently \<Rightarrow> 1
            | Dad DadRearinToGo \<Rightarrow> 2 | Dad Tired \<Rightarrow> 3,
          free_breedings k, (case dna k of KittyDNA d \<Rightarrow> d), num_breedings k))
     (pair_codec byte_codec (pair_codec (word_codec 8) (pair_codec (word_codec 32) (word_codec 16))))"

definition ref_family_codec :: family_codec where
  "ref_family_codec = map_codec (\<lambda>(a, b, m, n). (KittyDNA a, KittyDNA b, m, n))
     (\<lambda>(x, y, m, n). (case x of KittyDNA a \<Rightarrow> a, case y of KittyDNA b \<Rightarrow> b, m, n))
     (pair_codec (word_codec 32) (pair_codec (word_codec 32) (pair_codec (word_codec 16) (word_codec 16))))"

definition ref_amoeba_codec :: "AmoebaDetails codec" where
  "ref_amoeba_codec = map_codec (\<lambda>(g, b). \<lparr>generation = g, four_bytes = b\<rparr>)
     (\<lambda>a. (generation a, four_bytes a)) (pair_codec (word_codec 4) byte4_codec)"

definition ref_claim_codec :: "ClaimData codec" where
  "ref_claim_codec = map_codec (\<lambda>(c, h). \<lparr>claim = c, effective_height = h\<rparr>)
     (\<lambda>a. (claim a, effective_height a)) (pair_codec (word_codec 32) (word_codec 4))"

definition ref_timestamp_codec :: "Timestamp codec" where
  "ref_timestamp_codec = map_codec (\<lambda>(t, b). \<lparr>time = t, block = b\<rparr>)
     (\<lambda>a. (time a, block a)) (pair_codec (word_codec 8) (word_codec 4))"

lemma scale_codec_kitty: "scale_codec ref_kitty_codec"
  unfolding ref_kitty_codec_def
proof (rule scale_codec_map)
  show "scale_codec (pair_codec byte_codec (pair_codec (word_codec 8 :: u64 codec)
      (pair_codec (word_codec 32 :: H256 codec) (word_codec 16 :: u128 codec))))"
    by (intro scale_codec_pair scale_codec_byte scale_codec_words)
qed (auto split: Parent.splits MomKittyStatus.splits DadKittyStatus.splits KittyDNA.splits)

lemma scale_codec_amoeba: "scale_codec ref_amoeba_codec"
  unfolding ref_amoeba_codec_def
  by (rule scale_codec_map) (intro scale_codec_pair scale_codec_byte4 scale_codec_words, simp)

lemma scale_codec_claim: "scale_codec ref_claim_codec"
  unfolding ref_claim_codec_def
  by (rule scale_codec_map) (intro scale_codec_pair scale_codec_words, simp)

lemma scale_codec_timestamp: "scale_codec ref_timestamp_codec"
  unfolding ref_timestamp_codec_def
  by (rule scale_codec_map) (intro scale_codec_pair scale_codec_words, simp)

definition unit_enum_codec :: "'a \<Rightarrow> 'a codec" where
  "unit_enum_codec x = map_codec (\<lambda>_. x) (\<lambda>_. ()) unit_codec"

definition ref_runtime :: runtime_host where
  "ref_runtime =
     \<lparr>coin_codec = ref_coin_codec, kitty_codec = ref_kitty_codec, family_dna_codec = ref_family_codec,
      amoeba_codec = ref_amoeba_codec, claim_codec = ref_claim_codec, timestamp_codec = ref_timestamp_codec,
      runtime_ref_codec = map_codec (\<lambda>h. \<lparr>runtime_hash = h\<rparr>) runtime_hash (word_codec 32),
      sp_timestamp = \<lparr>sp_timestamp_identifier = byte_string ''timstap0'', inherent_time_codec = word_codec 8,
        too_far_in_future = [1], too_far_is_fatal = True\<rparr>,
      h256_from_slice = (\<lambda>b. of_nat (le_value b)),
      outer_verifier_codecs = ref_verifier_codecs (tagged_codec outer_redeemer_tag outer_redeemer_untag)
        (tagged_codec outer_verifier_tag outer_verifier_untag),
      outer_checker_codec = tagged_codec outer_checker_tag outer_checker_untag,
      money_selector_codec = ref_money_codec,
      kitty_selector_codec = unit_enum_codec FreeKittyConstraintChecker,
      mitosis_selector_codec = unit_enum_codec AmoebaMitosis,
      death_selector_codec = unit_enum_codec AmoebaDeath,
      creation_selector_codec = unit_enum_codec AmoebaCreation,
      poe_claim_selector_codec = unit_enum_codec PoeClaim,
      poe_revoke_selector_codec = unit_enum_codec PoeRevoke,
      poe_dispute_selector_codec = unit_enum_codec PoeDispute,
      timestamp_selector_codec = unit_enum_codec SetTimestamp,
      upgrade_selector_codec = map_codec (\<lambda>b. \<lparr>full_wasm = b\<rparr>) full_wasm ref_bytes_codec\<rparr>"

abbreviation ref_tv :: "(OuterVerifier, OuterVerifierRedeemer) Verifier" where
  "ref_tv \<equiv> template_verifier ref_host ref_runtime"

abbreviation ref_tc :: "(OuterVerifier, OuterConstraintChecker, OuterConstraintCheckerError) ConstraintChecker" where
  "ref_tc \<equiv> template_checker ref_host ref_runtime"

interpretation ref_template: template_laws ref_host ref_runtime
proof (intro template_laws.intro template_laws_axioms.intro ref.host_laws_axioms)
  show "scale_codec (fst (outer_verifier_codecs ref_runtime))"
    by (simp add: ref_runtime_def ref_verifier_codecs_def scale_codec_tagged outer_redeemer_untag_tag)
  show "scale_codec (fst (snd (outer_verifier_codecs ref_runtime)))"
    by (simp add: ref_runtime_def ref_verifier_codecs_def scale_codec_tagged outer_verifier_untag_tag
        scale_codec_output)
  show "scale_codec (snd (snd (outer_verifier_codecs ref_runtime)))"
    by (simp add: ref_runtime_def ref_verifier_codecs_def scale_codec_tagged outer_verifier_untag_tag
        scale_codec_output scale_codec_list)
  show "scale_codec (outer_checker_codec ref_runtime)"
    by (simp add: ref_runtime_def scale_codec_tagged outer_checker_untag_tag)
qed

subsection \<open>Concrete states and transactions\<close>

definition rn :: "u32 \<Rightarrow> OutputRef" where "rn i = \<lparr>tx_hash = 7, index = i\<rparr>"

definition grab_output :: "DynamicallyTypedData \<Rightarrow> OuterVerifier Output" where
  "grab_output d = \<lparr>payload = d, verifier = OuterUpForGrabs UpForGrabs\<rparr>"

definition grab_input :: "OutputRef \<Rightarrow> Input" where
  "grab_input r = \<lparr>output_ref = r,
     redeemer = Redemption (encode (redeemer_codec ref_tv) (RedeemUpForGrabs ()))\<rparr>"

definition evict_input :: "OutputRef \<Rightarrow> Input" where
  "evict_input r = \<lparr>output_ref = r, redeemer = Eviction\<rparr>"

lemma rn_fields [simp]: "index (rn i) = i" "rn i = rn j \<longleftrightarrow> i = j"
  by (simp_all add: rn_def)

lemma authorised_grab: "U r = Some (grab_output d) \<Longrightarrow> authorised ref_tv se h U (grab_input r)"
  using scale_codec.decode_value_encode [OF ref_template.template.redeemer_lawful]
  by (simp add: authorised_def grab_input_def grab_output_def template_verifier_def outer_verifier_def
      aggregate_verifier_def verifier_dictionary_def aggregate_verify_def outer_verifier_variants_def
      verifier_variant_def lift_verify_def verify_up_for_grabs_def)

lemma authorised_evict: "U r = Some out \<Longrightarrow> authorised V se h U (evict_input r)"
  by (simp add: authorised_def evict_input_def)

text \<open>
  A transaction that redeems and evicts outputs of a state whose references all have an index of at
  least 100 is accepted when its checker is content.
\<close>

definition demo_template_tx ::
  "OutputRef list \<Rightarrow> OutputRef list \<Rightarrow> OutputRef list \<Rightarrow> DynamicallyTypedData list \<Rightarrow> OuterConstraintChecker
     \<Rightarrow> (OuterVerifier, OuterConstraintChecker) Transaction" where
  "demo_template_tx grabs evicts pks outs c =
     \<lparr>inputs = map grab_input grabs @ map evict_input evicts, peeks = pks,
      outputs = map grab_output outs, checker = c\<rparr>"

definition template_state :: "(OutputRef \<times> DynamicallyTypedData) list \<Rightarrow> u32 \<Rightarrow> storage" where
  "template_state kds h = utxo_state ref_tv (map (\<lambda>(r, d). (r, grab_output d)) kds) h"

lemma template_state_height: "block_height ref_host (template_state kds h) = Some h"
  by (simp add: template_state_def utxo_state_height)

lemma template_state_ledger:
  assumes "distinct (map fst kds)"
  shows "ledger_of ref_host ref_tv (template_state kds h) = map_option grab_output \<circ> map_of kds"
proof -
  have "ledger_of ref_host ref_tv (template_state kds h) = map_of (map (\<lambda>(r, d). (r, grab_output d)) kds)"
    unfolding template_state_def
    by (rule utxo_state_ledger [OF ref_template.template.verifier_laws_axioms])
      (use assms in \<open>simp add: case_prod_unfold comp_def\<close>)
  then show ?thesis by (simp add: map_of_map)
qed

lemma template_state_finite:
  "distinct (map fst kds) \<Longrightarrow> finite (dom (ledger_of ref_host ref_tv (template_state kds h)))"
  by (simp add: template_state_ledger dom_map_option_comp finite_dom_map_of)

lemma demo_refs:
  "redeemed_refs (demo_template_tx grabs evicts pks outs c) = grabs"
  "evicted_refs (demo_template_tx grabs evicts pks outs c) = evicts"
  "input_refs (demo_template_tx grabs evicts pks outs c) = grabs @ evicts"
  by (simp_all add: redeemed_refs_def evicted_refs_def input_refs_def demo_template_tx_def comp_def
      grab_input_def evict_input_def filter_map map_idI)

lemma demo_template_applies:
  assumes dist: "distinct (map fst kds)" and high: "\<forall>r \<in> fst ` set kds. 100 \<le> unat (index r)"
    and present: "set (grabs @ evicts @ pks) \<subseteq> fst ` set kds" and "distinct grabs" and "distinct evicts"
    and few: "length outs \<le> 100"
    and chk: "snd (check ref_tc c (map (the \<circ> map_of kds) grabs) (map (the \<circ> map_of kds) evicts)
      (map (the \<circ> map_of kds) pks) outs (template_state kds h)) = Ok p"
  shows "snd (apply_tuxedo_transaction ref_host ref_tv ref_tc (demo_template_tx grabs evicts pks outs c)
    (template_state kds h)) = Ok ()"
proof -
  let ?tx = "demo_template_tx grabs evicts pks outs c"
  let ?U = "ledger_of ref_host ref_tv (template_state kds h)"
  have U: "?U = map_option grab_output \<circ> map_of kds" by (rule template_state_ledger [OF dist])
  have here: "\<exists>d. map_of kds r = Some d" if "r \<in> set (grabs @ evicts @ pks)" for r
    using that present by (metis (no_types, lifting) map_of_eq_None_iff not_None_eq subsetD)
  have payloads: "ledger_payloads ?U rs = map (the \<circ> map_of kds) rs" if "set rs \<subseteq> set (grabs @ evicts @ pks)" for rs
    using that here unfolding U by (fastforce simp: ledger_payloads_def grab_output_def)
  have free: "?U r = None" if r: "r \<in> set (output_refs_of ref_host ref_tv (checker_codec ref_tc) ?tx)" for r
  proof -
    obtain i where i: "i < length (outputs ?tx)" "index r = of_nat i"
      using r unfolding output_refs_of_def by fastforce
    then have "i < 100" using few by (simp add: demo_template_tx_def)
    with i(2) have "unat (index r) < 100" by (simp add: unat_of_nat)
    then have "r \<notin> fst ` set kds" using high by auto
    then show ?thesis by (simp add: U map_of_eq_None_iff)
  qed
  have distinct_inputs: "distinct (inputs ?tx)"
    using assms(4,5) by (auto simp: demo_template_tx_def distinct_map inj_on_def grab_input_def evict_input_def)
  have auth: "\<forall>i \<in> set (inputs ?tx). authorised ref_tv se h ?U i" for se
    using here by (fastforce simp: demo_template_tx_def U intro: authorised_grab authorised_evict)
  have fields: "checker ?tx = c" "peeks ?tx = pks" "map payload (outputs ?tx) = outs"
    by (simp_all add: demo_template_tx_def comp_def grab_output_def)
  have checked: "\<exists>p. snd (check ref_tc (checker ?tx) (ledger_payloads ?U grabs) (ledger_payloads ?U evicts)
      (ledger_payloads ?U (peeks ?tx)) (map payload (outputs ?tx)) (template_state kds h)) = Ok p"
  proof -
    have "ledger_payloads ?U grabs = map (the \<circ> map_of kds) grabs"
      "ledger_payloads ?U evicts = map (the \<circ> map_of kds) evicts"
      "ledger_payloads ?U pks = map (the \<circ> map_of kds) pks"
      by (rule payloads, auto)+
    with chk show ?thesis unfolding fields by auto
  qed
  have "\<forall>r \<in> set (peeks ?tx). ?U r \<noteq> None"
    unfolding fields using here by (fastforce simp: U)
  then have "ledger_accepts ref_host ref_tv ref_tc h ?U (template_state kds h) ?tx"
    unfolding ledger_accepts_def demo_refs
    using distinct_inputs auth free checked by blast
  then show ?thesis
    using ref_template.template.apply_complete [OF template_state_height] by blast
qed

lemma ref_runtime_codecs [simp]:
  "coin_codec ref_runtime = ref_coin_codec" "amoeba_codec ref_runtime = ref_amoeba_codec"
  "kitty_codec ref_runtime = ref_kitty_codec" "family_dna_codec ref_runtime = ref_family_codec"
  "claim_codec ref_runtime = ref_claim_codec" "timestamp_codec ref_runtime = ref_timestamp_codec"
  by (simp_all add: ref_runtime_def)

lemma piece_views [simp]:
  "view (amoeba_data ref_amoeba_codec) (into_data (amoeba_data ref_amoeba_codec) a) = Some a"
  "view (kitty_data ref_kitty_codec) (into_data (kitty_data ref_kitty_codec) k) = Some k"
  "view (claim_data ref_claim_codec) (into_data (claim_data ref_claim_codec) c) = Some c"
  "view (timestamp_data ref_timestamp_codec) (into_data (timestamp_data ref_timestamp_codec) t) = Some t"
  by (simp_all add: view_def amoeba_data_def kitty_data_def claim_data_def timestamp_data_def
      scale_codec.decode_value_encode scale_codec_amoeba scale_codec_kitty scale_codec_claim
      scale_codec_timestamp)

subsection \<open>The pieces at concrete states\<close>

abbreviation demo_eve :: DynamicallyTypedData where
  "demo_eve \<equiv> into_data (amoeba_data ref_amoeba_codec) \<lparr>generation = 0, four_bytes = (1, 2, 3, 4)\<rparr>"

theorem amoeba_population_witness:
  "population ref_amoeba_codec (ledger_of ref_host ref_tv (fst (apply_tuxedo_transaction ref_host ref_tv ref_tc
     (demo_template_tx [] [] [] [demo_eve] (OuterAmoebaCreation AmoebaCreation)) (template_state [] 3)))) = 1"
proof -
  let ?tx = "demo_template_tx [] [] [] [demo_eve] (OuterAmoebaCreation AmoebaCreation)"
  have ok: "snd (apply_tuxedo_transaction ref_host ref_tv ref_tc ?tx (template_state [] 3)) = Ok ()"
    by (rule demo_template_applies [where p = 0]) (simp_all add: template_check_Ok creation_Ok)
  have U: "ledger_of ref_host ref_tv (template_state [] 3) = Map.empty"
    by (simp add: template_state_ledger comp_def)
  have small: "length (outputs ?tx) \<le> 2 ^ 32" by (simp add: demo_template_tx_def)
  have fin: "finite (dom (ledger_of ref_host ref_tv (template_state [] 3)))" by (simp add: U)
  have rules: "follows ref_tc (checker ?tx) (creation_check ref_amoeba_codec) AmoebaCreation"
    using template_follows(5) [of ref_host ref_runtime] by (simp add: demo_template_tx_def)
  have "population ref_amoeba_codec (ledger_of ref_host ref_tv (template_state [] 3)) = 0"
    by (simp add: U population_def ledger_total_def)
  then show ?thesis
    using amoeba_population [OF ref_template.template.executive_axioms template_state_height fin small ok,
        of ref_amoeba_codec] rules
    by simp
qed

definition demo_claim :: "u32 \<Rightarrow> DynamicallyTypedData" where
  "demo_claim h = into_data (claim_data ref_claim_codec) \<lparr>claim = 9, effective_height = h\<rparr>"

theorem dispute_keeps_oldest_witness:
  "\<exists>r out w. r \<in> set (peeks (demo_template_tx [] [rn 101] [rn 100] [] (OuterPoeDispute PoeDispute)))
     \<and> ledger_of ref_host ref_tv (fst (apply_tuxedo_transaction ref_host ref_tv ref_tc
         (demo_template_tx [] [rn 101] [rn 100] [] (OuterPoeDispute PoeDispute))
         (template_state [(rn 100, demo_claim 1), (rn 101, demo_claim 2)] 3))) r = Some out
     \<and> view (claim_data ref_claim_codec) (payload out) = Some w"
proof -
  let ?tx = "demo_template_tx [] [rn 101] [rn 100] [] (OuterPoeDispute PoeDispute)"
  let ?s = "template_state [(rn 100, demo_claim 1), (rn 101, demo_claim 2)] 3"
  have ok: "snd (apply_tuxedo_transaction ref_host ref_tv ref_tc ?tx ?s) = Ok ()"
    by (rule demo_template_applies [where p = 0])
      (simp_all add: template_check_Ok poe_dispute_Ok demo_claim_def)
  have small: "length (outputs ?tx) \<le> 2 ^ 32" by (simp add: demo_template_tx_def)
  have rules: "follows ref_tc (checker ?tx) (poe_dispute_check ref_claim_codec) PoeDispute"
    using template_follows(8) [of ref_host ref_runtime] by (simp add: demo_template_tx_def)
  show ?thesis
    using dispute_keeps_oldest [OF ref_template.template.executive_axioms template_state_height small rules ok]
    by blast
qed

definition demo_kitty :: "Parent \<Rightarrow> u64 \<Rightarrow> H256 \<Rightarrow> u128 \<Rightarrow> DynamicallyTypedData" where
  "demo_kitty par f d n = into_data (kitty_data ref_kitty_codec)
     \<lparr>parent = par, free_breedings = f, dna = KittyDNA d, num_breedings = n\<rparr>"

definition demo_parents :: "DynamicallyTypedData list" where
  "demo_parents = [demo_kitty (Mom MomRearinToGo) 2 5 0, demo_kitty (Dad DadRearinToGo) 2 6 0]"

definition demo_family :: "DynamicallyTypedData list" where
  "demo_family = [demo_kitty (Mom HadBirthRecently) 1 5 1, demo_kitty (Dad Tired) 1 6 1,
     demo_kitty (Mom MomRearinToGo) 2 (hash_of ref_host ref_family_codec (KittyDNA 5, KittyDNA 6, 1, 1)) 0]"

lemma demo_breeds:
  "snd (kitty_check ref_host ref_family_codec ref_kitty_codec c demo_parents [] [] demo_family s) = Ok 0"
  unfolding kitty_Ok
  by (simp add: demo_parents_def demo_family_def demo_kitty_def bred_once_def newborn_def)

theorem breed_conserves_free_breedings_witness:
  "total_free_breedings ref_kitty_codec (ledger_of ref_host ref_tv (fst (apply_tuxedo_transaction ref_host ref_tv
     ref_tc (demo_template_tx [rn 100, rn 101] [] [] demo_family (OuterFreeKitty FreeKittyConstraintChecker))
     (template_state (zip [rn 100, rn 101] demo_parents) 3))))
   = total_free_breedings ref_kitty_codec
       (ledger_of ref_host ref_tv (template_state (zip [rn 100, rn 101] demo_parents) 3))"
proof -
  let ?tx = "demo_template_tx [rn 100, rn 101] [] [] demo_family (OuterFreeKitty FreeKittyConstraintChecker)"
  let ?s = "template_state (zip [rn 100, rn 101] demo_parents) 3"
  have ok: "snd (apply_tuxedo_transaction ref_host ref_tv ref_tc ?tx ?s) = Ok ()"
    by (rule demo_template_applies [where p = 0])
      (use demo_breeds in \<open>simp_all add: template_check_Ok demo_parents_def demo_family_def\<close>)
  have small: "length (outputs ?tx) \<le> 2 ^ 32" by (simp add: demo_template_tx_def demo_family_def)
  have fin: "finite (dom (ledger_of ref_host ref_tv ?s))"
    by (rule template_state_finite) (simp add: demo_parents_def)
  have rules: "follows ref_tc (checker ?tx) (kitty_check ref_host ref_family_codec ref_kitty_codec)
      FreeKittyConstraintChecker"
    using template_follows(2) [of ref_host ref_runtime] by (simp add: demo_template_tx_def)
  show ?thesis
    using breed_conserves_free_breedings [OF ref_template.template.executive_axioms template_state_height
        fin small rules ok] by blast
qed

theorem parents_breed_once_witness:
  "snd (kitty_check ref_host ref_family_codec ref_kitty_codec FreeKittyConstraintChecker
     [demo_kitty (Mom HadBirthRecently) 1 5 1, demo_kitty (Dad DadRearinToGo) 2 6 0] [] [] demo_family
     Map.empty) \<noteq> Ok 0"
  using parents_breed_once [OF demo_breeds [unfolded demo_parents_def demo_family_def],
      of FreeKittyConstraintChecker] by blast

definition demo_time :: "u64 \<Rightarrow> u32 \<Rightarrow> DynamicallyTypedData" where
  "demo_time t b = into_data (timestamp_data ref_timestamp_codec) \<lparr>time = t, block = b\<rparr>"

definition demo_inherent_data :: InherentData where
  "demo_inherent_data = [byte_string ''timstap0'' \<mapsto> encode (word_codec 8) (9000 :: u64)]"

lemma demo_inherent_time:
  "expect_data (inherent_time_codec (sp_timestamp ref_runtime)) (sp_timestamp_identifier (sp_timestamp ref_runtime))
     demo_inherent_data = Some 9000"
  by (simp add: expect_data_def get_data_def demo_inherent_data_def ref_runtime_def
      scale_codec.decode_value_encode [OF scale_codec_words(3)])

lemma ref_unspendable: "\<exists>u. new_unspendable ref_tv = Some u"
  by (simp add: template_verifier_def outer_verifier_def aggregate_verifier_def verifier_dictionary_def
      aggregate_new_unspendable_def outer_verifier_variants_def verifier_variant_def new_unspendable_sr25519_def)

theorem created_timestamp_checks_witness:
  "\<exists>tx. timestamp_create_inherent (sp_timestamp ref_runtime) (template_timestamp_config ref_host)
       ref_timestamp_codec ref_tv demo_inherent_data (undefined, 4) (template_state [] 3) = Some tx
     \<and> snd (set_timestamp_check (template_timestamp_config ref_host) ref_timestamp_codec (checker tx)
         [] [] [demo_time 5000 2] (map payload (outputs tx)) (template_state [] 3)) = Ok 0"
proof -
  obtain u where u: "new_unspendable ref_tv = Some u" using ref_unspendable by blast
  have height: "config_block_height (template_timestamp_config ref_host) (template_state [] 3) = Some 3"
    by (simp add: template_timestamp_config_def default_timestamp_config_def template_state_height)
  have old: "view (timestamp_data ref_timestamp_codec) (demo_time 5000 2) = Some \<lparr>time = 5000, block = 2\<rparr>"
    by (simp add: demo_time_def)
  show ?thesis
    using created_timestamp_checks [OF scale_codec_timestamp demo_inherent_time height u old,
        of "(undefined, 4)" ref_host new_check_inherents_result]
    by (auto simp: template_timestamp_config_def default_timestamp_config_def)
qed

theorem timestamp_advances_witness:
  "snd (set_timestamp_check (template_timestamp_config ref_host) ref_timestamp_codec SetTimestamp [] []
      [demo_time 5000 2] [demo_time 9000 3] (template_state [] 3)) = Ok 0
   \<and> (\<exists>d d' rest new old. [demo_time 9000 3] = [d] \<and> [demo_time 5000 2] = d' # rest
     \<and> view (timestamp_data ref_timestamp_codec) d = Some new \<and> view (timestamp_data ref_timestamp_codec) d' = Some old
     \<and> unat (time old) + 2000 \<le> unat (time new))"
proof -
  have ok: "snd (set_timestamp_check (template_timestamp_config ref_host) ref_timestamp_codec SetTimestamp [] []
      [demo_time 5000 2] [demo_time 9000 3] (template_state [] 3)) = Ok 0"
    unfolding set_timestamp_Ok
    by (simp add: demo_time_def template_timestamp_config_def default_timestamp_config_def template_state_height)
  from timestamp_advances [OF ok] ok show ?thesis
    by (auto simp: demo_time_def template_timestamp_config_def default_timestamp_config_def)
qed








subsection \<open>The runtime at concrete inputs\<close>

abbreviation template_txs_codec :: "(OuterVerifier, OuterConstraintChecker) Transaction list codec" where
  "template_txs_codec \<equiv> list_codec (transaction_codec ref_host ref_tv (checker_codec ref_tc))"

lemma empty_base: "genesis_base H V Map.empty"
  by (auto simp: genesis_base_def ledger_of_def peek_utxo_def)

theorem development_genesis_builds_witness:
  "\<exists>gtxs s. development_genesis_transactions ref_host ref_runtime = Some gtxs
     \<and> build ref_host ref_tv ref_tc template_txs_codec gtxs Map.empty = (s, Ok ())"
  using development_genesis_builds [OF ref_template.template.executive_axioms empty_base, of template_txs_codec]
    scale_codec_coin
  by auto

definition template_mint :: "(OuterVerifier, OuterConstraintChecker) Transaction" where
  "template_mint = coin_mint 0 ref_coin_codec OuterUpForGrabs OuterMoney 7 UpForGrabs"

theorem template_chain_supply_witness:
  "\<exists>s. chain ref_host ref_tv ref_tc template_txs_codec ref_client [template_mint] [] s
     \<and> coin_supply 0 ref_coin_codec (ledger_of ref_host ref_tv s) \<le> 7"
proof -
  have "snd (build ref_host ref_tv ref_tc template_txs_codec [template_mint] Map.empty) = Ok ()"
    unfolding build_def build_transactions_Ok by (simp add: template_mint_def coin_mint_def)
  then obtain s where s: "build ref_host ref_tv ref_tc template_txs_codec [template_mint] Map.empty = (s, Ok ())"
    by (metis prod.collapse)
  obtain g where "build_genesis_block ref_host ref_tv ref_tc template_txs_codec ref_client s
      = Ok (g, s(EXTRINSIC_KEY := None))"
    by (simp add: build_genesis_block_def ref_client_def Let_def)
  with empty_base s have c: "chain ref_host ref_tv ref_tc template_txs_codec ref_client [template_mint] []
      (s(EXTRINSIC_KEY := None))"
    by (rule chain_genesis)
  have "small_outputs (chain_history [template_mint] [])"
    by (simp add: chain_history_def template_mint_def coin_mint_def)
  from template_chain_supply [OF ref_template.template.executive_axioms c this] c show ?thesis
    by (auto simp: issued_def output_worth_sum template_mint_def coin_mint_def output_from_pair_def coin_new_def
        scale_codec_coin)
qed

definition demo_stamp :: "(OuterVerifier, OuterConstraintChecker) Transaction" where
  "demo_stamp = \<lparr>inputs = [], peeks = [rn 100], outputs = [grab_output (demo_time 9000 3)],
     checker = OuterSetTimestamp (InherentAdapter SetTimestamp)\<rparr>"

definition demo_block :: "(OuterVerifier, OuterConstraintChecker) Block" where
  "demo_block = \<lparr>header = demo_header, extrinsics = [demo_stamp, template_mint]\<rparr>"

lemma demo_block_opening: "opening_inherents ref_tc demo_block = [demo_stamp]"
  by (simp add: opening_inherents_def demo_block_def template_is_inherent demo_stamp_def template_mint_def
      coin_mint_def)

theorem template_block_inherents_witness:
  "\<exists>r ts. check_block_inherents ref_tc demo_block demo_inherent_data = Some r \<and> okay r
     \<and> view (timestamp_data ref_timestamp_codec) (demo_time 9000 3) = Some ts \<and> time ts \<le> 9000 + 60000"
proof -
  have "timestamp_check_inherent ref_host (sp_timestamp ref_runtime) (template_timestamp_config ref_host)
      ref_timestamp_codec demo_inherent_data
      (unwrap_transaction (transform (\<lambda>_. InherentAdapter SetTimestamp) demo_stamp)) new_check_inherents_result
      = Some new_check_inherents_result"
    using demo_inherent_time
    by (simp add: timestamp_check_inherent_def unwrap_transaction_def transform_def demo_stamp_def grab_output_def
        demo_time_def scale_codec_timestamp template_timestamp_config_def default_timestamp_config_def)
  moreover have "select_variant un_set_timestamp [demo_stamp]
      = [transform (\<lambda>_. InherentAdapter SetTimestamp) demo_stamp]"
    by (simp add: demo_stamp_def)
  ultimately have chk: "check_block_inherents ref_tc demo_block demo_inherent_data
      = Some new_check_inherents_result"
    using template_check_inherents [of "[demo_stamp]" new_check_inherents_result ref_host ref_runtime
        demo_inherent_data]
    by (simp add: check_block_inherents_def demo_block_opening adapter_check_inherents_def timestamp_hooks_def
        new_check_inherents_result_def demo_stamp_def)
  have okay: "okay new_check_inherents_result" by (simp add: new_check_inherents_result_def)
  from template_block_inherents [OF ref_put_error_law chk okay] chk okay show ?thesis
    by (auto simp: demo_block_opening demo_stamp_def grab_output_def demo_inherent_time)
qed

definition ref_block_codec :: "(OuterVerifier, OuterConstraintChecker) Block codec" where
  "ref_block_codec = map_codec (\<lambda>(h, txs). \<lparr>header = h, extrinsics = txs\<rparr>)
     (\<lambda>b. (header b, extrinsics b)) (pair_codec ref_header_codec template_txs_codec)"

lemma scale_codec_block: "scale_codec ref_block_codec"
  unfolding ref_block_codec_def
  by (rule scale_codec_map)
    (intro scale_codec_pair scale_codec_header scale_codec_list ref_template.template.tx.scale_codec_axioms, simp)

definition authoring_data :: InherentData where
  "authoring_data = demo_inherent_data(PARENT_INHERENT_IDENTIFIER \<mapsto> encode ref_block_codec demo_block)"

lemma authoring_parent: "expect_data ref_block_codec PARENT_INHERENT_IDENTIFIER authoring_data = Some demo_block"
  by (simp add: expect_data_def get_data_def authoring_data_def
      scale_codec.decode_value_encode [OF scale_codec_block])

lemma authoring_time:
  "expect_data (inherent_time_codec (sp_timestamp ref_runtime)) (sp_timestamp_identifier (sp_timestamp ref_runtime))
     authoring_data = Some 9000"
proof -
  have "sp_timestamp_identifier (sp_timestamp ref_runtime) \<noteq> PARENT_INHERENT_IDENTIFIER"
    by (simp add: ref_runtime_def PARENT_INHERENT_IDENTIFIER_def byte_string_def)
  then show ?thesis
    using demo_inherent_time by (simp add: expect_data_def get_data_def authoring_data_def)
qed

lemma authoring_inherents:
  assumes "block_height ref_host s = Some h"
  shows "\<exists>tx. inherent_extrinsics ref_host ref_tv ref_tc ref_block_codec authoring_data s = Some [tx]
     \<and> peeks tx = [\<lparr>tx_hash = transaction_hash ref_host ref_tv (outer_checker_codec ref_runtime) demo_stamp, index = 0\<rparr>]"
proof -
  obtain u where u: "new_unspendable ref_tv = Some u" using ref_unspendable by blast
  have stamp: "checker demo_stamp = OuterSetTimestamp (InherentAdapter SetTimestamp)"
    by (simp add: demo_stamp_def)
  have "\<exists>txs. inherent_extrinsics ref_host ref_tv ref_tc ref_block_codec authoring_data s = Some txs"
    using authoring_time u assms
    by (simp add: inherent_extrinsics_def authoring_parent demo_block_opening template_create_inherents stamp
        adapter_create_inherents_def timestamp_hooks_def timestamp_create_inherent_def
        template_timestamp_config_def default_timestamp_config_def)
  then obtain txs where txs: "inherent_extrinsics ref_host ref_tv ref_tc ref_block_codec authoring_data s = Some txs" by blast
  from template_inherent_extrinsics [OF txs] txs show ?thesis
    by (auto simp: authoring_parent demo_block_opening)
qed

end
