(* ===== verification/Parachain_Instance.thy ===== *)
theory Parachain_Instance
  imports Parachain_Runtime Template_Instance
begin

text \<open>
  The parachain runtime on the reference host, and its theorems at a concrete block: one
  parachain inherent that replaces the info of relay block 3 by one of relay block 7.
\<close>

subsection \<open>Codecs\<close>

definition ref_messages_codec :: "(u32 \<times> bytes) list codec" where
  "ref_messages_codec = list_codec (pair_codec (word_codec 4) ref_bytes_codec)"

definition ref_info_codec :: "ParachainInherentDataUtxo codec" where
  "ref_info_codec = map_codec
     (\<lambda>((head, relay_number, root, pov), st, dn, hz). ParachainInherentDataUtxo
        \<lparr>validation_data = \<lparr>parent_head = head, relay_parent_number = relay_number,
           relay_parent_storage_root = root, max_pov_size = pov\<rparr>,
         relay_chain_state = st, downward_messages = dn, horizontal_messages = hz\<rparr>)
     (\<lambda>u. let d = from_parachain_utxo u; v = validation_data d in
        ((parent_head v, relay_parent_number v, relay_parent_storage_root v, max_pov_size v),
         relay_chain_state d, downward_messages d, horizontal_messages d))
     (pair_codec (pair_codec ref_bytes_codec (pair_codec (word_codec 4) (pair_codec (word_codec 32) (word_codec 4))))
       (pair_codec (list_codec ref_bytes_codec)
         (pair_codec ref_messages_codec (list_codec (pair_codec (word_codec 4) ref_messages_codec)))))"

lemma scale_codec_messages: "scale_codec ref_messages_codec"
  unfolding ref_messages_codec_def by (intro scale_codec_list scale_codec_pair scale_codec_words scale_codec_bytes)

lemma scale_codec_info: "scale_codec ref_info_codec"
  unfolding ref_info_codec_def
proof (rule scale_codec_map)
  fix u
  show "(\<lambda>((head, relay_number, root, pov), st, dn, hz). ParachainInherentDataUtxo
        \<lparr>validation_data = \<lparr>parent_head = head, relay_parent_number = relay_number,
           relay_parent_storage_root = root, max_pov_size = pov\<rparr>,
         relay_chain_state = st, downward_messages = dn, horizontal_messages = hz\<rparr>)
     (let d = from_parachain_utxo u; v = validation_data d in
        ((parent_head v, relay_parent_number v, relay_parent_storage_root v, max_pov_size v),
         relay_chain_state d, downward_messages d, horizontal_messages d)) = u"
    by (cases u) (simp add: Let_def)
qed (intro scale_codec_pair scale_codec_list scale_codec_words scale_codec_bytes scale_codec_messages)

definition ref_parachain :: parachain_runtime_host where
  "ref_parachain =
     \<lparr>inner_host = ref_runtime,
      cumulus = \<lparr>parachain_identifier = byte_string ''sysi1337'',
        inherent_info_codec = map_codec from_parachain_utxo into_parachain_utxo ref_info_codec,
        default_root_and_proof = (0, [])\<rparr>,
      info_codec = ref_info_codec, info_selector_codec = unit_enum_codec SetParachainInfo,
      parachain_checker_codec = map_codec
        (\<lambda>x. case x of Inl c \<Rightarrow> ParaInner c | Inr _ \<Rightarrow> ParachainInfo (InherentAdapter SetParachainInfo))
        (\<lambda>c. case c of ParaInner c \<Rightarrow> Inl c | ParachainInfo _ \<Rightarrow> Inr ())
        (sum_codec (outer_checker_codec ref_runtime) unit_codec)\<rparr>"

abbreviation ref_pc ::
  "(OuterVerifier, ParachainConstraintChecker, ParachainConstraintCheckerError) ConstraintChecker" where
  "ref_pc \<equiv> parachain_runtime_checker ref_host ref_parachain"

lemma ref_parachain_parts [simp]: "inner_host ref_parachain = ref_runtime" "info_codec ref_parachain = ref_info_codec"
  by (simp_all add: ref_parachain_def)

interpretation ref_para: parachain_laws ref_host ref_parachain
proof (intro parachain_laws.intro parachain_laws_axioms.intro)
  show "template_laws ref_host (inner_host ref_parachain)" by (simp add: ref_template.template_laws_axioms)
  have "scale_codec (sum_codec (outer_checker_codec ref_runtime) unit_codec)"
    by (intro scale_codec_sum scale_codec_unit ref_template.outer_checker_lawful)
  then show "scale_codec (parachain_checker_codec ref_parachain)"
    unfolding ref_parachain_def parachain_runtime_host.simps
  proof (rule scale_codec_map)
    fix c
    show "(case case c of ParaInner c \<Rightarrow> Inl c | ParachainInfo _ \<Rightarrow> Inr () of
        Inl c \<Rightarrow> ParaInner c | Inr _ \<Rightarrow> ParachainInfo (InherentAdapter SetParachainInfo)) = c"
    proof (cases c)
      case (ParachainInfo a)
      then show ?thesis by (cases a, cases "unwrap_adapter a") simp
    qed simp
  qed
qed

subsection \<open>A concrete parachain block\<close>

definition relay_info :: "bytes \<Rightarrow> u32 \<Rightarrow> DynamicallyTypedData" where
  "relay_info head n = into_data (parachain_data ref_info_codec) (ParachainInherentDataUtxo
     \<lparr>validation_data = \<lparr>parent_head = head, relay_parent_number = n, relay_parent_storage_root = 5,
        max_pov_size = 0\<rparr>,
      relay_chain_state = [], downward_messages = [], horizontal_messages = []\<rparr>)"

definition para_parent :: Header where
  "para_parent = \<lparr>parent_hash = 0, number = 1, state_root = 0, extrinsics_root = 0, digest = []\<rparr>"

definition para_head :: bytes where "para_head = encode (header_codec ref_host) para_parent"

definition para_header :: Header where
  "para_header = \<lparr>parent_hash = hash_of ref_host (header_codec ref_host) para_parent, number = 2,
     state_root = 0, extrinsics_root = 0, digest = []\<rparr>"

definition para_state :: storage where
  "para_state = template_state [(rn 100, relay_info [] 3)] 1"

definition para_tx :: "(OuterVerifier, ParachainConstraintChecker) Transaction" where
  "para_tx = \<lparr>inputs = [evict_input (rn 100)], peeks = [], outputs = [grab_output (relay_info para_head 7)],
     checker = ParachainInfo (InherentAdapter SetParachainInfo)\<rparr>"

abbreviation para_txs_codec :: "(OuterVerifier, ParachainConstraintChecker) Transaction list codec" where
  "para_txs_codec \<equiv> list_codec (transaction_codec ref_host ref_tv (checker_codec ref_pc))"

abbreviation para_block_codec ::
  "(Header \<times> (OuterVerifier, ParachainConstraintChecker) Transaction list \<times> unit) codec" where
  "para_block_codec \<equiv> pair_codec (header_codec ref_host) (pair_codec para_txs_codec unit_codec)"

abbreviation para_proof :: "unit \<Rightarrow> H256 \<Rightarrow> storage option" where
  "para_proof \<equiv> \<lambda>_ _. Some para_state"

lemma view_relay_info [simp]: "view (parachain_data ref_info_codec) (relay_info head n)
    = Some (ParachainInherentDataUtxo
     \<lparr>validation_data = \<lparr>parent_head = head, relay_parent_number = n, relay_parent_storage_root = 5,
        max_pov_size = 0\<rparr>,
      relay_chain_state = [], downward_messages = [], horizontal_messages = []\<rparr>)"
  by (simp add: view_def relay_info_def parachain_data_def scale_codec.decode_value_encode [OF scale_codec_info])

lemma extract_relay_info [simp]: "extract_data (parachain_data ref_info_codec) (relay_info head n)
    = Ok (ParachainInherentDataUtxo
     \<lparr>validation_data = \<lparr>parent_head = head, relay_parent_number = n, relay_parent_storage_root = 5,
        max_pov_size = 0\<rparr>,
      relay_chain_state = [], downward_messages = [], horizontal_messages = []\<rparr>)"
  using view_relay_info [of head n] unfolding extract_Ok_iff view_def by (simp split: if_splits)

lemma para_tx_accepted:
  "ledger_accepts ref_host ref_tv ref_pc h (ledger_of ref_host ref_tv para_state) s para_tx"
proof -
  let ?U = "ledger_of ref_host ref_tv para_state"
  have U: "?U = [rn 100 \<mapsto> grab_output (relay_info [] 3)]"
    unfolding para_state_def by (subst template_state_ledger) (auto simp: fun_eq_iff)
  have refs: "redeemed_refs para_tx = []" "evicted_refs para_tx = [rn 100]"
    by (simp_all add: redeemed_refs_def evicted_refs_def para_tx_def evict_input_def)
  have free: "?U r = None" if "r \<in> set (output_refs_of ref_host ref_tv (checker_codec ref_pc) para_tx)" for r
    using that by (auto simp: output_refs_of_def para_tx_def U rn_def)
  have "authorised ref_tv se h ?U (evict_input (rn 100))" for se
    by (rule authorised_evict) (simp add: U)
  moreover have "snd (check ref_pc (checker para_tx) [] [relay_info [] 3] []
      (map payload (outputs para_tx)) s) = Ok 0"
    by (simp add: para_tx_def grab_output_def parachain_runtime_check map_err_Ok parachain_check_Ok info_number_def)
  ultimately show ?thesis
    unfolding ledger_accepts_def refs using free
    by (auto simp: para_tx_def U ledger_payloads_def grab_output_def)
qed

text \<open>On the reference host an author who applies one accepted transaction gets a block.\<close>

lemma ref_author_single:
  assumes exec: "executive ref_host V C" and fresh: "s EXTRINSIC_KEY = None"
    and acc: "\<And>s'. ledger_accepts ref_host V C (number h) (ledger_of ref_host V s) s' tx"
  shows "\<exists>s' root sr. author_block ref_host V C h [tx] s
    = Some (s', h\<lparr>extrinsics_root := root, state_root := sr\<rparr>)"
proof -
  let ?o = "open_block ref_host h s"
  let ?s1 = "?o(EXTRINSIC_KEY \<mapsto> encode (bytes_list_codec ref_host)
      (noted_extrinsics ref_host ?o @ [encode (transaction_codec ref_host V (checker_codec C)) tx]))"
  have height: "block_height ref_host ?s1 = Some (number h)"
    by (simp add: block_height_def open_block_def scale_codec.decode_value_encode [OF ref.u32_lawful])
  have "ledger_of ref_host V ?s1 = ledger_of ref_host V s"
    by (simp add: ledger_of_def open_block_def ref.host_laws_axioms)
  then have "snd (apply_tuxedo_transaction ref_host V C tx ?s1) = Ok ()"
    using executive.apply_complete [OF exec height, of tx] acc by simp
  then obtain a where "apply_extrinsics ref_host V C [tx] ?o = Some a"
    by (simp add: apply_extrinsics_Cons apply_extrinsic_def Let_def case_prod_unfold)
  moreover obtain sr where "current_state_root ref_host (a(HEADER_KEY := None, EXTRINSIC_KEY := None)) = Some sr"
    using ref_state_root by blast
  ultimately show ?thesis
    using executive.author_block_Some [OF exec, of s h "[tx]"] fresh by fastforce
qed

lemma para_state_fresh: "para_state EXTRINSIC_KEY = None"
  by (simp add: para_state_def template_state_def utxo_state_key)

lemma para_tx_inherent: "is_inherent ref_pc (checker para_tx)" "is_parachain (checker para_tx)"
  by (simp_all add: parachain_is_inherent para_tx_def)

lemma para_exec: "executive ref_host ref_tv ref_pc"
  using ref_para.parachain.executive_axioms by simp

definition para_params :: "Header \<Rightarrow> MemoryOptimizedValidationParams" where
  "para_params h = \<lparr>params_parent_head = para_head, params_block_data = encode para_block_codec (h, [para_tx], ()),
     params_relay_parent_number = 7, params_relay_parent_storage_root = 5\<rparr>"

lemma para_block_decodes: "decode_value para_block_codec (params_block_data (para_params h)) = Some (h, [para_tx], ())"
proof -
  have "scale_codec para_block_codec"
    by (intro scale_codec_pair scale_codec_list scale_codec_unit ref.header_lawful
        executive_laws.axioms ref_para.parachain.tx.scale_codec_axioms [simplified])
  then show ?thesis by (simp add: para_params_def scale_codec.decode_value_encode)
qed

lemma para_parent_decodes: "decode_value (header_codec ref_host) (params_parent_head (para_params h)) = Some para_parent"
  by (simp add: para_params_def para_head_def scale_codec.decode_value_encode [OF ref.header_lawful])

lemma para_validates:
  "\<exists>h r. validate_block ref_host ref_tv ref_pc is_parachain ref_info_codec para_block_codec para_proof (para_params h)
     = Some r"
proof -
  obtain s' root sr where author: "author_block ref_host ref_tv ref_pc para_header [para_tx] para_state
      = Some (s', para_header\<lparr>extrinsics_root := root, state_root := sr\<rparr>)"
    using ref_author_single [OF para_exec, of para_state para_header para_tx] para_state_fresh para_tx_accepted
    by blast
  let ?h = "para_header\<lparr>extrinsics_root := root, state_root := sr\<rparr>"
  have ex: "execute_block ref_host ref_tv ref_pc \<lparr>header = ?h, extrinsics = [para_tx]\<rparr> para_state = Some s'"
    using para_exec para_state_fresh author
    by (rule executive.import_authored) (simp add: para_tx_inherent)
  have parent: "parent_hash ?h = hash_of ref_host (header_codec ref_host) para_parent"
    by (simp add: para_header_def)
  let ?d = "\<lparr>validation_data = \<lparr>parent_head = para_head, relay_parent_number = 7,
          relay_parent_storage_root = 5, max_pov_size = 0\<rparr>,
        relay_chain_state = [], downward_messages = [], horizontal_messages = []\<rparr>"
  have data: "parachain_inherent_data ref_pc is_parachain ref_info_codec [para_tx] = Some ?d"
    unfolding parachain_inherent_data_def is_signed_front
    by (simp add: para_tx_inherent) (simp add: para_tx_def grab_output_def)
  have valid: "validate_validation_data (validation_data ?d) (params_relay_parent_number (para_params ?h))
      (params_relay_parent_storage_root (para_params ?h)) (params_parent_head (para_params ?h)) = Some ()"
    by (simp add: validate_validation_data_def para_params_def)
  have "get_relay_parent_number ref_host s' = created_number ref_info_codec para_tx"
    using parachain_block_number [of ref_host ref_parachain ?h "[para_tx]" para_state s'] para_exec ex
    by (simp add: para_tx_inherent)
  then have seven: "get_relay_parent_number ref_host s' = Some 7"
    by (simp add: created_number_def para_tx_def grab_output_def info_number_def)
  have "\<exists>r. validate_block ref_host ref_tv ref_pc is_parachain ref_info_codec para_block_codec para_proof
      (para_params ?h) = Some r"
    unfolding validate_block_Some
    by (intro exI conjI, rule para_block_decodes, rule para_parent_decodes, rule parent, rule data, rule valid,
        rule refl, rule ex, rule seven, rule refl)
  then show ?thesis by blast
qed

subsection \<open>Instances of the theorems\<close>

theorem validate_block_iff_collated_witness:
  "\<exists>h info s'. parent_hash h = hash_of ref_host (header_codec ref_host) para_parent
     \<and> author_block ref_host ref_tv ref_pc h [para_tx] para_state = Some (s', h)
     \<and> collect_collation_info ref_host h s' = Some info"
proof -
  obtain h r where valid: "validate_block ref_host ref_tv ref_pc is_parachain ref_info_codec para_block_codec
      para_proof (para_params h) = Some r"
    using para_validates by blast
  have "s EXTRINSIC_KEY = None" if "para_proof pf root = Some s" for pf root s
    using that para_state_fresh by simp
  with valid validate_block_iff_collated [OF para_exec, where proof_storage = para_proof and isp = is_parachain]
  show ?thesis
    by (auto simp: para_block_decodes para_parent_decodes)
qed

theorem validated_watermark_witness:
  "\<exists>h r. validate_block ref_host ref_tv ref_pc is_parachain ref_info_codec para_block_codec para_proof
       (para_params h) = Some r \<and> res_hrmp_watermark r = 7"
proof -
  obtain h r where valid: "validate_block ref_host ref_tv ref_pc is_parachain ref_info_codec para_block_codec
      para_proof (para_params h) = Some r"
    using para_validates by blast
  have "executive ref_host (parachain_verifier ref_host ref_parachain) ref_pc" using para_exec by simp
  from validated_watermark [OF this, of para_block_codec para_proof "para_params h" r] valid
  have "res_hrmp_watermark r = params_relay_parent_number (para_params h)"
    by (auto simp: para_block_decodes para_tx_inherent)
  with valid show ?thesis by (auto simp: para_params_def)
qed

definition para_mint :: "(OuterVerifier, ParachainConstraintChecker) Transaction" where
  "para_mint = transform ParaInner template_mint"

theorem parachain_chain_supply_witness:
  "\<exists>s. chain ref_host ref_tv ref_pc para_txs_codec ref_client [para_mint] [] s
     \<and> coin_supply 0 ref_coin_codec (ledger_of ref_host ref_tv s) \<le> 7"
proof -
  have "snd (build ref_host ref_tv ref_pc para_txs_codec [para_mint] Map.empty) = Ok ()"
    unfolding build_def build_transactions_Ok
    by (simp add: para_mint_def transform_def template_mint_def coin_mint_def)
  then obtain s where s: "build ref_host ref_tv ref_pc para_txs_codec [para_mint] Map.empty = (s, Ok ())"
    by (metis prod.collapse)
  obtain g where "build_genesis_block ref_host ref_tv ref_pc para_txs_codec ref_client s
      = Ok (g, s(EXTRINSIC_KEY := None))"
    by (simp add: build_genesis_block_def ref_client_def Let_def)
  with empty_base s have c: "chain ref_host ref_tv ref_pc para_txs_codec ref_client [para_mint] []
      (s(EXTRINSIC_KEY := None))"
    by (rule chain_genesis)
  have "small_outputs (chain_history [para_mint] [])"
    by (simp add: chain_history_def para_mint_def transform_def template_mint_def coin_mint_def)
  with parachain_chain_supply [of ref_host ref_parachain para_txs_codec ref_client "[para_mint]" "[]"] para_exec c
  show ?thesis
    by (auto simp: issued_def output_worth_sum para_mint_def transform_def template_mint_def coin_mint_def
        output_from_pair_def coin_new_def scale_codec_coin)
qed

end
