(* ===== verification/Host_Storage.thy ===== *)
theory Host_Storage
  imports Parachain_Core Genesis
begin

text \<open>
  The second half of \<^verbatim>\<open>tuxedo-parachain-core/src/validate_block.rs\<close>: the functions that replace the
  host's storage functions while a relay chain validator executes a parachain block. Each runs its
  argument on the environmental externalities of \<^verbatim>\<open>sp_externalities\<close> and panics when none are set.

  \<^item> The trait \<^verbatim>\<open>Externalities\<close> is a package's: a record of functions on a state \<open>'x\<close>. What looks into the backend may
    panic (\<open>None\<close>), because a validator's backend is the part of the state that the storage proof covers. The
    environment is \<open>'x option\<close>, \<open>None\<close> when no externalities are set. The result of a host function is
    an option, \<open>None\<close> for a panic, of its value and the environment after it.
  \<^item> What is known of a trie maps keys to nothing (not covered) or to what the key holds. The record \<open>trie_functions\<close> has what is
    computed over several keys: roots, the next key, the removal of a prefix. The locale \<open>trie_laws\<close> says that knowing more never changes
    an answer; \<open>externalities_laws\<close> what the externalities promise, through an abstraction of their
    state to the backend, the current tries and the tries saved by the open transactions. Keys of child tries
    are refused by \<^verbatim>\<open>place_storage\<close>.
  \<^item> A program that uses storage is a \<open>storage_program\<close>, a tree of calls of the 23 installed functions with a continuation for every
    answer. \<open>run_hosted\<close> runs it on the host functions, \<open>run_plain\<close> on known tries with explicit
    snapshots. The theorem shows that they agree, and that a validator with an incomplete proof either panics or
    computes what a node with the whole state computes. This is what lets \<open>Parachain_Core\<close> pass the
    proved state to the executive as an explicit storage: where the proof does not cover a key that is read, the code panics and the block is
    rejected.
\<close>

subsection \<open>The externalities\<close>

datatype ChildInfo = ParentKeyId bytes

definition new_default_child :: "bytes \<Rightarrow> ChildInfo" where
  "new_default_child storage_key = ParentKeyId storage_key"

type_synonym known = "bytes \<Rightarrow> bytes option option"

record tries =
  top_trie :: known
  child_tries :: "ChildInfo \<Rightarrow> known"

record ('x, 'm, 'k) Externalities =
  ext_storage :: "bytes \<Rightarrow> 'x \<Rightarrow> bytes option option"
  ext_exists_storage :: "bytes \<Rightarrow> 'x \<Rightarrow> bool option"
  ext_place_storage :: "bytes \<Rightarrow> bytes option \<Rightarrow> 'x \<Rightarrow> 'x"
  ext_storage_root :: "StateVersion \<Rightarrow> 'x \<Rightarrow> (bytes \<times> 'x) option"
  ext_clear_prefix :: "bytes \<Rightarrow> u32 option \<Rightarrow> bytes option \<Rightarrow> 'x \<Rightarrow> ('m \<times> 'x) option"
  ext_storage_append :: "bytes \<Rightarrow> bytes \<Rightarrow> 'x \<Rightarrow> 'x option"
  ext_next_storage_key :: "bytes \<Rightarrow> 'x \<Rightarrow> bytes option option"
  ext_start_transaction :: "'x \<Rightarrow> 'x"
  ext_rollback_transaction :: "'x \<Rightarrow> (unit, unit) result \<times> 'x"
  ext_commit_transaction :: "'x \<Rightarrow> (unit, unit) result \<times> 'x"
  ext_child_storage :: "ChildInfo \<Rightarrow> bytes \<Rightarrow> 'x \<Rightarrow> bytes option option"
  ext_exists_child_storage :: "ChildInfo \<Rightarrow> bytes \<Rightarrow> 'x \<Rightarrow> bool option"
  ext_place_child_storage :: "ChildInfo \<Rightarrow> bytes \<Rightarrow> bytes option \<Rightarrow> 'x \<Rightarrow> 'x"
  ext_kill_child_storage :: "ChildInfo \<Rightarrow> u32 option \<Rightarrow> bytes option \<Rightarrow> 'x \<Rightarrow> ('m \<times> 'x) option"
  ext_clear_child_prefix :: "ChildInfo \<Rightarrow> bytes \<Rightarrow> u32 option \<Rightarrow> bytes option \<Rightarrow> 'x \<Rightarrow> ('m \<times> 'x) option"
  ext_child_storage_root :: "ChildInfo \<Rightarrow> StateVersion \<Rightarrow> 'x \<Rightarrow> (bytes \<times> 'x) option"
  ext_next_child_storage_key :: "ChildInfo \<Rightarrow> bytes \<Rightarrow> 'x \<Rightarrow> bytes option option"
  kill_result_from :: "'m \<Rightarrow> 'k"
  new_externalities :: "tries \<Rightarrow> 'x"

type_synonym ('x, 'r) hosted = "'x option \<Rightarrow> ('r \<times> 'x option) option"

definition with_externalities :: "('x \<Rightarrow> ('r \<times> 'x) option) \<Rightarrow> ('x, 'r) hosted" where
  "with_externalities f env =
     (case env of None \<Rightarrow> None | Some ext \<Rightarrow> map_option (map_prod id Some) (f ext))"

text \<open>A closure that only reads, and one that cannot fail.\<close>

definition reading :: "('x \<Rightarrow> 'r option) \<Rightarrow> 'x \<Rightarrow> ('r \<times> 'x) option" where
  "reading f ext = map_option (\<lambda>r. (r, ext)) (f ext)"

definition writing :: "('x \<Rightarrow> 'x) \<Rightarrow> 'x \<Rightarrow> (unit \<times> 'x) option" where
  "writing f ext = Some ((), f ext)"

text \<open>The closure runs on fresh externalities over the backend; the environment is put back afterwards.\<close>

definition run_with_externalities ::
  "('x, 'm, 'k) Externalities \<Rightarrow> tries \<Rightarrow> ('x, 'r) hosted \<Rightarrow> ('x, 'r) hosted" where
  "run_with_externalities X backend execute env =
     Option.bind (execute (Some (new_externalities X backend))) (\<lambda>(r, _). Some (r, env))"

subsection \<open>The replaced host functions\<close>

text \<open>Copying the part of a value from an offset on into a buffer.\<close>

definition read_into :: "bytes \<Rightarrow> bytes \<Rightarrow> u32 \<Rightarrow> u32 \<times> bytes" where
  "read_into v value_out value_offset =
     (let dat = drop (min (unat value_offset) (length v)) v;
          written = min (length dat) (length value_out)
      in (of_nat (length v), take written dat @ drop written value_out))"

definition read_found :: "bytes \<Rightarrow> u32 \<Rightarrow> bytes option \<Rightarrow> u32 option \<times> bytes" where
  "read_found value_out value_offset found =
     (case found of
        Some v \<Rightarrow> (case read_into v value_out value_offset of (n, value_out') \<Rightarrow> (Some n, value_out'))
      | None \<Rightarrow> (None, value_out))"

definition host_storage_read ::
  "('x, 'm, 'k) Externalities \<Rightarrow> bytes \<Rightarrow> bytes \<Rightarrow> u32 \<Rightarrow> ('x, u32 option \<times> bytes) hosted" where
  "host_storage_read X key value_out value_offset =
     with_externalities (reading (\<lambda>ext. map_option (read_found value_out value_offset) (ext_storage X key ext)))"

definition host_storage_set :: "('x, 'm, 'k) Externalities \<Rightarrow> bytes \<Rightarrow> bytes \<Rightarrow> ('x, unit) hosted" where
  "host_storage_set X key v = with_externalities (writing (ext_place_storage X key (Some v)))"

definition host_storage_get :: "('x, 'm, 'k) Externalities \<Rightarrow> bytes \<Rightarrow> ('x, bytes option) hosted" where
  "host_storage_get X key = with_externalities (reading (ext_storage X key))"

definition host_storage_exists :: "('x, 'm, 'k) Externalities \<Rightarrow> bytes \<Rightarrow> ('x, bool) hosted" where
  "host_storage_exists X key = with_externalities (reading (ext_exists_storage X key))"

definition host_storage_clear :: "('x, 'm, 'k) Externalities \<Rightarrow> bytes \<Rightarrow> ('x, unit) hosted" where
  "host_storage_clear X key = with_externalities (writing (ext_place_storage X key None))"

definition host_storage_root :: "('x, 'm, 'k) Externalities \<Rightarrow> StateVersion \<Rightarrow> ('x, bytes) hosted" where
  "host_storage_root X version = with_externalities (ext_storage_root X version)"

definition host_storage_clear_prefix ::
  "('x, 'm, 'k) Externalities \<Rightarrow> bytes \<Rightarrow> u32 option \<Rightarrow> ('x, 'k) hosted" where
  "host_storage_clear_prefix X prefix limit = with_externalities (\<lambda>ext.
     map_option (map_prod (kill_result_from X) id) (ext_clear_prefix X prefix limit None ext))"

definition host_storage_append :: "('x, 'm, 'k) Externalities \<Rightarrow> bytes \<Rightarrow> bytes \<Rightarrow> ('x, unit) hosted" where
  "host_storage_append X key v =
     with_externalities (\<lambda>ext. map_option (\<lambda>ext'. ((), ext')) (ext_storage_append X key v ext))"

definition host_storage_next_key :: "('x, 'm, 'k) Externalities \<Rightarrow> bytes \<Rightarrow> ('x, bytes option) hosted" where
  "host_storage_next_key X key = with_externalities (reading (ext_next_storage_key X key))"

definition host_storage_start_transaction :: "('x, 'm, 'k) Externalities \<Rightarrow> ('x, unit) hosted" where
  "host_storage_start_transaction X = with_externalities (writing (ext_start_transaction X))"

text \<open>\<^verbatim>\<open>.ok()\<close> inside and \<^verbatim>\<open>expect\<close> outside: an error of the externalities is a panic.\<close>

fun expect_ok :: "((unit, unit) result \<times> 'x option) option \<Rightarrow> (unit \<times> 'x option) option" where
  "expect_ok (Some (Ok u, env)) = Some (u, env)"
| "expect_ok _ = None"

definition host_storage_rollback_transaction :: "('x, 'm, 'k) Externalities \<Rightarrow> ('x, unit) hosted" where
  "host_storage_rollback_transaction X env =
     expect_ok (with_externalities (\<lambda>ext. Some (ext_rollback_transaction X ext)) env)"

definition host_storage_commit_transaction :: "('x, 'm, 'k) Externalities \<Rightarrow> ('x, unit) hosted" where
  "host_storage_commit_transaction X env =
     expect_ok (with_externalities (\<lambda>ext. Some (ext_commit_transaction X ext)) env)"

definition host_default_child_storage_get ::
  "('x, 'm, 'k) Externalities \<Rightarrow> bytes \<Rightarrow> bytes \<Rightarrow> ('x, bytes option) hosted" where
  "host_default_child_storage_get X storage_key key =
     (let child_info = new_default_child storage_key
      in with_externalities (reading (ext_child_storage X child_info key)))"

definition host_default_child_storage_read ::
  "('x, 'm, 'k) Externalities \<Rightarrow> bytes \<Rightarrow> bytes \<Rightarrow> bytes \<Rightarrow> u32 \<Rightarrow> ('x, u32 option \<times> bytes) hosted" where
  "host_default_child_storage_read X storage_key key value_out value_offset =
     (let child_info = new_default_child storage_key
      in with_externalities (reading (\<lambda>ext.
           map_option (read_found value_out value_offset) (ext_child_storage X child_info key ext))))"

definition host_default_child_storage_set ::
  "('x, 'm, 'k) Externalities \<Rightarrow> bytes \<Rightarrow> bytes \<Rightarrow> bytes \<Rightarrow> ('x, unit) hosted" where
  "host_default_child_storage_set X storage_key key v =
     (let child_info = new_default_child storage_key
      in with_externalities (writing (ext_place_child_storage X child_info key (Some v))))"

definition host_default_child_storage_clear ::
  "('x, 'm, 'k) Externalities \<Rightarrow> bytes \<Rightarrow> bytes \<Rightarrow> ('x, unit) hosted" where
  "host_default_child_storage_clear X storage_key key =
     (let child_info = new_default_child storage_key
      in with_externalities (writing (ext_place_child_storage X child_info key None)))"

definition host_default_child_storage_storage_kill ::
  "('x, 'm, 'k) Externalities \<Rightarrow> bytes \<Rightarrow> u32 option \<Rightarrow> ('x, 'k) hosted" where
  "host_default_child_storage_storage_kill X storage_key limit =
     (let child_info = new_default_child storage_key
      in with_externalities (\<lambda>ext.
           map_option (map_prod (kill_result_from X) id) (ext_kill_child_storage X child_info limit None ext)))"

definition host_default_child_storage_exists ::
  "('x, 'm, 'k) Externalities \<Rightarrow> bytes \<Rightarrow> bytes \<Rightarrow> ('x, bool) hosted" where
  "host_default_child_storage_exists X storage_key key =
     (let child_info = new_default_child storage_key
      in with_externalities (reading (ext_exists_child_storage X child_info key)))"

definition host_default_child_storage_clear_prefix ::
  "('x, 'm, 'k) Externalities \<Rightarrow> bytes \<Rightarrow> bytes \<Rightarrow> u32 option \<Rightarrow> ('x, 'k) hosted" where
  "host_default_child_storage_clear_prefix X storage_key prefix limit =
     (let child_info = new_default_child storage_key
      in with_externalities (\<lambda>ext.
           map_option (map_prod (kill_result_from X) id) (ext_clear_child_prefix X child_info prefix limit None ext)))"

definition host_default_child_storage_root ::
  "('x, 'm, 'k) Externalities \<Rightarrow> bytes \<Rightarrow> StateVersion \<Rightarrow> ('x, bytes) hosted" where
  "host_default_child_storage_root X storage_key version =
     (let child_info = new_default_child storage_key
      in with_externalities (ext_child_storage_root X child_info version))"

definition host_default_child_storage_next_key ::
  "('x, 'm, 'k) Externalities \<Rightarrow> bytes \<Rightarrow> bytes \<Rightarrow> ('x, bytes option) hosted" where
  "host_default_child_storage_next_key X storage_key key =
     (let child_info = new_default_child storage_key
      in with_externalities (reading (ext_next_child_storage_key X child_info key)))"

text \<open>The off-chain index is not available to validators: both functions do nothing.\<close>

definition host_offchain_index_set :: "bytes \<Rightarrow> bytes \<Rightarrow> ('x, unit) hosted" where
  "host_offchain_index_set key v env = Some ((), env)"

definition host_offchain_index_clear :: "bytes \<Rightarrow> ('x, unit) hosted" where
  "host_offchain_index_clear key env = Some ((), env)"

subsection \<open>What the externalities promise\<close>

text \<open>
  What a backend computes over several keys: roots (which may note a child's root in the top trie), the next key, the removal of a prefix (whose limit
  counts the backend's keys), and how a value is appended to an encoded list.
\<close>

record 'm trie_functions =
  child_key :: "bytes \<Rightarrow> bool"
  root_of :: "ChildInfo option \<Rightarrow> StateVersion \<Rightarrow> tries \<Rightarrow> (bytes \<times> tries) option"
  next_of :: "ChildInfo option \<Rightarrow> bytes \<Rightarrow> tries \<Rightarrow> bytes option option"
  clear_of :: "ChildInfo option \<Rightarrow> bytes \<Rightarrow> u32 option \<Rightarrow> tries \<Rightarrow> tries \<Rightarrow> ('m \<times> tries) option"
  append_to :: "bytes \<Rightarrow> bytes \<Rightarrow> bytes"

fun trie_at :: "ChildInfo option \<Rightarrow> tries \<Rightarrow> known" where
  "trie_at None t = top_trie t"
| "trie_at (Some ci) t = child_tries t ci"

fun put_at :: "ChildInfo option \<Rightarrow> bytes \<Rightarrow> bytes option \<Rightarrow> tries \<Rightarrow> tries" where
  "put_at None k v t = t\<lparr>top_trie := (top_trie t)(k \<mapsto> v)\<rparr>"
| "put_at (Some ci) k v t = t\<lparr>child_tries := (child_tries t)(ci := (child_tries t ci)(k \<mapsto> v))\<rparr>"

definition place_top :: "(bytes \<Rightarrow> bool) \<Rightarrow> bytes \<Rightarrow> bytes option \<Rightarrow> tries \<Rightarrow> tries" where
  "place_top refused k v t = (if refused k then t else put_at None k v t)"

text \<open>The second knows at least what the first knows.\<close>

definition extends :: "tries \<Rightarrow> tries \<Rightarrow> bool" where
  "extends t t' \<longleftrightarrow> (\<forall>c k v. trie_at c t k = Some v \<longrightarrow> trie_at c t' k = Some v)"

locale trie_laws =
  fixes T :: "'m trie_functions"
  assumes root_more: "extends t t' \<Longrightarrow> root_of T c ver t = Some (r, u)
      \<Longrightarrow> \<exists>u'. root_of T c ver t' = Some (r, u') \<and> extends u u'"
    and next_more: "extends t t' \<Longrightarrow> next_of T c k t = Some nk \<Longrightarrow> next_of T c k t' = Some nk"
    and clear_more: "clear_of T c p limit b t = Some (m, u) \<Longrightarrow> extends b b' \<Longrightarrow> extends t t'
      \<Longrightarrow> \<exists>u'. clear_of T c p limit b' t' = Some (m, u') \<and> extends u u'"

record snapshots =
  snap_backend :: tries
  snap_current :: tries
  snap_saved :: "tries list"

definition fresh_snapshots :: "tries \<Rightarrow> snapshots" where
  "fresh_snapshots t = \<lparr>snap_backend = t, snap_current = t, snap_saved = []\<rparr>"

text \<open>The plain operations: on the current tries, with a copy saved for every open transaction.\<close>

type_synonym 'r plain_op = "snapshots \<Rightarrow> ('r \<times> snapshots) option"

definition plain_get :: "ChildInfo option \<Rightarrow> bytes \<Rightarrow> bytes option plain_op" where
  "plain_get c k s = map_option (\<lambda>v. (v, s)) (trie_at c (snap_current s) k)"

text \<open>A read delivers the value's length and overwrites the front of the buffer with the value from the offset on.\<close>

definition plain_read :: "ChildInfo option \<Rightarrow> bytes \<Rightarrow> bytes \<Rightarrow> u32 \<Rightarrow> (u32 option \<times> bytes) plain_op" where
  "plain_read c k buf off s =
     (case trie_at c (snap_current s) k of
        None \<Rightarrow> None
      | Some None \<Rightarrow> Some ((None, buf), s)
      | Some (Some v) \<Rightarrow> Some ((Some (of_nat (length v)),
          take (length buf) (drop (unat off) v) @ drop (length v - unat off) buf), s))"

definition plain_exists :: "ChildInfo option \<Rightarrow> bytes \<Rightarrow> bool plain_op" where
  "plain_exists c k s = map_option (\<lambda>v. (v \<noteq> None, s)) (trie_at c (snap_current s) k)"

definition plain_change :: "(tries \<Rightarrow> tries) \<Rightarrow> unit plain_op" where
  "plain_change f s = Some ((), s\<lparr>snap_current := f (snap_current s)\<rparr>)"

definition plain_append :: "'m trie_functions \<Rightarrow> bytes \<Rightarrow> bytes \<Rightarrow> unit plain_op" where
  "plain_append T k v s =
     map_option (\<lambda>found. ((), s\<lparr>snap_current := put_at None k
         (Some (append_to T (case found of Some b \<Rightarrow> b | None \<Rightarrow> []) v)) (snap_current s)\<rparr>))
       (trie_at None (snap_current s) k)"

definition plain_root :: "'m trie_functions \<Rightarrow> ChildInfo option \<Rightarrow> StateVersion \<Rightarrow> bytes plain_op" where
  "plain_root T c ver s =
     map_option (map_prod id (\<lambda>t. s\<lparr>snap_current := t\<rparr>)) (root_of T c ver (snap_current s))"

definition plain_next :: "'m trie_functions \<Rightarrow> ChildInfo option \<Rightarrow> bytes \<Rightarrow> bytes option plain_op" where
  "plain_next T c k s = map_option (\<lambda>r. (r, s)) (next_of T c k (snap_current s))"

definition plain_remove ::
  "'m trie_functions \<Rightarrow> ('m \<Rightarrow> 'k) \<Rightarrow> ChildInfo option \<Rightarrow> bytes \<Rightarrow> u32 option \<Rightarrow> 'k plain_op" where
  "plain_remove T kr c p limit s =
     map_option (map_prod kr (\<lambda>t. s\<lparr>snap_current := t\<rparr>)) (clear_of T c p limit (snap_backend s) (snap_current s))"

definition plain_start :: "unit plain_op" where
  "plain_start s = Some ((), s\<lparr>snap_saved := snap_current s # snap_saved s\<rparr>)"

definition plain_rollback :: "unit plain_op" where
  "plain_rollback s =
     (case snap_saved s of [] \<Rightarrow> None | t # ts \<Rightarrow> Some ((), s\<lparr>snap_current := t, snap_saved := ts\<rparr>))"

definition plain_commit :: "unit plain_op" where
  "plain_commit s = (case snap_saved s of [] \<Rightarrow> None | t # ts \<Rightarrow> Some ((), s\<lparr>snap_saved := ts\<rparr>))"

definition plain_skip :: "unit plain_op" where
  "plain_skip s = Some ((), s)"

text \<open>An operation of the externalities does what the plain one does, and panics where it does.\<close>

definition implements :: "('x \<Rightarrow> snapshots) \<Rightarrow> ('x \<Rightarrow> ('r \<times> 'x) option) \<Rightarrow> 'r plain_op \<Rightarrow> bool" where
  "implements state_of f m \<longleftrightarrow> (\<forall>x. map_option (map_prod id state_of) (f x) = m (state_of x))"

locale externalities_laws = trie_laws T for T :: "'m trie_functions" +
  fixes X :: "('x, 'm, 'k) Externalities"
    and state_of :: "'x \<Rightarrow> snapshots"
  assumes ext_storage: "implements state_of (reading (ext_storage X k)) (plain_get None k)"
    and ext_exists: "implements state_of (reading (ext_exists_storage X k)) (plain_exists None k)"
    and ext_place: "implements state_of (writing (ext_place_storage X k v)) (plain_change (place_top (child_key T) k v))"
    and ext_root: "implements state_of (ext_storage_root X ver) (plain_root T None ver)"
    and ext_clear: "implements state_of (ext_clear_prefix X p limit None) (plain_remove T id None p limit)"
    and ext_append: "implements state_of (\<lambda>x. map_option (\<lambda>x'. ((), x')) (ext_storage_append X k w x)) (plain_append T k w)"
    and ext_next: "implements state_of (reading (ext_next_storage_key X k)) (plain_next T None k)"
    and ext_start: "implements state_of (writing (ext_start_transaction X)) plain_start"
    and ext_rollback: "snap_saved (state_of x) = t # ts \<Longrightarrow> \<exists>x'. ext_rollback_transaction X x = (Ok (), x')
        \<and> state_of x' = (state_of x)\<lparr>snap_current := t, snap_saved := ts\<rparr>"
    and ext_rollback_closed: "snap_saved (state_of x) = [] \<Longrightarrow> \<exists>x'. ext_rollback_transaction X x = (Err (), x')"
    and ext_commit: "snap_saved (state_of x) = t # ts \<Longrightarrow> \<exists>x'. ext_commit_transaction X x = (Ok (), x')
        \<and> state_of x' = (state_of x)\<lparr>snap_saved := ts\<rparr>"
    and ext_commit_closed: "snap_saved (state_of x) = [] \<Longrightarrow> \<exists>x'. ext_commit_transaction X x = (Err (), x')"
    and ext_child: "implements state_of (reading (ext_child_storage X ci k)) (plain_get (Some ci) k)"
    and ext_exists_child: "implements state_of (reading (ext_exists_child_storage X ci k)) (plain_exists (Some ci) k)"
    and ext_place_child: "implements state_of (writing (ext_place_child_storage X ci k v)) (plain_change (put_at (Some ci) k v))"
    and ext_kill: "implements state_of (ext_kill_child_storage X ci limit None) (plain_remove T id (Some ci) [] limit)"
    and ext_clear_child: "implements state_of (ext_clear_child_prefix X ci p limit None) (plain_remove T id (Some ci) p limit)"
    and ext_child_root: "implements state_of (ext_child_storage_root X ci ver) (plain_root T (Some ci) ver)"
    and ext_next_child: "implements state_of (reading (ext_next_child_storage_key X ci k)) (plain_next T (Some ci) k)"
    and ext_fresh: "state_of (new_externalities X t) = fresh_snapshots t"

subsection \<open>Programs that use storage\<close>

datatype ('a, 'k) storage_program =
    Return 'a
  | Abort
  | ReadCall bytes bytes u32 "u32 option \<times> bytes \<Rightarrow> ('a, 'k) storage_program"
  | SetCall bytes bytes "unit \<Rightarrow> ('a, 'k) storage_program"
  | GetCall bytes "bytes option \<Rightarrow> ('a, 'k) storage_program"
  | ExistsCall bytes "bool \<Rightarrow> ('a, 'k) storage_program"
  | ClearCall bytes "unit \<Rightarrow> ('a, 'k) storage_program"
  | RootCall StateVersion "bytes \<Rightarrow> ('a, 'k) storage_program"
  | ClearPrefixCall bytes "u32 option" "'k \<Rightarrow> ('a, 'k) storage_program"
  | AppendCall bytes bytes "unit \<Rightarrow> ('a, 'k) storage_program"
  | NextKeyCall bytes "bytes option \<Rightarrow> ('a, 'k) storage_program"
  | StartCall "unit \<Rightarrow> ('a, 'k) storage_program"
  | RollbackCall "unit \<Rightarrow> ('a, 'k) storage_program"
  | CommitCall "unit \<Rightarrow> ('a, 'k) storage_program"
  | ChildGetCall bytes bytes "bytes option \<Rightarrow> ('a, 'k) storage_program"
  | ChildReadCall bytes bytes bytes u32 "u32 option \<times> bytes \<Rightarrow> ('a, 'k) storage_program"
  | ChildSetCall bytes bytes bytes "unit \<Rightarrow> ('a, 'k) storage_program"
  | ChildClearCall bytes bytes "unit \<Rightarrow> ('a, 'k) storage_program"
  | ChildKillCall bytes "u32 option" "'k \<Rightarrow> ('a, 'k) storage_program"
  | ChildExistsCall bytes bytes "bool \<Rightarrow> ('a, 'k) storage_program"
  | ChildClearPrefixCall bytes bytes "u32 option" "'k \<Rightarrow> ('a, 'k) storage_program"
  | ChildRootCall bytes StateVersion "bytes \<Rightarrow> ('a, 'k) storage_program"
  | ChildNextKeyCall bytes bytes "bytes option \<Rightarrow> ('a, 'k) storage_program"
  | IndexSetCall bytes bytes "unit \<Rightarrow> ('a, 'k) storage_program"
  | IndexClearCall bytes "unit \<Rightarrow> ('a, 'k) storage_program"

definition hosted_bind :: "('x, 'r) hosted \<Rightarrow> ('r \<Rightarrow> ('x, 'q) hosted) \<Rightarrow> ('x, 'q) hosted" where
  "hosted_bind m f env = Option.bind (m env) (\<lambda>(r, env'). f r env')"

primrec run_hosted :: "('x, 'm, 'k) Externalities \<Rightarrow> ('a, 'k) storage_program \<Rightarrow> ('x, 'a) hosted" where
  "run_hosted X (Return a) = (\<lambda>env. Some (a, env))"
| "run_hosted X Abort = (\<lambda>env. None)"
| "run_hosted X (ReadCall k buf off f) = hosted_bind (host_storage_read X k buf off) (\<lambda>r. run_hosted X (f r))"
| "run_hosted X (SetCall k v f) = hosted_bind (host_storage_set X k v) (\<lambda>r. run_hosted X (f r))"
| "run_hosted X (GetCall k f) = hosted_bind (host_storage_get X k) (\<lambda>r. run_hosted X (f r))"
| "run_hosted X (ExistsCall k f) = hosted_bind (host_storage_exists X k) (\<lambda>r. run_hosted X (f r))"
| "run_hosted X (ClearCall k f) = hosted_bind (host_storage_clear X k) (\<lambda>r. run_hosted X (f r))"
| "run_hosted X (RootCall ver f) = hosted_bind (host_storage_root X ver) (\<lambda>r. run_hosted X (f r))"
| "run_hosted X (ClearPrefixCall p limit f) = hosted_bind (host_storage_clear_prefix X p limit) (\<lambda>r. run_hosted X (f r))"
| "run_hosted X (AppendCall k v f) = hosted_bind (host_storage_append X k v) (\<lambda>r. run_hosted X (f r))"
| "run_hosted X (NextKeyCall k f) = hosted_bind (host_storage_next_key X k) (\<lambda>r. run_hosted X (f r))"
| "run_hosted X (StartCall f) = hosted_bind (host_storage_start_transaction X) (\<lambda>r. run_hosted X (f r))"
| "run_hosted X (RollbackCall f) = hosted_bind (host_storage_rollback_transaction X) (\<lambda>r. run_hosted X (f r))"
| "run_hosted X (CommitCall f) = hosted_bind (host_storage_commit_transaction X) (\<lambda>r. run_hosted X (f r))"
| "run_hosted X (ChildGetCall c k f) = hosted_bind (host_default_child_storage_get X c k) (\<lambda>r. run_hosted X (f r))"
| "run_hosted X (ChildReadCall c k buf off f) =
     hosted_bind (host_default_child_storage_read X c k buf off) (\<lambda>r. run_hosted X (f r))"
| "run_hosted X (ChildSetCall c k v f) = hosted_bind (host_default_child_storage_set X c k v) (\<lambda>r. run_hosted X (f r))"
| "run_hosted X (ChildClearCall c k f) = hosted_bind (host_default_child_storage_clear X c k) (\<lambda>r. run_hosted X (f r))"
| "run_hosted X (ChildKillCall c limit f) =
     hosted_bind (host_default_child_storage_storage_kill X c limit) (\<lambda>r. run_hosted X (f r))"
| "run_hosted X (ChildExistsCall c k f) = hosted_bind (host_default_child_storage_exists X c k) (\<lambda>r. run_hosted X (f r))"
| "run_hosted X (ChildClearPrefixCall c p limit f) =
     hosted_bind (host_default_child_storage_clear_prefix X c p limit) (\<lambda>r. run_hosted X (f r))"
| "run_hosted X (ChildRootCall c ver f) = hosted_bind (host_default_child_storage_root X c ver) (\<lambda>r. run_hosted X (f r))"
| "run_hosted X (ChildNextKeyCall c k f) = hosted_bind (host_default_child_storage_next_key X c k) (\<lambda>r. run_hosted X (f r))"
| "run_hosted X (IndexSetCall k v f) = hosted_bind (host_offchain_index_set k v) (\<lambda>r. run_hosted X (f r))"
| "run_hosted X (IndexClearCall k f) = hosted_bind (host_offchain_index_clear k) (\<lambda>r. run_hosted X (f r))"

definition plain_bind :: "'r plain_op \<Rightarrow> ('r \<Rightarrow> 'q plain_op) \<Rightarrow> 'q plain_op" where
  "plain_bind m f s = Option.bind (m s) (\<lambda>(r, s'). f r s')"

primrec run_plain :: "'m trie_functions \<Rightarrow> ('m \<Rightarrow> 'k) \<Rightarrow> ('a, 'k) storage_program \<Rightarrow> 'a plain_op" where
  "run_plain T kr (Return a) = (\<lambda>s. Some (a, s))"
| "run_plain T kr Abort = (\<lambda>s. None)"
| "run_plain T kr (ReadCall k buf off f) = plain_bind (plain_read None k buf off) (\<lambda>r. run_plain T kr (f r))"
| "run_plain T kr (SetCall k v f) = plain_bind (plain_change (place_top (child_key T) k (Some v))) (\<lambda>r. run_plain T kr (f r))"
| "run_plain T kr (GetCall k f) = plain_bind (plain_get None k) (\<lambda>r. run_plain T kr (f r))"
| "run_plain T kr (ExistsCall k f) = plain_bind (plain_exists None k) (\<lambda>r. run_plain T kr (f r))"
| "run_plain T kr (ClearCall k f) = plain_bind (plain_change (place_top (child_key T) k None)) (\<lambda>r. run_plain T kr (f r))"
| "run_plain T kr (RootCall ver f) = plain_bind (plain_root T None ver) (\<lambda>r. run_plain T kr (f r))"
| "run_plain T kr (ClearPrefixCall p limit f) = plain_bind (plain_remove T kr None p limit) (\<lambda>r. run_plain T kr (f r))"
| "run_plain T kr (AppendCall k v f) = plain_bind (plain_append T k v) (\<lambda>r. run_plain T kr (f r))"
| "run_plain T kr (NextKeyCall k f) = plain_bind (plain_next T None k) (\<lambda>r. run_plain T kr (f r))"
| "run_plain T kr (StartCall f) = plain_bind plain_start (\<lambda>r. run_plain T kr (f r))"
| "run_plain T kr (RollbackCall f) = plain_bind plain_rollback (\<lambda>r. run_plain T kr (f r))"
| "run_plain T kr (CommitCall f) = plain_bind plain_commit (\<lambda>r. run_plain T kr (f r))"
| "run_plain T kr (ChildGetCall c k f) = plain_bind (plain_get (Some (ParentKeyId c)) k) (\<lambda>r. run_plain T kr (f r))"
| "run_plain T kr (ChildReadCall c k buf off f) =
     plain_bind (plain_read (Some (ParentKeyId c)) k buf off) (\<lambda>r. run_plain T kr (f r))"
| "run_plain T kr (ChildSetCall c k v f) =
     plain_bind (plain_change (put_at (Some (ParentKeyId c)) k (Some v))) (\<lambda>r. run_plain T kr (f r))"
| "run_plain T kr (ChildClearCall c k f) =
     plain_bind (plain_change (put_at (Some (ParentKeyId c)) k None)) (\<lambda>r. run_plain T kr (f r))"
| "run_plain T kr (ChildKillCall c limit f) =
     plain_bind (plain_remove T kr (Some (ParentKeyId c)) [] limit) (\<lambda>r. run_plain T kr (f r))"
| "run_plain T kr (ChildExistsCall c k f) = plain_bind (plain_exists (Some (ParentKeyId c)) k) (\<lambda>r. run_plain T kr (f r))"
| "run_plain T kr (ChildClearPrefixCall c p limit f) =
     plain_bind (plain_remove T kr (Some (ParentKeyId c)) p limit) (\<lambda>r. run_plain T kr (f r))"
| "run_plain T kr (ChildRootCall c ver f) = plain_bind (plain_root T (Some (ParentKeyId c)) ver) (\<lambda>r. run_plain T kr (f r))"
| "run_plain T kr (ChildNextKeyCall c k f) = plain_bind (plain_next T (Some (ParentKeyId c)) k) (\<lambda>r. run_plain T kr (f r))"
| "run_plain T kr (IndexSetCall k v f) = plain_bind plain_skip (\<lambda>r. run_plain T kr (f r))"
| "run_plain T kr (IndexClearCall k f) = plain_bind plain_skip (\<lambda>r. run_plain T kr (f r))"

text \<open>The executive's storage calls at both ends of a block, and those for the relay parent number, as programs.\<close>

definition open_block_program :: "host \<Rightarrow> Header \<Rightarrow> (unit, 'k) storage_program" where
  "open_block_program H h =
     SetCall HEADER_KEY (encode (header_codec H) h) (\<lambda>_.
     SetCall HEIGHT_KEY (encode (u32_codec H) (number h)) (\<lambda>_. Return ()))"

definition close_block_program :: "host \<Rightarrow> (Header, 'k) storage_program" where
  "close_block_program H =
     GetCall HEADER_KEY (\<lambda>d. case Option.bind d (decode_value (header_codec H)) of
       None \<Rightarrow> Abort
     | Some h \<Rightarrow>
       ClearCall HEADER_KEY (\<lambda>_.
       GetCall EXTRINSIC_KEY (\<lambda>d.
        let xs = (case Option.bind d (decode_value (bytes_list_codec H)) of Some xs \<Rightarrow> xs | None \<Rightarrow> []);
            h1 = h\<lparr>extrinsics_root := ordered_trie_root H xs\<rparr>
        in ClearCall EXTRINSIC_KEY (\<lambda>_.
           RootCall V1 (\<lambda>raw. case decode_value (h256_codec H) raw of
            None \<Rightarrow> Abort
          | Some sr \<Rightarrow> Return (h1\<lparr>state_root := sr\<rparr>))))))"

definition get_relay_program :: "host \<Rightarrow> (u32, 'k) storage_program" where
  "get_relay_program H = GetCall RELAY_PARENT_NUMBER_KEY (\<lambda>d.
     case Option.bind d (decode_value (u32_codec H)) of None \<Rightarrow> Abort | Some n \<Rightarrow> Return n)"

definition set_relay_program :: "host \<Rightarrow> u32 \<Rightarrow> (unit, 'k) storage_program" where
  "set_relay_program H n = SetCall RELAY_PARENT_NUMBER_KEY (encode (u32_codec H) n) (\<lambda>_. Return ())"

subsection \<open>Reading into a buffer\<close>

lemma read_into_plain:
  "read_into v buf off = (of_nat (length v), take (length buf) (drop (unat off) v) @ drop (length v - unat off) buf)"
proof -
  have "take (min (length v - unat off) (length buf)) (drop (min (unat off) (length v)) v)
      = take (length buf) (drop (unat off) v)"
    by (cases "unat off \<le> length v") (simp_all add: min_def)
  moreover have "drop (min (length v - unat off) (length buf)) buf = drop (length v - unat off) buf"
    by (simp add: min_def)
  ultimately show ?thesis
    by (simp add: read_into_def Let_def min_def split: if_splits)
qed

lemma plain_read_found: "plain_read c k buf off s = map_option (map_prod (read_found buf off) id) (plain_get c k s)"
  by (simp add: plain_read_def plain_get_def read_found_def read_into_plain split: option.split)

subsection \<open>The host functions implement the plain semantics\<close>

lemma with_externalities_simps [simp]:
  "with_externalities f (Some x) = map_option (map_prod id Some) (f x)" "with_externalities f None = None"
  by (simp_all add: with_externalities_def)

definition host_implements :: "('x \<Rightarrow> snapshots) \<Rightarrow> ('x, 'r) hosted \<Rightarrow> 'r plain_op \<Rightarrow> bool" where
  "host_implements state_of h m \<longleftrightarrow>
     (\<forall>x. map_option (map_prod id (map_option state_of)) (h (Some x)) = map_option (map_prod id Some) (m (state_of x)))"

lemma host_implements_with:
  "implements state_of f m \<Longrightarrow> host_implements state_of (with_externalities f) m"
  unfolding implements_def host_implements_def
proof
  fix x
  assume "\<forall>x. map_option (map_prod id state_of) (f x) = m (state_of x)"
  then have "m (state_of x) = map_option (map_prod id state_of) (f x)" by simp
  then show "map_option (map_prod id (map_option state_of)) (with_externalities f (Some x)) = map_option (map_prod id Some) (m (state_of x))"
    by (cases "f x") (auto simp: with_externalities_def)
qed

lemma host_implements_bind:
  assumes "host_implements state_of h m" "\<And>r. host_implements state_of (k r) (n r)"
  shows "host_implements state_of (hosted_bind h k) (plain_bind m n)"
  unfolding host_implements_def
proof
  fix x
  from assms(1) have "map_option (map_prod id (map_option state_of)) (h (Some x)) = map_option (map_prod id Some) (m (state_of x))"
    by (simp add: host_implements_def)
  then show "map_option (map_prod id (map_option state_of)) (hosted_bind h k (Some x))
      = map_option (map_prod id Some) (plain_bind m n (state_of x))"
    using assms(2) by (cases "h (Some x)"; cases "m (state_of x)") (auto simp: hosted_bind_def plain_bind_def host_implements_def)
qed

lemma implements_mapped:
  "implements state_of f m \<Longrightarrow> implements state_of (\<lambda>x. map_option (map_prod g id) (f x)) (\<lambda>s. map_option (map_prod g id) (m s))"
  unfolding implements_def
proof
  fix x
  assume "\<forall>x. map_option (map_prod id state_of) (f x) = m (state_of x)"
  then have "m (state_of x) = map_option (map_prod id state_of) (f x)" by simp
  then show "map_option (map_prod id state_of) (map_option (map_prod g id) (f x)) = map_option (map_prod g id) (m (state_of x))"
    by (cases "f x") auto
qed

lemma reading_mapped: "reading (\<lambda>x. map_option g (f x)) = (\<lambda>x. map_option (map_prod g id) (reading f x))"
  by (simp add: reading_def option.map_comp comp_def fun_eq_iff)

lemma plain_remove_mapped: "plain_remove T kr c p limit = (\<lambda>s. map_option (map_prod kr id) (plain_remove T id c p limit s))"
proof
  fix s
  show "plain_remove T kr c p limit s = map_option (map_prod kr id) (plain_remove T id c p limit s)"
    by (cases "clear_of T c p limit (snap_backend s) (snap_current s)") (auto simp: plain_remove_def)
qed

context externalities_laws
begin

lemma rollback_implements: "host_implements state_of (host_storage_rollback_transaction X) plain_rollback"
  unfolding host_implements_def
proof
  fix x
  show "map_option (map_prod id (map_option state_of)) (host_storage_rollback_transaction X (Some x))
      = map_option (map_prod id Some) (plain_rollback (state_of x))"
    using ext_rollback [of x] ext_rollback_closed [of x]
    by (cases "snap_saved (state_of x)") (auto simp: host_storage_rollback_transaction_def plain_rollback_def)
qed

lemma commit_implements: "host_implements state_of (host_storage_commit_transaction X) plain_commit"
  unfolding host_implements_def
proof
  fix x
  show "map_option (map_prod id (map_option state_of)) (host_storage_commit_transaction X (Some x))
      = map_option (map_prod id Some) (plain_commit (state_of x))"
    using ext_commit [of x] ext_commit_closed [of x]
    by (cases "snap_saved (state_of x)") (auto simp: host_storage_commit_transaction_def plain_commit_def)
qed

lemma index_implements:
  "host_implements state_of (host_offchain_index_set k v) plain_skip" "host_implements state_of (host_offchain_index_clear k) plain_skip"
  by (simp_all add: host_implements_def host_offchain_index_set_def host_offchain_index_clear_def plain_skip_def)

lemma top_functions_implement:
  "host_implements state_of (host_storage_get X k) (plain_get None k)"
  "host_implements state_of (host_storage_exists X k) (plain_exists None k)"
  "host_implements state_of (host_storage_set X k b) (plain_change (place_top (child_key T) k (Some b)))"
  "host_implements state_of (host_storage_clear X k) (plain_change (place_top (child_key T) k None))"
  "host_implements state_of (host_storage_root X ver) (plain_root T None ver)"
  "host_implements state_of (host_storage_append X k b) (plain_append T k b)"
  "host_implements state_of (host_storage_next_key X k) (plain_next T None k)"
  "host_implements state_of (host_storage_start_transaction X) plain_start"
  unfolding host_storage_get_def host_storage_exists_def host_storage_set_def host_storage_clear_def host_storage_root_def
    host_storage_append_def host_storage_next_key_def host_storage_start_transaction_def
  by (intro host_implements_with ext_storage ext_exists ext_place ext_root ext_append ext_next ext_start)+

lemmas host_functions_implement = top_functions_implement rollback_implements commit_implements index_implements

lemma read_implements: "host_implements state_of (host_storage_read X k buf off) (plain_read None k buf off)"
  unfolding host_storage_read_def reading_mapped plain_read_found [abs_def]
  by (intro host_implements_with implements_mapped ext_storage)

lemma clear_prefix_implements:
  "host_implements state_of (host_storage_clear_prefix X p limit) (plain_remove T (kill_result_from X) None p limit)"
  unfolding host_storage_clear_prefix_def plain_remove_mapped [of T "kill_result_from X"]
  by (intro host_implements_with implements_mapped ext_clear)

lemma child_functions_implement:
  "host_implements state_of (host_default_child_storage_get X c k) (plain_get (Some (ParentKeyId c)) k)"
  "host_implements state_of (host_default_child_storage_read X c k buf off) (plain_read (Some (ParentKeyId c)) k buf off)"
  "host_implements state_of (host_default_child_storage_set X c k v) (plain_change (put_at (Some (ParentKeyId c)) k (Some v)))"
  "host_implements state_of (host_default_child_storage_clear X c k) (plain_change (put_at (Some (ParentKeyId c)) k None))"
  "host_implements state_of (host_default_child_storage_storage_kill X c limit)
     (plain_remove T (kill_result_from X) (Some (ParentKeyId c)) [] limit)"
  "host_implements state_of (host_default_child_storage_exists X c k) (plain_exists (Some (ParentKeyId c)) k)"
  "host_implements state_of (host_default_child_storage_clear_prefix X c p limit)
     (plain_remove T (kill_result_from X) (Some (ParentKeyId c)) p limit)"
  "host_implements state_of (host_default_child_storage_root X c ver) (plain_root T (Some (ParentKeyId c)) ver)"
  "host_implements state_of (host_default_child_storage_next_key X c k) (plain_next T (Some (ParentKeyId c)) k)"
  unfolding host_default_child_storage_get_def host_default_child_storage_read_def host_default_child_storage_set_def
    host_default_child_storage_clear_def host_default_child_storage_storage_kill_def host_default_child_storage_exists_def
    host_default_child_storage_clear_prefix_def host_default_child_storage_root_def host_default_child_storage_next_key_def
    new_default_child_def Let_def reading_mapped plain_read_found [abs_def] plain_remove_mapped [of T "kill_result_from X"]
  by (intro host_implements_with implements_mapped ext_child ext_place_child ext_kill ext_exists_child ext_clear_child
      ext_child_root ext_next_child)+

lemma program_refines: "host_implements state_of (run_hosted X p) (run_plain T (kill_result_from X) p)"
proof (induction p)
  case (Return a)
  then show ?case by (simp add: host_implements_def)
next
  case Abort
  then show ?case by (simp add: host_implements_def)
qed (simp_all only: run_hosted.simps run_plain.simps,
    (intro host_implements_bind host_functions_implement read_implements clear_prefix_implements child_functions_implement; simp)+)

end

subsection \<open>Knowing more\<close>

definition snap_extends :: "snapshots \<Rightarrow> snapshots \<Rightarrow> bool" where
  "snap_extends s s' \<longleftrightarrow> extends (snap_backend s) (snap_backend s') \<and> extends (snap_current s) (snap_current s')
     \<and> list_all2 extends (snap_saved s) (snap_saved s')"

definition monotone_op :: "'r plain_op \<Rightarrow> bool" where
  "monotone_op m \<longleftrightarrow> (\<forall>s s' r u. snap_extends s s' \<longrightarrow> m s = Some (r, u) \<longrightarrow> (\<exists>u'. m s' = Some (r, u') \<and> snap_extends u u'))"

lemma monotone_bind:
  assumes "monotone_op m" "\<And>r. monotone_op (n r)"
  shows "monotone_op (plain_bind m n)"
  unfolding monotone_op_def
proof (intro allI impI)
  fix s s' q u
  assume le: "snap_extends s s'" and run: "plain_bind m n s = Some (q, u)"
  then obtain r w where "m s = Some (r, w)" "n r w = Some (q, u)" by (auto simp: plain_bind_def bind_eq_Some_conv)
  moreover from this(1) le assms(1) obtain w' where "m s' = Some (r, w')" "snap_extends w w'"
    unfolding monotone_op_def by blast
  ultimately show "\<exists>u'. plain_bind m n s' = Some (q, u') \<and> snap_extends u u'"
    using assms(2) unfolding monotone_op_def by (simp add: plain_bind_def)
qed

lemma trie_at_put [simp]:
  "trie_at c (put_at c' k' v t) k = (if c = c' \<and> k = k' then Some v else trie_at c t k)"
  by (cases c; cases c') auto

lemma extends_put: "extends t t' \<Longrightarrow> extends (put_at c k v t) (put_at c k v t')"
  by (simp add: extends_def)

lemma extends_place: "extends t t' \<Longrightarrow> extends (place_top refused k v t) (place_top refused k v t')"
  by (cases "refused k") (simp_all add: place_top_def extends_put del: put_at.simps)

lemma monotone_change: "(\<And>t t'. extends t t' \<Longrightarrow> extends (f t) (f t')) \<Longrightarrow> monotone_op (plain_change f)"
  by (auto simp: monotone_op_def plain_change_def snap_extends_def)

lemma monotone_get: "monotone_op (plain_get c k)"
  by (auto simp: monotone_op_def plain_get_def snap_extends_def extends_def)

lemma monotone_mapped: "monotone_op m \<Longrightarrow> monotone_op (\<lambda>s. map_option (map_prod g id) (m s))"
  unfolding monotone_op_def by clarsimp fastforce

lemma monotone_read: "monotone_op (plain_read c k buf off)"
  unfolding plain_read_found [abs_def] by (rule monotone_mapped [OF monotone_get])

lemma monotone_exists: "monotone_op (plain_exists c k)"
proof -
  have "plain_exists c k = (\<lambda>s. map_option (map_prod (\<lambda>v. v \<noteq> None) id) (plain_get c k s))"
    by (simp add: plain_exists_def plain_get_def fun_eq_iff option.map_comp comp_def)
  then show ?thesis using monotone_mapped [OF monotone_get] by simp
qed

lemma monotone_append: "monotone_op (plain_append T k v)"
  unfolding monotone_op_def
proof (intro allI impI)
  fix s s' r u
  assume le: "snap_extends s s'" and run: "plain_append T k v s = Some (r, u)"
  obtain found where found: "trie_at None (snap_current s) k = Some found" using run by (auto simp: plain_append_def)
  have "trie_at None (snap_current s') k = Some found" using le found unfolding snap_extends_def extends_def by blast
  then show "\<exists>u'. plain_append T k v s' = Some (r, u') \<and> snap_extends u u'"
    using le run found by (auto simp: plain_append_def snap_extends_def extends_put simp del: trie_at.simps put_at.simps)
qed

lemma monotone_transactions: "monotone_op plain_start" "monotone_op plain_rollback" "monotone_op plain_commit" "monotone_op plain_skip"
  by (auto simp: monotone_op_def plain_start_def plain_rollback_def plain_commit_def plain_skip_def snap_extends_def list_all2_Cons1
      split: list.splits)

context trie_laws
begin

lemma monotone_root: "monotone_op (plain_root T c ver)"
  unfolding monotone_op_def plain_root_def snap_extends_def by (clarsimp, drule (1) root_more, fastforce)

lemma monotone_next: "monotone_op (plain_next T c k)"
  unfolding monotone_op_def plain_next_def snap_extends_def by (clarsimp, drule (1) next_more, fastforce)

lemma monotone_remove: "monotone_op (plain_remove T kr c p limit)"
  unfolding monotone_op_def plain_remove_def snap_extends_def by (clarsimp, drule (2) clear_more, fastforce)

lemma program_monotone: "monotone_op (run_plain T kr p)"
proof (induction p)
  case (Return a)
  then show ?case by (simp add: monotone_op_def)
next
  case Abort
  then show ?case by (simp add: monotone_op_def)
qed (simp_all only: run_plain.simps,
    (intro monotone_bind monotone_read monotone_change extends_place extends_put monotone_get monotone_exists monotone_root
      monotone_remove monotone_append monotone_next monotone_transactions; simp)+)

end

context externalities_laws
begin

text \<open>A run on fresh externalities over what a proof covers.\<close>

lemma fresh_run:
  "run_with_externalities X t (run_hosted X p) env
    = map_option (\<lambda>(a, _). (a, env)) (run_plain T (kill_result_from X) p (fresh_snapshots t))"
proof -
  have "map_option (map_prod id (map_option state_of)) (run_hosted X p (Some (new_externalities X t)))
      = map_option (map_prod id Some) (run_plain T (kill_result_from X) p (fresh_snapshots t))"
    using program_refines unfolding host_implements_def ext_fresh [symmetric] by blast
  then show ?thesis
    by (auto simp: run_with_externalities_def split: option.splits)
      (cases "run_hosted X p (Some (new_externalities X t))";
       cases "run_plain T (kill_result_from X) p (fresh_snapshots t)"; auto)
qed

lemma partial_run:
  assumes "extends pf t" "run_with_externalities X pf (run_hosted X p) env = Some (a, env')"
  shows "env' = env \<and> run_with_externalities X t (run_hosted X p) env = Some (a, env)"
proof -
  obtain u where u: "run_plain T (kill_result_from X) p (fresh_snapshots pf) = Some (a, u)" "env' = env"
    using assms(2) by (auto simp: fresh_run)
  have "snap_extends (fresh_snapshots pf) (fresh_snapshots t)" using assms(1) by (simp add: snap_extends_def fresh_snapshots_def)
  then obtain u' where "run_plain T (kill_result_from X) p (fresh_snapshots t) = Some (a, u')"
    using program_monotone [of "kill_result_from X" p] u(1) unfolding monotone_op_def by blast
  then show ?thesis using u(2) by (simp add: fresh_run)
qed

end

subsection \<open>The executive on the host functions\<close>

text \<open>The whole of a state is known.\<close>

definition whole :: "storage \<Rightarrow> (ChildInfo \<Rightarrow> storage) \<Rightarrow> tries" where
  "whole s children = \<lparr>top_trie = (\<lambda>k. Some (s k)), child_tries = (\<lambda>ci k. Some (children ci k))\<rparr>"

lemma whole_simps [simp]:
  "top_trie (whole s ch) k = Some (s k)"
  "(whole s ch)\<lparr>top_trie := (top_trie (whole s ch))(k \<mapsto> v)\<rparr> = whole (s(k := v)) ch"
  by (auto simp: whole_def fun_eq_iff)

lemma place_top_whole [simp]: "\<not> refused k \<Longrightarrow> place_top refused k v (whole s ch) = whole (s(k := v)) ch"
  by (simp add: place_top_def)

lemmas plain_defs = plain_bind_def plain_change_def plain_get_def plain_root_def

lemma open_block_plain:
  assumes "\<not> child_key T HEADER_KEY" "\<not> child_key T HEIGHT_KEY" "snap_current st = whole s ch"
  shows "run_plain T kr (open_block_program H h) st = Some ((), st\<lparr>snap_current := whole (open_block H h s) ch\<rparr>)"
  using assms by (simp add: open_block_program_def open_block_def plain_defs)

lemma close_block_plain:
  assumes "\<not> child_key T HEADER_KEY" "\<not> child_key T EXTRINSIC_KEY" "snap_current st = whole s ch"
    and "\<And>s. root_of T None V1 (whole s ch) = Some (raw_storage_root H s, whole s ch)"
  shows "run_plain T kr (close_block_program H) st
    = map_option (\<lambda>(s', h). (h, st\<lparr>snap_current := whole s' ch\<rparr>)) (close_block H s)"
proof (cases "Option.bind (s HEADER_KEY) (decode_value (header_codec H))")
  case None
  then show ?thesis
    using assms by (simp add: close_block_program_def close_block_def plain_defs)
next
  case (Some h)
  let ?s = "s(HEADER_KEY := None, EXTRINSIC_KEY := None)"
  show ?thesis
    using assms Some
    by (cases "decode_value (h256_codec H) (raw_storage_root H ?s)")
      (simp_all add: close_block_program_def close_block_def noted_extrinsics_def current_state_root_def Let_def plain_defs)
qed

lemma relay_plain:
  assumes "\<not> child_key T RELAY_PARENT_NUMBER_KEY" "snap_current st = whole s ch"
  shows "run_plain T kr (set_relay_program H n) st = Some ((), st\<lparr>snap_current := whole (set_relay_parent_number H n s) ch\<rparr>)"
    and "run_plain T kr (get_relay_program H) st = map_option (\<lambda>n. (n, st)) (get_relay_parent_number H s)"
  using assms
  by (simp_all add: set_relay_program_def get_relay_program_def set_relay_parent_number_def
      get_relay_parent_number_def plain_defs split: option.split)

text \<open>
  A validator that closes a block on the replaced host functions gets the header \<open>close_block\<close> computes from
  the whole state, or panics; with the whole state known it panics only where \<open>close_block\<close> does.
\<close>

corollary hosted_close_block:
  assumes "externalities_laws T X state_of" "\<not> child_key T HEADER_KEY" "\<not> child_key T EXTRINSIC_KEY"
    and "\<And>s. root_of T None V1 (whole s ch) = Some (raw_storage_root H s, whole s ch)" and "extends pf (whole s ch)"
  shows "map_option fst (run_with_externalities X (whole s ch) (run_hosted X (close_block_program H)) env)
      = map_option snd (close_block H s)"
    and "run_with_externalities X pf (run_hosted X (close_block_program H)) env = Some (h, env')
      \<Longrightarrow> \<exists>s'. close_block H s = Some (s', h)"
proof -
  have run: "run_with_externalities X (whole s ch) (run_hosted X (close_block_program H)) env
      = map_option (\<lambda>(s', h). (h, env)) (close_block H s)"
    unfolding externalities_laws.fresh_run [OF assms(1)]
    using close_block_plain [OF assms(2,3) _ assms(4), where st = "fresh_snapshots (whole s ch)" and s = s and kr = "kill_result_from X"]
    by (cases "close_block H s") (auto simp: fresh_snapshots_def)
  then show "map_option fst (run_with_externalities X (whole s ch) (run_hosted X (close_block_program H)) env)
      = map_option snd (close_block H s)"
    by (cases "close_block H s") auto
  show "\<exists>s'. close_block H s = Some (s', h)"
    if "run_with_externalities X pf (run_hosted X (close_block_program H)) env = Some (h, env')"
    using externalities_laws.partial_run [OF assms(1,5) that] run by auto
qed


end
