(* ===== verification/Overlay_Externalities.thy ===== *)
theory Overlay_Externalities
  imports Host_Storage Reference_Host
begin

text \<open>
  Externalities built the way \<^verbatim>\<open>sp_state_machine\<close> documents its overlay: the backend is never
  changed, edits pile up in layers, and an open transaction is one more layer. They discharge the laws
  of \<open>externalities_laws\<close>, so that the refinement of the host functions is not vacuous. The backend knows single
  keys only: what needs a range of keys (the next key, the count for a limited removal) panics here, and so does a
  root when the one key that the reference host's root depends on is not covered.
\<close>

datatype edit =
    Put "ChildInfo option" bytes "bytes option"
  | Wipe "ChildInfo option" bytes

definition is_child_storage_key :: "bytes \<Rightarrow> bool" where
  "is_child_storage_key k = (take 15 k = byte_string '':child_storage:'')"

definition has_prefix :: "bytes \<Rightarrow> bytes \<Rightarrow> bool" where
  "has_prefix p k = (take (length p) k = p)"

definition wipe :: "bytes \<Rightarrow> known \<Rightarrow> known" where
  "wipe p s = (\<lambda>k. if has_prefix p k then Some None else s k)"

fun wipe_at :: "ChildInfo option \<Rightarrow> bytes \<Rightarrow> tries \<Rightarrow> tries" where
  "wipe_at None p t = t\<lparr>top_trie := wipe p (top_trie t)\<rparr>"
| "wipe_at (Some ci) p t = t\<lparr>child_tries := (child_tries t)(ci := wipe p (child_tries t ci))\<rparr>"

fun apply_edit :: "edit \<Rightarrow> tries \<Rightarrow> tries" where
  "apply_edit (Put c k v) t = put_at c k v t"
| "apply_edit (Wipe c p) t = wipe_at c p t"

record overlay =
  backend_tries :: tries
  current_edits :: "edit list"
  saved_edits :: "edit list list"

definition tries_after :: "tries \<Rightarrow> edit list \<Rightarrow> tries" where
  "tries_after b es = foldr apply_edit es b"

fun saved_tries :: "tries \<Rightarrow> edit list list \<Rightarrow> tries list" where
  "saved_tries b [] = []"
| "saved_tries b (es # ess) = tries_after b (es @ concat ess) # saved_tries b ess"

definition current_tries :: "overlay \<Rightarrow> tries" where
  "current_tries x = tries_after (backend_tries x) (current_edits x @ concat (saved_edits x))"

definition overlay_state :: "overlay \<Rightarrow> snapshots" where
  "overlay_state x = \<lparr>snap_backend = backend_tries x, snap_current = current_tries x,
     snap_saved = saved_tries (backend_tries x) (saved_edits x)\<rparr>"

definition add_edit :: "edit \<Rightarrow> overlay \<Rightarrow> overlay" where
  "add_edit e x = x\<lparr>current_edits := e # current_edits x\<rparr>"

definition place_edit :: "bytes \<Rightarrow> bytes option \<Rightarrow> overlay \<Rightarrow> overlay" where
  "place_edit k v x = (if is_child_storage_key k then x else add_edit (Put None k v) x)"

definition remove_edit :: "ChildInfo option \<Rightarrow> bytes \<Rightarrow> u32 option \<Rightarrow> overlay \<Rightarrow> (unit \<times> overlay) option" where
  "remove_edit c p limit x = (case limit of None \<Rightarrow> Some ((), add_edit (Wipe c p) x) | Some _ \<Rightarrow> None)"

definition append_edit :: "bytes \<Rightarrow> bytes \<Rightarrow> overlay \<Rightarrow> overlay option" where
  "append_edit k v x = (case top_trie (current_tries x) k of
     None \<Rightarrow> None
   | Some found \<Rightarrow> Some (add_edit (Put None k (Some ((case found of Some b \<Rightarrow> b | None \<Rightarrow> []) @ v))) x))"

fun rollback_edits :: "overlay \<Rightarrow> (unit, unit) result \<times> overlay" where
  "rollback_edits x = (case saved_edits x of
     [] \<Rightarrow> (Err (), x)
   | es # ess \<Rightarrow> (Ok (), x\<lparr>current_edits := es, saved_edits := ess\<rparr>))"

fun commit_edits :: "overlay \<Rightarrow> (unit, unit) result \<times> overlay" where
  "commit_edits x = (case saved_edits x of
     [] \<Rightarrow> (Err (), x)
   | es # ess \<Rightarrow> (Ok (), x\<lparr>current_edits := current_edits x @ es, saved_edits := ess\<rparr>))"

definition overlay_root :: "known \<Rightarrow> bytes option" where
  "overlay_root s = map_option (\<lambda>v. raw_storage_root ref_host (Map.empty(HEIGHT_KEY := v))) (s HEIGHT_KEY)"

definition overlay_tries :: "unit trie_functions" where
  "overlay_tries = \<lparr>
     child_key = is_child_storage_key,
     root_of = (\<lambda>c ver t. map_option (\<lambda>r. (r, t)) (overlay_root (trie_at c t))),
     next_of = (\<lambda>c k t. None),
     clear_of = (\<lambda>c p limit b t. case limit of None \<Rightarrow> Some ((), wipe_at c p t) | Some _ \<Rightarrow> None),
     append_to = (@)\<rparr>"

definition overlay_ext :: "(overlay, unit, unit) Externalities" where
  "overlay_ext = \<lparr>
     ext_storage = (\<lambda>k x. top_trie (current_tries x) k),
     ext_exists_storage = (\<lambda>k x. map_option (\<lambda>v. v \<noteq> None) (top_trie (current_tries x) k)),
     ext_place_storage = place_edit,
     ext_storage_root = (\<lambda>ver x. map_option (\<lambda>r. (r, x)) (overlay_root (top_trie (current_tries x)))),
     ext_clear_prefix = (\<lambda>p limit _. remove_edit None p limit),
     ext_storage_append = append_edit,
     ext_next_storage_key = (\<lambda>_ _. None),
     ext_start_transaction = (\<lambda>x. x\<lparr>current_edits := [], saved_edits := current_edits x # saved_edits x\<rparr>),
     ext_rollback_transaction = rollback_edits,
     ext_commit_transaction = commit_edits,
     ext_child_storage = (\<lambda>ci k x. child_tries (current_tries x) ci k),
     ext_exists_child_storage = (\<lambda>ci k x. map_option (\<lambda>v. v \<noteq> None) (child_tries (current_tries x) ci k)),
     ext_place_child_storage = (\<lambda>ci k v. add_edit (Put (Some ci) k v)),
     ext_kill_child_storage = (\<lambda>ci limit _. remove_edit (Some ci) [] limit),
     ext_clear_child_prefix = (\<lambda>ci p limit _. remove_edit (Some ci) p limit),
     ext_child_storage_root = (\<lambda>ci ver x. map_option (\<lambda>r. (r, x)) (overlay_root (child_tries (current_tries x) ci))),
     ext_next_child_storage_key = (\<lambda>_ _ _. None),
     kill_result_from = id,
     new_externalities = (\<lambda>t. \<lparr>backend_tries = t, current_edits = [], saved_edits = []\<rparr>)\<rparr>"

lemma trie_at_wipe [simp]:
  "trie_at c (wipe_at c' p t) k = (if c = c' \<and> has_prefix p k then Some None else trie_at c t k)"
  by (cases c; cases c') (auto simp: wipe_def)

lemma extends_wipe: "extends t t' \<Longrightarrow> extends (wipe_at c p t) (wipe_at c p t')"
  unfolding extends_def trie_at_wipe by simp

lemma overlay_state_add:
  "overlay_state (add_edit e x) = (overlay_state x)\<lparr>snap_current := apply_edit e (snap_current (overlay_state x))\<rparr>"
  by (simp add: overlay_state_def add_edit_def current_tries_def tries_after_def)

lemma overlay_state_simps [simp]:
  "snap_current (overlay_state x) = current_tries x" "(overlay_state x)\<lparr>snap_current := current_tries x\<rparr> = overlay_state x"
  "snap_backend (overlay_state x) = backend_tries x"
  by (simp_all add: overlay_state_def)

lemma overlay_state_open:
  "snap_saved (overlay_state x) = t # ts \<Longrightarrow> \<exists>es ess. saved_edits x = es # ess
     \<and> t = tries_after (backend_tries x) (es @ concat ess) \<and> ts = saved_tries (backend_tries x) ess"
  by (cases "saved_edits x") (auto simp: overlay_state_def)

lemma overlay_state_closed: "snap_saved (overlay_state x) = [] \<Longrightarrow> saved_edits x = []"
  by (cases "saved_edits x") (auto simp: overlay_state_def)

lemma overlay_root_more: "extends t t' \<Longrightarrow> overlay_root (trie_at c t) = Some r \<Longrightarrow> overlay_root (trie_at c t') = Some r"
  unfolding overlay_root_def extends_def by (auto simp del: trie_at.simps)

interpretation overlay_tries: trie_laws overlay_tries
  by unfold_locales
    (auto simp: overlay_tries_def extends_wipe simp del: trie_at.simps wipe_at.simps dest: overlay_root_more split: option.splits)

lemma overlay_rollback:
  assumes "snap_saved (overlay_state x) = t # ts"
  shows "\<exists>x'. rollback_edits x = (Ok (), x') \<and> overlay_state x' = (overlay_state x)\<lparr>snap_current := t, snap_saved := ts\<rparr>"
  using overlay_state_open [OF assms] by (auto simp: overlay_state_def current_tries_def)

lemma overlay_commit:
  assumes "snap_saved (overlay_state x) = t # ts"
  shows "\<exists>x'. commit_edits x = (Ok (), x') \<and> overlay_state x' = (overlay_state x)\<lparr>snap_saved := ts\<rparr>"
  using overlay_state_open [OF assms] by (auto simp: overlay_state_def current_tries_def)

lemmas overlay_ops = reading_def writing_def plain_get_def plain_exists_def plain_change_def plain_root_def plain_remove_def
  plain_append_def plain_next_def plain_start_def place_edit_def remove_edit_def append_edit_def place_top_def overlay_state_add

interpretation overlay: externalities_laws overlay_tries overlay_ext overlay_state
proof unfold_locales
  fix x t ts
  assume "snap_saved (overlay_state x) = t # ts"
  then show "\<exists>x'. ext_rollback_transaction overlay_ext x = (Ok (), x')
        \<and> overlay_state x' = (overlay_state x)\<lparr>snap_current := t, snap_saved := ts\<rparr>"
    and "\<exists>x'. ext_commit_transaction overlay_ext x = (Ok (), x') \<and> overlay_state x' = (overlay_state x)\<lparr>snap_saved := ts\<rparr>"
    using overlay_rollback overlay_commit by (simp_all only: overlay_ext_def Externalities.simps)
next
  fix x
  assume "snap_saved (overlay_state x) = []"
  then show "\<exists>x'. ext_rollback_transaction overlay_ext x = (Err (), x')"
    and "\<exists>x'. ext_commit_transaction overlay_ext x = (Err (), x')"
    by (simp_all add: overlay_state_closed overlay_ext_def)
next
  fix t
  show "overlay_state (new_externalities overlay_ext t) = fresh_snapshots t"
    by (simp add: overlay_ext_def overlay_state_def fresh_snapshots_def current_tries_def tries_after_def)
next
  show "implements overlay_state (writing (ext_start_transaction overlay_ext)) plain_start"
    by (simp add: implements_def overlay_ext_def overlay_ops overlay_state_def current_tries_def)
qed (simp_all add: implements_def overlay_ext_def overlay_tries_def overlay_ops option.map_comp comp_def split: option.split)









end
