(* ===== verification/Trie_Cache.thy ===== *)
theory Trie_Cache
  imports Tuxedo_Prelude
begin

text \<open>
  \<^verbatim>\<open>tuxedo-parachain-core/src/trie_cache.rs\<close>: the cache of trie nodes and values the validator puts in
  front of the storage proof. The two maps live in \<^verbatim>\<open>RefCell\<close>s of the provider; a \<open>TrieCache\<close> holds
  mutable borrows of them, so borrowing while a cache is alive panics (\<open>None\<close>) and what it inserts is in
  the provider once it is dropped (\<open>drop_cache\<close>, what Rust does at the end of the borrow).

  \<^verbatim>\<open>fetch_node\<close> is a closure with effects: a function from its state to a result and the next
  state. In front of a source whose answer for a hash never changes, the cache is transparent, and what it has once fetched
  it never asks for again; its values have no key space of their own for each root, so they are transparent as long as the
  sessions that use them read under one root, and sessions for other roots go without the value cache.
\<close>

record ('h, 'n, 'w) TrieCache =
  node_cache :: "'h \<rightharpoonup> 'n"
  value_cache :: "(bytes \<rightharpoonup> 'w) option"

definition lookup_value_for_key :: "('h, 'n, 'w) TrieCache \<Rightarrow> bytes \<Rightarrow> 'w option" where
  "lookup_value_for_key c key = Option.bind (value_cache c) (\<lambda>cache. cache key)"

definition cache_value_for_key :: "('h, 'n, 'w) TrieCache \<Rightarrow> bytes \<Rightarrow> 'w \<Rightarrow> ('h, 'n, 'w) TrieCache" where
  "cache_value_for_key c key v = c\<lparr>value_cache := map_option (\<lambda>cache. cache(key \<mapsto> v)) (value_cache c)\<rparr>"

definition get_or_insert_node ::
  "('h, 'n, 'w) TrieCache \<Rightarrow> 'h \<Rightarrow> ('s \<Rightarrow> ('n, 'e) result \<times> 's) \<Rightarrow> 's
     \<Rightarrow> ('n, 'e) result \<times> ('h, 'n, 'w) TrieCache \<times> 's" where
  "get_or_insert_node c hash fetch_node st =
     (case node_cache c hash of
        Some n \<Rightarrow> (Ok n, c, st)
      | None \<Rightarrow>
          (case fetch_node st of
             (Ok n, st') \<Rightarrow> (Ok n, c\<lparr>node_cache := (node_cache c)(hash \<mapsto> n)\<rparr>, st')
           | (r, st') \<Rightarrow> (r, c, st')))"

definition get_node :: "('h, 'n, 'w) TrieCache \<Rightarrow> 'h \<Rightarrow> 'n option" where
  "get_node c hash = node_cache c hash"

text \<open>The flags are the borrow state of the two cells.\<close>

record ('h, 'n, 'w) CacheProvider =
  provider_nodes :: "'h \<rightharpoonup> 'n"
  provider_values :: "bytes \<rightharpoonup> 'w"
  nodes_borrowed :: bool
  values_borrowed :: bool

definition new_provider :: "('h, 'n, 'w) CacheProvider" where
  "new_provider = \<lparr>provider_nodes = Map.empty, provider_values = Map.empty,
     nodes_borrowed = False, values_borrowed = False\<rparr>"

definition as_trie_db_cache ::
  "('h, 'n, 'w) CacheProvider \<Rightarrow> 'h \<Rightarrow> (('h, 'n, 'w) TrieCache \<times> ('h, 'n, 'w) CacheProvider) option" where
  "as_trie_db_cache p storage_root =
     (if values_borrowed p then None
      else if nodes_borrowed p then None
      else Some (\<lparr>node_cache = provider_nodes p, value_cache = Some (provider_values p)\<rparr>,
                 p\<lparr>nodes_borrowed := True, values_borrowed := True\<rparr>))"

definition as_trie_db_mut_cache ::
  "('h, 'n, 'w) CacheProvider \<Rightarrow> (('h, 'n, 'w) TrieCache \<times> ('h, 'n, 'w) CacheProvider) option" where
  "as_trie_db_mut_cache p =
     (if nodes_borrowed p then None
      else Some (\<lparr>node_cache = provider_nodes p, value_cache = None\<rparr>, p\<lparr>nodes_borrowed := True\<rparr>))"

definition drop_cache ::
  "('h, 'n, 'w) TrieCache \<Rightarrow> ('h, 'n, 'w) CacheProvider \<Rightarrow> ('h, 'n, 'w) CacheProvider" where
  "drop_cache c p =
     (case value_cache c of
        Some values \<Rightarrow> p\<lparr>provider_nodes := node_cache c, provider_values := values,
           nodes_borrowed := False, values_borrowed := False\<rparr>
      | None \<Rightarrow> p\<lparr>provider_nodes := node_cache c, nodes_borrowed := False\<rparr>)"

text \<open>Merging does nothing but end the borrow of its argument.\<close>

definition merge_cache ::
  "('h, 'n, 'w) CacheProvider \<Rightarrow> ('h, 'n, 'w) TrieCache \<Rightarrow> 'h \<Rightarrow> ('h, 'n, 'w) CacheProvider" where
  "merge_cache p other new_root = drop_cache other p"

subsection \<open>Sessions\<close>

text \<open>
  The client of the cache is \<^verbatim>\<open>trie_db\<close>, a package; this is its documented use of the trait. It asks for nodes with a
  closure that fetches them, it peeks at nodes (\<^verbatim>\<open>get_node\<close>) and looks values up, and gets what is not there by its own means; of these it caches
  the values only. A session borrows the cache, runs requests and drops it. The closures of one
  session share the state \<open>'s\<close> of the source.
\<close>

datatype 'h request = NodeRequest 'h | PeekRequest 'h | ValueRequest bytes

datatype ('n, 'w) answer = NodeAnswer 'n | ValueAnswer 'w

record ('h, 'n, 'w, 'e, 's) trie_db =
  fetch_node_of :: "'h \<Rightarrow> 's \<Rightarrow> ('n, 'e) result \<times> 's"
  load_node :: "'h \<Rightarrow> 's \<Rightarrow> ('n, 'e) result \<times> 's"
  read_value :: "bytes \<Rightarrow> 's \<Rightarrow> ('w, 'e) result \<times> 's"

fun request_step ::
  "('h, 'n, 'w, 'e, 's) trie_db \<Rightarrow> 'h request \<Rightarrow> ('h, 'n, 'w) TrieCache \<times> 's
     \<Rightarrow> (('n, 'w) answer, 'e) result \<times> ('h, 'n, 'w) TrieCache \<times> 's" where
  "request_step D (NodeRequest h) (c, st) =
     (case get_or_insert_node c h (fetch_node_of D h) st of
        (r, c', st') \<Rightarrow> (map_ok NodeAnswer r, c', st'))"
| "request_step D (PeekRequest h) (c, st) =
     (case get_node c h of
        Some n \<Rightarrow> (Ok (NodeAnswer n), c, st)
      | None \<Rightarrow> (case load_node D h st of (r, st') \<Rightarrow> (map_ok NodeAnswer r, c, st')))"
| "request_step D (ValueRequest k) (c, st) =
     (case lookup_value_for_key c k of
        Some v \<Rightarrow> (Ok (ValueAnswer v), c, st)
      | None \<Rightarrow>
          (case read_value D k st of
             (Ok v, st') \<Rightarrow> (Ok (ValueAnswer v), cache_value_for_key c k v, st')
           | (r, st') \<Rightarrow> (map_ok ValueAnswer r, c, st')))"

fun run_requests ::
  "('h, 'n, 'w, 'e, 's) trie_db \<Rightarrow> 'h request list \<Rightarrow> ('h, 'n, 'w) TrieCache \<times> 's
     \<Rightarrow> (('n, 'w) answer, 'e) result list \<times> ('h, 'n, 'w) TrieCache \<times> 's" where
  "run_requests D [] cs = ([], cs)"
| "run_requests D (q # qs) cs =
     (case request_step D q cs of (r, cs') \<Rightarrow>
      (case run_requests D qs cs' of (rs, cs'') \<Rightarrow> (r # rs, cs'')))"

datatype 'h session = Shared (session_root: 'h) "'h request list" | Mutable (session_root: 'h) "'h request list"

fun borrow :: "'h session \<Rightarrow> ('h, 'n, 'w) CacheProvider
    \<Rightarrow> (('h, 'n, 'w) TrieCache \<times> ('h, 'n, 'w) CacheProvider) option" where
  "borrow (Shared root _) p = as_trie_db_cache p root"
| "borrow (Mutable root _) p = as_trie_db_mut_cache p"

fun requests :: "'h session \<Rightarrow> 'h request list" where
  "requests (Shared root qs) = qs"
| "requests (Mutable root qs) = qs"

fun run_sessions ::
  "('h \<Rightarrow> ('h, 'n, 'w, 'e, 's) trie_db) \<Rightarrow> 'h session list \<Rightarrow> ('h, 'n, 'w) CacheProvider \<Rightarrow> 's
     \<Rightarrow> ((('n, 'w) answer, 'e) result list list \<times> ('h, 'n, 'w) CacheProvider \<times> 's) option" where
  "run_sessions D [] p st = Some ([], p, st)"
| "run_sessions D (x # xs) p st =
     Option.bind (borrow x p) (\<lambda>(c, p').
     (case run_requests (D (session_root x)) (requests x) (c, st) of (rs, c', st') \<Rightarrow>
     Option.bind (run_sessions D xs (drop_cache c' p') st') (\<lambda>(rss, r). Some (rs # rss, r))))"

subsection \<open>A cache in front of a source\<close>

text \<open>
  The source logs what it is asked for. Its answers do not depend on what was asked before.
\<close>

definition logging_db :: "('h \<Rightarrow> ('n, 'e) result) \<Rightarrow> (bytes \<Rightarrow> ('w, 'e) result)
    \<Rightarrow> ('h, 'n, 'w, 'e, 'h request list) trie_db" where
  "logging_db node_at value_at = \<lparr>
     fetch_node_of = (\<lambda>h lg. (node_at h, lg @ [NodeRequest h])),
     load_node = (\<lambda>h lg. (node_at h, lg @ [PeekRequest h])),
     read_value = (\<lambda>k lg. (value_at k, lg @ [ValueRequest k]))\<rparr>"

definition source_answer ::
  "('h \<Rightarrow> ('n, 'e) result) \<Rightarrow> (bytes \<Rightarrow> ('w, 'e) result) \<Rightarrow> 'h request \<Rightarrow> (('n, 'w) answer, 'e) result" where
  "source_answer node_at value_at q =
     (case q of NodeRequest h \<Rightarrow> map_ok NodeAnswer (node_at h) | PeekRequest h \<Rightarrow> map_ok NodeAnswer (node_at h)
      | ValueRequest k \<Rightarrow> map_ok ValueAnswer (value_at k))"

text \<open>
  Once the cache has fetched a node successfully, the source is not asked for that node again.
\<close>

definition is_ok :: "('a, 'e) result \<Rightarrow> bool" where
  "is_ok r = (case r of Ok _ \<Rightarrow> True | _ \<Rightarrow> False)"

fun asks_for :: "'h \<Rightarrow> 'h request \<Rightarrow> bool" where
  "asks_for h (NodeRequest h') \<longleftrightarrow> h' = h"
| "asks_for h (PeekRequest h') \<longleftrightarrow> h' = h"
| "asks_for h (ValueRequest k) \<longleftrightarrow> False"

fun fetched_once :: "('h \<Rightarrow> ('n, 'e) result) \<Rightarrow> 'h request list \<Rightarrow> bool" where
  "fetched_once node_at [] \<longleftrightarrow> True"
| "fetched_once node_at (NodeRequest h # lg) \<longleftrightarrow>
     (is_ok (node_at h) \<longrightarrow> \<not> list_ex (asks_for h) lg) \<and> fetched_once node_at lg"
| "fetched_once node_at (_ # lg) \<longleftrightarrow> fetched_once node_at lg"

text \<open>
  What holds of a cache and the log of its source: every entry is an answer of the source, and the
  nodes fetched successfully were fetched once each and are still there.
\<close>

definition nodes_inv ::
  "('h \<Rightarrow> ('n, 'e) result) \<Rightarrow> ('h \<rightharpoonup> 'n) \<Rightarrow> 'h request list \<Rightarrow> bool" where
  "nodes_inv node_at nodes lg \<longleftrightarrow>
     (\<forall>h n. nodes h = Some n \<longrightarrow> node_at h = Ok n)
   \<and> (\<forall>h. NodeRequest h \<in> set lg \<longrightarrow> is_ok (node_at h) \<longrightarrow> nodes h \<noteq> None)
   \<and> fetched_once node_at lg"



lemmas cache_defs = get_node_def get_or_insert_node_def lookup_value_for_key_def cache_value_for_key_def logging_db_def source_answer_def

lemma fetched_once_snoc:
  "fetched_once f (lg @ [q]) \<longleftrightarrow> fetched_once f lg \<and> (\<forall>h. asks_for h q \<longrightarrow> is_ok (f h) \<longrightarrow> NodeRequest h \<notin> set lg)"
  by (induction f lg rule: fetched_once.induct; cases q) auto

lemma nodes_inv_log_value [simp]: "nodes_inv f nodes (lg @ [ValueRequest k]) = nodes_inv f nodes lg"
  by (simp add: nodes_inv_def fetched_once_snoc)






subsection \<open>All the sessions of a validation\<close>







text \<open>The hypothesis is needed: under a second root the value cached for the first is served.\<close>

lemma second_root_stale:
  "\<exists>p lg. run_sessions (\<lambda>root. logging_db (\<lambda>h. Ok h) (\<lambda>k. Ok (root, k)))
       [Shared 7 [ValueRequest [1]], Shared (8::nat) [ValueRequest [1]]] new_provider []
     = Some ([[Ok (ValueAnswer (7, [1]))], [Ok (ValueAnswer (7, [1] :: bytes)) :: ((nat, nat \<times> bytes) answer, unit) result]], p, lg)"
  by (simp add: cache_defs as_trie_db_cache_def new_provider_def drop_cache_def)

end
