(* ===== verification/Relay_State.thy ===== *)
theory Relay_State
  imports Core_Types
begin

text \<open>
  \<^verbatim>\<open>tuxedo-parachain-core/src/relay_state_snapshot.rs\<close>: reading the relay chain's state from a storage proof.

  A trie backend is a function from keys to entries that may fail (\<open>None\<close> for a proof that does not cover the key); which
  backend a proof stands for, Polkadot's well-known keys and the codecs of its types are the record \<open>relay_host\<close>. The type
  of HRMP channels is a parameter. The theorem: a messaging snapshot is returned exactly when every entry it needs can be read,
  and it lists the channels in the order of the relay chain's indices.
\<close>

type_synonym ParaId = u32
type_synonym trie_backend = "bytes \<Rightarrow> bytes option option"

record RelayDispatchQueueRemainingCapacity =
  remaining_count :: u32
  remaining_size :: u32

record 'ch MessagingStateSnapshot =
  dmq_mqc_head :: H256
  relay_dispatch_queue_remaining_capacity :: RelayDispatchQueueRemainingCapacity
  ingress_channels :: "(ParaId \<times> 'ch) list"
  egress_channels :: "(ParaId \<times> 'ch) list"

datatype ReadEntryErr = ReadProof | ReadDecode | ReadAbsent

datatype RelayStateError =
    RootMismatch
  | ReadEntry ReadEntryErr
  | ReadOptionalEntry ReadEntryErr
  | SlotError ReadEntryErr
  | UpgradeGoAheadError ReadEntryErr
  | UpgradeRestrictionError ReadEntryErr
  | ConfigError ReadEntryErr
  | DmqMqcHeadError ReadEntryErr
  | RelayDispatchQueueError ReadEntryErr
  | HrmpIngressChannelIndex ReadEntryErr
  | HrmpEgressChannelIndex ReadEntryErr
  | HrmpChannel ParaId ParaId ReadEntryErr
  | ParaHeadError ReadEntryErr

text \<open>What the source uses of Polkadot's primitives.\<close>

record AbridgedHostConfiguration =
  max_upward_queue_count :: u32
  max_upward_queue_size :: u32

datatype UpgradeGoAhead = UpgradeAbort | UpgradeGoAhead

datatype UpgradeRestriction = UpgradeRestrictionPresent

record ('p, 'ch) relay_host =
  proof_contains_root :: "'p \<Rightarrow> H256 \<Rightarrow> bool"
  proof_backend :: "'p \<Rightarrow> H256 \<Rightarrow> trie_backend"
  key_dmq_mqc_head :: "ParaId \<Rightarrow> bytes"
  key_remaining_capacity :: "ParaId \<Rightarrow> bytes"
  key_queue_size :: "ParaId \<Rightarrow> bytes"
  key_ingress_index :: "ParaId \<Rightarrow> bytes"
  key_egress_index :: "ParaId \<Rightarrow> bytes"
  key_hrmp_channel :: "ParaId \<Rightarrow> ParaId \<Rightarrow> bytes"
  key_active_config :: bytes
  key_para_head :: "ParaId \<Rightarrow> bytes"
  key_current_slot :: bytes
  key_go_ahead :: "ParaId \<Rightarrow> bytes"
  key_restriction :: "ParaId \<Rightarrow> bytes"
  relay_hash_codec :: "H256 codec"
  capacity_codec :: "RelayDispatchQueueRemainingCapacity codec"
  queue_size_codec :: "(u32 \<times> u32) codec"
  para_ids_codec :: "ParaId list codec"
  channel_codec :: "'ch codec"
  config_codec :: "AbridgedHostConfiguration codec"
  head_data_codec :: "bytes codec"
  slot_codec :: "u64 codec"
  go_ahead_codec :: "UpgradeGoAhead codec"
  restriction_codec :: "UpgradeRestriction codec"

subsection \<open>Reading entries\<close>

definition read_entry :: "'a codec \<Rightarrow> trie_backend \<Rightarrow> bytes \<Rightarrow> 'a option \<Rightarrow> ('a, ReadEntryErr) result" where
  "read_entry c backend key fallback =
     (case backend key of
        None \<Rightarrow> Err ReadProof
      | Some None \<Rightarrow> ok_or fallback ReadAbsent
      | Some (Some raw_entry) \<Rightarrow> ok_or (decode_value c raw_entry) ReadDecode)"

definition read_optional_entry :: "'a codec \<Rightarrow> trie_backend \<Rightarrow> bytes \<Rightarrow> ('a option, ReadEntryErr) result" where
  "read_optional_entry c backend key =
     (case read_entry c backend key None of
        Ok v \<Rightarrow> Ok (Some v)
      | Err e \<Rightarrow> if e = ReadAbsent then Ok None else Err e
      | Panic \<Rightarrow> Panic)"

definition saturating_sub :: "u32 \<Rightarrow> u32 \<Rightarrow> u32" where
  "saturating_sub a b = (if b \<le> a then a - b else 0)"

subsection \<open>The state proof\<close>

record RelayChainStateProof =
  proof_para_id :: ParaId
  proof_trie_backend :: trie_backend

definition relay_proof_new ::
  "('p, 'ch) relay_host \<Rightarrow> ParaId \<Rightarrow> H256 \<Rightarrow> 'p \<Rightarrow> (RelayChainStateProof, RelayStateError) result" where
  "relay_proof_new K para_id root pf =
     (if \<not> proof_contains_root K pf root then Err RootMismatch
      else Ok \<lparr>proof_para_id = para_id, proof_trie_backend = proof_backend K pf root\<rparr>)"

definition read_remaining_capacity ::
  "('p, 'ch) relay_host \<Rightarrow> RelayChainStateProof \<Rightarrow> AbridgedHostConfiguration
     \<Rightarrow> (RelayDispatchQueueRemainingCapacity, RelayStateError) result" where
  "read_remaining_capacity K self host_config =
     (case read_optional_entry (capacity_codec K) (proof_trie_backend self) (key_remaining_capacity K (proof_para_id self)) of
        Ok (Some r) \<Rightarrow> Ok r
      | Ok None \<Rightarrow>
          bind_result (map_err RelayDispatchQueueError
            (read_entry (queue_size_codec K) (proof_trie_backend self) (key_queue_size K (proof_para_id self)) (Some (0, 0))))
            (\<lambda>res. Ok \<lparr>remaining_count = saturating_sub (max_upward_queue_count host_config) (fst res),
                       remaining_size = saturating_sub (max_upward_queue_size host_config) (snd res)\<rparr>)
      | Err e \<Rightarrow> Err (RelayDispatchQueueError e)
      | Panic \<Rightarrow> Panic)"

definition read_messaging_state_snapshot ::
  "('p, 'ch) relay_host \<Rightarrow> RelayChainStateProof \<Rightarrow> AbridgedHostConfiguration
     \<Rightarrow> ('ch MessagingStateSnapshot, RelayStateError) result" where
  "read_messaging_state_snapshot K self host_config =
     (let backend = proof_trie_backend self; para_id = proof_para_id self in
      bind_result (map_err DmqMqcHeadError
        (read_entry (relay_hash_codec K) backend (key_dmq_mqc_head K para_id) (Some 0))) (\<lambda>head.
      bind_result (read_remaining_capacity K self host_config) (\<lambda>capacity.
      bind_result (map_err HrmpIngressChannelIndex
        (read_entry (para_ids_codec K) backend (key_ingress_index K para_id) (Some []))) (\<lambda>ingress_channel_index.
      bind_result (map_err HrmpEgressChannelIndex
        (read_entry (para_ids_codec K) backend (key_egress_index K para_id) (Some []))) (\<lambda>egress_channel_index.
      bind_result (collect_results (\<lambda>sender.
        map_ok (\<lambda>ch. (sender, ch)) (map_err (HrmpChannel sender para_id)
          (read_entry (channel_codec K) backend (key_hrmp_channel K sender para_id) None))) ingress_channel_index) (\<lambda>ingress.
      bind_result (collect_results (\<lambda>recipient.
        map_ok (\<lambda>ch. (recipient, ch)) (map_err (HrmpChannel para_id recipient)
          (read_entry (channel_codec K) backend (key_hrmp_channel K para_id recipient) None))) egress_channel_index) (\<lambda>egress.
      Ok \<lparr>dmq_mqc_head = head, relay_dispatch_queue_remaining_capacity = capacity,
          ingress_channels = ingress, egress_channels = egress\<rparr>)))))))"

definition read_abridged_host_configuration ::
  "('p, 'ch) relay_host \<Rightarrow> RelayChainStateProof \<Rightarrow> (AbridgedHostConfiguration, RelayStateError) result" where
  "read_abridged_host_configuration K self =
     map_err ConfigError (read_entry (config_codec K) (proof_trie_backend self) (key_active_config K) None)"

definition read_included_para_head ::
  "('p, 'ch) relay_host \<Rightarrow> RelayChainStateProof \<Rightarrow> (bytes, RelayStateError) result" where
  "read_included_para_head K self =
     map_err ParaHeadError (read_entry (head_data_codec K) (proof_trie_backend self)
       (key_para_head K (proof_para_id self)) None)"

definition read_slot :: "('p, 'ch) relay_host \<Rightarrow> RelayChainStateProof \<Rightarrow> (u64, RelayStateError) result" where
  "read_slot K self =
     map_err SlotError (read_entry (slot_codec K) (proof_trie_backend self) (key_current_slot K) None)"

definition read_upgrade_go_ahead_signal ::
  "('p, 'ch) relay_host \<Rightarrow> RelayChainStateProof \<Rightarrow> (UpgradeGoAhead option, RelayStateError) result" where
  "read_upgrade_go_ahead_signal K self =
     map_err UpgradeGoAheadError (read_optional_entry (go_ahead_codec K) (proof_trie_backend self)
       (key_go_ahead K (proof_para_id self)))"

definition read_upgrade_restriction_signal ::
  "('p, 'ch) relay_host \<Rightarrow> RelayChainStateProof \<Rightarrow> (UpgradeRestriction option, RelayStateError) result" where
  "read_upgrade_restriction_signal K self =
     map_err UpgradeRestrictionError (read_optional_entry (restriction_codec K) (proof_trie_backend self)
       (key_restriction K (proof_para_id self)))"

definition proof_read_entry ::
  "'a codec \<Rightarrow> RelayChainStateProof \<Rightarrow> bytes \<Rightarrow> 'a option \<Rightarrow> ('a, RelayStateError) result" where
  "proof_read_entry c self key fallback = map_err ReadEntry (read_entry c (proof_trie_backend self) key fallback)"

definition proof_read_optional_entry ::
  "'a codec \<Rightarrow> RelayChainStateProof \<Rightarrow> bytes \<Rightarrow> ('a option, RelayStateError) result" where
  "proof_read_optional_entry c self key =
     map_err ReadOptionalEntry (read_optional_entry c (proof_trie_backend self) key)"

subsection \<open>Facts\<close>

lemma read_entry_Ok:
  "read_entry c backend key fallback = Ok v \<longleftrightarrow>
     (\<exists>raw. backend key = Some (Some raw) \<and> decode_value c raw = Some v) \<or> backend key = Some None \<and> fallback = Some v"
  by (auto simp: read_entry_def ok_or_Ok split: option.splits)

lemma read_optional_Some: "read_optional_entry c backend key = Ok (Some v) \<longleftrightarrow> read_entry c backend key None = Ok v"
  by (cases "read_entry c backend key None") (auto simp: read_optional_entry_def)

lemma read_optional_None: "read_optional_entry c backend key = Ok None \<longleftrightarrow> backend key = Some None"
  by (auto simp: read_optional_entry_def read_entry_def ok_or.simps split: option.splits result.splits if_splits elim: ok_or.elims)

lemma unat_saturating_sub [simp]: "unat (saturating_sub a b) = unat a - unat b"
  by (auto simp: saturating_sub_def word_le_nat_alt unat_sub_if_size)

lemma read_remaining_capacity_Ok:
  "read_remaining_capacity K self cfg = Ok cap \<longleftrightarrow>
     read_entry (capacity_codec K) (proof_trie_backend self) (key_remaining_capacity K (proof_para_id self)) None = Ok cap
     \<or> proof_trie_backend self (key_remaining_capacity K (proof_para_id self)) = Some None
       \<and> (\<exists>c z. read_entry (queue_size_codec K) (proof_trie_backend self) (key_queue_size K (proof_para_id self))
              (Some (0, 0)) = Ok (c, z)
            \<and> unat (remaining_count cap) = unat (max_upward_queue_count cfg) - unat c
            \<and> unat (remaining_size cap) = unat (max_upward_queue_size cfg) - unat z)"
  (is "?lhs \<longleftrightarrow> ?rhs")
proof -
  let ?opt = "read_optional_entry (capacity_codec K) (proof_trie_backend self) (key_remaining_capacity K (proof_para_id self))"
  have cap: "cap = \<lparr>remaining_count = a, remaining_size = b\<rparr>
      \<longleftrightarrow> unat (remaining_count cap) = unat a \<and> unat (remaining_size cap) = unat b" for a b
    by (cases cap) (simp add: word_unat_eq_iff)
  have "?lhs \<longleftrightarrow> ?opt = Ok (Some cap) \<or> ?opt = Ok None
      \<and> (\<exists>c z. read_entry (queue_size_codec K) (proof_trie_backend self) (key_queue_size K (proof_para_id self))
              (Some (0, 0)) = Ok (c, z)
            \<and> cap = \<lparr>remaining_count = saturating_sub (max_upward_queue_count cfg) c,
                     remaining_size = saturating_sub (max_upward_queue_size cfg) z\<rparr>)"
    unfolding read_remaining_capacity_def by (auto simp: result_ok split: result.split option.split)
  then show ?thesis unfolding read_optional_Some read_optional_None cap unat_saturating_sub .
qed

text \<open>The loop over a channel index keeps the order of the index and reads the channel of each member.\<close>

lemma collect_channels:
  "collect_results (\<lambda>p. map_ok (\<lambda>ch. (p, ch)) (map_err (E p) (f p))) ps = Ok chs \<longleftrightarrow>
     map fst chs = ps \<and> list_all (\<lambda>(p, ch). f p = Ok ch) chs"
  unfolding collect_results_Ok
  by (auto simp: list_all2_conv_all_nth list_all_length result_ok case_prod_unfold prod_eq_iff nth_map
      intro: nth_equalityI)

text \<open>
  C34. A messaging snapshot is read exactly when its parts can be. It has the head of the downward queue (zero when
  absent); the remaining capacity the relay chain states, or, only where it states none, the configured maximum
  less the queue's current size, never below zero; and for both directions exactly the channels of the relay chain's
  index, in the order of that index, each with its own entry. So the lists are sorted whenever the indices are, as the
  documentation promises.
\<close>

theorem messaging_snapshot_exact:
  "read_messaging_state_snapshot K self cfg = Ok snap \<longleftrightarrow>
     read_entry (relay_hash_codec K) (proof_trie_backend self) (key_dmq_mqc_head K (proof_para_id self)) (Some 0)
       = Ok (dmq_mqc_head snap)
     \<and> (let cap = relay_dispatch_queue_remaining_capacity snap in
         read_entry (capacity_codec K) (proof_trie_backend self) (key_remaining_capacity K (proof_para_id self)) None = Ok cap
         \<or> proof_trie_backend self (key_remaining_capacity K (proof_para_id self)) = Some None
           \<and> (\<exists>c z. read_entry (queue_size_codec K) (proof_trie_backend self) (key_queue_size K (proof_para_id self))
                  (Some (0, 0)) = Ok (c, z)
                \<and> unat (remaining_count cap) = unat (max_upward_queue_count cfg) - unat c
                \<and> unat (remaining_size cap) = unat (max_upward_queue_size cfg) - unat z))
     \<and> read_entry (para_ids_codec K) (proof_trie_backend self) (key_ingress_index K (proof_para_id self)) (Some [])
       = Ok (map fst (ingress_channels snap))
     \<and> read_entry (para_ids_codec K) (proof_trie_backend self) (key_egress_index K (proof_para_id self)) (Some [])
       = Ok (map fst (egress_channels snap))
     \<and> list_all (\<lambda>(sender, ch). read_entry (channel_codec K) (proof_trie_backend self)
         (key_hrmp_channel K sender (proof_para_id self)) None = Ok ch) (ingress_channels snap)
     \<and> list_all (\<lambda>(recipient, ch). read_entry (channel_codec K) (proof_trie_backend self)
         (key_hrmp_channel K (proof_para_id self) recipient) None = Ok ch) (egress_channels snap)"
  unfolding read_messaging_state_snapshot_def Let_def bind_result_Ok map_err_Ok collect_channels
    read_remaining_capacity_Ok [symmetric]
  by (cases snap) auto

end
