(* ===== verification/Tuxedo_Metadata.thy ===== *)
theory Tuxedo_Metadata
  imports Tuxedo_Prelude
begin

text \<open>
  \<^verbatim>\<open>tuxedo-core/src/metadata.rs\<close>: what a runtime tells its clients about itself, whether it is a
  parachain. The runtimes serve it and the wallet reads it.
\<close>

record TuxedoMetadata =
  registry :: unit
  parachain_flag :: bool

definition default_metadata :: TuxedoMetadata where
  "default_metadata = \<lparr>registry = (), parachain_flag = False\<rparr>"

definition new_parachain :: TuxedoMetadata where
  "new_parachain = \<lparr>registry = (), parachain_flag = True\<rparr>"

definition metadata_is_parachain :: "TuxedoMetadata \<Rightarrow> bool" where
  "metadata_is_parachain m = parachain_flag m"

end
