(* ===== verification/Runtime_Api.thy ===== *)
theory Runtime_Api
  imports Parachain_Runtime Tuxedo_Metadata
begin

text \<open>
  The runtime APIs of \<^verbatim>\<open>tuxedo-template-runtime/src/lib.rs\<close> and \<^verbatim>\<open>tuxedo-parachain-runtime/src/lib.rs\<close>: what a
  node can ask of a Tuxedo runtime. A call is a constructor of a datatype, one per method
  of \<^verbatim>\<open>impl_runtime_apis!\<close>; a handler takes the call and the storage and gives the reply and the
  storage after it, or \<open>None\<close> when the runtime panics.

  \<^item> \<open>executive_call\<close> are the methods both runtimes forward to the executive, \<open>executive_api\<close> their
    handler. \<open>template_api\<close> and \<open>parachain_api\<close> are the handlers of the two runtimes.
  \<^item> The packages behind the rest are parameters: the versions the macro generates, session keys, JSON, the
    codec of the metadata (record \<open>api_host\<close>).

  The theorems: through the API alone a node authors blocks every other node imports; the
  queries leave the storage as it was and pool validation leaves the ledger and the height; the default
  genesis configuration each runtime hands out is accepted by its own builder.
\<close>

subsection \<open>The executive's methods\<close>

datatype ExtrinsicInclusionMode = AllExtrinsics | OnlyInherents

datatype TransactionSource = InBlock | Local | External

datatype ('v, 'c) executive_call =
    ExecuteBlock "('v, 'c) Block"
  | InitializeBlock Header
  | ApplyExtrinsic "('v, 'c) Transaction"
  | FinalizeBlock
  | InherentExtrinsics InherentData
  | CheckInherents "('v, 'c) Block" InherentData
  | ValidateTransaction TransactionSource "('v, 'c) Transaction" H256

datatype ('v, 'c) executive_reply =
    Executed
  | Initialized ExtrinsicInclusionMode
  | Applied "(unit, InvalidTransaction) result"
  | Finalized Header
  | Inherents "('v, 'c) Transaction list"
  | Checked CheckInherentsResult
  | Validated "(ValidTransaction, InvalidTransaction) result"

text \<open>A panic inside a method that returns a \<^verbatim>\<open>Result\<close> is a panic of the call.\<close>

definition reply_unless_panic ::
  "(('a, 'e) result \<Rightarrow> 'r) \<Rightarrow> storage \<times> ('a, 'e) result \<Rightarrow> ('r \<times> storage) option" where
  "reply_unless_panic f out = (case snd out of Panic \<Rightarrow> None | r \<Rightarrow> Some (f r, fst out))"

fun executive_api ::
  "host \<Rightarrow> ('v, 'r) Verifier \<Rightarrow> ('v, 'c, 'e) ConstraintChecker \<Rightarrow> ('v, 'c) Block codec
     \<Rightarrow> ('v, 'c) executive_call \<Rightarrow> storage \<Rightarrow> (('v, 'c) executive_reply \<times> storage) option" where
  "executive_api H V C bc (ExecuteBlock b) s =
     map_option (\<lambda>s'. (Executed, s')) (execute_block H V C b s)"
| "executive_api H V C bc (InitializeBlock h) s = Some (Initialized AllExtrinsics, open_block H h s)"
| "executive_api H V C bc (ApplyExtrinsic tx) s = reply_unless_panic Applied (apply_extrinsic H V C tx s)"
| "executive_api H V C bc FinalizeBlock s = map_option (\<lambda>(s', h). (Finalized h, s')) (close_block H s)"
| "executive_api H V C bc (InherentExtrinsics inh) s =
     map_option (\<lambda>txs. (Inherents txs, s)) (inherent_extrinsics H V C bc inh s)"
| "executive_api H V C bc (CheckInherents b inh) s =
     map_option (\<lambda>r. (Checked r, s)) (check_block_inherents C b inh)"
| "executive_api H V C bc (ValidateTransaction source tx block_hash) s =
     reply_unless_panic Validated (validate_transaction H V C tx s)"

subsection \<open>The template runtime\<close>

record RuntimeVersion =
  spec_name :: string
  impl_name :: string
  authoring_version :: u32
  spec_version :: u32
  impl_version :: u32
  apis :: "(bytes \<times> u32) list"
  transaction_version :: u32
  state_version :: u8

record NativeVersion =
  runtime_version :: RuntimeVersion
  can_author_with :: "u32 list"

record ('v, 'c) api_host =
  runtime_api_versions :: "(bytes \<times> u32) list"
  api_metadata_codec :: "TuxedoMetadata codec"
  generate_keys :: "bytes option \<Rightarrow> bytes"
  decode_raw_public_keys :: "bytes \<Rightarrow> (bytes \<times> byte4) list option"
  json_to_vec :: "('v, 'c) Transaction list \<Rightarrow> bytes option"
  json_from_slice :: "bytes \<Rightarrow> ('v, 'c) Transaction list option"
  api_block_codec :: "('v, 'c) Block codec"
  api_transactions_codec :: "('v, 'c) Transaction list codec"

definition template_version :: "('v, 'c) api_host \<Rightarrow> RuntimeVersion" where
  "template_version A = \<lparr>spec_name = ''tuxedo-template-runtime'', impl_name = ''tuxedo-template-runtime'',
     authoring_version = 1, spec_version = 1, impl_version = 1, apis = runtime_api_versions A,
     transaction_version = 1, state_version = 1\<rparr>"

definition native_version :: "('v, 'c) api_host \<Rightarrow> NativeVersion" where
  "native_version A = \<lparr>runtime_version = template_version A, can_author_with = []\<rparr>"

definition BLOCK_TIME :: u64 where "BLOCK_TIME = 3000"

definition aura_authorities :: "Public list" where
  "aura_authorities = [0xd43593c715fdd31c61141abd04a99fd6822c8558854ccde39a5684e7a56da27d]"

definition grandpa_authorities :: "(Public \<times> u64) list" where
  "grandpa_authorities =
     map (\<lambda>k. (k, 1)) [0x88dc3417d5058ec4b4503e0c12ea1a0a89be200fe98922423d4334014fa6b0ee]"

text \<open>The two methods of the genesis builder; JSON is a parameter.\<close>

definition create_default_config ::
  "('v, 'c) api_host \<Rightarrow> ('v, 'c) Transaction list option \<Rightarrow> bytes option" where
  "create_default_config A development = Option.bind development (json_to_vec A)"

definition build_config ::
  "host \<Rightarrow> ('v, 'r) Verifier \<Rightarrow> ('v, 'c, 'e) ConstraintChecker \<Rightarrow> ('v, 'c) api_host \<Rightarrow> bytes \<Rightarrow> storage
     \<Rightarrow> storage \<times> (unit, string) result" where
  "build_config H V C A config s =
     (case json_from_slice A config of
        None \<Rightarrow> (s, Err ''The input JSON is not a valid list of Transactions.'')
      | Some gtxs \<Rightarrow> build H V C (api_transactions_codec A) gtxs s)"

datatype ('v, 'c) template_call =
    TemplateExecutive "('v, 'c) executive_call"
  | Version
  | Metadata
  | MetadataAtVersion u32
  | MetadataVersions
  | GenerateSessionKeys "bytes option"
  | DecodeSessionKeys bytes
  | SlotDuration
  | AuraAuthorities
  | GrandpaAuthorities
  | CurrentSetId
  | SubmitReportEquivocation bytes bytes
  | GenerateKeyOwnershipProof u64 Public
  | CreateDefaultConfig
  | BuildConfig bytes

datatype ('v, 'c) api_reply =
    ExecutiveReply "('v, 'c) executive_reply"
  | VersionReply RuntimeVersion
  | OpaqueMetadata bytes
  | NoMetadata
  | VersionsReply "u32 list"
  | KeysReply bytes
  | RawKeysReply "(bytes \<times> byte4) list option"
  | Millis u64
  | AuthoritiesReply "Public list"
  | AuthorityListReply "(Public \<times> u64) list"
  | SetId u64
  | NothingReply
  | ConfigReply bytes
  | BuildReply "(unit, string) result"
  | CollationReply CollationInfo

fun template_api ::
  "host \<Rightarrow> runtime_host \<Rightarrow> (OuterVerifier, OuterConstraintChecker) api_host
     \<Rightarrow> (OuterVerifier, OuterConstraintChecker) template_call \<Rightarrow> storage
     \<Rightarrow> ((OuterVerifier, OuterConstraintChecker) api_reply \<times> storage) option" where
  "template_api H R A (TemplateExecutive call) s =
     map_option (map_prod ExecutiveReply id)
       (executive_api H (template_verifier H R) (template_checker H R) (api_block_codec A) call s)"
| "template_api H R A Version s = Some (VersionReply (template_version A), s)"
| "template_api H R A Metadata s = Some (OpaqueMetadata (encode (api_metadata_codec A) default_metadata), s)"
| "template_api H R A (MetadataAtVersion v) s = Some (NoMetadata, s)"
| "template_api H R A MetadataVersions s = Some (VersionsReply [], s)"
| "template_api H R A (GenerateSessionKeys seed) s = Some (KeysReply (generate_keys A seed), s)"
| "template_api H R A (DecodeSessionKeys enc) s = Some (RawKeysReply (decode_raw_public_keys A enc), s)"
| "template_api H R A SlotDuration s = Some (Millis BLOCK_TIME, s)"
| "template_api H R A AuraAuthorities s = Some (AuthoritiesReply aura_authorities, s)"
| "template_api H R A GrandpaAuthorities s = Some (AuthorityListReply grandpa_authorities, s)"
| "template_api H R A CurrentSetId s = Some (SetId 0, s)"
| "template_api H R A (SubmitReportEquivocation pf owner) s = Some (NothingReply, s)"
| "template_api H R A (GenerateKeyOwnershipProof set_id authority) s = Some (NothingReply, s)"
| "template_api H R A CreateDefaultConfig s =
     map_option (\<lambda>c. (ConfigReply c, s)) (create_default_config A (development_genesis_transactions H R))"
| "template_api H R A (BuildConfig config) s =
     reply_unless_panic BuildReply (build_config H (template_verifier H R) (template_checker H R) A config s)"

subsection \<open>The parachain runtime\<close>

definition parachain_version :: "('v, 'c) api_host \<Rightarrow> RuntimeVersion" where
  "parachain_version A = \<lparr>spec_name = ''tuxedo-parachain-runtime'', impl_name = ''tuxedo-parachain-runtime'',
     authoring_version = 1, spec_version = 1, impl_version = 1, apis = runtime_api_versions A,
     transaction_version = 1, state_version = 1\<rparr>"

definition parachain_native_version :: "('v, 'c) api_host \<Rightarrow> NativeVersion" where
  "parachain_native_version A = \<lparr>runtime_version = parachain_version A, can_author_with = []\<rparr>"

definition PARACHAIN_BLOCK_TIME :: u64 where "PARACHAIN_BLOCK_TIME = 3000"

definition parachain_aura_authorities :: "Public list" where
  "parachain_aura_authorities = [0xd43593c715fdd31c61141abd04a99fd6822c8558854ccde39a5684e7a56da27d]"

datatype ('v, 'c) parachain_call =
    ParaExecutive "('v, 'c) executive_call"
  | ParaVersion
  | ParaMetadata
  | ParaMetadataAtVersion u32
  | ParaMetadataVersions
  | ParaGenerateSessionKeys "bytes option"
  | ParaDecodeSessionKeys bytes
  | ParaSlotDuration
  | ParaAuraAuthorities
  | ParaCreateDefaultConfig
  | ParaBuildConfig bytes
  | CollectCollationInfo Header

fun parachain_api ::
  "host \<Rightarrow> parachain_runtime_host \<Rightarrow> (OuterVerifier, ParachainConstraintChecker) api_host
     \<Rightarrow> (OuterVerifier, ParachainConstraintChecker) parachain_call \<Rightarrow> storage
     \<Rightarrow> ((OuterVerifier, ParachainConstraintChecker) api_reply \<times> storage) option" where
  "parachain_api H P A (ParaExecutive call) s =
     map_option (map_prod ExecutiveReply id)
       (executive_api H (parachain_verifier H P) (parachain_runtime_checker H P) (api_block_codec A) call s)"
| "parachain_api H P A ParaVersion s = Some (VersionReply (parachain_version A), s)"
| "parachain_api H P A ParaMetadata s = Some (OpaqueMetadata (encode (api_metadata_codec A) new_parachain), s)"
| "parachain_api H P A (ParaMetadataAtVersion v) s = Some (NoMetadata, s)"
| "parachain_api H P A ParaMetadataVersions s = Some (VersionsReply [], s)"
| "parachain_api H P A (ParaGenerateSessionKeys seed) s = Some (KeysReply (generate_keys A seed), s)"
| "parachain_api H P A (ParaDecodeSessionKeys enc) s = Some (RawKeysReply (decode_raw_public_keys A enc), s)"
| "parachain_api H P A ParaSlotDuration s = Some (Millis PARACHAIN_BLOCK_TIME, s)"
| "parachain_api H P A ParaAuraAuthorities s = Some (AuthoritiesReply parachain_aura_authorities, s)"
| "parachain_api H P A ParaCreateDefaultConfig s =
     map_option (\<lambda>c. (ConfigReply c, s)) (create_default_config A (parachain_development_genesis H P))"
| "parachain_api H P A (ParaBuildConfig config) s =
     reply_unless_panic BuildReply
       (build_config H (parachain_verifier H P) (parachain_runtime_checker H P) A config s)"
| "parachain_api H P A (CollectCollationInfo h) s =
     map_option (\<lambda>info. (CollationReply info, s)) (collect_collation_info H h s)"

subsection \<open>Sessions of calls\<close>

fun run_calls :: "('q \<Rightarrow> storage \<Rightarrow> ('r \<times> storage) option) \<Rightarrow> 'q list \<Rightarrow> storage \<Rightarrow> ('r list \<times> storage) option" where
  "run_calls api [] s = Some ([], s)"
| "run_calls api (q # qs) s =
     Option.bind (api q s) (\<lambda>(r, s'). Option.bind (run_calls api qs s') (\<lambda>(rs, s''). Some (r # rs, s'')))"

lemma run_calls_append:
  "run_calls api (qs @ qs') s = Option.bind (run_calls api qs s) (\<lambda>(rs, s').
     Option.bind (run_calls api qs' s') (\<lambda>(rs', s''). Some (rs @ rs', s'')))"
  by (induction qs arbitrary: s) (auto simp: bind_eq_Some_conv split: Option.bind_splits)

text \<open>What a block author calls and what it is answered when every extrinsic is applied.\<close>

definition author_calls :: "Header \<Rightarrow> ('v, 'c) Transaction list \<Rightarrow> ('v, 'c) executive_call list" where
  "author_calls h txs = InitializeBlock h # map ApplyExtrinsic txs @ [FinalizeBlock]"

definition author_replies :: "nat \<Rightarrow> Header \<Rightarrow> ('v, 'c) executive_reply list" where
  "author_replies n h = Initialized AllExtrinsics # replicate n (Applied (Ok ())) @ [Finalized h]"

text \<open>
  How a node authors, as Substrate's block builder documents it: it initialises a block, asks the runtime for inherents and
  offers these, then the transactions of its pool. What is not applied is dropped together with its changes to the storage; the block has what is
  kept. The pool holds transactions that the runtime has called valid at some time.
\<close>

fun offer_all ::
  "(('v, 'c) executive_call \<Rightarrow> storage \<Rightarrow> (('v, 'c) executive_reply \<times> storage) option)
     \<Rightarrow> ('v, 'c) Transaction list \<Rightarrow> storage \<Rightarrow> ('v, 'c) Transaction list \<times> storage" where
  "offer_all api [] s = ([], s)"
| "offer_all api (tx # txs) s = (case api (ApplyExtrinsic tx) s of
       Some (Applied (Ok _), s') \<Rightarrow> (case offer_all api txs s' of (kept, s'') \<Rightarrow> (tx # kept, s''))
     | _ \<Rightarrow> offer_all api txs s)"

definition admitted ::
  "(('v, 'c) executive_call \<Rightarrow> storage \<Rightarrow> (('v, 'c) executive_reply \<times> storage) option) \<Rightarrow> ('v, 'c) Transaction \<Rightarrow> bool" where
  "admitted api tx \<longleftrightarrow> (\<exists>source block_hash s vt s'. api (ValidateTransaction source tx block_hash) s = Some (Validated (Ok vt), s'))"

fun proposals :: "('v, 'c) executive_reply \<Rightarrow> ('v, 'c) Transaction list option" where
  "proposals (Inherents txs) = Some txs"
| "proposals _ = None"

fun final_header :: "('v, 'c) executive_reply \<Rightarrow> Header option" where
  "final_header (Finalized h) = Some h"
| "final_header _ = None"

lemma reply_parts [simp]:
  "proposals r = Some txs \<longleftrightarrow> r = Inherents txs" "final_header r = Some h \<longleftrightarrow> r = Finalized h"
  by (cases r; simp)+

definition produce_block ::
  "(('v, 'c) executive_call \<Rightarrow> storage \<Rightarrow> (('v, 'c) executive_reply \<times> storage) option)
     \<Rightarrow> Header \<Rightarrow> InherentData \<Rightarrow> ('v, 'c) Transaction list \<Rightarrow> storage \<Rightarrow> (('v, 'c) Block \<times> storage) option" where
  "produce_block api h inh pool s =
     Option.bind (api (InitializeBlock h) s) (\<lambda>(_, s1).
     Option.bind (api (InherentExtrinsics inh) s1) (\<lambda>(r, s2).
     Option.bind (proposals r) (\<lambda>proposed.
     (case offer_all api proposed s2 of (ps, s3) \<Rightarrow>
     (case offer_all api pool s3 of (qs, s4) \<Rightarrow>
     Option.bind (api FinalizeBlock s4) (\<lambda>(r', s5).
     map_option (\<lambda>h'. (\<lparr>header = h', extrinsics = ps @ qs\<rparr>, s5)) (final_header r')))))))"

text \<open>The states and blocks of a node that authors block after block.\<close>

inductive authored_chain ::
  "(('v, 'c) executive_call \<Rightarrow> storage \<Rightarrow> (('v, 'c) executive_reply \<times> storage) option)
     \<Rightarrow> storage \<Rightarrow> ('v, 'c) Block list \<Rightarrow> storage \<Rightarrow> bool"
  for api s where
  authored_start: "authored_chain api s [] s"
| authored_block: "authored_chain api s bs s1 \<Longrightarrow> list_all (admitted api) pool
    \<Longrightarrow> produce_block api h inh pool s1 = Some (b, s2) \<Longrightarrow> authored_chain api s (bs @ [b]) s2"

lemma offer_all_calls:
  assumes "offer_all api txs s = (kept, s')"
  shows "run_calls api (map ApplyExtrinsic kept) s = Some (replicate (length kept) (Applied (Ok ())), s') \<and> set kept \<subseteq> set txs"
  using assms
proof (induction txs arbitrary: s kept)
  case Nil
  then show ?case by simp
next
  case (Cons tx txs)
  show ?case
  proof (cases "\<exists>u s1. api (ApplyExtrinsic tx) s = Some (Applied (Ok u), s1)")
    case True
    then obtain u s1 where step: "api (ApplyExtrinsic tx) s = Some (Applied (Ok u), s1)" by blast
    obtain kept' where "offer_all api txs s1 = (kept', s')" "kept = tx # kept'"
      using Cons.prems step by (auto split: prod.splits)
    with Cons.IH [of s1 kept'] step show ?thesis by auto
  next
    case False
    then have "offer_all api (tx # txs) s = offer_all api txs s"
      by (auto split: option.split prod.split executive_reply.split result.split)
    with Cons.prems have "offer_all api txs s = (kept, s')" by simp
    from Cons.IH [OF this] show ?thesis by auto
  qed
qed

text \<open>What a network of nodes relies on.\<close>

locale node_runtime =
  fixes api :: "('v, 'c) executive_call \<Rightarrow> storage \<Rightarrow> (('v, 'c) executive_reply \<times> storage) option"
    and inherent_tx :: "('v, 'c) Transaction \<Rightarrow> bool"
    and idle :: "storage \<Rightarrow> bool"
  assumes initialized: "api (InitializeBlock h) s = Some (r, s') \<Longrightarrow> r = Initialized AllExtrinsics"
    and proposed: "api (InherentExtrinsics inh) s = Some (Inherents txs, s') \<Longrightarrow> s' = s \<and> list_all inherent_tx txs"
    and pool_guard: "admitted api tx \<Longrightarrow> \<not> inherent_tx tx"
    and authored_imports: "idle s \<Longrightarrow> list_all inherent_tx ps \<Longrightarrow> list_all (\<lambda>tx. \<not> inherent_tx tx) qs
      \<Longrightarrow> run_calls api (author_calls h (ps @ qs)) s = Some (author_replies (length (ps @ qs)) h', s')
      \<Longrightarrow> api (ExecuteBlock \<lparr>header = h', extrinsics = ps @ qs\<rparr>) s = Some (Executed, s') \<and> idle s'"
begin

lemma produced_block_imports:
  assumes "produce_block api h inh pool s = Some (b, s')" "list_all (admitted api) pool" "idle s"
  shows "api (ExecuteBlock b) s = Some (Executed, s') \<and> idle s'"
proof -
  obtain r s1 new s2 h' where steps: "api (InitializeBlock h) s = Some (r, s1)"
    "api (InherentExtrinsics inh) s1 = Some (Inherents new, s2)"
    and final: "api FinalizeBlock (snd (offer_all api pool (snd (offer_all api new s2)))) = Some (Finalized h', s')"
    and b: "b = \<lparr>header = h', extrinsics = fst (offer_all api new s2) @ fst (offer_all api pool (snd (offer_all api new s2)))\<rparr>"
    using assms(1) by (auto simp: produce_block_def bind_eq_Some_conv case_prod_unfold)
  obtain ps s3 where offer1: "offer_all api new s2 = (ps, s3)" by (cases "offer_all api new s2")
  obtain qs s4 where offer2: "offer_all api pool s3 = (qs, s4)" by (cases "offer_all api pool s3")
  have r: "r = Initialized AllExtrinsics" by (rule initialized [OF steps(1)])
  have s2: "s2 = s1" "list_all inherent_tx new" using proposed [OF steps(2)] by simp_all
  have ps: "list_all inherent_tx ps" and qs: "list_all (\<lambda>tx. \<not> inherent_tx tx) qs"
    using s2(2) assms(2) pool_guard offer_all_calls [OF offer1] offer_all_calls [OF offer2]
    by (auto simp: list_all_iff)
  have "run_calls api (author_calls h (ps @ qs)) s = Some (author_replies (length (ps @ qs)) h', s')"
    using offer_all_calls [OF offer1] offer_all_calls [OF offer2] steps(1) final
    by (simp add: author_calls_def author_replies_def run_calls_append r s2(1) [symmetric] offer1 offer2 replicate_add)
  from authored_imports [OF assms(3) ps qs this] show ?thesis by (simp add: b offer1 offer2)
qed

lemma importers_follow:
  assumes "authored_chain api s bs s'" and "idle s"
  shows "run_calls api (map ExecuteBlock bs) s = Some (replicate (length bs) Executed, s') \<and> idle s'"
  using assms
proof (induction rule: authored_chain.induct)
  case authored_start
  then show ?case by simp
next
  case (authored_block bs s1 pool h inh b s2)
  then show ?case
    using produced_block_imports [of h inh pool s1 b s2]
    by (simp add: run_calls_append replicate_append_same)
qed

end

lemma reply_unless_panic_reply: "reply_unless_panic f out = Some (r, s') \<Longrightarrow> f (snd out) = r"
  by (auto simp: reply_unless_panic_def split: result.splits)

lemma apply_calls:
  "run_calls (executive_api H V C bc) (map ApplyExtrinsic txs) s = Some (replicate (length txs) (Applied (Ok ())), a)
     \<longleftrightarrow> apply_extrinsics H V C txs s = Some a"
proof (induction txs arbitrary: s)
  case Nil
  then show ?case by simp
next
  case (Cons tx txs)
  show ?case
    by (cases "snd (apply_extrinsic H V C tx s)")
      (simp_all add: reply_unless_panic_def apply_extrinsics_Cons bind_eq_Some_conv Cons.IH [symmetric])
qed

lemma author_session:
  "run_calls (executive_api H V C bc) (author_calls h txs) s = Some (author_replies (length txs) h', s')
     \<longleftrightarrow> author_block H V C h txs s = Some (s', h')"
proof -
  have "run_calls (executive_api H V C bc) (author_calls h txs) s = Some (author_replies (length txs) h', s')
      \<longleftrightarrow> (\<exists>a. run_calls (executive_api H V C bc) (map ApplyExtrinsic txs) (open_block H h s)
            = Some (replicate (length txs) (Applied (Ok ())), a) \<and> close_block H a = Some (s', h'))"
    by (auto simp: author_calls_def author_replies_def run_calls_append bind_eq_Some_conv)
  then show ?thesis
    by (simp add: apply_calls author_block_def bind_eq_Some_conv)
qed

context executive
begin

lemma authored_fresh:
  assumes "s EXTRINSIC_KEY = None" "author_block H V C h txs s = Some (s', h')"
  shows "s' EXTRINSIC_KEY = None"
  using assms by (auto simp: author_block_Some)

lemma validate_height: "block_height H (fst (validate_tuxedo_transaction H V C tx s)) = block_height H s"
  using validate_storage_cases [of H V C tx s] by (auto simp: block_height_def check_frame)

lemma node_laws:
  assumes "proposes_inherents C"
  shows "node_runtime (executive_api H V C bc) (\<lambda>tx. is_inherent C (checker tx)) (\<lambda>s. s EXTRINSIC_KEY = None)"
proof
  fix h s r s'
  assume "executive_api H V C bc (InitializeBlock h) s = Some (r, s')"
  then show "r = Initialized AllExtrinsics" by simp
next
  fix inh s txs s'
  assume "executive_api H V C bc (InherentExtrinsics inh) s = Some (Inherents txs, s')"
  then show "s' = s \<and> list_all (\<lambda>tx. is_inherent C (checker tx)) txs"
    using assms by (auto simp: inherent_extrinsics_def bind_eq_Some_conv proposes_inherents_def)
next
  fix tx
  assume "admitted (executive_api H V C bc) tx"
  then obtain s vt where "snd (validate_transaction H V C tx s) = Ok vt"
    by (auto simp: admitted_def dest: reply_unless_panic_reply)
  then show "\<not> is_inherent C (checker tx)" by (simp add: validate_transaction_Ok)
next
  fix s ps qs h h' s'
  assume idle: "s EXTRINSIC_KEY = None" and kinds: "list_all (\<lambda>tx. is_inherent C (checker tx)) ps"
    "list_all (\<lambda>tx. \<not> is_inherent C (checker tx)) qs"
    and run: "run_calls (executive_api H V C bc) (author_calls h (ps @ qs)) s = Some (author_replies (length (ps @ qs)) h', s')"
  have "author_block H V C h (ps @ qs) s = Some (s', h')" using run unfolding author_session .
  moreover have "inherents_first C False (ps @ qs)"
    using kinds by (induction ps) (auto simp: inherents_first_iff list_all_iff dest: set_dropWhileD)
  ultimately show "executive_api H V C bc (ExecuteBlock \<lparr>header = h', extrinsics = ps @ qs\<rparr>) s = Some (Executed, s')
      \<and> s' EXTRINSIC_KEY = None"
    using import_authored [of s h "ps @ qs" s' h'] authored_fresh [of s h "ps @ qs" s' h'] idle by simp
qed

end

subsection \<open>A network of nodes\<close>

text \<open>Both runtimes propose nothing but inherents.\<close>

lemma template_proposes: "proposes_inherents (template_checker H R)"
  by (auto simp: proposes_inherents_def template_create_inherents template_is_inherent list_all_iff)

lemma parachain_proposes: "proposes_inherents (parachain_runtime_checker H P)"
  unfolding proposes_inherents_def
proof (intro allI impI)
  fix inh prev s txs
  assume "create_inherents (parachain_runtime_checker H P) inh prev s = Some txs"
  then obtain xs ys where txs: "txs = map (transform ParaInner) xs @ map (transform ParachainInfo) ys"
    and inner: "create_inherents (template_checker H (inner_host P)) inh (select_annotated un_inner prev) s = Some xs"
    by (auto simp: parachain_runtime_checker_def aggregate_checker_def parachain_variants_def inner_variant_def
        parachain_info_variant_def checker_variant_def bind_eq_Some_conv)
  have "list_all (\<lambda>tx. is_inherent (template_checker H (inner_host P)) (checker tx)) xs"
    using template_proposes inner unfolding proposes_inherents_def by blast
  then show "list_all (\<lambda>tx. is_inherent (parachain_runtime_checker H P) (checker tx)) txs"
    using v_timestamp.unwrap_Some by (fastforce simp: txs list_all_iff parachain_is_inherent template_is_inherent)
qed

locale authoring_executive = executive H V C
  for H :: host and V :: "('v, 'r) Verifier" and C :: "('v, 'c, 'e) ConstraintChecker" +
  assumes proposes: "proposes_inherents C"

sublocale authoring_executive \<subseteq> node: node_runtime "executive_api H V C bc" "\<lambda>tx. is_inherent C (checker tx)"
  "\<lambda>s. s EXTRINSIC_KEY = None" for bc
  by (rule node_laws [OF proposes])

text \<open>
  C8. Nodes agree. Let one node author block after block through the runtime API: on a header of its choice it initialises a block, offers the inherents
  that the runtime proposes for whatever inherent data it has, then any list of transactions that the runtime has called valid for the pool in some
  state, drops each that is not applied, and finalises. Every other node that starts from the same state (with no extrinsics noted, as between
  blocks) and is given the finished blocks executes all of them without a panic and ends in the author's state. The runtime's checker has to
  propose nothing but inherents, as those of both runtimes do.
\<close>

theorem nodes_agree:
  assumes "executive H V C" and "proposes_inherents C" and "s EXTRINSIC_KEY = None"
    and "authored_chain (executive_api H V C bc) s bs s'"
  shows "run_calls (executive_api H V C bc) (map ExecuteBlock bs) s = Some (replicate (length bs) Executed, s')"
  using node_runtime.importers_follow [OF executive.node_laws [OF assms(1,2)] assms(4,3)] by (rule conjunct1)

subsection \<open>Calls that do not belong to a block\<close>

fun builds_state :: "('v, 'c) template_call \<Rightarrow> bool" where
  "builds_state (TemplateExecutive (ExecuteBlock _)) = True"
| "builds_state (TemplateExecutive (InitializeBlock _)) = True"
| "builds_state (TemplateExecutive (ApplyExtrinsic _)) = True"
| "builds_state (TemplateExecutive FinalizeBlock) = True"
| "builds_state (BuildConfig _) = True"
| "builds_state _ = False"

fun validates :: "('v, 'c) template_call \<Rightarrow> bool" where
  "validates (TemplateExecutive (ValidateTransaction _ _ _)) = True"
| "validates _ = False"

lemma reply_unless_panic_Some:
  "reply_unless_panic f out = Some (r, s') \<Longrightarrow> s' = fst out"
  by (auto simp: reply_unless_panic_def split: result.splits)

text \<open>
  What the template runtime's other calls may change. Apart from the calls that build a block or the genesis state, no API call touches
  the ledger or the block height, and apart from pool validation none changes the storage at all. (Pool validation may: the
  runtime upgrade piece writes the new code while it checks.)
\<close>

theorem api_calls_keep_ledger:
  assumes "executive H (template_verifier H R) (template_checker H R)"
    and "template_api H R A call s = Some (r, s')" and "\<not> builds_state call"
  shows "ledger_of H (template_verifier H R) s' = ledger_of H (template_verifier H R) s
    \<and> block_height H s' = block_height H s \<and> (validates call \<or> s' = s)"
proof (cases "validates call")
  case True
  let ?V = "template_verifier H R" and ?C = "template_checker H R"
  from True obtain source tx block_hash where call: "call = TemplateExecutive (ValidateTransaction source tx block_hash)"
    by (cases call rule: validates.cases) auto
  have "s' = fst (validate_transaction H ?V ?C tx s)"
    using assms(2) by (auto simp: call dest: reply_unless_panic_Some)
  then consider "s' = s" | "s' = fst (validate_tuxedo_transaction H ?V ?C tx s)"
    by (auto simp: validate_transaction_def case_prod_unfold split: if_splits)
  then show ?thesis
    using executive.validate_height [OF assms(1)] executive.validate_peek [OF assms(1)] True
    by cases (simp_all add: ledger_of_def)
next
  case False
  then have "s' = s"
    using assms(2,3) by (cases call rule: builds_state.cases) auto
  then show ?thesis by simp
qed

subsection \<open>The default genesis configuration\<close>

text \<open>
  C35. The template runtime builds the genesis it proposes. When JSON reads back what it wrote, \<^verbatim>\<open>create_default_config\<close> answers
  with a configuration and leaves the storage alone, and \<^verbatim>\<open>build_config\<close> on that configuration succeeds on every
  base state; from an empty ledger it issues coins worth at most 200. A configuration that is no list of transactions
  is refused and changes nothing.
\<close>

theorem default_config_builds:
  assumes "executive H (template_verifier H R) (template_checker H R)"
    and "genesis_base H (template_verifier H R) s0" and "scale_codec (coin_codec R)"
    and "\<And>gtxs. \<exists>b. json_to_vec A gtxs = Some b \<and> json_from_slice A b = Some gtxs"
  shows "(\<exists>config s. template_api H R A CreateDefaultConfig s0 = Some (ConfigReply config, s0)
      \<and> template_api H R A (BuildConfig config) s0 = Some (BuildReply (Ok ()), s)
      \<and> coin_supply 0 (coin_codec R) (ledger_of H (template_verifier H R) s) \<le> 200)
    \<and> (json_from_slice A garbage = None \<longrightarrow> template_api H R A (BuildConfig garbage) s0
      = Some (BuildReply (Err ''The input JSON is not a valid list of Transactions.''), s0))"
proof -
  obtain gtxs s where gtxs: "development_genesis_transactions H R = Some gtxs"
    and s: "build H (template_verifier H R) (template_checker H R) (api_transactions_codec A) gtxs s0 = (s, Ok ())"
    and worth: "coin_supply 0 (coin_codec R) (ledger_of H (template_verifier H R) s) \<le> 200"
    using development_genesis_builds [OF assms(1-3), of "api_transactions_codec A"] by blast
  obtain config where "json_to_vec A gtxs = Some config" "json_from_slice A config = Some gtxs"
    using assms(4) by blast
  then show ?thesis
    using gtxs s worth by (simp add: create_default_config_def build_config_def reply_unless_panic_def)
qed

end
