(* ===== verification/Runtime_Api_Instance.thy ===== *)
theory Runtime_Api_Instance
  imports Runtime_Api Parachain_Instance
begin

text \<open>The runtime APIs on the reference host: concrete calls at which the theorems of \<^verbatim>\<open>Runtime_Api\<close> apply.\<close>

definition bool_codec :: "bool codec" where
  "bool_codec = map_codec (\<lambda>b. b = 1) (\<lambda>x. if x then 1 else 0) byte_codec"

definition ref_metadata_codec :: "TuxedoMetadata codec" where
  "ref_metadata_codec = map_codec (\<lambda>b. \<lparr>registry = (), parachain_flag = b\<rparr>) parachain_flag bool_codec"

lemma scale_codec_metadata: "scale_codec ref_metadata_codec"
  unfolding ref_metadata_codec_def bool_codec_def by (intro scale_codec_map scale_codec_byte) simp_all

definition ref_api :: "(OuterVerifier, OuterConstraintChecker) api_host" where
  "ref_api = \<lparr>runtime_api_versions = [], api_metadata_codec = ref_metadata_codec,
     generate_keys = (\<lambda>seed. case seed of Some b \<Rightarrow> b | None \<Rightarrow> []),
     decode_raw_public_keys = (\<lambda>b. Some [(b, byte_string4 ''aura'')]),
     json_to_vec = (\<lambda>txs. Some (encode template_txs_codec txs)), json_from_slice = decode_value template_txs_codec,
     api_block_codec = ref_block_codec, api_transactions_codec = template_txs_codec\<rparr>"

lemma scale_codec_template_txs: "scale_codec template_txs_codec"
  using encode_transaction_decode [OF ref.host_laws_axioms ref_template.template.verifier_laws_axioms
      ref_template.template.checker_lawful]
  by (intro scale_codec_list) (simp add: scale_codec_def transaction_codec_def)

theorem default_config_builds_witness:
  "\<exists>config s. template_api ref_host ref_runtime ref_api CreateDefaultConfig Map.empty = Some (ConfigReply config, Map.empty)
     \<and> template_api ref_host ref_runtime ref_api (BuildConfig config) Map.empty = Some (BuildReply (Ok ()), s)
     \<and> coin_supply 0 ref_coin_codec (ledger_of ref_host ref_tv s) \<le> 200"
proof -
  have "\<exists>b. json_to_vec ref_api gtxs = Some b \<and> json_from_slice ref_api b = Some gtxs" for gtxs
    by (simp add: ref_api_def scale_codec.decode_value_encode [OF scale_codec_template_txs])
  moreover have "scale_codec (coin_codec ref_runtime)" by (simp add: scale_codec_coin)
  ultimately show ?thesis
    using default_config_builds [OF ref_template.template.executive_axioms empty_base, of ref_api] by simp
qed

text \<open>One node mints a coin in a block; the others execute it.\<close>

definition mint_header :: Header where
  "mint_header = \<lparr>parent_hash = 0, number = 2, state_root = 0, extrinsics_root = 0, digest = []\<rparr>"

lemma template_mint_accepted:
  "ledger_accepts ref_host ref_tv ref_tc h (ledger_of ref_host ref_tv (template_state [] 1)) s template_mint"
proof -
  have "ledger_of ref_host ref_tv (template_state [] 1) = Map.empty"
    by (subst template_state_ledger) (simp_all add: fun_eq_iff)
  moreover have "\<exists>p. snd (check ref_tc (checker template_mint) [] [] [] (map payload (outputs template_mint)) s) = Ok p"
    by (simp add: template_mint_def coin_mint_def template_check_Ok money_mint_Ok output_from_pair_def
        coin_new_def scale_codec_coin del: money_check.simps)
  ultimately show ?thesis
    by (simp add: ledger_accepts_def template_mint_def coin_mint_def redeemed_refs_def evicted_refs_def ledger_payloads_def)
qed

theorem api_calls_keep_ledger_witness:
  "\<exists>r s'. template_api ref_host ref_runtime ref_api
       (TemplateExecutive (ValidateTransaction External template_mint 0)) (template_state [] 1) = Some (r, s')
     \<and> block_height ref_host s' = Some 1"
proof -
  let ?call = "TemplateExecutive (ValidateTransaction External template_mint 0)" and ?s = "template_state [] 1"
  obtain vt where "snd (validate_tuxedo_transaction ref_host ref_tv ref_tc template_mint ?s) = Ok vt"
    using ref_template.template.validate_complete [OF template_state_height, of template_mint "[]" 1] template_mint_accepted
    by blast
  moreover have "\<not> is_inherent ref_tc (checker template_mint)"
    by (simp add: template_mint_def coin_mint_def template_is_inherent)
  ultimately obtain r s' where call: "template_api ref_host ref_runtime ref_api ?call ?s = Some (r, s')"
    by (simp add: validate_transaction_def reply_unless_panic_def case_prod_unfold)
  show ?thesis
    using api_calls_keep_ledger [OF ref_template.template.executive_axioms call] call
    by (auto simp: template_state_height)
qed

interpretation ref_node: authoring_executive ref_host ref_tv ref_tc
  by (intro authoring_executive.intro authoring_executive_axioms.intro ref_template.template.executive_axioms template_proposes)

text \<open>
  The author's clock proposes a timestamp that peeks at an output which is not there: it is dropped. The minted coin of
  the pool is kept.
\<close>

lemma mint_admitted: "admitted (executive_api ref_host ref_tv ref_tc ref_block_codec) template_mint"
proof -
  obtain vt where "snd (validate_tuxedo_transaction ref_host ref_tv ref_tc template_mint (template_state [] 1)) = Ok vt"
    using ref_template.template.validate_complete [OF template_state_height, of template_mint "[]" 1] template_mint_accepted
    by blast
  moreover have "\<not> is_inherent ref_tc (checker template_mint)"
    by (simp add: template_mint_def coin_mint_def template_is_inherent)
  ultimately have "snd (validate_transaction ref_host ref_tv ref_tc template_mint (template_state [] 1)) = Ok vt"
    by (simp add: ref_template.template.validate_transaction_Ok)
  then show ?thesis
    unfolding admitted_def
    by (intro exI [of _ External] exI [of _ 0] exI [of _ "template_state [] 1"] exI [of _ vt]
        exI [of _ "fst (validate_transaction ref_host ref_tv ref_tc template_mint (template_state [] 1))"])
      (simp add: reply_unless_panic_def)
qed

lemma dropped_inherent:
  assumes "block_height ref_host s = Some h" "ledger_of ref_host ref_tv s = Map.empty" "peeks tx \<noteq> []"
  shows "offer_all (executive_api ref_host ref_tv ref_tc ref_block_codec) [tx] s = ([], s)"
proof -
  have "\<not> ledger_accepts ref_host ref_tv ref_tc h (ledger_of ref_host ref_tv s')
      s' tx" if "ledger_of ref_host ref_tv s' = Map.empty" for s'
    using that assms(3) ledger_accepts_present [of ref_host ref_tv ref_tc h "ledger_of ref_host ref_tv s'" s' tx]
    by (cases "peeks tx") auto
  then have "snd (apply_extrinsic ref_host ref_tv ref_tc tx s) \<noteq> Ok u" for u
    using ref_template.template.apply_complete [of "s(EXTRINSIC_KEY \<mapsto> b)" h tx for b] assms
    by (simp add: apply_extrinsic_def Let_def case_prod_unfold map_err_Ok ledger_of_runtime_key ref.host_laws_axioms)
  then show ?thesis
    by (auto simp: reply_unless_panic_def split: option.splits prod.splits executive_reply.splits result.splits)
qed

theorem nodes_agree_witness:
  "\<exists>b s'. extrinsics b = [template_mint]
     \<and> run_calls (executive_api ref_host ref_tv ref_tc ref_block_codec) [ExecuteBlock b] (template_state [] 1)
        = Some ([Executed], s')"
proof -
  let ?s = "template_state [] 1" and ?api = "executive_api ref_host ref_tv ref_tc ref_block_codec"
  let ?o = "open_block ref_host mint_header ?s"
  have fresh: "?s EXTRINSIC_KEY = None"
    by (simp add: template_state_def utxo_state_key)
  obtain s' h' where "author_block ref_host ref_tv ref_tc mint_header [template_mint] ?s = Some (s', h')"
    using ref_author_single [OF ref_template.template.executive_axioms fresh template_mint_accepted] by blast
  then obtain a where a: "apply_extrinsics ref_host ref_tv ref_tc [template_mint] ?o = Some a" and close: "close_block ref_host a = Some (s', h')"
    by (auto simp: author_block_def bind_eq_Some_conv)
  have height: "block_height ref_host ?o = Some 2"
    by (simp add: block_height_def open_block_def mint_header_def scale_codec.decode_value_encode [OF ref.u32_lawful])
  have empty: "ledger_of ref_host ref_tv ?o = Map.empty"
    by (simp add: open_block_def ledger_of_runtime_key ref.host_laws_axioms) (subst template_state_ledger, simp_all add: fun_eq_iff)
  obtain tx where tx: "inherent_extrinsics ref_host ref_tv ref_tc ref_block_codec authoring_data ?o = Some [tx]" "peeks tx \<noteq> []"
    using authoring_inherents [OF height] by auto
  have "offer_all ?api [template_mint] ?o = ([template_mint], a)"
    using a by (auto simp: apply_extrinsics_Cons reply_unless_panic_def split: if_splits)
  then have "produce_block ?api mint_header authoring_data [template_mint] ?s = Some (\<lparr>header = h', extrinsics = [template_mint]\<rparr>, s')"
    using dropped_inherent [OF height empty tx(2)] tx(1) close by (simp add: produce_block_def)
  then have "authored_chain ?api ?s ([] @ [\<lparr>header = h', extrinsics = [template_mint]\<rparr>]) s'"
    using mint_admitted by (intro authored_block [OF authored_start]) simp_all
  from nodes_agree [OF ref_template.template.executive_axioms template_proposes fresh this] show ?thesis
    by (intro exI [of _ "\<lparr>header = h', extrinsics = [template_mint]\<rparr>"] exI [of _ s']) simp
qed

end
