(* ===== verification/Wallet_Db.thy ===== *)
theory Wallet_Db
  imports Template_Runtime
begin

text \<open>
  The wallet's local database (\<^verbatim>\<open>wallet/src/sync.rs\<close>, the table operations).

  \<^item> The database is sled, a package outside the repository: the record \<open>sled\<close> of the operations the
    wallet calls, on an abstract database type \<open>'d\<close>. Every operation may fail. The locale \<open>sled_laws\<close> states the
    documented behaviour on a working disk: each named tree is a finite map from keys to values.
  \<^item> A wallet operation maps a database to a database and a result (\<open>('d, 'a) wallet\<close>); what was
    written before an error stays written. \<open>wbind\<close> is the \<^verbatim>\<open>?\<close> operator, \<open>wfor\<close> a loop.
  \<^item> The abstract wallet is the record \<open>wallet_state\<close>: typed tables instead of byte strings. \<open>computes\<close> says that an
    operation, run on any database that represents one such state, returns a given value in a database that
    represents another. The locale \<open>wallet_laws\<close> holds these facts for each table operation.
\<close>

subsection \<open>Fallible operations on a database\<close>

datatype WalletError =
    SledError
  | CodecError
  | RpcError
  | HexError
  | ClapError
  | ExtractError DynamicTypingError
  | KeystoreError
  | GenesisMismatch H256 H256
  | UninitializedSync
  | UninitializedUnapply
  | InconsistentDb
  | CorruptedDb
  | UnsupportedOwner
  | TimestampMissing
  | TimestampUndecodable
  | UnknownInput
  | NotEnoughValue
  | StorageMissing
  | KeyMissing
  | PhraseError
  | KeyInsertError
  | IoError

type_synonym ('d, 'a) wallet = "'d \<Rightarrow> 'd \<times> ('a, WalletError) result"

definition wlift :: "('a, WalletError) result \<Rightarrow> ('d, 'a) wallet" where
  "wlift r = (\<lambda>d. (d, r))"

definition wbind :: "('d, 'a) wallet \<Rightarrow> ('a \<Rightarrow> ('d, 'b) wallet) \<Rightarrow> ('d, 'b) wallet" where
  "wbind m f = (\<lambda>d. case m d of
      (d', Ok x) \<Rightarrow> f x d'
    | (d', Err e) \<Rightarrow> (d', Err e)
    | (d', Panic) \<Rightarrow> (d', Panic))"

fun wfor :: "('a \<Rightarrow> ('d, unit) wallet) \<Rightarrow> 'a list \<Rightarrow> ('d, unit) wallet" where
  "wfor f [] = wlift (Ok ())"
| "wfor f (x # xs) = wbind (f x) (\<lambda>_. wfor f xs)"

subsection \<open>The database package\<close>

record 'd sled =
  open_tree :: "string \<Rightarrow> ('d, unit) wallet"
  tree_get :: "string \<Rightarrow> bytes \<Rightarrow> ('d, bytes option) wallet"
  tree_insert :: "string \<Rightarrow> bytes \<Rightarrow> bytes \<Rightarrow> ('d, bytes option) wallet"
  tree_remove :: "string \<Rightarrow> bytes \<Rightarrow> ('d, bytes option) wallet"
  tree_len :: "string \<Rightarrow> 'd \<Rightarrow> nat"
  tree_iter :: "string \<Rightarrow> 'd \<Rightarrow> (bytes \<times> bytes, WalletError) result list"

record OpaqueBlock =
  opaque_header :: Header
  opaque_extrinsics :: "bytes list"

record 'd wallet_host =
  sled_db :: "'d sled"
  owner_amount_codec :: "(H256 \<times> u128) codec"
  opaque_block_codec :: "OpaqueBlock codec"
  u64_codec :: "u64 codec"

subsection \<open>The tables\<close>

definition BLOCKS :: string where "BLOCKS = ''blocks''"
definition BLOCK_HASHES :: string where "BLOCK_HASHES = ''block_hashes''"
definition UNSPENT :: string where "UNSPENT = ''unspent''"
definition SPENT :: string where "SPENT = ''spent''"
definition TIMESTAMP :: string where "TIMESTAMP = ''timestamp''"

definition get_unspent :: "host \<Rightarrow> 'd wallet_host \<Rightarrow> OutputRef \<Rightarrow> ('d, (H256 \<times> u128) option) wallet" where
  "get_unspent H W r =
     wbind (open_tree (sled_db W) UNSPENT) (\<lambda>_.
     wbind (tree_get (sled_db W) UNSPENT (encode (output_ref_codec H) r)) (\<lambda>v.
     case v of
       None \<Rightarrow> wlift (Ok None)
     | Some ivec \<Rightarrow> wlift (map_ok Some (ok_or (decode_value (owner_amount_codec W) ivec) CodecError))))"

fun pick_unspent ::
  "host \<Rightarrow> 'd wallet_host \<Rightarrow> u128 \<Rightarrow> u128 \<Rightarrow> OutputRef list \<Rightarrow> (bytes \<times> bytes, WalletError) result list
     \<Rightarrow> (OutputRef list option, WalletError) result" where
  "pick_unspent H W target tot keepers [] = Ok (if tot < target then None else Some keepers)"
| "pick_unspent H W target tot keepers (item # items) =
     (if tot < target then
        bind_result item (\<lambda>(output_ref_ivec, owner_amount_ivec).
        bind_result (ok_or (decode_value (output_ref_codec H) output_ref_ivec) CodecError) (\<lambda>r.
        bind_result (ok_or (decode_value (owner_amount_codec W) owner_amount_ivec) CodecError) (\<lambda>(owner, amount).
        pick_unspent H W target (tot + amount) (keepers @ [r]) items)))
      else Ok (Some keepers))"

definition get_arbitrary_unspent_set ::
  "host \<Rightarrow> 'd wallet_host \<Rightarrow> u128 \<Rightarrow> ('d, OutputRef list option) wallet" where
  "get_arbitrary_unspent_set H W target =
     wbind (open_tree (sled_db W) UNSPENT) (\<lambda>_ d.
     wlift (pick_unspent H W target 0 [] (tree_iter (sled_db W) UNSPENT d)) d)"

definition get_block_hash :: "host \<Rightarrow> 'd wallet_host \<Rightarrow> u32 \<Rightarrow> ('d, H256 option) wallet" where
  "get_block_hash H W h =
     wbind (open_tree (sled_db W) BLOCK_HASHES) (\<lambda>_.
     wbind (tree_get (sled_db W) BLOCK_HASHES (encode (u32_codec H) h)) (\<lambda>v.
     case v of
       None \<Rightarrow> wlift (Ok None)
     | Some ivec \<Rightarrow> wlift (map_ok Some (ok_or (decode_value (h256_codec H) ivec) CodecError))))"

text \<open>\<open>get_block\<close> decodes the stored opaque block as a block of the runtime, with codec \<open>bc\<close>.\<close>

definition get_block :: "host \<Rightarrow> 'd wallet_host \<Rightarrow> 'b codec \<Rightarrow> H256 \<Rightarrow> ('d, 'b option) wallet" where
  "get_block H W bc hash =
     wbind (open_tree (sled_db W) BLOCKS) (\<lambda>_.
     wbind (tree_get (sled_db W) BLOCKS (encode (h256_codec H) hash)) (\<lambda>v.
     case v of
       None \<Rightarrow> wlift (Ok None)
     | Some ivec \<Rightarrow> wlift (map_ok Some (ok_or (decode_value bc ivec) CodecError))))"

definition add_unspent_output ::
  "host \<Rightarrow> 'd wallet_host \<Rightarrow> OutputRef \<Rightarrow> H256 \<Rightarrow> u128 \<Rightarrow> ('d, unit) wallet" where
  "add_unspent_output H W r owner amount =
     wbind (open_tree (sled_db W) UNSPENT) (\<lambda>_.
     wbind (tree_insert (sled_db W) UNSPENT (encode (output_ref_codec H) r)
       (encode (owner_amount_codec W) (owner, amount))) (\<lambda>_.
     wlift (Ok ())))"

definition remove_unspent_output :: "host \<Rightarrow> 'd wallet_host \<Rightarrow> OutputRef \<Rightarrow> ('d, unit) wallet" where
  "remove_unspent_output H W r =
     wbind (open_tree (sled_db W) UNSPENT) (\<lambda>_.
     wbind (tree_remove (sled_db W) UNSPENT (encode (output_ref_codec H) r)) (\<lambda>_.
     wlift (Ok ())))"

definition spend_output :: "host \<Rightarrow> 'd wallet_host \<Rightarrow> OutputRef \<Rightarrow> ('d, unit) wallet" where
  "spend_output H W r =
     wbind (open_tree (sled_db W) UNSPENT) (\<lambda>_.
     wbind (open_tree (sled_db W) SPENT) (\<lambda>_.
     wbind (tree_remove (sled_db W) UNSPENT (encode (output_ref_codec H) r)) (\<lambda>v.
     case v of
       None \<Rightarrow> wlift (Ok ())
     | Some ivec \<Rightarrow>
         wbind (wlift (ok_or (decode_value (owner_amount_codec W) ivec) CodecError)) (\<lambda>(owner, amount).
         wbind (tree_insert (sled_db W) SPENT (encode (output_ref_codec H) r)
           (encode (owner_amount_codec W) (owner, amount))) (\<lambda>_.
         wlift (Ok ()))))))"

definition unspend_output :: "host \<Rightarrow> 'd wallet_host \<Rightarrow> OutputRef \<Rightarrow> ('d, unit) wallet" where
  "unspend_output H W r =
     wbind (open_tree (sled_db W) UNSPENT) (\<lambda>_.
     wbind (open_tree (sled_db W) SPENT) (\<lambda>_.
     wbind (tree_remove (sled_db W) SPENT (encode (output_ref_codec H) r)) (\<lambda>v.
     case v of
       None \<Rightarrow> wlift (Ok ())
     | Some ivec \<Rightarrow>
         wbind (wlift (ok_or (decode_value (owner_amount_codec W) ivec) CodecError)) (\<lambda>(owner, amount).
         wbind (tree_insert (sled_db W) UNSPENT (encode (output_ref_codec H) r)
           (encode (owner_amount_codec W) (owner, amount))) (\<lambda>_.
         wlift (Ok ()))))))"

definition height :: "'d wallet_host \<Rightarrow> ('d, u32 option) wallet" where
  "height W =
     wbind (open_tree (sled_db W) BLOCK_HASHES) (\<lambda>_ d.
     (let num_blocks = tree_len (sled_db W) BLOCK_HASHES d in
      wlift (Ok (if num_blocks = 0 then None else Some (of_nat num_blocks - 1))) d))"

definition add_balance ::
  "'d wallet_host \<Rightarrow> (H256 \<rightharpoonup> u128) \<Rightarrow> (bytes \<times> bytes, WalletError) result
     \<Rightarrow> (H256 \<rightharpoonup> u128, WalletError) result" where
  "add_balance W balances raw_data =
     bind_result raw_data (\<lambda>(_, owner_amount_ivec).
     bind_result (ok_or (decode_value (owner_amount_codec W) owner_amount_ivec) CodecError) (\<lambda>(owner, amount).
     Ok (balances(owner \<mapsto> (case balances owner of Some old \<Rightarrow> old + amount | None \<Rightarrow> amount)))))"

definition get_balances :: "'d wallet_host \<Rightarrow> ('d, H256 \<rightharpoonup> u128) wallet" where
  "get_balances W =
     wbind (open_tree (sled_db W) UNSPENT) (\<lambda>_ d.
     wlift (fold_result (add_balance W) Map.empty (tree_iter (sled_db W) UNSPENT d)) d)"

text \<open>\<^verbatim>\<open>wallet/src/timestamp.rs\<close>\<close>

definition get_timestamp :: "'d wallet_host \<Rightarrow> ('d, u64) wallet" where
  "get_timestamp W =
     wbind (open_tree (sled_db W) TIMESTAMP) (\<lambda>_.
     wbind (tree_get (sled_db W) TIMESTAMP [0]) (\<lambda>v.
     wbind (wlift (ok_or v TimestampMissing)) (\<lambda>ivec.
     wlift (ok_or (decode_value (u64_codec W) ivec) TimestampUndecodable))))"

subsection \<open>What the package promises\<close>

locale sled_laws =
  fixes S :: "'d sled" and contents :: "'d \<Rightarrow> string \<Rightarrow> bytes \<rightharpoonup> bytes"
  assumes open_tree_law: "snd (open_tree S t d) = Ok ()" "contents (fst (open_tree S t d)) = contents d"
    and tree_get_law: "snd (tree_get S t k d) = Ok (contents d t k)" "contents (fst (tree_get S t k d)) = contents d"
    and tree_insert_law: "snd (tree_insert S t k v d) = Ok (contents d t k)"
      "contents (fst (tree_insert S t k v d)) = (contents d)(t := (contents d t)(k \<mapsto> v))"
    and tree_remove_law: "snd (tree_remove S t k d) = Ok (contents d t k)"
      "contents (fst (tree_remove S t k d)) = (contents d)(t := (contents d t)(k := None))"
    and tree_len_law: "tree_len S t d = card (dom (contents d t))"
    and tree_iter_law: "\<exists>kvs. tree_iter S t d = map Ok kvs \<and> distinct (map fst kvs) \<and> map_of kvs = contents d t"

subsection \<open>The abstract wallet\<close>

record wallet_state =
  known_hashes :: "u32 \<rightharpoonup> H256"
  known_blocks :: "H256 \<rightharpoonup> OpaqueBlock"
  unspent_coins :: "OutputRef \<rightharpoonup> H256 \<times> u128"
  spent_coins :: "OutputRef \<rightharpoonup> H256 \<times> u128"
  best_time :: "u64 option"

text \<open>A tree holds a typed map when its keys and values are the encodings of the map's.\<close>

definition tree_holds :: "'k codec \<Rightarrow> 'v codec \<Rightarrow> (bytes \<rightharpoonup> bytes) \<Rightarrow> ('k \<rightharpoonup> 'v) \<Rightarrow> bool" where
  "tree_holds ck cv t m \<longleftrightarrow>
     dom t \<subseteq> range (encode ck) \<and> (\<forall>k. t (encode ck k) = map_option (encode cv) (m k))"

definition represents ::
  "host \<Rightarrow> 'd wallet_host \<Rightarrow> ('d \<Rightarrow> string \<Rightarrow> bytes \<rightharpoonup> bytes) \<Rightarrow> 'd \<Rightarrow> wallet_state \<Rightarrow> bool" where
  "represents H W contents d st \<longleftrightarrow>
     tree_holds (u32_codec H) (h256_codec H) (contents d BLOCK_HASHES) (known_hashes st)
     \<and> tree_holds (h256_codec H) (opaque_block_codec W) (contents d BLOCKS) (known_blocks st)
     \<and> tree_holds (output_ref_codec H) (owner_amount_codec W) (contents d UNSPENT) (unspent_coins st)
     \<and> tree_holds (output_ref_codec H) (owner_amount_codec W) (contents d SPENT) (spent_coins st)
     \<and> contents d TIMESTAMP [0] = map_option (encode (u64_codec W)) (best_time st)"

definition spend :: "OutputRef \<Rightarrow> wallet_state \<Rightarrow> wallet_state" where
  "spend r st =
     (case unspent_coins st r of
        None \<Rightarrow> st
      | Some oa \<Rightarrow> st\<lparr>unspent_coins := (unspent_coins st)(r := None), spent_coins := (spent_coins st)(r \<mapsto> oa)\<rparr>)"

definition unspend :: "OutputRef \<Rightarrow> wallet_state \<Rightarrow> wallet_state" where
  "unspend r st =
     (case spent_coins st r of
        None \<Rightarrow> st
      | Some oa \<Rightarrow> st\<lparr>spent_coins := (spent_coins st)(r := None), unspent_coins := (unspent_coins st)(r \<mapsto> oa)\<rparr>)"

definition forget :: "OutputRef \<Rightarrow> wallet_state \<Rightarrow> wallet_state" where
  "forget r st = st\<lparr>unspent_coins := (unspent_coins st)(r := None)\<rparr>"

definition receive :: "OutputRef \<Rightarrow> H256 \<times> u128 \<Rightarrow> wallet_state \<Rightarrow> wallet_state" where
  "receive r oa st = st\<lparr>unspent_coins := (unspent_coins st)(r \<mapsto> oa)\<rparr>"

lemmas table_names = BLOCKS_def BLOCK_HASHES_def UNSPENT_def SPENT_def TIMESTAMP_def

lemma table_names_distinct [simp]:
  "BLOCKS \<noteq> BLOCK_HASHES" "BLOCKS \<noteq> UNSPENT" "BLOCKS \<noteq> SPENT" "BLOCKS \<noteq> TIMESTAMP"
  "BLOCK_HASHES \<noteq> BLOCKS" "BLOCK_HASHES \<noteq> UNSPENT" "BLOCK_HASHES \<noteq> SPENT" "BLOCK_HASHES \<noteq> TIMESTAMP"
  "UNSPENT \<noteq> BLOCKS" "UNSPENT \<noteq> BLOCK_HASHES" "UNSPENT \<noteq> SPENT" "UNSPENT \<noteq> TIMESTAMP"
  "SPENT \<noteq> BLOCKS" "SPENT \<noteq> BLOCK_HASHES" "SPENT \<noteq> UNSPENT" "SPENT \<noteq> TIMESTAMP"
  "TIMESTAMP \<noteq> BLOCKS" "TIMESTAMP \<noteq> BLOCK_HASHES" "TIMESTAMP \<noteq> UNSPENT" "TIMESTAMP \<noteq> SPENT"
  by (simp_all add: table_names)

lemma tree_holds_update:
  assumes "scale_codec ck" and "tree_holds ck cv t m"
  shows "tree_holds ck cv (t(encode ck k \<mapsto> encode cv v)) (m(k \<mapsto> v))"
    and "tree_holds ck cv (t(encode ck k := None)) (m(k := None))"
  using assms(2) by (auto simp: tree_holds_def scale_codec.encode_inject [OF assms(1)])

lemma tree_holds_get: "tree_holds ck cv t m \<Longrightarrow> t (encode ck k) = map_option (encode cv) (m k)"
  by (simp add: tree_holds_def)

lemma tree_holds_card:
  assumes "scale_codec ck" and "tree_holds ck cv t m"
  shows "card (dom t) = card (dom m)"
proof -
  have "dom t = encode ck ` dom m"
  proof
    show "encode ck ` dom m \<subseteq> dom t" using assms(2) by (auto simp: tree_holds_def)
  next
    show "dom t \<subseteq> encode ck ` dom m"
    proof
      fix b
      assume b: "b \<in> dom t"
      with assms(2) obtain k where k: "b = encode ck k" by (auto simp: tree_holds_def)
      with b tree_holds_get [OF assms(2), of k] have "k \<in> dom m" by (auto simp: dom_def)
      with k show "b \<in> encode ck ` dom m" by blast
    qed
  qed
  then show ?thesis
    by (simp add: card_image inj_on_def scale_codec.encode_inject [OF assms(1)])
qed

subsection \<open>Operations on every representing database\<close>

text \<open>
  Run on any database that represents \<open>st\<close>, the operation \<open>m\<close> returns \<open>x\<close> in a database that represents \<open>st'\<close>.
\<close>

definition computes :: "('d \<Rightarrow> 'w \<Rightarrow> bool) \<Rightarrow> ('d, 'a) wallet \<Rightarrow> 'w \<Rightarrow> 'a \<Rightarrow> 'w \<Rightarrow> bool" where
  "computes R m st x st' \<longleftrightarrow> (\<forall>d. R d st \<longrightarrow> snd (m d) = Ok x \<and> R (fst (m d)) st')"

lemma computesI: "(\<And>d. R d st \<Longrightarrow> snd (m d) = Ok x \<and> R (fst (m d)) st') \<Longrightarrow> computes R m st x st'"
  by (simp add: computes_def)

lemma computesD: "computes R m st x st' \<Longrightarrow> R d st \<Longrightarrow> \<exists>d'. m d = (d', Ok x) \<and> R d' st'"
  unfolding computes_def by (metis prod.collapse)

lemma computes_lift: "computes R (wlift (Ok x)) st x st"
  by (simp add: computes_def wlift_def)

lemma computes_bind:
  assumes "computes R m st x st1" and "computes R (f x) st1 y st2"
  shows "computes R (wbind m f) st y st2"
proof (rule computesI)
  fix d
  assume "R d st"
  then obtain d1 where "m d = (d1, Ok x)" "R d1 st1" using computesD [OF assms(1)] by blast
  then show "snd (wbind m f d) = Ok y \<and> R (fst (wbind m f d)) st2"
    using assms(2) by (simp add: wbind_def computes_def)
qed

lemma computes_for:
  "(\<And>x st. x \<in> set xs \<Longrightarrow> computes R (f x) st () (g x st)) \<Longrightarrow> computes R (wfor f xs) st () (fold g xs st)"
proof (induction xs arbitrary: st)
  case Nil
  then show ?case by (simp add: computes_lift)
next
  case (Cons x xs)
  then have "computes R (f x) st () (g x st)" by simp
  moreover have "computes R (wfor f xs) (g x st) () (fold g xs (g x st))" using Cons by simp
  ultimately show ?case by (simp add: computes_bind)
qed

lemma wbind_lift [simp]: "wbind (wlift (Ok x)) f = f x"
  by (simp add: wbind_def wlift_def)

locale wallet_laws = host_laws H + sled_laws "sled_db W" contents
  for H :: host and W :: "'d wallet_host" and contents :: "'d \<Rightarrow> string \<Rightarrow> bytes \<rightharpoonup> bytes" +
  assumes owner_amount_lawful: "scale_codec (owner_amount_codec W)"
    and opaque_block_lawful: "scale_codec (opaque_block_codec W)"
    and u64_lawful: "scale_codec (u64_codec W)"
begin

abbreviation rep :: "'d \<Rightarrow> wallet_state \<Rightarrow> bool" where
  "rep \<equiv> represents H W contents"

lemma computes_open: "computes rep (open_tree (sled_db W) t) st () st"
  by (simp add: computes_def represents_def open_tree_law)

lemmas oa_decodes [simp] = scale_codec.decode_value_encode [OF owner_amount_lawful]
lemmas hash_decodes [simp] = scale_codec.decode_value_encode [OF h256_lawful]
lemmas block_decodes [simp] = scale_codec.decode_value_encode [OF opaque_block_lawful]
lemmas time_decodes [simp] = scale_codec.decode_value_encode [OF u64_lawful]

lemma rep_get:
  assumes "rep d st"
  shows "contents d BLOCK_HASHES (encode (u32_codec H) h) = map_option (encode (h256_codec H)) (known_hashes st h)"
    and "contents d BLOCKS (encode (h256_codec H) x) = map_option (encode (opaque_block_codec W)) (known_blocks st x)"
    and "contents d UNSPENT (encode (output_ref_codec H) r)
      = map_option (encode (owner_amount_codec W)) (unspent_coins st r)"
    and "contents d SPENT (encode (output_ref_codec H) r)
      = map_option (encode (owner_amount_codec W)) (spent_coins st r)"
  using assms by (auto simp: represents_def intro: tree_holds_get)

lemma rep_upd:
  assumes "rep d st"
  shows "contents d' = (contents d)(BLOCK_HASHES := (contents d BLOCK_HASHES)(encode (u32_codec H) h \<mapsto> encode (h256_codec H) x))
      \<Longrightarrow> rep d' (st\<lparr>known_hashes := (known_hashes st)(h \<mapsto> x)\<rparr>)"
    and "contents d' = (contents d)(BLOCK_HASHES := (contents d BLOCK_HASHES)(encode (u32_codec H) h := None))
      \<Longrightarrow> rep d' (st\<lparr>known_hashes := (known_hashes st)(h := None)\<rparr>)"
    and "contents d' = (contents d)(BLOCKS := (contents d BLOCKS)(encode (h256_codec H) x \<mapsto> encode (opaque_block_codec W) b))
      \<Longrightarrow> rep d' (st\<lparr>known_blocks := (known_blocks st)(x \<mapsto> b)\<rparr>)"
    and "contents d' = (contents d)(BLOCKS := (contents d BLOCKS)(encode (h256_codec H) x := None))
      \<Longrightarrow> rep d' (st\<lparr>known_blocks := (known_blocks st)(x := None)\<rparr>)"
    and "contents d' = (contents d)(UNSPENT := (contents d UNSPENT)(encode (output_ref_codec H) r \<mapsto> encode (owner_amount_codec W) oa))
      \<Longrightarrow> rep d' (st\<lparr>unspent_coins := (unspent_coins st)(r \<mapsto> oa)\<rparr>)"
    and "contents d' = (contents d)(UNSPENT := (contents d UNSPENT)(encode (output_ref_codec H) r := None))
      \<Longrightarrow> rep d' (st\<lparr>unspent_coins := (unspent_coins st)(r := None)\<rparr>)"
    and "contents d' = (contents d)(SPENT := (contents d SPENT)(encode (output_ref_codec H) r \<mapsto> encode (owner_amount_codec W) oa))
      \<Longrightarrow> rep d' (st\<lparr>spent_coins := (spent_coins st)(r \<mapsto> oa)\<rparr>)"
    and "contents d' = (contents d)(SPENT := (contents d SPENT)(encode (output_ref_codec H) r := None))
      \<Longrightarrow> rep d' (st\<lparr>spent_coins := (spent_coins st)(r := None)\<rparr>)"
    and "contents d' = (contents d)(TIMESTAMP := (contents d TIMESTAMP)([0] \<mapsto> encode (u64_codec W) t))
      \<Longrightarrow> rep d' (st\<lparr>best_time := Some t\<rparr>)"
  using assms
  by (auto simp: represents_def intro: tree_holds_update u32_lawful h256_lawful output_ref_lawful)

lemma computes_get:
  "(\<And>d. rep d st \<Longrightarrow> contents d t k = v) \<Longrightarrow> computes rep (tree_get (sled_db W) t k) st v st"
  by (rule computesI) (simp add: represents_def tree_get_law)

lemma computes_insert:
  assumes "\<And>d. rep d st \<Longrightarrow> contents d t k = x"
    and "\<And>d d'. rep d st \<Longrightarrow> contents d' = (contents d)(t := (contents d t)(k \<mapsto> v)) \<Longrightarrow> rep d' st'"
  shows "computes rep (tree_insert (sled_db W) t k v) st x st'"
  using assms by (auto intro!: computesI simp: tree_insert_law)

lemma computes_remove:
  assumes "\<And>d. rep d st \<Longrightarrow> contents d t k = x"
    and "\<And>d d'. rep d st \<Longrightarrow> contents d' = (contents d)(t := (contents d t)(k := None)) \<Longrightarrow> rep d' st'"
  shows "computes rep (tree_remove (sled_db W) t k) st x st'"
  using assms by (auto intro!: computesI simp: tree_remove_law)

lemma rep_time: "rep d st \<Longrightarrow> contents d TIMESTAMP [0] = map_option (encode (u64_codec W)) (best_time st)"
  by (simp add: represents_def)

text \<open>The tree operations the wallet uses, on typed tables.\<close>

lemma computes_trees:
  "computes rep (tree_get (sled_db W) BLOCK_HASHES (encode (u32_codec H) h)) st
     (map_option (encode (h256_codec H)) (known_hashes st h)) st"
  "computes rep (tree_get (sled_db W) UNSPENT (encode (output_ref_codec H) r)) st
     (map_option (encode (owner_amount_codec W)) (unspent_coins st r)) st"
  "computes rep (tree_get (sled_db W) TIMESTAMP [0]) st (map_option (encode (u64_codec W)) (best_time st)) st"
  "computes rep (tree_insert (sled_db W) BLOCK_HASHES (encode (u32_codec H) h) (encode (h256_codec H) x)) st
     (map_option (encode (h256_codec H)) (known_hashes st h)) (st\<lparr>known_hashes := (known_hashes st)(h \<mapsto> x)\<rparr>)"
  "computes rep (tree_insert (sled_db W) BLOCKS (encode (h256_codec H) x) (encode (opaque_block_codec W) b)) st
     (map_option (encode (opaque_block_codec W)) (known_blocks st x)) (st\<lparr>known_blocks := (known_blocks st)(x \<mapsto> b)\<rparr>)"
  "computes rep (tree_insert (sled_db W) UNSPENT (encode (output_ref_codec H) r) (encode (owner_amount_codec W) oa)) st
     (map_option (encode (owner_amount_codec W)) (unspent_coins st r)) (receive r oa st)"
  "computes rep (tree_insert (sled_db W) SPENT (encode (output_ref_codec H) r) (encode (owner_amount_codec W) oa)) st
     (map_option (encode (owner_amount_codec W)) (spent_coins st r)) (st\<lparr>spent_coins := (spent_coins st)(r \<mapsto> oa)\<rparr>)"
  "computes rep (tree_insert (sled_db W) TIMESTAMP [0] (encode (u64_codec W) t)) st
     (map_option (encode (u64_codec W)) (best_time st)) (st\<lparr>best_time := Some t\<rparr>)"
  "computes rep (tree_remove (sled_db W) BLOCK_HASHES (encode (u32_codec H) h)) st
     (map_option (encode (h256_codec H)) (known_hashes st h)) (st\<lparr>known_hashes := (known_hashes st)(h := None)\<rparr>)"
  "computes rep (tree_remove (sled_db W) BLOCKS (encode (h256_codec H) x)) st
     (map_option (encode (opaque_block_codec W)) (known_blocks st x)) (st\<lparr>known_blocks := (known_blocks st)(x := None)\<rparr>)"
  "computes rep (tree_remove (sled_db W) UNSPENT (encode (output_ref_codec H) r)) st
     (map_option (encode (owner_amount_codec W)) (unspent_coins st r)) (forget r st)"
  "computes rep (tree_remove (sled_db W) SPENT (encode (output_ref_codec H) r)) st
     (map_option (encode (owner_amount_codec W)) (spent_coins st r)) (st\<lparr>spent_coins := (spent_coins st)(r := None)\<rparr>)"
  unfolding receive_def forget_def
  by (rule computes_get, erule rep_get(1))
    (rule computes_get, erule rep_get(3), rule computes_get, erule rep_time,
     rule computes_insert, erule rep_get(1), erule (1) rep_upd(1),
     rule computes_insert, erule rep_get(2), erule (1) rep_upd(3),
     rule computes_insert, erule rep_get(3), erule (1) rep_upd(5),
     rule computes_insert, erule rep_get(4), erule (1) rep_upd(7),
     rule computes_insert, erule rep_time, erule (1) rep_upd(9),
     rule computes_remove, erule rep_get(1), erule (1) rep_upd(2),
     rule computes_remove, erule rep_get(2), erule (1) rep_upd(4),
     rule computes_remove, erule rep_get(3), erule (1) rep_upd(6),
     rule computes_remove, erule rep_get(4), erule (1) rep_upd(8))

lemma computes_get_block_hash: "computes rep (get_block_hash H W h) st (known_hashes st h) st"
  unfolding get_block_hash_def
  by (rule computes_bind [OF computes_open], rule computes_bind [OF computes_trees(1)])
    (auto simp: computes_lift split: option.split)

lemma computes_get_unspent: "computes rep (get_unspent H W r) st (unspent_coins st r) st"
  unfolding get_unspent_def
  by (rule computes_bind [OF computes_open], rule computes_bind [OF computes_trees(2)])
    (auto simp: computes_lift split: option.split)

lemma computes_add_unspent:
  "computes rep (add_unspent_output H W r owner amount) st () (receive r (owner, amount) st)"
  unfolding add_unspent_output_def
  by (rule computes_bind [OF computes_open], rule computes_bind [OF computes_trees(6)], rule computes_lift)

lemma computes_remove_unspent: "computes rep (remove_unspent_output H W r) st () (forget r st)"
  unfolding remove_unspent_output_def
  by (rule computes_bind [OF computes_open], rule computes_bind [OF computes_trees(11)], rule computes_lift)

lemma computes_spend: "computes rep (spend_output H W r) st () (spend r st)"
proof (cases "unspent_coins st r")
  case None
  then have same: "forget r st = st" by (simp add: forget_def fun_upd_idem)
  show ?thesis
    unfolding spend_output_def spend_def None
    by (rule computes_bind [OF computes_open], rule computes_bind [OF computes_open],
        rule computes_bind [OF computes_trees(11)]) (simp add: None same computes_lift)
next
  case (Some oa)
  then have "spend r st = (forget r st)\<lparr>spent_coins := (spent_coins (forget r st))(r \<mapsto> oa)\<rparr>"
    by (simp add: spend_def forget_def)
  with Some show ?thesis
    unfolding spend_output_def
    by (intro computes_bind [OF computes_open] computes_bind [OF computes_trees(11)])
      (auto intro!: computes_bind [OF computes_trees(7)] computes_lift)
qed

lemma computes_unspend: "computes rep (unspend_output H W r) st () (unspend r st)"
proof (cases "spent_coins st r")
  case None
  then have same: "st\<lparr>spent_coins := (spent_coins st)(r := None)\<rparr> = st" by (simp add: fun_upd_idem)
  show ?thesis
    unfolding unspend_output_def unspend_def None
    by (rule computes_bind [OF computes_open], rule computes_bind [OF computes_open],
        rule computes_bind [OF computes_trees(12)]) (simp add: None same computes_lift)
next
  case (Some oa)
  let ?st = "st\<lparr>spent_coins := (spent_coins st)(r := None)\<rparr>"
  from Some have "unspend r st = receive r oa ?st"
    by (simp add: unspend_def receive_def)
  with Some show ?thesis
    unfolding unspend_output_def
    by (intro computes_bind [OF computes_open] computes_bind [OF computes_trees(12)])
      (auto intro!: computes_bind [OF computes_trees(6)] computes_lift)
qed

lemma rep_len: "rep d st \<Longrightarrow> tree_len (sled_db W) BLOCK_HASHES d = card (dom (known_hashes st))"
  using tree_holds_card [OF u32_lawful] by (auto simp: represents_def tree_len_law)

lemma computes_height:
  "computes rep (height W) st
     (if card (dom (known_hashes st)) = 0 then None else Some (of_nat (card (dom (known_hashes st))) - 1)) st"
  unfolding height_def
  by (rule computes_bind [OF computes_open], rule computesI) (simp add: wlift_def rep_len Let_def)

text \<open>Iterating over the unspent outputs: every entry once, in some order.\<close>

lemma iter_unspent:
  assumes "rep d st"
  shows "\<exists>ps. tree_iter (sled_db W) UNSPENT d
      = map (\<lambda>(r, oa). Ok (encode (output_ref_codec H) r, encode (owner_amount_codec W) oa)) ps
    \<and> distinct (map fst ps) \<and> map_of ps = unspent_coins st"
proof -
  let ?ck = "output_ref_codec H" and ?cv = "owner_amount_codec W"
  obtain kvs where kvs: "tree_iter (sled_db W) UNSPENT d = map Ok kvs" "distinct (map fst kvs)"
      "map_of kvs = contents d UNSPENT"
    using tree_iter_law by blast
  have holds: "tree_holds ?ck ?cv (contents d UNSPENT) (unspent_coins st)"
    using assms by (simp add: represents_def)
  define typed where "typed = (\<lambda>(k, v). (the (decode_value ?ck k), the (decode_value ?cv v)))"
  have entry: "\<exists>r oa. kv = (encode ?ck r, encode ?cv oa) \<and> unspent_coins st r = Some oa" if "kv \<in> set kvs" for kv
  proof -
    obtain k v where kv: "kv = (k, v)" by (cases kv)
    with that kvs have k: "contents d UNSPENT k = Some v" by (metis map_of_is_SomeI)
    with holds obtain r where "k = encode ?ck r" by (auto simp: tree_holds_def)
    with k tree_holds_get [OF holds, of r] kv show ?thesis by auto
  qed
  have recode: "kv = (\<lambda>(r, oa). (encode ?ck r, encode ?cv oa)) (typed kv)" if "kv \<in> set kvs" for kv
    using entry [OF that] by (auto simp: typed_def scale_codec.decode_value_encode [OF output_ref_lawful])
  then have enc: "kvs = map (\<lambda>(r, oa). (encode ?ck r, encode ?cv oa)) (map typed kvs)"
    by (simp add: map_idI comp_def)
  have "fst kv = encode ?ck (fst (typed kv))" if "kv \<in> set kvs" for kv
    using arg_cong [OF recode [OF that], of fst] by (simp add: case_prod_unfold)
  then have keys: "map fst kvs = map (encode ?ck) (map fst (map typed kvs))" by simp
  have dist: "distinct (map fst (map typed kvs))"
    using kvs(2) unfolding keys distinct_map [of "encode ?ck"] by blast
  have "map_of (map typed kvs) = unspent_coins st"
  proof
    fix r
    show "map_of (map typed kvs) r = unspent_coins st r"
    proof (cases "r \<in> fst ` set (map typed kvs)")
      case True
      then obtain kv where kv: "kv \<in> set kvs" "r = fst (typed kv)" by auto
      from entry [OF kv(1)] have "unspent_coins st r = Some (snd (typed kv))"
        using kv(2) by (auto simp: typed_def scale_codec.decode_value_encode [OF output_ref_lawful])
      moreover have "map_of (map typed kvs) r = Some (snd (typed kv))"
        using dist kv by (intro map_of_is_SomeI) (auto simp: image_iff)
      ultimately show ?thesis by simp
    next
      case False
      have "encode ?ck r \<notin> fst ` set kvs"
      proof
        assume "encode ?ck r \<in> fst ` set kvs"
        then have "encode ?ck r \<in> encode ?ck ` (fst ` set (map typed kvs))"
          using arg_cong [OF keys, of set] by (simp add: image_image)
        with False show False by (auto simp: image_iff)
      qed
      then have "contents d UNSPENT (encode ?ck r) = None" using kvs(3) by (metis map_of_eq_None_iff)
      with False tree_holds_get [OF holds, of r] show ?thesis by (simp add: map_of_eq_None_iff)
    qed
  qed
  moreover have "tree_iter (sled_db W) UNSPENT d
      = map (\<lambda>(r, oa). Ok (encode ?ck r, encode ?cv oa)) (map typed kvs)"
    unfolding kvs(1) by (subst enc) (simp add: case_prod_unfold)
  ultimately show ?thesis using dist by blast
qed

abbreviation stored :: "OutputRef \<times> H256 \<times> u128 \<Rightarrow> (bytes \<times> bytes, WalletError) result" where
  "stored \<equiv> (\<lambda>(r, oa). Ok (encode (output_ref_codec H) r, encode (owner_amount_codec W) oa))"

abbreviation amount :: "OutputRef \<times> H256 \<times> u128 \<Rightarrow> u128" where
  "amount \<equiv> (\<lambda>(r, owner, a). a)"

lemma pick_step:
  "pick_unspent H W target tot ks (stored p # items)
     = (if tot < target then pick_unspent H W target (tot + amount p) (ks @ [fst p]) items else Ok (Some ks))"
  by (cases p) (simp add: scale_codec.decode_value_encode [OF output_ref_lawful])

lemma pick_result:
  "\<exists>v. pick_unspent H W target tot ks (map stored ps) = Ok v \<and>
     (case v of
        None \<Rightarrow> tot + sum_list (map amount ps) < target
      | Some picked \<Rightarrow> (\<exists>n. picked = ks @ map fst (take n ps) \<and> target \<le> tot + sum_list (map amount (take n ps))))"
proof (induction ps arbitrary: tot ks)
  case Nil
  then show ?case by (auto simp: not_less)
next
  case (Cons p ps)
  show ?case
  proof (cases "tot < target")
    case True
    obtain v where v: "pick_unspent H W target (tot + amount p) (ks @ [fst p]) (map stored ps) = Ok v"
      "case v of None \<Rightarrow> tot + amount p + sum_list (map amount ps) < target
        | Some picked \<Rightarrow> (\<exists>n. picked = (ks @ [fst p]) @ map fst (take n ps)
            \<and> target \<le> tot + amount p + sum_list (map amount (take n ps)))"
      using Cons by blast
    then have "case v of None \<Rightarrow> tot + sum_list (map amount (p # ps)) < target
        | Some picked \<Rightarrow> (\<exists>n. picked = ks @ map fst (take n (p # ps))
            \<and> target \<le> tot + sum_list (map amount (take n (p # ps))))"
      by (auto simp: add.assoc split: option.splits intro: exI [of _ "Suc n" for n])
    with v(1) True show ?thesis unfolding list.map(2) pick_step by simp
  next
    case False
    then show ?thesis unfolding list.map(2) pick_step by (auto simp: not_less intro: exI [of _ 0])
  qed
qed

lemma arbitrary_set_result:
  assumes "rep d st"
  shows "\<exists>d' v ps. get_arbitrary_unspent_set H W target d = (d', Ok v) \<and> rep d' st
    \<and> distinct (map fst ps) \<and> map_of ps = unspent_coins st
    \<and> (case v of
         None \<Rightarrow> sum_list (map amount ps) < target
       | Some picked \<Rightarrow> (\<exists>n. picked = map fst (take n ps) \<and> target \<le> sum_list (map amount (take n ps))))"
proof -
  obtain d' where d': "open_tree (sled_db W) UNSPENT d = (d', Ok ())" "rep d' st"
    using computesD [OF computes_open assms] by blast
  obtain ps where ps: "tree_iter (sled_db W) UNSPENT d' = map stored ps" "distinct (map fst ps)" "map_of ps = unspent_coins st"
    using iter_unspent [OF d'(2)] by blast
  obtain v where "pick_unspent H W target 0 [] (map stored ps) = Ok v"
    "case v of None \<Rightarrow> 0 + sum_list (map amount ps) < target
      | Some picked \<Rightarrow> (\<exists>n. picked = [] @ map fst (take n ps) \<and> target \<le> 0 + sum_list (map amount (take n ps)))"
    using pick_result by blast
  with d' ps show ?thesis
    by (auto simp: get_arbitrary_unspent_set_def wbind_def wlift_def split: option.splits)
qed

lemma balances_result:
  "fold_result (add_balance W) m (map stored ps)
     = Ok (\<lambda>o'. case (m o', filter (\<lambda>(r, owner, a). owner = o') ps) of
         (None, []) \<Rightarrow> None
       | (None, qs) \<Rightarrow> Some (sum_list (map amount qs))
       | (Some old, qs) \<Rightarrow> Some (old + sum_list (map amount qs)))"
proof (induction ps arbitrary: m)
  case Nil
  then show ?case by (auto simp: fun_eq_iff split: option.split)
next
  case (Cons p ps)
  obtain r owner a where p: "p = (r, owner, a)" by (cases p)
  have step: "add_balance W m (stored p)
      = Ok (m(owner \<mapsto> (case m owner of Some old \<Rightarrow> old + a | None \<Rightarrow> a)))"
    by (simp add: add_balance_def p)
  show ?case
    unfolding list.map(2) fold_result.simps step bind_result.simps Cons
    by (auto simp: p fun_eq_iff add.assoc split: option.splits list.splits)
qed

end

end
