(* ===== verification/Wallet_Rpc.thy ===== *)
theory Wallet_Rpc
  imports Wallet_Db Tuxedo_Metadata
begin

text \<open>
  The wallet's view of the node (\<^verbatim>\<open>wallet/src/rpc.rs\<close>), the string helpers of \<^verbatim>\<open>wallet/src/main.rs\<close> and the
  keystore (\<^verbatim>\<open>wallet/src/keystore.rs\<close>).

  The RPC client, hexadecimal, JSON and the keystore are packages outside the repository: the records \<open>client\<close> and
  \<open>keystore\<close>. The client answers each request with a value or an error, and the same request with
  the same answer: it stands for one view of the node's chain. A string is a list of characters, so an index
  is never inside a character.
\<close>

subsection \<open>The client\<close>

record 'j client =
  request_metadata :: "(string option, WalletError) result"
  request_block_hash :: "u32 \<Rightarrow> (string option, WalletError) result"
  request_block :: "string \<Rightarrow> ('j option, WalletError) result"
  request_storage :: "string \<Rightarrow> (string option, WalletError) result"
  submit_extrinsic :: "string \<Rightarrow> (string, WalletError) result"
  json_field :: "'j \<Rightarrow> string \<Rightarrow> 'j option"
  json_block :: "'j \<Rightarrow> OpaqueBlock option"
  hex_encode :: "bytes \<Rightarrow> string"
  hex_decode :: "string \<Rightarrow> bytes option"
  h256_to_bytes :: "H256 \<Rightarrow> bytes"
  h256_from_bytes :: "bytes \<Rightarrow> H256"
  metadata_codec :: "TuxedoMetadata codec"

subsection \<open>Strings\<close>

text \<open>Slicing \<^verbatim>\<open>&s[..2]\<close> panics on a shorter string.\<close>

definition strip_0x_prefix :: "string \<Rightarrow> (string, WalletError) result" where
  "strip_0x_prefix s =
     (if length s < 2 then Panic
      else if take 2 s = ''0x'' then Ok (drop 2 s)
      else Ok s)"

text \<open>\<^verbatim>\<open>hex::decode_to_slice\<close> into 32 bytes fails when the string has another length.\<close>

definition h256_from_string :: "'j client \<Rightarrow> string \<Rightarrow> (H256, WalletError) result" where
  "h256_from_string N s =
     bind_result (strip_0x_prefix s) (\<lambda>s.
     case hex_decode N s of
       None \<Rightarrow> Err ClapError
     | Some b \<Rightarrow> if length b = 32 then Ok (h256_from_bytes N b) else Err ClapError)"

definition output_ref_from_string :: "host \<Rightarrow> 'j client \<Rightarrow> string \<Rightarrow> (OutputRef, WalletError) result" where
  "output_ref_from_string H N s =
     bind_result (strip_0x_prefix s) (\<lambda>s.
     bind_result (ok_or (hex_decode N s) ClapError) (\<lambda>b.
     ok_or (decode_value (output_ref_codec H) b) ClapError))"

definition metadata_from_string :: "'j client \<Rightarrow> string \<Rightarrow> (TuxedoMetadata, WalletError) result" where
  "metadata_from_string N s =
     bind_result (strip_0x_prefix s) (\<lambda>s.
     bind_result (ok_or (hex_decode N s) HexError) (\<lambda>b.
     ok_or (decode_value (metadata_codec N) b) CodecError))"

subsection \<open>Requests\<close>

definition node_get_metadata :: "'j client \<Rightarrow> (TuxedoMetadata, WalletError) result" where
  "node_get_metadata N =
     bind_result (request_metadata N) (\<lambda>rpc_response.
     bind_result (expect rpc_response) (\<lambda>s.
     metadata_from_string N s))"

definition node_get_block_hash :: "'j client \<Rightarrow> u32 \<Rightarrow> (H256 option, WalletError) result" where
  "node_get_block_hash N h =
     bind_result (request_block_hash N h) (\<lambda>rpc_response.
     case rpc_response of
       None \<Rightarrow> Ok None
     | Some s \<Rightarrow> (case h256_from_string N s of Ok hash \<Rightarrow> Ok (Some hash) | _ \<Rightarrow> Panic))"

definition node_get_block :: "'j client \<Rightarrow> H256 \<Rightarrow> (OpaqueBlock option, WalletError) result" where
  "node_get_block N hash =
     bind_result (request_block N (hex_encode N (h256_to_bytes N hash))) (\<lambda>maybe_rpc_response.
     bind_result (expect maybe_rpc_response) (\<lambda>rpc_response.
     bind_result (expect (json_field N rpc_response ''block'')) (\<lambda>json_opaque_block.
     bind_result (expect (json_block N json_opaque_block)) (\<lambda>opaque_block.
     Ok (Some opaque_block)))))"

definition fetch_storage ::
  "host \<Rightarrow> ('v, 'r) Verifier \<Rightarrow> 'j client \<Rightarrow> OutputRef \<Rightarrow> ('v Output, WalletError) result" where
  "fetch_storage H V N r =
     bind_result (request_storage N (hex_encode N (encode (output_ref_codec H) r))) (\<lambda>rpc_response.
     bind_result (ok_or rpc_response StorageMissing) (\<lambda>response_hex.
     bind_result (strip_0x_prefix response_hex) (\<lambda>response_hex.
     bind_result (ok_or (hex_decode N response_hex) HexError) (\<lambda>response_bytes.
     ok_or (decode_value (output_codec V) response_bytes) CodecError))))"

subsection \<open>The keystore\<close>

definition KEY_TYPE :: byte4 where
  "KEY_TYPE = byte_string4 ''_tux''"

record keystore =
  sr25519_sign :: "byte4 \<Rightarrow> Public \<Rightarrow> bytes \<Rightarrow> (Signature option, WalletError) result"
  has_keys :: "(bytes \<times> byte4) list \<Rightarrow> bool"

definition sign_with :: "keystore \<Rightarrow> Public \<Rightarrow> bytes \<Rightarrow> (Signature, WalletError) result" where
  "sign_with K pub msg =
     bind_result (sr25519_sign K KEY_TYPE pub msg) (\<lambda>sig. ok_or sig KeyMissing)"

definition has_key :: "host \<Rightarrow> keystore \<Rightarrow> H256 \<Rightarrow> bool" where
  "has_key H K pubkey = has_keys K [(encode (h256_codec H) pubkey, KEY_TYPE)]"

text \<open>The closure in \<^verbatim>\<open>main\<close> that decides which outputs the wallet tracks.\<close>

fun keystore_filter :: "host \<Rightarrow> keystore \<Rightarrow> OuterVerifier \<Rightarrow> bool" where
  "keystore_filter H K (OuterSr25519Signature sig) = has_key H K (owner_pubkey sig)"
| "keystore_filter H K _ = False"

subsection \<open>The wallet's copy of the parachain's checker\<close>

datatype WalletParachainChecker = Normal OuterConstraintChecker | Parachain

definition wallet_checker_from :: "OuterConstraintChecker \<Rightarrow> WalletParachainChecker" where
  "wallet_checker_from c = Normal c"

end
