(* ===== verification/Wallet_Sync.thy ===== *)
theory Wallet_Sync
  imports Wallet_Rpc
begin

text \<open>
  Keeping the wallet's database in step with the node (\<^verbatim>\<open>wallet/src/sync.rs\<close>, \<^verbatim>\<open>timestamp.rs\<close> and the database part of
  \<^verbatim>\<open>money.rs\<close>).

  A loop of \<open>synchronize_helper\<close> ends only when the node's answers let it, so the two loops are
  partial functions: \<open>None\<close> is a synchronisation that does not return. One iteration of each is an operation of its
  own. Heights are 32-bit words and \<^verbatim>\<open>height -= 1\<close> wraps as in a release build.
\<close>

subsection \<open>Applying and unapplying\<close>

definition money_apply_transaction ::
  "host \<Rightarrow> runtime_host \<Rightarrow> 'd wallet_host \<Rightarrow> H256 \<Rightarrow> u32 \<Rightarrow> OuterVerifier Output \<Rightarrow> ('d, unit) wallet" where
  "money_apply_transaction H R W txh i out =
     wbind (wlift (map_err ExtractError (extract_data (coin_data 0 (coin_codec R)) (payload out)))) (\<lambda>coin.
     case verifier out of
       OuterSr25519Signature sig \<Rightarrow>
         add_unspent_output H W \<lparr>tx_hash = txh, index = i\<rparr> (owner_pubkey sig) (coin_value coin)
     | _ \<Rightarrow> wlift (Err UnsupportedOwner))"

definition timestamp_apply_transaction ::
  "runtime_host \<Rightarrow> 'd wallet_host \<Rightarrow> OuterVerifier Output \<Rightarrow> ('d, unit) wallet" where
  "timestamp_apply_transaction R W out =
     wbind (wlift (map_err ExtractError (extract_data (timestamp_data (timestamp_codec R)) (payload out)))) (\<lambda>ts.
     wbind (open_tree (sled_db W) TIMESTAMP) (\<lambda>_.
     wbind (tree_insert (sled_db W) TIMESTAMP [0] (encode (u64_codec W) (time ts))) (\<lambda>_.
     wlift (Ok ()))))"

definition apply_output ::
  "host \<Rightarrow> runtime_host \<Rightarrow> 'd wallet_host \<Rightarrow> (OuterVerifier \<Rightarrow> bool) \<Rightarrow> H256
     \<Rightarrow> nat \<times> OuterVerifier Output \<Rightarrow> ('d, unit) wallet" where
  "apply_output H R W flt txh = (\<lambda>(i, out).
     if type_id (payload out) = TYPE_ID (coin_data 0 (coin_codec R)) then
       (if flt (verifier out) then money_apply_transaction H R W txh (of_nat i) out else wlift (Ok ()))
     else if type_id (payload out) = TYPE_ID (timestamp_data (timestamp_codec R)) then
       timestamp_apply_transaction R W out
     else wlift (Ok ()))"

definition apply_transaction ::
  "host \<Rightarrow> runtime_host \<Rightarrow> 'd wallet_host \<Rightarrow> 'c codec \<Rightarrow> (OuterVerifier \<Rightarrow> bool) \<Rightarrow> bytes \<Rightarrow> ('d, unit) wallet" where
  "apply_transaction H R W cc flt opaque_tx =
     (let encoded_extrinsic = encode (bytes_codec H) opaque_tx;
          txh = hash_of H (bytes_codec H) encoded_extrinsic
      in wbind (wlift (ok_or (decode_value (transaction_codec H (template_verifier H R) cc) encoded_extrinsic)
           CodecError)) (\<lambda>tx.
         wbind (wfor (apply_output H R W flt txh) (enumerate 0 (outputs tx))) (\<lambda>_.
         wfor (\<lambda>i. spend_output H W (output_ref i)) (inputs tx))))"

definition apply_block ::
  "host \<Rightarrow> runtime_host \<Rightarrow> 'd wallet_host \<Rightarrow> 'c codec \<Rightarrow> (OuterVerifier \<Rightarrow> bool) \<Rightarrow> OpaqueBlock \<Rightarrow> H256
     \<Rightarrow> ('d, unit) wallet" where
  "apply_block H R W cc flt b block_hash =
     wbind (open_tree (sled_db W) BLOCK_HASHES) (\<lambda>_.
     wbind (tree_insert (sled_db W) BLOCK_HASHES (encode (u32_codec H) (number (opaque_header b)))
       (encode (h256_codec H) block_hash)) (\<lambda>_.
     wbind (open_tree (sled_db W) BLOCKS) (\<lambda>_.
     wbind (tree_insert (sled_db W) BLOCKS (encode (h256_codec H) block_hash)
       (encode (opaque_block_codec W) b)) (\<lambda>_.
     wfor (apply_transaction H R W cc flt) (opaque_extrinsics b)))))"

definition unapply_transaction ::
  "host \<Rightarrow> runtime_host \<Rightarrow> 'd wallet_host \<Rightarrow> 'c codec \<Rightarrow> bytes \<Rightarrow> ('d, unit) wallet" where
  "unapply_transaction H R W cc opaque_tx =
     wbind (wlift (ok_or (decode_value (transaction_codec H (template_verifier H R) cc)
       (encode (bytes_codec H) opaque_tx)) CodecError)) (\<lambda>tx.
     wbind (wfor (\<lambda>i. unspend_output H W (output_ref i)) (inputs tx)) (\<lambda>_.
     (let txh = hash_of H (bytes_codec H) (encode (transaction_codec H (template_verifier H R) cc) tx)
      in wfor (\<lambda>i. remove_unspent_output H W \<lparr>tx_hash = txh, index = of_nat i\<rparr>) [0..<length (outputs tx)])))"

definition unapply_highest_block ::
  "host \<Rightarrow> runtime_host \<Rightarrow> 'd wallet_host \<Rightarrow> 'c codec \<Rightarrow> ('d, unit) wallet" where
  "unapply_highest_block H R W cc =
     wbind (open_tree (sled_db W) BLOCKS) (\<lambda>_.
     wbind (open_tree (sled_db W) BLOCK_HASHES) (\<lambda>_.
     wbind (height W) (\<lambda>best.
     wbind (wlift (ok_or best UninitializedUnapply)) (\<lambda>h.
     wbind (tree_remove (sled_db W) BLOCK_HASHES (encode (u32_codec H) h)) (\<lambda>v.
     wbind (wlift (ok_or v InconsistentDb)) (\<lambda>ivec.
     wbind (wlift (ok_or (decode_value (h256_codec H) ivec) CodecError)) (\<lambda>hash.
     wbind (tree_remove (sled_db W) BLOCKS (encode (h256_codec H) hash)) (\<lambda>v.
     wbind (wlift (ok_or v CorruptedDb)) (\<lambda>ivec.
     wbind (wlift (ok_or (decode_value (opaque_block_codec W) ivec) CodecError)) (\<lambda>b.
     wfor (unapply_transaction H R W cc) (rev (opaque_extrinsics b))))))))))))"

subsection \<open>Opening the database\<close>

text \<open>\<^verbatim>\<open>0.encode()\<close> is the encoding of a signed zero: the same four zero bytes.\<close>

definition open_db :: "host \<Rightarrow> 'd wallet_host \<Rightarrow> H256 \<Rightarrow> OpaqueBlock \<Rightarrow> ('d, unit) wallet" where
  "open_db H W expected_genesis_hash expected_genesis_block =
     wbind (open_tree (sled_db W) BLOCK_HASHES) (\<lambda>_.
     wbind (open_tree (sled_db W) BLOCKS) (\<lambda>_.
     wbind (height W) (\<lambda>best.
     if best \<noteq> None then
       wbind (tree_get (sled_db W) BLOCK_HASHES (encode (u32_codec H) 0)) (\<lambda>v.
       wbind (wlift (expect v)) (\<lambda>wallet_genesis_ivec.
       wbind (wlift (ok_or (decode_value (h256_codec H) wallet_genesis_ivec) CodecError)) (\<lambda>wallet_genesis_hash.
       if expected_genesis_hash \<noteq> wallet_genesis_hash
       then wlift (Err (GenesisMismatch wallet_genesis_hash expected_genesis_hash))
       else wlift (Ok ()))))
     else
       wbind (tree_insert (sled_db W) BLOCK_HASHES (encode (u32_codec H) 0)
         (encode (h256_codec H) expected_genesis_hash)) (\<lambda>_.
       wbind (tree_insert (sled_db W) BLOCKS (encode (h256_codec H) expected_genesis_hash)
         (encode (opaque_block_codec W) expected_genesis_block)) (\<lambda>_.
       wlift (Ok ()))))))"

subsection \<open>Synchronising\<close>

definition start_sync ::
  "host \<Rightarrow> 'd wallet_host \<Rightarrow> 'j client \<Rightarrow> ('d, u32 \<times> H256 \<times> H256 option) wallet" where
  "start_sync H W N =
     wbind (height W) (\<lambda>best.
     wbind (wlift (ok_or best UninitializedSync)) (\<lambda>h.
     wbind (get_block_hash H W h) (\<lambda>v.
     wbind (wlift (expect v)) (\<lambda>wallet_hash.
     wbind (wlift (node_get_block_hash N h)) (\<lambda>node_hash.
     wlift (Ok (h, wallet_hash, node_hash)))))))"

definition revert_step ::
  "host \<Rightarrow> runtime_host \<Rightarrow> 'd wallet_host \<Rightarrow> 'c codec \<Rightarrow> 'j client \<Rightarrow> u32
     \<Rightarrow> ('d, u32 \<times> H256 \<times> H256 option) wallet" where
  "revert_step H R W cc N h =
     wbind (unapply_highest_block H R W cc) (\<lambda>_.
     wbind (get_block_hash H W (h - 1)) (\<lambda>v.
     wbind (wlift (expect v)) (\<lambda>wallet_hash.
     wbind (wlift (node_get_block_hash N (h - 1))) (\<lambda>node_hash.
     wlift (Ok (h - 1, wallet_hash, node_hash))))))"

partial_function (option) revert_orphans ::
  "host \<Rightarrow> runtime_host \<Rightarrow> 'd wallet_host \<Rightarrow> 'c codec \<Rightarrow> 'j client \<Rightarrow> u32 \<Rightarrow> H256 \<Rightarrow> H256 option
     \<Rightarrow> 'd \<Rightarrow> ('d \<times> (u32, WalletError) result) option" where
  "revert_orphans H R W cc N h wallet_hash node_hash d =
     (if Some wallet_hash = node_hash then Some (d, Ok h)
      else (case revert_step H R W cc N h d of (d', r) \<Rightarrow>
        (case r of
           Ok (h', wallet_hash', node_hash') \<Rightarrow> revert_orphans H R W cc N h' wallet_hash' node_hash' d'
         | Err e \<Rightarrow> Some (d', Err e)
         | Panic \<Rightarrow> Some (d', Panic))))"

definition follow_step ::
  "host \<Rightarrow> runtime_host \<Rightarrow> 'd wallet_host \<Rightarrow> 'c codec \<Rightarrow> 'j client \<Rightarrow> (OuterVerifier \<Rightarrow> bool) \<Rightarrow> u32 \<Rightarrow> H256
     \<Rightarrow> ('d, u32 \<times> H256 option) wallet" where
  "follow_step H R W cc N flt h hash =
     wbind (wlift (node_get_block N hash)) (\<lambda>v.
     wbind (wlift (expect v)) (\<lambda>b.
     wbind (apply_block H R W cc flt b hash) (\<lambda>_.
     wbind (wlift (node_get_block_hash N (h + 1))) (\<lambda>node_hash.
     wlift (Ok (h + 1, node_hash))))))"

partial_function (option) follow_node ::
  "host \<Rightarrow> runtime_host \<Rightarrow> 'd wallet_host \<Rightarrow> 'c codec \<Rightarrow> 'j client \<Rightarrow> (OuterVerifier \<Rightarrow> bool) \<Rightarrow> u32 \<Rightarrow> H256 option
     \<Rightarrow> 'd \<Rightarrow> ('d \<times> (unit, WalletError) result) option" where
  "follow_node H R W cc N flt h node_hash d =
     (case node_hash of
        None \<Rightarrow> Some (d, Ok ())
      | Some hash \<Rightarrow> (case follow_step H R W cc N flt h hash d of (d', r) \<Rightarrow>
          (case r of
             Ok (h', node_hash') \<Rightarrow> follow_node H R W cc N flt h' node_hash' d'
           | Err e \<Rightarrow> Some (d', Err e)
           | Panic \<Rightarrow> Some (d', Panic))))"

definition synchronize_helper ::
  "host \<Rightarrow> runtime_host \<Rightarrow> 'd wallet_host \<Rightarrow> 'c codec \<Rightarrow> 'j client \<Rightarrow> (OuterVerifier \<Rightarrow> bool) \<Rightarrow> 'd
     \<Rightarrow> ('d \<times> (unit, WalletError) result) option" where
  "synchronize_helper H R W cc N flt d =
     (case start_sync H W N d of
        (d0, Ok (h, wallet_hash, node_hash)) \<Rightarrow>
          Option.bind (revert_orphans H R W cc N h wallet_hash node_hash d0) (\<lambda>(d1, r).
            case r of
              Ok h1 \<Rightarrow>
                (case node_get_block_hash N (h1 + 1) of
                   Ok node_hash' \<Rightarrow> follow_node H R W cc N flt (h1 + 1) node_hash' d1
                 | Err e \<Rightarrow> Some (d1, Err e)
                 | Panic \<Rightarrow> Some (d1, Panic))
            | Err e \<Rightarrow> Some (d1, Err e)
            | Panic \<Rightarrow> Some (d1, Panic))
      | (d0, Err e) \<Rightarrow> Some (d0, Err e)
      | (d0, Panic) \<Rightarrow> Some (d0, Panic))"

definition synchronize ::
  "host \<Rightarrow> runtime_host \<Rightarrow> 'd wallet_host \<Rightarrow> WalletParachainChecker codec \<Rightarrow> 'j client \<Rightarrow> bool
     \<Rightarrow> (OuterVerifier \<Rightarrow> bool) \<Rightarrow> 'd \<Rightarrow> ('d \<times> (unit, WalletError) result) option" where
  "synchronize H R W pcc N parachain flt d =
     (if parachain then synchronize_helper H R W pcc N flt d
      else synchronize_helper H R W (outer_checker_codec R) N flt d)"

text \<open>
  What \<^verbatim>\<open>main\<close> does before it synchronises; \<open>recovered\<close> is sled's report that the database existed.
\<close>

definition prepare_db ::
  "host \<Rightarrow> runtime_host \<Rightarrow> 'd wallet_host \<Rightarrow> 'c codec \<Rightarrow> 'j client \<Rightarrow> (OuterVerifier \<Rightarrow> bool) \<Rightarrow> bool
     \<Rightarrow> ('d, unit) wallet" where
  "prepare_db H R W cc N flt recovered =
     wbind (wlift (node_get_block_hash N 0)) (\<lambda>v.
     wbind (wlift (expect v)) (\<lambda>node_genesis_hash.
     wbind (wlift (node_get_block N node_genesis_hash)) (\<lambda>v.
     wbind (wlift (expect v)) (\<lambda>node_genesis_block.
     wbind (open_db H W node_genesis_hash node_genesis_block) (\<lambda>_.
     wbind (height W) (\<lambda>v.
     wbind (wlift (expect v)) (\<lambda>num_blocks.
     if \<not> recovered then apply_block H R W cc flt node_genesis_block node_genesis_hash
     else wlift (Ok ()))))))))"

subsection \<open>The abstract effect of a transaction\<close>

text \<open>What an output adds to the wallet, and whether the wallet can read it.\<close>

definition credit ::
  "runtime_host \<Rightarrow> (OuterVerifier \<Rightarrow> bool) \<Rightarrow> OutputRef \<times> OuterVerifier Output \<Rightarrow> wallet_state \<Rightarrow> wallet_state" where
  "credit R flt = (\<lambda>(r, out) st.
     (case (view (coin_data 0 (coin_codec R)) (payload out), view (timestamp_data (timestamp_codec R)) (payload out),
         verifier out) of
        (Some coin, _, OuterSr25519Signature sig) \<Rightarrow>
          if flt (verifier out) then receive r (owner_pubkey sig, coin_value coin) st else st
      | (None, Some ts, _) \<Rightarrow> st\<lparr>best_time := Some (time ts)\<rparr>
      | _ \<Rightarrow> st))"

definition readable_output :: "runtime_host \<Rightarrow> (OuterVerifier \<Rightarrow> bool) \<Rightarrow> OuterVerifier Output \<Rightarrow> bool" where
  "readable_output R flt out \<longleftrightarrow>
     (type_id (payload out) = TYPE_ID (coin_data 0 (coin_codec R)) \<and> flt (verifier out) \<longrightarrow>
        view (coin_data 0 (coin_codec R)) (payload out) \<noteq> None \<and> un_sr25519 (verifier out) \<noteq> None)
     \<and> (type_id (payload out) = TYPE_ID (timestamp_data (timestamp_codec R)) \<longrightarrow>
        view (timestamp_data (timestamp_codec R)) (payload out) \<noteq> None)"

definition readable :: "runtime_host \<Rightarrow> (OuterVerifier \<Rightarrow> bool) \<Rightarrow> (OuterVerifier, 'c) Transaction \<Rightarrow> bool" where
  "readable R flt tx \<longleftrightarrow> list_all (readable_output R flt) (outputs tx)"

definition track ::
  "host \<Rightarrow> runtime_host \<Rightarrow> 'c codec \<Rightarrow> (OuterVerifier \<Rightarrow> bool) \<Rightarrow> (OuterVerifier, 'c) Transaction
     \<Rightarrow> wallet_state \<Rightarrow> wallet_state" where
  "track H R cc flt tx st =
     fold spend (input_refs tx) (fold (credit R flt) (created_outputs H (template_verifier H R) cc tx) st)"

definition untrack ::
  "host \<Rightarrow> runtime_host \<Rightarrow> 'c codec \<Rightarrow> (OuterVerifier, 'c) Transaction \<Rightarrow> wallet_state \<Rightarrow> wallet_state" where
  "untrack H R cc tx st =
     fold forget (output_refs_of H (template_verifier H R) cc tx) (fold unspend (input_refs tx) st)"

text \<open>
  The transaction is new to the wallet: it creates no output the wallet already has and
  consumes none the wallet has already seen spent.
\<close>

definition clean :: "host \<Rightarrow> runtime_host \<Rightarrow> 'c codec \<Rightarrow> wallet_state \<Rightarrow> (OuterVerifier, 'c) Transaction \<Rightarrow> bool" where
  "clean H R cc st tx \<longleftrightarrow>
     list_all (\<lambda>r. unspent_coins st r = None) (output_refs_of H (template_verifier H R) cc tx)
     \<and> list_all (\<lambda>r. spent_coins st r = None) (input_refs tx)"

subsection \<open>Folds over tables\<close>

lemma fold_spend:
  "unspent_coins (fold spend rs st) = (\<lambda>r. if r \<in> set rs then None else unspent_coins st r)"
  "spent_coins (fold spend rs st)
     = (\<lambda>r. if r \<in> set rs \<and> unspent_coins st r \<noteq> None then unspent_coins st r else spent_coins st r)"
  "known_hashes (fold spend rs st) = known_hashes st"
  "known_blocks (fold spend rs st) = known_blocks st"
  "best_time (fold spend rs st) = best_time st"
  by (induction rs arbitrary: st) (auto simp: spend_def fun_eq_iff split: option.splits)

lemma fold_unspend:
  "spent_coins (fold unspend rs st) = (\<lambda>r. if r \<in> set rs then None else spent_coins st r)"
  "unspent_coins (fold unspend rs st)
     = (\<lambda>r. if r \<in> set rs \<and> spent_coins st r \<noteq> None then spent_coins st r else unspent_coins st r)"
  "known_hashes (fold unspend rs st) = known_hashes st"
  "known_blocks (fold unspend rs st) = known_blocks st"
  "best_time (fold unspend rs st) = best_time st"
  by (induction rs arbitrary: st) (auto simp: unspend_def fun_eq_iff split: option.splits)

lemma fold_forget:
  "fold forget rs st = st\<lparr>unspent_coins := (\<lambda>r. if r \<in> set rs then None else unspent_coins st r)\<rparr>"
  by (induction rs arbitrary: st) (auto simp: forget_def fun_eq_iff)

lemma credit_fields [simp]:
  "known_hashes (credit R flt ro st) = known_hashes st"
  "known_blocks (credit R flt ro st) = known_blocks st"
  "spent_coins (credit R flt ro st) = spent_coins st"
  by (auto simp: credit_def receive_def split: prod.splits option.splits OuterVerifier.splits)

lemma credit_other: "r \<noteq> fst ro \<Longrightarrow> unspent_coins (credit R flt ro st) r = unspent_coins st r"
  by (auto simp: credit_def receive_def split: prod.splits option.splits OuterVerifier.splits)

lemma fold_credit:
  "known_hashes (fold (credit R flt) ros st) = known_hashes st"
  "known_blocks (fold (credit R flt) ros st) = known_blocks st"
  "spent_coins (fold (credit R flt) ros st) = spent_coins st"
  "r \<notin> fst ` set ros \<Longrightarrow> unspent_coins (fold (credit R flt) ros st) r = unspent_coins st r"
  by (induction ros arbitrary: st) (auto simp: credit_other)

lemma created_refs: "fst ` set (created_outputs H V cc tx) = set (output_refs_of H V cc tx)"
  by (metis created_outputs_def length_map map_fst_zip output_refs_of_def list.set_map length_upt minus_nat.diff_0)

lemma track_chain [simp]:
  "known_hashes (track H R cc flt tx st) = known_hashes st"
  "known_blocks (track H R cc flt tx st) = known_blocks st"
  by (simp_all add: track_def fold_spend fold_credit)

text \<open>Taking a new transaction back restores every table; the time of the latest timestamp stays.\<close>

lemma untrack_track:
  assumes "clean H R cc st tx"
  shows "untrack H R cc tx (track H R cc flt tx st) = st\<lparr>best_time := best_time (track H R cc flt tx st)\<rparr>"
proof -
  let ?credited = "fold (credit R flt) (created_outputs H (template_verifier H R) cc tx) st"
  let ?outs = "set (output_refs_of H (template_verifier H R) cc tx)"
  have kept: "unspent_coins ?credited r = unspent_coins st r" if "r \<notin> ?outs" for r
    using that fold_credit(4) [of r "created_outputs H (template_verifier H R) cc tx"] by (simp add: created_refs)
  have new: "r \<in> ?outs \<Longrightarrow> unspent_coins st r = None" "r \<in> set (input_refs tx) \<Longrightarrow> spent_coins st r = None" for r
    using assms by (auto simp: clean_def list_all_iff)
  show ?thesis
    unfolding untrack_def track_def fold_forget
    by (rule wallet_state.equality)
      (auto simp: fold_unspend fold_spend fold_credit fun_eq_iff kept new, metis option.exhaust surj_pair)
qed

text \<open>
  Cleanliness is needed. A mint that is repeated after its coin was spent creates the same reference again. When the
  coin is spent a second time and the three transactions are taken back, the record that the first spend
  left is gone and the coin does not reappear.
\<close>

lemma respent_coin_lost:
  assumes "unspent_coins st r = Some oa" and "spent_coins st r = None"
    and "input_refs first = [r]" and "outputs first = []" and "input_refs second = [r]" and "outputs second = []"
    and "input_refs mint = []" and "output_refs_of H (template_verifier H R) cc mint = [r]"
  shows "unspent_coins (fold (untrack H R cc) [second, mint, first]
      (fold (track H R cc flt) [first, mint, second] st)) r = None"
proof -
  have none: "output_refs_of H (template_verifier H R) cc tx = []" "created_outputs H (template_verifier H R) cc tx = []"
    if "outputs tx = []" for tx
    using that by (simp_all add: output_refs_of_def created_outputs_def)
  let ?st2 = "fold (track H R cc flt) [first, mint] st"
  have "spent_coins ?st2 r = Some oa"
    using assms by (simp add: track_def none fold_credit spend_def)
  then have "spent_coins (untrack H R cc second (track H R cc flt second ?st2)) r = None"
    using assms by (simp add: track_def untrack_def none spend_def unspend_def split: option.split)
  moreover have "unspent_coins (untrack H R cc first (untrack H R cc mint st')) r = None" if "spent_coins st' r = None" for st'
    using assms that by (simp add: untrack_def none unspend_def forget_def)
  ultimately show ?thesis by simp
qed

subsection \<open>Blocks\<close>

text \<open>
  A block as the wallet meets it: its hash, the opaque block and the transactions its extrinsics encode.
\<close>

type_synonym 'c entry = "H256 \<times> OpaqueBlock \<times> (OuterVerifier, 'c) Transaction list"

definition opaque_of ::
  "host \<Rightarrow> runtime_host \<Rightarrow> 'c codec \<Rightarrow> bytes \<Rightarrow> (OuterVerifier, 'c) Transaction \<Rightarrow> bool" where
  "opaque_of H R cc x tx \<longleftrightarrow>
     encode (bytes_codec H) x = encode (transaction_codec H (template_verifier H R) cc) tx"

fun clean_all ::
  "host \<Rightarrow> runtime_host \<Rightarrow> 'c codec \<Rightarrow> (OuterVerifier \<Rightarrow> bool) \<Rightarrow> wallet_state
     \<Rightarrow> (OuterVerifier, 'c) Transaction list \<Rightarrow> bool" where
  "clean_all H R cc flt st [] \<longleftrightarrow> True"
| "clean_all H R cc flt st (tx # txs) \<longleftrightarrow> clean H R cc st tx \<and> clean_all H R cc flt (track H R cc flt tx st) txs"

definition track_block ::
  "host \<Rightarrow> runtime_host \<Rightarrow> 'c codec \<Rightarrow> (OuterVerifier \<Rightarrow> bool) \<Rightarrow> 'c entry \<Rightarrow> wallet_state \<Rightarrow> wallet_state" where
  "track_block H R cc flt = (\<lambda>(hash, b, txs) st.
     fold (track H R cc flt) txs
       (st\<lparr>known_hashes := (known_hashes st)(number (opaque_header b) \<mapsto> hash),
           known_blocks := (known_blocks st)(hash \<mapsto> b)\<rparr>))"

definition fresh_wallet :: wallet_state where
  "fresh_wallet = \<lparr>known_hashes = Map.empty, known_blocks = Map.empty, unspent_coins = Map.empty,
     spent_coins = Map.empty, best_time = None\<rparr>"

text \<open>The wallet that has seen exactly the blocks \<open>es\<close>.\<close>

definition tracking ::
  "host \<Rightarrow> runtime_host \<Rightarrow> 'c codec \<Rightarrow> (OuterVerifier \<Rightarrow> bool) \<Rightarrow> 'c entry list \<Rightarrow> wallet_state" where
  "tracking H R cc flt es = fold (track_block H R cc flt) es fresh_wallet"

text \<open>
  Chains the wallet can follow: block \<open>n\<close> has number \<open>n\<close> and a hash of its own, its extrinsics are encoded
  transactions with readable outputs, and no transaction repeats an output or an input.
\<close>

inductive trackable :: "host \<Rightarrow> runtime_host \<Rightarrow> 'c codec \<Rightarrow> (OuterVerifier \<Rightarrow> bool) \<Rightarrow> 'c entry list \<Rightarrow> bool"
  for H R cc flt where
  trackable_Nil: "trackable H R cc flt []"
| trackable_snoc:
    "trackable H R cc flt es \<Longrightarrow> length es < 2 ^ 32 - 1 \<Longrightarrow> number (opaque_header b) = of_nat (length es)
      \<Longrightarrow> hash \<notin> fst ` set es \<Longrightarrow> list_all2 (opaque_of H R cc) (opaque_extrinsics b) txs
      \<Longrightarrow> list_all (readable R flt) txs \<Longrightarrow> clean_all H R cc flt (tracking H R cc flt es) txs
      \<Longrightarrow> trackable H R cc flt (es @ [(hash, b, txs)])"

inductive_cases trackable_snocE: "trackable H R cc flt (es @ [(hash, b, txs)])"

lemma trackable_butlast: "trackable H R cc flt (es @ [e]) \<Longrightarrow> trackable H R cc flt es"
  by (cases e) (auto elim: trackable_snocE)

lemma trackable_take: "trackable H R cc flt es \<Longrightarrow> trackable H R cc flt (take n es)"
proof (induction es rule: rev_induct)
  case (snoc e es)
  then show ?case
    by (cases "n \<le> length es") (auto dest: trackable_butlast)
qed simp

lemma tracking_snoc:
  "tracking H R cc flt (es @ [e]) = track_block H R cc flt e (tracking H R cc flt es)"
  by (simp add: tracking_def)

lemma fold_track_chain [simp]:
  "known_hashes (fold (track H R cc flt) txs st) = known_hashes st"
  "known_blocks (fold (track H R cc flt) txs st) = known_blocks st"
  by (induction txs arbitrary: st) simp_all

lemma trackable_length: "trackable H R cc flt es \<Longrightarrow> length es < 2 ^ 32"
  by (induction rule: trackable.induct) simp_all

lemma tracking_hashes:
  assumes "trackable H R cc flt es"
  shows "known_hashes (tracking H R cc flt es)
    = (\<lambda>h. if unat h < length es then Some (fst (es ! unat h)) else None)"
  using assms
proof (induction rule: trackable.induct)
  case trackable_Nil
  then show ?case by (simp add: tracking_def fresh_wallet_def fun_eq_iff)
next
  case (trackable_snoc es b hash txs)
  have small: "length es < 2 ^ 32 - 1" by fact
  then have "unat (of_nat (length es) :: u32) = length es"
    by (simp add: unat_of_nat_small)
  then have num: "h = number (opaque_header b) \<longleftrightarrow> unat h = length es" for h :: u32
    using trackable_snoc.hyps(3) by (auto simp: word_unat_eq_iff)
  show ?case
    unfolding tracking_snoc using trackable_snoc.IH
    by (auto simp: track_block_def fun_eq_iff nth_append num less_Suc_eq)
qed

lemma tracking_blocks:
  assumes "trackable H R cc flt es"
  shows "known_blocks (tracking H R cc flt es) = map_of (map (\<lambda>(hash, b, txs). (hash, b)) es)"
  using assms
proof (induction rule: trackable.induct)
  case trackable_Nil
  then show ?case by (simp add: tracking_def fresh_wallet_def)
next
  case (trackable_snoc es b hash txs)
  then have "map_of (map (\<lambda>(hash, b, txs). (hash, b)) es) hash = None"
    by (force simp: map_of_eq_None_iff)
  with trackable_snoc show ?case
    by (auto simp: tracking_snoc track_block_def fun_eq_iff map_add_def split: option.split)
qed

subsection \<open>The database follows the abstract wallet\<close>

lemma computes_for2:
  assumes "list_all2 P xs ys" and "\<And>x y st. P x y \<Longrightarrow> y \<in> set ys \<Longrightarrow> computes R (f x) st () (g y st)"
  shows "computes R (wfor f xs) st () (fold g ys st)"
  using assms
proof (induction xs ys arbitrary: st rule: list_all2_induct)
  case Nil
  then show ?case by (simp add: computes_lift)
next
  case (Cons x xs y ys)
  then have "computes R (f x) st () (g y st)" by simp
  moreover have "computes R (wfor f xs) (g y st) () (fold g ys (g y st))" using Cons by simp
  ultimately show ?case by (simp add: computes_bind)
qed

locale wallet_chain = wallet_laws H W contents
  for H :: host and W :: "'d wallet_host" and contents :: "'d \<Rightarrow> string \<Rightarrow> bytes \<rightharpoonup> bytes" +
  fixes R :: runtime_host and cc :: "'c codec" and flt :: "OuterVerifier \<Rightarrow> bool"
  assumes outer_verifier_laws: "verifier_laws (template_verifier H R)"
    and checker_codec_lawful: "scale_codec cc"
begin

lemma opaque_decodes:
  assumes "opaque_of H R cc x tx"
  shows "decode_value (transaction_codec H (template_verifier H R) cc) (encode (bytes_codec H) x) = Some tx"
    and "hash_of H (bytes_codec H) (encode (bytes_codec H) x) = transaction_hash H (template_verifier H R) cc tx"
proof -
  have "scale_codec (transaction_codec H (template_verifier H R) cc)"
    by unfold_locales (simp add: transaction_codec_def encode_transaction_decode host_laws_axioms
        outer_verifier_laws checker_codec_lawful)
  with assms show "decode_value (transaction_codec H (template_verifier H R) cc) (encode (bytes_codec H) x) = Some tx"
    by (simp add: opaque_of_def scale_codec.decode_value_encode)
  from assms show "hash_of H (bytes_codec H) (encode (bytes_codec H) x)
      = transaction_hash H (template_verifier H R) cc tx"
    by (simp add: opaque_of_def transaction_hash_def)
qed

lemma computes_money_apply:
  assumes "view (coin_data 0 (coin_codec R)) (payload out) = Some coin" and "verifier out = OuterSr25519Signature sig"
  shows "computes rep (money_apply_transaction H R W txh i out) st ()
    (receive \<lparr>tx_hash = txh, index = i\<rparr> (owner_pubkey sig, coin_value coin) st)"
proof -
  have "extract_data (coin_data 0 (coin_codec R)) (payload out) = Ok coin"
    using assms(1) by (auto simp: extract_Ok_iff view_def split: if_splits)
  with assms(2) show ?thesis by (simp add: money_apply_transaction_def computes_add_unspent)
qed

lemma computes_timestamp_apply:
  assumes "view (timestamp_data (timestamp_codec R)) (payload out) = Some ts"
  shows "computes rep (timestamp_apply_transaction R W out) st () (st\<lparr>best_time := Some (time ts)\<rparr>)"
proof -
  have "extract_data (timestamp_data (timestamp_codec R)) (payload out) = Ok ts"
    using assms by (auto simp: extract_Ok_iff view_def split: if_splits)
  then show ?thesis
    unfolding timestamp_apply_transaction_def
    by simp (intro computes_bind [OF computes_open] computes_bind [OF computes_trees(8)] computes_lift)
qed

lemma computes_apply_output:
  assumes "readable_output R flt out"
  shows "computes rep (apply_output H R W flt txh (i, out)) st ()
    (credit R flt (\<lparr>tx_hash = txh, index = of_nat i\<rparr>, out) st)"
proof -
  let ?coin = "coin_data 0 (coin_codec R)" and ?time = "timestamp_data (timestamp_codec R)"
  have ids: "TYPE_ID ?coin \<noteq> TYPE_ID ?time" by (simp add: coin_data_def timestamp_data_def)
  consider (mine) "type_id (payload out) = TYPE_ID ?coin" "flt (verifier out)"
    | (theirs) "type_id (payload out) = TYPE_ID ?coin" "\<not> flt (verifier out)"
    | (time) "type_id (payload out) = TYPE_ID ?time"
    | (other) "type_id (payload out) \<noteq> TYPE_ID ?coin" "type_id (payload out) \<noteq> TYPE_ID ?time"
    by blast
  then show ?thesis
  proof cases
    case mine
    with assms obtain coin sig where "view ?coin (payload out) = Some coin" "verifier out = OuterSr25519Signature sig"
      by (cases "verifier out") (auto simp: readable_output_def)
    with mine show ?thesis by (simp add: apply_output_def credit_def computes_money_apply)
  next
    case theirs
    then have "view ?time (payload out) = None" using ids by (simp add: view_def)
    with theirs show ?thesis
      by (cases "verifier out") (simp_all add: apply_output_def credit_def computes_lift split: option.split)
  next
    case time
    with assms obtain ts where "view ?time (payload out) = Some ts" by (auto simp: readable_output_def)
    moreover have "view ?coin (payload out) = None" using time ids by (simp add: view_def)
    ultimately show ?thesis
      using time ids by (simp add: apply_output_def credit_def computes_timestamp_apply)
  next
    case other
    then show ?thesis by (simp add: apply_output_def credit_def view_def computes_lift)
  qed
qed

lemma computes_apply_transaction:
  assumes x: "opaque_of H R cc x tx" and read: "readable R flt tx"
  shows "computes rep (apply_transaction H R W cc flt x) st () (track H R cc flt tx st)"
proof -
  let ?h = "transaction_hash H (template_verifier H R) cc tx"
  let ?outs = "created_outputs H (template_verifier H R) cc tx"
  have pairs: "list_all2 (\<lambda>(i, out) ro. ro = (\<lparr>tx_hash = ?h, index = of_nat i\<rparr>, out) \<and> readable_output R flt out)
      (enumerate 0 (outputs tx)) ?outs"
    using read by (auto simp: list_all2_conv_all_nth created_outputs_def output_refs_of_def nth_enumerate_eq
        readable_def list_all_length)
  have "computes rep (wfor (apply_output H R W flt ?h) (enumerate 0 (outputs tx))) st () (fold (credit R flt) ?outs st)"
    using pairs by (rule computes_for2) (auto intro: computes_apply_output)
  moreover have "computes rep (wfor (\<lambda>i. spend_output H W (output_ref i)) (inputs tx)) st' ()
      (fold spend (input_refs tx) st')" for st'
    by (rule computes_for2 [where P = "\<lambda>i r. r = output_ref i"])
      (auto simp: input_refs_def list_all2_conv_all_nth intro: computes_spend)
  ultimately show ?thesis
    unfolding apply_transaction_def track_def Let_def opaque_decodes [OF x]
    by (simp add: computes_bind)
qed

lemma computes_unapply_transaction:
  assumes x: "opaque_of H R cc x tx"
  shows "computes rep (unapply_transaction H R W cc x) st () (untrack H R cc tx st)"
proof -
  let ?V = "template_verifier H R"
  have "computes rep (wfor (\<lambda>i. unspend_output H W (output_ref i)) (inputs tx)) st ()
      (fold unspend (input_refs tx) st)"
    by (rule computes_for2 [where P = "\<lambda>i r. r = output_ref i"])
      (auto simp: input_refs_def list_all2_conv_all_nth intro: computes_unspend)
  moreover have "computes rep (wfor (\<lambda>i. remove_unspent_output H W
        \<lparr>tx_hash = transaction_hash H ?V cc tx, index = of_nat i\<rparr>) [0..<length (outputs tx)]) st' ()
      (fold forget (output_refs_of H ?V cc tx) st')" for st'
    by (rule computes_for2 [where P = "\<lambda>i r. r = \<lparr>tx_hash = transaction_hash H ?V cc tx, index = of_nat i\<rparr>"])
      (auto simp: output_refs_of_def list_all2_conv_all_nth intro: computes_remove_unspent)
  ultimately show ?thesis
    unfolding unapply_transaction_def untrack_def opaque_decodes [OF x] Let_def
    by (simp add: computes_bind transaction_hash_def)
qed

lemma computes_apply_block:
  assumes "list_all2 (opaque_of H R cc) (opaque_extrinsics b) txs" and "list_all (readable R flt) txs"
  shows "computes rep (apply_block H R W cc flt b hash) st () (track_block H R cc flt (hash, b, txs) st)"
proof -
  let ?st = "st\<lparr>known_hashes := (known_hashes st)(number (opaque_header b) \<mapsto> hash),
      known_blocks := (known_blocks st)(hash \<mapsto> b)\<rparr>"
  have "computes rep (wfor (apply_transaction H R W cc flt) (opaque_extrinsics b)) ?st () (fold (track H R cc flt) txs ?st)"
    using assms(1) by (rule computes_for2) (use assms(2) in \<open>auto simp: list_all_iff intro: computes_apply_transaction\<close>)
  then show ?thesis
    unfolding apply_block_def track_block_def prod.case
    by (intro computes_bind [OF computes_open] computes_bind [OF computes_trees(4)]
        computes_bind [OF computes_trees(5)]) simp
qed

lemma computes_unapply_highest:
  assumes n: "card (dom (known_hashes st)) = Suc n" and hash: "known_hashes st (of_nat n) = Some hash"
    and b: "known_blocks st hash = Some b" and txs: "list_all2 (opaque_of H R cc) (opaque_extrinsics b) txs"
  shows "computes rep (unapply_highest_block H R W cc) st ()
    (fold (untrack H R cc) (rev txs) (st\<lparr>known_hashes := (known_hashes st)(of_nat n := None),
       known_blocks := (known_blocks st)(hash := None)\<rparr>))"
proof -
  let ?st1 = "st\<lparr>known_hashes := (known_hashes st)(of_nat n := None)\<rparr>"
  let ?st2 = "?st1\<lparr>known_blocks := (known_blocks ?st1)(hash := None)\<rparr>"
  have top: "computes rep (height W) st (Some (of_nat n)) st"
    using computes_height [of st] n by simp
  have "list_all2 (opaque_of H R cc) (rev (opaque_extrinsics b)) (rev txs)" using txs by simp
  then have "computes rep (wfor (unapply_transaction H R W cc) (rev (opaque_extrinsics b))) ?st2 ()
      (fold (untrack H R cc) (rev txs) ?st2)"
    by (rule computes_for2) (rule computes_unapply_transaction)
  then show ?thesis
    unfolding unapply_highest_block_def
    by (intro computes_bind [OF computes_open] computes_bind [OF top])
      (simp add: hash b, intro computes_bind [OF computes_trees(9)],
       simp add: hash, intro computes_bind [OF computes_trees(10)], simp add: b)
qed

end

lemma fold_time:
  "(\<And>x st. f x (st\<lparr>best_time := t\<rparr>) = (f x st)\<lparr>best_time := t\<rparr>)
    \<Longrightarrow> fold f xs (st\<lparr>best_time := t\<rparr>) = (fold f xs st)\<lparr>best_time := t\<rparr>"
  by (induction xs arbitrary: st) simp_all

lemma untrack_time: "untrack H R cc tx (st\<lparr>best_time := t\<rparr>) = (untrack H R cc tx st)\<lparr>best_time := t\<rparr>"
proof -
  have "unspend r (st\<lparr>best_time := t\<rparr>) = (unspend r st)\<lparr>best_time := t\<rparr>" for r st
    by (simp add: unspend_def split: option.split)
  moreover have "forget r (st\<lparr>best_time := t\<rparr>) = (forget r st)\<lparr>best_time := t\<rparr>" for r st
    by (simp add: forget_def)
  ultimately show ?thesis unfolding untrack_def by (simp add: fold_time)
qed

lemma untrack_all:
  assumes "clean_all H R cc flt st txs"
  shows "fold (untrack H R cc) (rev txs) (fold (track H R cc flt) txs st)
    = st\<lparr>best_time := best_time (fold (track H R cc flt) txs st)\<rparr>"
  using assms
proof (induction txs arbitrary: st)
  case (Cons tx txs)
  let ?t = "best_time (fold (track H R cc flt) txs (track H R cc flt tx st))"
  have "fold (untrack H R cc) (rev txs) (fold (track H R cc flt) txs (track H R cc flt tx st))
      = (track H R cc flt tx st)\<lparr>best_time := ?t\<rparr>"
    using Cons by simp
  moreover have "untrack H R cc tx (track H R cc flt tx st) = st\<lparr>best_time := best_time (track H R cc flt tx st)\<rparr>"
    using Cons.prems by (simp add: untrack_track)
  ultimately show ?case by (simp add: untrack_time)
qed simp

end
