(* ===== verification/Wallet_Chain.thy ===== *)
theory Wallet_Chain
  imports Wallet_Sync Genesis
begin

text \<open>
  What the wallet's synchronisation achieves: rolling a block back undoes applying it, and synchronising with a
  node ends with the wallet having seen exactly the node's chain, whatever fork it was on before.
\<close>

subsection \<open>States that differ in the time only\<close>

definition same_but_time :: "wallet_state \<Rightarrow> wallet_state \<Rightarrow> bool" where
  "same_but_time st st' \<longleftrightarrow> (\<exists>t. st' = st\<lparr>best_time := t\<rparr>)"

text \<open>The database of a wallet that has seen the blocks \<open>es\<close>, up to the time of the latest timestamp.\<close>

definition synced ::
  "host \<Rightarrow> 'd wallet_host \<Rightarrow> ('d \<Rightarrow> string \<Rightarrow> bytes \<rightharpoonup> bytes) \<Rightarrow> runtime_host \<Rightarrow> 'c codec \<Rightarrow> (OuterVerifier \<Rightarrow> bool)
     \<Rightarrow> 'd \<Rightarrow> 'c entry list \<Rightarrow> bool" where
  "synced H W contents R cc flt d es \<longleftrightarrow>
     (\<exists>st. same_but_time (tracking H R cc flt es) st \<and> represents H W contents d st)"

lemma same_but_time_refl [simp]: "same_but_time st st"
  unfolding same_but_time_def by (rule exI [of _ "best_time st"]) simp

lemma same_but_time_trans: "same_but_time a b \<Longrightarrow> same_but_time b c \<Longrightarrow> same_but_time a c"
  by (auto simp: same_but_time_def)

lemma same_but_time_fields:
  "same_but_time st st' \<Longrightarrow> known_hashes st' = known_hashes st"
  "same_but_time st st' \<Longrightarrow> known_blocks st' = known_blocks st"
  "same_but_time st st' \<Longrightarrow> unspent_coins st' = unspent_coins st"
  "same_but_time st st' \<Longrightarrow> spent_coins st' = spent_coins st"
  by (auto simp: same_but_time_def)

lemma same_but_time_iff:
  "same_but_time st st' \<longleftrightarrow> known_hashes st' = known_hashes st \<and> known_blocks st' = known_blocks st
     \<and> unspent_coins st' = unspent_coins st \<and> spent_coins st' = spent_coins st"
  by (auto simp: same_but_time_def intro: exI [of _ "best_time st'"])

lemma fold_same_but_time:
  "(\<And>x st st'. same_but_time st st' \<Longrightarrow> same_but_time (f x st) (f x st')) \<Longrightarrow> same_but_time st st'
    \<Longrightarrow> same_but_time (fold f xs st) (fold f xs st')"
  by (induction xs arbitrary: st st') simp_all

lemma track_same_but_time:
  assumes "same_but_time st st'"
  shows "same_but_time (track H R cc flt tx st) (track H R cc flt tx st')"
proof -
  have credit: "same_but_time (credit R flt ro st) (credit R flt ro st')" if "same_but_time st st'" for ro st st'
    using that
    by (auto simp: same_but_time_iff credit_def receive_def split: prod.splits option.splits OuterVerifier.splits)
  have spend: "same_but_time (spend r st) (spend r st')" if "same_but_time st st'" for r st st'
    using that by (simp add: same_but_time_iff spend_def split: option.split)
  show ?thesis
    unfolding track_def
    by (rule fold_same_but_time, erule spend, rule fold_same_but_time, erule credit, rule assms)
qed

lemma track_block_same_but_time:
  "same_but_time st st' \<Longrightarrow> same_but_time (track_block H R cc flt e st) (track_block H R cc flt e st')"
  unfolding track_block_def
  by (cases e, simp, rule fold_same_but_time, erule track_same_but_time) (simp add: same_but_time_iff)

lemma clean_all_same_but_time:
  "same_but_time st st' \<Longrightarrow> clean_all H R cc flt st' txs = clean_all H R cc flt st txs"
proof (induction txs arbitrary: st st')
  case (Cons tx txs)
  then have "clean H R cc st' tx = clean H R cc st tx" by (simp add: clean_def same_but_time_fields)
  moreover have "clean_all H R cc flt (track H R cc flt tx st') txs = clean_all H R cc flt (track H R cc flt tx st) txs"
    by (rule Cons.IH, rule track_same_but_time, rule Cons.prems)
  ultimately show ?case by simp
qed simp

text \<open>Transactions do not touch the tables of the chain.\<close>

lemma track_chain_update:
  "track H R cc flt tx (st\<lparr>known_hashes := hs, known_blocks := bs\<rparr>)
     = (track H R cc flt tx st)\<lparr>known_hashes := hs, known_blocks := bs\<rparr>"
proof -
  let ?upd = "\<lambda>st. st\<lparr>known_hashes := hs, known_blocks := bs\<rparr>"
  have "?upd (fold spend rs st) = fold spend rs (?upd st)" for rs st
    by (rule fold_commute_apply) (auto simp: fun_eq_iff spend_def split: option.split)
  moreover have "?upd (fold (credit R flt) ros st) = fold (credit R flt) ros (?upd st)" for ros st
    by (rule fold_commute_apply)
      (auto simp: fun_eq_iff credit_def receive_def split: prod.splits option.split OuterVerifier.split)
  ultimately show ?thesis by (simp add: track_def)
qed

lemma fold_track_chain_update:
  "fold (track H R cc flt) txs (st\<lparr>known_hashes := hs, known_blocks := bs\<rparr>)
     = (fold (track H R cc flt) txs st)\<lparr>known_hashes := hs, known_blocks := bs\<rparr>"
  by (induction txs arbitrary: st) (simp_all add: track_chain_update)

lemma card_heights: "n \<le> 2 ^ 32 \<Longrightarrow> card {h :: u32. unat h < n} = n"
proof -
  assume n: "n \<le> 2 ^ 32"
  have "{h :: u32. unat h < n} = of_nat ` {0..<n}"
  proof (intro set_eqI iffI)
    fix h :: u32
    assume "h \<in> {h. unat h < n}"
    then have "h = of_nat (unat h)" "unat h \<in> {0..<n}" by simp_all
    then show "h \<in> of_nat ` {0..<n}" by (rule image_eqI)
  next
    fix h :: u32
    assume "h \<in> of_nat ` {0..<n}"
    then show "h \<in> {h. unat h < n}" using n by (auto simp: unat_of_nat_small)
  qed
  then show ?thesis using inj_on_of_nat_u32 [OF n] by (simp add: card_image)
qed

lemma tracking_height:
  assumes "trackable H R cc flt es"
  shows "card (dom (known_hashes (tracking H R cc flt es))) = length es"
proof -
  have "dom (known_hashes (tracking H R cc flt es)) = {h. unat h < length es}"
    by (auto simp: tracking_hashes [OF assms] split: if_splits)
  then show ?thesis using card_heights trackable_length [OF assms] by simp
qed

subsection \<open>One block forward, one block back\<close>

context wallet_chain
begin

lemma synced_apply:
  assumes "synced H W contents R cc flt d es" and "trackable H R cc flt (es @ [(hash, b, txs)])"
  shows "\<exists>d'. apply_block H R W cc flt b hash d = (d', Ok ()) \<and> synced H W contents R cc flt d' (es @ [(hash, b, txs)])"
proof -
  obtain st where st: "same_but_time (tracking H R cc flt es) st" "rep d st"
    using assms(1) by (auto simp: synced_def)
  have "computes rep (apply_block H R W cc flt b hash) st () (track_block H R cc flt (hash, b, txs) st)"
    using assms(2) by (auto elim: trackable_snocE intro: computes_apply_block)
  from computesD [OF this st(2)] obtain d' where
    "apply_block H R W cc flt b hash d = (d', Ok ())" "rep d' (track_block H R cc flt (hash, b, txs) st)" by blast
  then show ?thesis
    unfolding synced_def tracking_snoc using track_block_same_but_time [OF st(1)] by blast
qed

lemma synced_unapply:
  assumes "synced H W contents R cc flt d (es @ [(hash, b, txs)])" and tr: "trackable H R cc flt (es @ [(hash, b, txs)])"
  shows "\<exists>d'. unapply_highest_block H R W cc d = (d', Ok ()) \<and> synced H W contents R cc flt d' es"
proof -
  let ?E = "tracking H R cc flt (es @ [(hash, b, txs)])" and ?S = "tracking H R cc flt es"
  have len: "length es < 2 ^ 32 - 1" and num: "number (opaque_header b) = of_nat (length es)"
    and new: "hash \<notin> fst ` set es" and txs: "list_all2 (opaque_of H R cc) (opaque_extrinsics b) txs"
    and clean: "clean_all H R cc flt ?S txs"
    using tr by (auto elim: trackable_snocE)
  have tr': "trackable H R cc flt es" using tr by (rule trackable_butlast)
  have top: "unat (of_nat (length es) :: u32) = length es" using len by (simp add: unat_of_nat_small)
  obtain st where st: "same_but_time ?E st" "rep d st" using assms(1) by (auto simp: synced_def)
  have hashes: "known_hashes ?S (of_nat (length es)) = None" "known_blocks ?S hash = None"
    using new by (force simp: tracking_hashes [OF tr'] tracking_blocks [OF tr'] top map_of_eq_None_iff)+
  have E: "?E = (fold (track H R cc flt) txs ?S)\<lparr>known_hashes := (known_hashes ?S)(of_nat (length es) \<mapsto> hash),
      known_blocks := (known_blocks ?S)(hash \<mapsto> b)\<rparr>"
    by (simp add: tracking_snoc track_block_def num fold_track_chain_update)
  let ?st = "st\<lparr>known_hashes := (known_hashes st)(of_nat (length es) := None),
      known_blocks := (known_blocks st)(hash := None)\<rparr>"
  have "computes rep (unapply_highest_block H R W cc) st () (fold (untrack H R cc) (rev txs) ?st)"
    using tracking_height [OF tr] txs
    by (intro computes_unapply_highest) (auto simp: same_but_time_fields [OF st(1)] E)
  from computesD [OF this st(2)] obtain d' where
    d': "unapply_highest_block H R W cc d = (d', Ok ())" "rep d' (fold (untrack H R cc) (rev txs) ?st)" by blast
  have "same_but_time (fold (track H R cc flt) txs ?S) ?st"
    using hashes by (simp add: same_but_time_iff same_but_time_fields [OF st(1)] E fun_upd_idem)
  then obtain t where "?st = (fold (track H R cc flt) txs ?S)\<lparr>best_time := t\<rparr>" by (auto simp: same_but_time_def)
  then have "same_but_time ?S (fold (untrack H R cc) (rev txs) ?st)"
    using untrack_all [OF clean] by (simp add: fold_time untrack_time same_but_time_iff)
  with d' show ?thesis by (auto simp: synced_def)
qed

lemma synced_hash:
  assumes "synced H W contents R cc flt d es" and "trackable H R cc flt es"
  shows "\<exists>d'. get_block_hash H W h d = (d', Ok (if unat h < length es then Some (fst (es ! unat h)) else None))
    \<and> synced H W contents R cc flt d' es"
proof -
  obtain st where st: "same_but_time (tracking H R cc flt es) st" "rep d st" using assms(1) by (auto simp: synced_def)
  obtain d' where "get_block_hash H W h d = (d', Ok (known_hashes st h))" "rep d' st"
    using computesD [OF computes_get_block_hash st(2)] by blast
  with st(1) show ?thesis
    unfolding synced_def same_but_time_fields(1) [OF st(1)] tracking_hashes [OF assms(2)] by blast
qed

lemma synced_height:
  assumes "synced H W contents R cc flt d es" and "trackable H R cc flt es" and "es \<noteq> []"
  shows "\<exists>d'. height W d = (d', Ok (Some (of_nat (length es - 1)))) \<and> synced H W contents R cc flt d' es"
proof -
  obtain st where st: "same_but_time (tracking H R cc flt es) st" "rep d st" using assms(1) by (auto simp: synced_def)
  have "card (dom (known_hashes st)) = length es"
    by (simp add: same_but_time_fields [OF st(1)] tracking_height [OF assms(2)])
  with computesD [OF computes_height st(2)] assms(3)
  obtain d' where "height W d = (d', Ok (Some (of_nat (length es - 1))))" "rep d' st"
    by (auto simp: of_nat_diff Suc_le_eq)
  with st(1) show ?thesis unfolding synced_def by blast
qed

end

subsection \<open>The loops\<close>

text \<open>The node's answers are those of one chain, and equal hashes stand for equal histories.\<close>

definition hash_at :: "'c entry list \<Rightarrow> u32 \<Rightarrow> H256 option" where
  "hash_at ns h = (if unat h < length ns then Some (fst (ns ! unat h)) else None)"

definition node_serves :: "'j client \<Rightarrow> 'c entry list \<Rightarrow> bool" where
  "node_serves N ns \<longleftrightarrow>
     (\<forall>h. node_get_block_hash N h = Ok (hash_at ns h))
     \<and> list_all (\<lambda>(hash, b, txs). node_get_block N hash = Ok (Some b)) ns"

definition hash_linked :: "'c entry list \<Rightarrow> 'c entry list \<Rightarrow> bool" where
  "hash_linked ws ns \<longleftrightarrow>
     (\<forall>i < length ws. i < length ns \<longrightarrow> fst (ws ! i) = fst (ns ! i) \<longrightarrow> take (Suc i) ws = take (Suc i) ns)"

lemma hash_linked_butlast:
  assumes "hash_linked (ws @ [e]) ns"
  shows "hash_linked ws ns"
  unfolding hash_linked_def
proof (intro allI impI)
  fix i
  assume "i < length ws" "i < length ns" "fst (ws ! i) = fst (ns ! i)"
  with assms show "take (Suc i) ws = take (Suc i) ns"
    by (auto simp: hash_linked_def nth_append dest!: spec [of _ i])
qed

context wallet_chain
begin

lemma revert_reaches:
  assumes "synced H W contents R cc flt d (ws @ [e])" and "trackable H R cc flt (ws @ [e])"
    and "node_serves N ns" and "ns \<noteq> []" and "hd (ws @ [e]) = hd ns" and "hash_linked (ws @ [e]) ns"
  shows "\<exists>d' k. revert_orphans H R W cc N (of_nat (length ws)) (fst e) (hash_at ns (of_nat (length ws))) d
      = Some (d', Ok (of_nat k)) \<and> k < length ns \<and> synced H W contents R cc flt d' (take (Suc k) ns)"
  using assms(1,2,5,6)
proof (induction ws arbitrary: e d rule: rev_induct)
  case Nil
  with assms(4) have "hash_at ns 0 = Some (fst e)" "take (Suc 0) ns = [e]"
    by (cases ns; simp add: hash_at_def)+
  with Nil assms(4) show ?case
    by (subst revert_orphans.simps) (auto intro!: exI [of _ "0::nat"])
next
  case (snoc w ws)
  let ?n = "Suc (length ws)"
  have len: "?n < 2 ^ 32 - 1" using snoc.prems(2) trackable_length [of H R cc flt "(ws @ [w]) @ [e]"]
    by (cases e) (auto elim: trackable_snocE)
  show ?case
  proof (cases "hash_at ns (of_nat ?n) = Some (fst e)")
    case True
    then have n: "?n < length ns" "fst (ns ! ?n) = fst e"
      using len by (auto simp: hash_at_def unat_of_nat_small simp del: of_nat_Suc split: if_splits)
    then have "take (Suc ?n) ns = (ws @ [w]) @ [e]"
      using snoc.prems(4) unfolding hash_linked_def by (auto simp: nth_append dest!: spec [of _ ?n])
    with True n snoc.prems(1) show ?thesis
      by (subst revert_orphans.simps) (auto intro!: exI [of _ "?n"])
  next
    case False
    obtain hash b txs where e: "e = (hash, b, txs)" by (cases e)
    obtain d1 where d1: "unapply_highest_block H R W cc d = (d1, Ok ())" "synced H W contents R cc flt d1 (ws @ [w])"
      using synced_unapply [OF snoc.prems(1,2) [unfolded e]] by blast
    have tr: "trackable H R cc flt (ws @ [w])" using snoc.prems(2) by (rule trackable_butlast)
    have pred: "(of_nat ?n :: u32) - 1 = of_nat (length ws)" by simp
    obtain d2 where d2: "get_block_hash H W (of_nat (length ws)) d1 = (d2, Ok (Some (fst w)))"
      "synced H W contents R cc flt d2 (ws @ [w])"
      using synced_hash [OF d1(2) tr, of "of_nat (length ws)"] len by (auto simp: unat_of_nat_small)
    have step: "revert_step H R W cc N (of_nat ?n) d
        = (d2, Ok (of_nat (length ws), fst w, hash_at ns (of_nat (length ws))))"
      using assms(3) by (simp add: revert_step_def wbind_def wlift_def d1 d2 node_serves_def)
    have "\<exists>d' k. revert_orphans H R W cc N (of_nat (length ws)) (fst w) (hash_at ns (of_nat (length ws))) d2
        = Some (d', Ok (of_nat k)) \<and> k < length ns \<and> synced H W contents R cc flt d' (take (Suc k) ns)"
      using d2(2) tr
    proof (rule snoc.IH)
      show "hd (ws @ [w]) = hd ns" using snoc.prems(3) by (cases ws) simp_all
      show "hash_linked (ws @ [w]) ns" using snoc.prems(4) by (rule hash_linked_butlast)
    qed
    then show ?thesis
      using False step by (subst revert_orphans.simps) (auto simp del: of_nat_Suc)
  qed
qed

lemma follow_reaches:
  assumes "trackable H R cc flt ns" and "node_serves N ns"
    and "k \<le> length ns" and "synced H W contents R cc flt d (take k ns)"
  shows "\<exists>d'. follow_node H R W cc N flt (of_nat k) (hash_at ns (of_nat k)) d = Some (d', Ok ())
    \<and> synced H W contents R cc flt d' ns"
  using assms(3,4)
proof (induction "length ns - k" arbitrary: k d)
  case 0
  then have "k = length ns" by simp
  with 0 trackable_length [OF assms(1)] show ?case
    by (subst follow_node.simps) (simp add: hash_at_def unat_of_nat_small)
next
  case (Suc m)
  then have k: "k < length ns" by simp
  obtain hash b txs where e: "ns ! k = (hash, b, txs)" by (cases "ns ! k")
  have small: "unat (of_nat k :: u32) = k" using k trackable_length [OF assms(1)] by (simp add: unat_of_nat_small)
  have next_take: "take (Suc k) ns = take k ns @ [(hash, b, txs)]" using k e by (simp add: take_Suc_conv_app_nth)
  have "trackable H R cc flt (take k ns @ [(hash, b, txs)])"
    using trackable_take [OF assms(1), of "Suc k"] next_take by simp
  then obtain d1 where d1: "apply_block H R W cc flt b hash d = (d1, Ok ())"
      "synced H W contents R cc flt d1 (take (Suc k) ns)"
    unfolding next_take using synced_apply [OF Suc.prems(2)] by blast
  have blk: "node_get_block N hash = Ok (Some b)"
    using assms(2) k e nth_mem [OF k] by (auto simp: node_serves_def list_all_iff)
  have "follow_step H R W cc N flt (of_nat k) hash d = (d1, Ok (of_nat (Suc k), hash_at ns (of_nat (Suc k))))"
    using assms(2) by (simp add: follow_step_def wbind_def wlift_def blk d1 node_serves_def add.commute)
  moreover have "hash_at ns (of_nat k) = Some hash" using k e small by (simp add: hash_at_def)
  moreover have "\<exists>d'. follow_node H R W cc N flt (of_nat (Suc k)) (hash_at ns (of_nat (Suc k))) d1 = Some (d', Ok ())
      \<and> synced H W contents R cc flt d' ns"
    using Suc k d1 by (intro Suc.hyps(1)) auto
  ultimately show ?case by (subst follow_node.simps) (auto simp del: of_nat_Suc)
qed

end

subsection \<open>The wallet and the ledger\<close>

text \<open>The coins of a ledger that the wallet's filter selects, with owner and amount.\<close>

definition owned :: "runtime_host \<Rightarrow> (OuterVerifier \<Rightarrow> bool) \<Rightarrow> OuterVerifier ledger \<Rightarrow> OutputRef \<rightharpoonup> H256 \<times> u128" where
  "owned R flt U r =
     Option.bind (U r) (\<lambda>out.
     Option.bind (view (coin_data 0 (coin_codec R)) (payload out)) (\<lambda>coin.
     Option.bind (un_sr25519 (verifier out)) (\<lambda>sig.
     if flt (verifier out) then Some (owner_pubkey sig, coin_value coin) else None)))"

lemma credit_owned:
  "unspent_coins st r = None \<Longrightarrow> unspent_coins (credit R flt (r, out) st) r = owned R flt [r \<mapsto> out] r"
  by (cases "verifier out") (auto simp: credit_def owned_def receive_def split: option.splits)

lemma fold_credit_owned:
  assumes "distinct (map fst ros)" and "\<forall>r \<in> fst ` set ros. unspent_coins st r = None"
  shows "unspent_coins (fold (credit R flt) ros st) r
    = (if r \<in> fst ` set ros then owned R flt (map_of ros) r else unspent_coins st r)"
  using assms
proof (induction ros arbitrary: st)
  case (Cons ro ros)
  obtain r0 out where ro: "ro = (r0, out)" by (cases ro)
  have "\<forall>r \<in> fst ` set ros. unspent_coins (credit R flt ro st) r = None"
  proof
    fix r
    assume r: "r \<in> fst ` set ros"
    from Cons.prems(1) have "fst ro \<notin> fst ` set ros" by simp
    with r have "r \<noteq> fst ro" by blast
    then show "unspent_coins (credit R flt ro st) r = None" using Cons.prems(2) r by (auto simp: credit_other)
  qed
  with Cons have IH: "unspent_coins (fold (credit R flt) ros (credit R flt ro st)) r
      = (if r \<in> fst ` set ros then owned R flt (map_of ros) r else unspent_coins (credit R flt ro st) r)"
    by simp
  show ?case
  proof (cases "r = r0")
    case True
    then have "r \<notin> fst ` set ros" using Cons.prems(1) ro by (auto simp: image_iff)
    with IH True Cons.prems(2) ro show ?thesis by (simp add: credit_owned) (simp add: owned_def)
  next
    case False
    with IH ro show ?thesis by (auto simp: credit_other owned_def)
  qed
qed simp

lemma track_owned:
  assumes st: "unspent_coins st = owned R flt U" and small: "length (outputs tx) \<le> 2 ^ 32"
    and new: "\<forall>r \<in> set (output_refs_of H (template_verifier H R) cc tx). U r = None \<and> r \<notin> set (input_refs tx)"
  shows "unspent_coins (track H R cc flt tx st)
    = owned R flt (ledger_update (input_refs tx) (created_outputs H (template_verifier H R) cc tx) U)"
proof
  fix r
  let ?outs = "created_outputs H (template_verifier H R) cc tx"
  have "\<forall>r \<in> fst ` set ?outs. unspent_coins st r = None"
    using new by (simp add: st owned_def created_refs)
  moreover have "distinct (map fst ?outs)" using distinct_output_refs [OF small] by simp
  ultimately have "unspent_coins (fold (credit R flt) ?outs st) r
      = (if r \<in> fst ` set ?outs then owned R flt (map_of ?outs) r else unspent_coins st r)"
    by (intro fold_credit_owned)
  moreover have "r \<in> fst ` set ?outs \<Longrightarrow> r \<notin> set (input_refs tx)" using new by (simp add: created_refs)
  moreover have "r \<notin> fst ` set ?outs \<longleftrightarrow> map_of ?outs r = None" by (simp add: map_of_eq_None_iff)
  ultimately show "unspent_coins (track H R cc flt tx st) r
      = owned R flt (ledger_update (input_refs tx) ?outs U) r"
    by (auto simp: track_def fold_spend st owned_def ledger_update_def split: option.split)
qed

lemma genesis_owned:
  assumes "small_outputs gtxs" and "list_all (\<lambda>tx. inputs tx = []) gtxs"
    and "distinct (concat (map (output_refs_of H (template_verifier H R) cc) gtxs))"
    and "unspent_coins st = owned R flt U"
    and "\<forall>r \<in> set (concat (map (output_refs_of H (template_verifier H R) cc) gtxs)). U r = None"
  shows "unspent_coins (fold (track H R cc flt) gtxs st)
    = owned R flt (replay H (template_verifier H R) cc gtxs U)"
  using assms
proof (induction gtxs arbitrary: st U)
  case Nil
  then show ?case by (simp add: replay_def)
next
  case (Cons tx txs)
  let ?U = "ledger_update (input_refs tx) (created_outputs H (template_verifier H R) cc tx) U"
  have no_inputs: "input_refs tx = []" using Cons.prems(2) by (simp add: input_refs_def)
  have "unspent_coins (track H R cc flt tx st) = owned R flt ?U"
    using Cons.prems no_inputs by (intro track_owned) auto
  moreover have "\<forall>r \<in> set (concat (map (output_refs_of H (template_verifier H R) cc) txs)). ?U r = None"
  proof
    fix r
    assume r: "r \<in> set (concat (map (output_refs_of H (template_verifier H R) cc) txs))"
    with Cons.prems(3) have "r \<notin> set (output_refs_of H (template_verifier H R) cc tx)" by auto
    then have "map_of (created_outputs H (template_verifier H R) cc tx) r = None"
      by (simp add: map_of_eq_None_iff created_refs)
    with r Cons.prems(5) no_inputs show "?U r = None" by (simp add: ledger_update_def)
  qed
  ultimately have "unspent_coins (fold (track H R cc flt) txs (track H R cc flt tx st))
      = owned R flt (replay H (template_verifier H R) cc txs ?U)"
    using Cons.prems by (intro Cons.IH) auto
  then show ?case by (simp add: replay_Cons)
qed

text \<open>The transactions of a chain of blocks, as the wallet meets them.\<close>

definition entry_transactions :: "'c entry list \<Rightarrow> (OuterVerifier, 'c) Transaction list" where
  "entry_transactions es = concat (map (\<lambda>(hash, b, txs). txs) es)"

lemma tracking_unspent:
  "unspent_coins (tracking H R cc flt es) = unspent_coins (fold (track H R cc flt) (entry_transactions es) fresh_wallet)"
proof -
  have "\<exists>hs bs. tracking H R cc flt es
      = (fold (track H R cc flt) (entry_transactions es) fresh_wallet)\<lparr>known_hashes := hs, known_blocks := bs\<rparr>"
  proof (induction es rule: rev_induct)
    case Nil
    show ?case
      by (rule exI [of _ Map.empty], rule exI [of _ Map.empty])
        (simp add: tracking_def entry_transactions_def fresh_wallet_def)
  next
    case (snoc e es)
    obtain hash b txs where e: "e = (hash, b, txs)" by (cases e)
    from snoc obtain hs bs where IH: "tracking H R cc flt es
        = (fold (track H R cc flt) (entry_transactions es) fresh_wallet)\<lparr>known_hashes := hs, known_blocks := bs\<rparr>"
      by blast
    show ?case
      by (rule exI [of _ "hs(number (opaque_header b) \<mapsto> hash)"], rule exI [of _ "bs(hash \<mapsto> b)"])
        (simp add: tracking_snoc IH e track_block_def entry_transactions_def fold_track_chain_update, simp add: fun_upd_def)
  qed
  then show ?thesis by auto
qed

lemma chain_owned:
  assumes exec: "executive H (template_verifier H R) C" and c: "chain H (template_verifier H R) C txs_codec B gtxs bs s"
    and small: "small_outputs (chain_history gtxs bs)" and no_inputs: "list_all (\<lambda>tx. inputs tx = []) gtxs"
    and refs: "distinct (concat (map (output_refs_of H (template_verifier H R) (checker_codec C)) gtxs))"
  shows "unspent_coins (fold (track H R (checker_codec C) flt) (chain_history gtxs bs) fresh_wallet)
    = owned R flt (ledger_of H (template_verifier H R) s)"
  using exec c small
proof (rule executive.chain_tx_induct)
  have "unspent_coins fresh_wallet = owned R flt Map.empty" by (simp add: fresh_wallet_def owned_def fun_eq_iff)
  with no_inputs refs small
  show "unspent_coins (fold (track H R (checker_codec C) flt) gtxs fresh_wallet)
      = owned R flt (replay H (template_verifier H R) (checker_codec C) gtxs Map.empty)"
    by (intro genesis_owned) (simp_all add: chain_history_def)
next
  fix hist tx s' h
  let ?U = "ledger_of H (template_verifier H R) s'"
  assume acc: "ledger_accepts H (template_verifier H R) C h ?U s' tx" and len: "length (outputs tx) \<le> 2 ^ 32"
    and IH: "unspent_coins (fold (track H R (checker_codec C) flt) hist fresh_wallet) = owned R flt ?U"
  have "\<forall>r \<in> set (output_refs_of H (template_verifier H R) (checker_codec C) tx). ?U r = None \<and> r \<notin> set (input_refs tx)"
  proof
    fix r
    assume "r \<in> set (output_refs_of H (template_verifier H R) (checker_codec C) tx)"
    then have "?U r = None" using acc by (simp add: ledger_accepts_def)
    with ledger_accepts_present [OF acc, of r] show "?U r = None \<and> r \<notin> set (input_refs tx)" by auto
  qed
  with IH len show "unspent_coins (fold (track H R (checker_codec C) flt) (hist @ [tx]) fresh_wallet)
      = owned R flt (ledger_update (input_refs tx) (created_outputs H (template_verifier H R) (checker_codec C) tx) ?U)"
    by (simp add: track_owned)
qed

lemma tree_holds_unique:
  assumes "tree_holds ck cv t m" and "tree_holds ck cv t' m"
  shows "t = t'"
proof
  fix b
  show "t b = t' b"
  proof (cases "b \<in> range (encode ck)")
    case True
    then obtain k where "b = encode ck k" by blast
    then show ?thesis using tree_holds_get [OF assms(1)] tree_holds_get [OF assms(2)] by simp
  next
    case False
    then have "b \<notin> dom t" "b \<notin> dom t'" using assms by (auto simp: tree_holds_def)
    then show ?thesis by (simp add: domIff)
  qed
qed

lemma synced_tables:
  assumes "synced H W contents R cc flt d es" and "synced H W contents R cc flt d' es"
  shows "list_all (\<lambda>t. contents d t = contents d' t) [BLOCKS, BLOCK_HASHES, UNSPENT, SPENT]"
proof -
  obtain st st' where st: "same_but_time (tracking H R cc flt es) st" "represents H W contents d st"
    and st': "same_but_time (tracking H R cc flt es) st'" "represents H W contents d' st'"
    using assms by (auto simp: synced_def)
  show ?thesis
    using st(2) st'(2) unfolding represents_def same_but_time_fields [OF st(1)] same_but_time_fields [OF st'(1)]
    by (auto intro: tree_holds_unique)
qed

subsection \<open>Theorems\<close>

text \<open>
  C11. Rolling back a block undoes it. Take the database of a wallet that has followed a chain, where the chain with its next block is trackable: among others, no
  transaction creates an output that the wallet holds or spends one that it has recorded as spent. Then applying that next
  block and then unapplying the highest block both succeed and leave the tables of blocks, hashes, unspent and
  spent outputs byte for byte as they were; in between the wallet has followed the longer chain. The time of the
  latest timestamp is not rolled back.
\<close>

theorem unapply_apply_block:
  assumes "wallet_chain H W contents R cc" and "synced H W contents R cc flt d es"
    and "trackable H R cc flt (es @ [(hash, b, txs)])"
  shows "\<exists>d1 d2. apply_block H R W cc flt b hash d = (d1, Ok ())
    \<and> synced H W contents R cc flt d1 (es @ [(hash, b, txs)])
    \<and> unapply_highest_block H R W cc d1 = (d2, Ok ()) \<and> synced H W contents R cc flt d2 es
    \<and> list_all (\<lambda>t. contents d2 t = contents d t) [BLOCKS, BLOCK_HASHES, UNSPENT, SPENT]"
proof -
  obtain d1 where d1: "apply_block H R W cc flt b hash d = (d1, Ok ())"
      "synced H W contents R cc flt d1 (es @ [(hash, b, txs)])"
    using wallet_chain.synced_apply [OF assms] by blast
  obtain d2 where d2: "unapply_highest_block H R W cc d1 = (d2, Ok ())" "synced H W contents R cc flt d2 es"
    using wallet_chain.synced_unapply [OF assms(1) d1(2) assms(3)] by blast
  from d1 d2 synced_tables [OF d2(2) assms(2)] show ?thesis by blast
qed

text \<open>
  C5. Synchronisation ends, and ends right. If the wallet has followed one chain and the node serves another that starts with
  the same genesis block (blocks with equal hashes having equal histories, and both chains trackable: readable outputs, and no transaction that creates an
  output the wallet holds or spends one that it has recorded as spent), then \<open>synchronize_helper\<close> returns without error: it discards the wallet's orphaned blocks down to the
  last common one, applies the node's blocks after it, and leaves the database of a wallet that has followed
  the node's chain from the start, whichever fork it was on before, up to the stored time of the latest timestamp.
\<close>

theorem synchronize_follows_node:
  assumes "wallet_chain H W contents R cc"
    and "synced H W contents R cc flt d ws" and "trackable H R cc flt ws" and "ws \<noteq> []"
    and "node_serves N ns" and "trackable H R cc flt ns" and "ns \<noteq> []"
    and "hd ws = hd ns" and "hash_linked ws ns"
  shows "\<exists>d'. synchronize_helper H R W cc N flt d = Some (d', Ok ()) \<and> synced H W contents R cc flt d' ns"
proof -
  obtain ws' e where ws: "ws = ws' @ [e]" using assms(4) by (cases ws rule: rev_cases) auto
  let ?n = "length ws'"
  have n: "unat (of_nat ?n :: u32) = ?n" using trackable_length [OF assms(3)] by (simp add: ws unat_of_nat_small)
  obtain d0 where d0: "height W d = (d0, Ok (Some (of_nat ?n)))" "synced H W contents R cc flt d0 ws"
    using wallet_chain.synced_height [OF assms(1-4)] ws by auto
  obtain d1 where d1: "get_block_hash H W (of_nat ?n) d0 = (d1, Ok (Some (fst e)))" "synced H W contents R cc flt d1 ws"
    using wallet_chain.synced_hash [OF assms(1) d0(2) assms(3), of "of_nat ?n"] by (auto simp: n ws)
  have start: "start_sync H W N d = (d1, Ok (of_nat ?n, fst e, hash_at ns (of_nat ?n)))"
    using assms(5) by (simp add: start_sync_def wbind_def wlift_def d0 d1 node_serves_def)
  obtain d2 k where revert: "revert_orphans H R W cc N (of_nat ?n) (fst e) (hash_at ns (of_nat ?n)) d1 = Some (d2, Ok (of_nat k))"
    and k: "k < length ns" "synced H W contents R cc flt d2 (take (Suc k) ns)"
    using wallet_chain.revert_reaches [OF assms(1), of flt d1 ws' e N ns] d1(2) assms(3,5,7,8,9) by (auto simp: ws)
  obtain d3 where "follow_node H R W cc N flt (of_nat (Suc k)) (hash_at ns (of_nat (Suc k))) d2 = Some (d3, Ok ())"
      "synced H W contents R cc flt d3 ns"
    using wallet_chain.follow_reaches [OF assms(1) assms(6,5), of "Suc k" d2] k by auto
  then show ?thesis
    using assms(5) by (simp add: synchronize_helper_def start revert node_serves_def add.commute)
qed

text \<open>
  C6. The wallet reports what is on the ledger. Along every chain of a runtime with the template's verifiers, a wallet that
  has followed the genesis block and all blocks answers every query for an unspent output with exactly
  the coin under that reference in the node's state, its owner and its amount, when the wallet's filter selects the
  output, and with nothing otherwise.
\<close>

theorem wallet_reports_ledger:
  assumes "wallet_chain H W contents R (checker_codec C)" and "executive H (template_verifier H R) C"
    and "chain H (template_verifier H R) C txs_codec B gtxs bs s" and "small_outputs (chain_history gtxs bs)"
    and "list_all (\<lambda>tx. inputs tx = []) gtxs"
    and "distinct (concat (map (output_refs_of H (template_verifier H R) (checker_codec C)) gtxs))"
    and "entry_transactions es = chain_history gtxs bs"
    and "synced H W contents R (checker_codec C) flt d es"
  shows "\<exists>d'. get_unspent H W r d = (d', Ok (owned R flt (ledger_of H (template_verifier H R) s) r))"
proof -
  obtain st where st: "same_but_time (tracking H R (checker_codec C) flt es) st" "represents H W contents d st"
    using assms(8) by (auto simp: synced_def)
  have "wallet_laws H W contents" using assms(1) by (simp add: wallet_chain_def)
  from wallet_laws.computes_get_unspent [OF this, of r st, THEN computesD, OF st(2)]
  obtain d' where "get_unspent H W r d = (d', Ok (unspent_coins st r))" by blast
  moreover have "unspent_coins st = owned R flt (ledger_of H (template_verifier H R) s)"
    using chain_owned [OF assms(2-6)] by (simp add: same_but_time_fields [OF st(1)] tracking_unspent assms(7))
  ultimately show ?thesis by simp
qed

end
