(* ===== verification/Wallet_Money.thy ===== *)
theory Wallet_Money
  imports Wallet_Chain Template_Properties
begin

text \<open>
  The transactions the wallet sends (\<^verbatim>\<open>wallet/src/money.rs\<close>, \<^verbatim>\<open>wallet/src/amoeba.rs\<close>).

  An operation that ends by submitting a transaction returns that transaction: the node's
  answer is only logged, as are the new output references. Sums of amounts wrap as in a release build.
  The theorem: what \<open>build_spend\<close> signs is accepted by the node's executive.
\<close>

subsection \<open>Minting\<close>

record MintCoinArgs =
  mint_amount :: u128
  mint_owner :: H256

definition mint_transaction :: "runtime_host \<Rightarrow> (OuterConstraintChecker \<Rightarrow> 'c) \<Rightarrow> MintCoinArgs \<Rightarrow> (OuterVerifier, 'c) Transaction" where
  "mint_transaction R into_c args =
     \<lparr>inputs = [], peeks = [],
      outputs = [output_from_pair (coin_data 0 (coin_codec R)) OuterSr25519Signature
        (coin_new (mint_amount args), \<lparr>owner_pubkey = mint_owner args\<rparr>)],
      checker = into_c (OuterMoney Mint)\<rparr>"

definition mint_coins_helper ::
  "runtime_host \<Rightarrow> (OuterConstraintChecker \<Rightarrow> 'c) \<Rightarrow> MintCoinArgs
     \<Rightarrow> ((OuterVerifier, 'c) Transaction \<times> u128, WalletError) result" where
  "mint_coins_helper R into_c args =
     (let transaction = mint_transaction R into_c args in
      bind_result (map_err ExtractError (extract_data (coin_data 0 (coin_codec R)) (payload (outputs transaction ! 0))))
        (\<lambda>coin. Ok (transaction, coin_value coin)))"

subsection \<open>Spending\<close>

record SpendArgs =
  spend_input :: "OutputRef list"
  spend_recipient :: H256
  output_amount :: "u128 list"

definition spend_outputs :: "runtime_host \<Rightarrow> SpendArgs \<Rightarrow> OuterVerifier Output list" where
  "spend_outputs R args =
     map (\<lambda>amount. \<lparr>payload = into_data (coin_data 0 (coin_codec R)) (coin_new amount),
        verifier = OuterSr25519Signature \<lparr>owner_pubkey = spend_recipient args\<rparr>\<rparr>) (output_amount args)"

fun total_input ::
  "host \<Rightarrow> 'd wallet_host \<Rightarrow> u128 \<Rightarrow> OutputRef list \<Rightarrow> ('d, u128) wallet" where
  "total_input H W tot [] = wlift (Ok tot)"
| "total_input H W tot (r # rs) =
     wbind (get_unspent H W r) (\<lambda>v.
     wbind (wlift (ok_or v UnknownInput)) (\<lambda>(owner, amount).
     total_input H W (tot + amount) rs))"

definition select_inputs :: "host \<Rightarrow> 'd wallet_host \<Rightarrow> SpendArgs \<Rightarrow> ('d, OutputRef list) wallet" where
  "select_inputs H W args =
     (let total_output_amount = foldl (+) 0 (output_amount args) in
      wbind (total_input H W 0 (spend_input args)) (\<lambda>total_input_amount.
      if total_input_amount < total_output_amount then
        wbind (get_arbitrary_unspent_set H W (total_output_amount - total_input_amount)) (\<lambda>v.
        case v of
          Some more_inputs \<Rightarrow> wlift (Ok (spend_input args @ more_inputs))
        | None \<Rightarrow> wlift (Err NotEnoughValue))
      else wlift (Ok (spend_input args))))"

definition get_coin_from_storage ::
  "host \<Rightarrow> runtime_host \<Rightarrow> 'j client \<Rightarrow> OutputRef \<Rightarrow> (Coin \<times> OuterVerifier, WalletError) result" where
  "get_coin_from_storage H R N r =
     bind_result (fetch_storage H (template_verifier H R) N r) (\<lambda>utxo.
     bind_result (map_err ExtractError (extract_data (coin_data 0 (coin_codec R)) (payload utxo))) (\<lambda>coin.
     Ok (coin, verifier utxo)))"

definition sign_input ::
  "host \<Rightarrow> runtime_host \<Rightarrow> 'j client \<Rightarrow> keystore \<Rightarrow> bytes \<Rightarrow> Input \<Rightarrow> (Input, WalletError) result" where
  "sign_input H R N K stripped i =
     bind_result (fetch_storage H (template_verifier H R) N (output_ref i)) (\<lambda>utxo.
     bind_result
       (case verifier utxo of
          OuterSr25519Signature sig \<Rightarrow> map_ok RedeemSr25519Signature (sign_with K (owner_pubkey sig) stripped)
        | OuterUpForGrabs _ \<Rightarrow> Ok (RedeemUpForGrabs ())
        | OuterThresholdMultiSignature _ \<Rightarrow> Panic) (\<lambda>red.
     Ok (i\<lparr>redeemer := Redemption (encode (redeemer_codec (template_verifier H R)) red)\<rparr>)))"

definition build_spend ::
  "host \<Rightarrow> runtime_host \<Rightarrow> 'd wallet_host \<Rightarrow> 'c codec \<Rightarrow> (OuterConstraintChecker \<Rightarrow> 'c) \<Rightarrow> 'j client \<Rightarrow> keystore
     \<Rightarrow> SpendArgs \<Rightarrow> ('d, (OuterVerifier, 'c) Transaction) wallet" where
  "build_spend H R W cc into_c N K args =
     wbind (select_inputs H W args) (\<lambda>all_input_refs.
     wbind (wlift (collect_results (\<lambda>r. bind_result (get_coin_from_storage H R N r) (\<lambda>_.
       Ok \<lparr>output_ref = r, redeemer = default_redemption\<rparr>)) all_input_refs)) (\<lambda>ins.
     (let transaction = \<lparr>inputs = ins, peeks = [], outputs = spend_outputs R args, checker = into_c (OuterMoney Spend)\<rparr>;
          stripped = encode (transaction_codec H (template_verifier H R) cc) transaction
      in wbind (wlift (collect_results (sign_input H R N K stripped) ins)) (\<lambda>signed.
         wlift (Ok (transaction\<lparr>inputs := signed\<rparr>))))))"

text \<open>After sending it, the command reads the amounts of the new coins back from the outputs.\<close>

definition spend_coins_helper ::
  "host \<Rightarrow> runtime_host \<Rightarrow> 'd wallet_host \<Rightarrow> 'c codec \<Rightarrow> (OuterConstraintChecker \<Rightarrow> 'c) \<Rightarrow> 'j client \<Rightarrow> keystore
     \<Rightarrow> SpendArgs \<Rightarrow> ('d, (OuterVerifier, 'c) Transaction \<times> u128 list) wallet" where
  "spend_coins_helper H R W cc into_c N K args =
     wbind (build_spend H R W cc into_c N K args) (\<lambda>transaction.
     wbind (wlift (collect_results (\<lambda>out. map_ok coin_value (map_err ExtractError
       (extract_data (coin_data 0 (coin_codec R)) (payload out)))) (outputs transaction))) (\<lambda>amounts.
     wlift (Ok (transaction, amounts))))"

subsection \<open>Amoebas\<close>

definition eve :: AmoebaDetails where
  "eve = \<lparr>generation = 0, four_bytes = byte_string4 ''eve_''\<rparr>"

definition cain :: AmoebaDetails where
  "cain = \<lparr>generation = 1, four_bytes = byte_string4 ''cain''\<rparr>"

definition able :: AmoebaDetails where
  "able = \<lparr>generation = 1, four_bytes = byte_string4 ''able''\<rparr>"

definition spawn_tx :: "runtime_host \<Rightarrow> (OuterConstraintChecker \<Rightarrow> 'c) \<Rightarrow> (OuterVerifier, 'c) Transaction" where
  "spawn_tx R into_c =
     \<lparr>inputs = [], peeks = [],
      outputs = [\<lparr>payload = into_data (amoeba_data (amoeba_codec R)) eve, verifier = OuterUpForGrabs UpForGrabs\<rparr>],
      checker = into_c (OuterAmoebaCreation AmoebaCreation)\<rparr>"

definition mitosis_tx ::
  "runtime_host \<Rightarrow> (OuterConstraintChecker \<Rightarrow> 'c) \<Rightarrow> OutputRef \<Rightarrow> (OuterVerifier, 'c) Transaction" where
  "mitosis_tx R into_c eve_ref =
     \<lparr>inputs = [\<lparr>output_ref = eve_ref, redeemer = default_redemption\<rparr>], peeks = [],
      outputs = [\<lparr>payload = into_data (amoeba_data (amoeba_codec R)) cain, verifier = OuterUpForGrabs UpForGrabs\<rparr>,
        \<lparr>payload = into_data (amoeba_data (amoeba_codec R)) able, verifier = OuterUpForGrabs UpForGrabs\<rparr>],
      checker = into_c (OuterAmoebaMitosis AmoebaMitosis)\<rparr>"

text \<open>The two client views are those after each of the two waits.\<close>

definition fetch_amoeba ::
  "host \<Rightarrow> runtime_host \<Rightarrow> 'j client \<Rightarrow> OutputRef \<Rightarrow> (AmoebaDetails, WalletError) result" where
  "fetch_amoeba H R N r =
     bind_result (fetch_storage H (template_verifier H R) N r) (\<lambda>utxo.
     map_err ExtractError (extract_data (amoeba_data (amoeba_codec R)) (payload utxo)))"

text \<open>
  What was submitted and how the demonstration ended: the first transaction is sent before anything is fetched, the second one before its
  daughters are.
\<close>

definition amoeba_demo_helper ::
  "host \<Rightarrow> runtime_host \<Rightarrow> 'c codec \<Rightarrow> (OuterConstraintChecker \<Rightarrow> 'c) \<Rightarrow> 'j client \<Rightarrow> 'j client
     \<Rightarrow> (OuterVerifier, 'c) Transaction list \<times> (unit, WalletError) result" where
  "amoeba_demo_helper H R cc into_c N1 N2 =
     (let V = template_verifier H R;
          spawn = spawn_tx R into_c;
          eve_ref = \<lparr>tx_hash = transaction_hash H V cc spawn, index = 0\<rparr>;
          mitosis = mitosis_tx R into_c eve_ref
      in (case fetch_amoeba H R N1 eve_ref of
            Ok _ \<Rightarrow>
              ([spawn, mitosis],
               bind_result (fetch_amoeba H R N2 \<lparr>tx_hash = transaction_hash H V cc mitosis, index = 0\<rparr>) (\<lambda>_.
               bind_result (fetch_amoeba H R N2 \<lparr>tx_hash = transaction_hash H V cc mitosis, index = 1\<rparr>) (\<lambda>_.
               Ok ())))
          | Err e \<Rightarrow> ([spawn], Err e)
          | Panic \<Rightarrow> ([spawn], Panic)))"

subsection \<open>The commands\<close>

text \<open>
  Each command runs its helper with the checker type of the chain at hand; the result is the bytes it
  submits. \<open>pcc\<close> is the codec of the wallet's copy of the parachain's checker.
\<close>

definition submitted :: "host \<Rightarrow> runtime_host \<Rightarrow> 'c codec \<Rightarrow> (OuterVerifier, 'c) Transaction \<Rightarrow> bytes" where
  "submitted H R cc tx = encode (transaction_codec H (template_verifier H R) cc) tx"

definition mint_coins ::
  "host \<Rightarrow> runtime_host \<Rightarrow> WalletParachainChecker codec \<Rightarrow> bool \<Rightarrow> MintCoinArgs \<Rightarrow> (bytes, WalletError) result" where
  "mint_coins H R pcc parachain args =
     (if parachain then map_ok (\<lambda>(tx, _). submitted H R pcc tx) (mint_coins_helper R wallet_checker_from args)
      else map_ok (\<lambda>(tx, _). submitted H R (outer_checker_codec R) tx) (mint_coins_helper R (\<lambda>c. c) args))"

definition spend_coins ::
  "host \<Rightarrow> runtime_host \<Rightarrow> 'd wallet_host \<Rightarrow> WalletParachainChecker codec \<Rightarrow> bool \<Rightarrow> 'j client \<Rightarrow> keystore \<Rightarrow> SpendArgs
     \<Rightarrow> ('d, bytes) wallet" where
  "spend_coins H R W pcc parachain N K args =
     (if parachain then
        wbind (spend_coins_helper H R W pcc wallet_checker_from N K args) (\<lambda>(tx, _). wlift (Ok (submitted H R pcc tx)))
      else
        wbind (spend_coins_helper H R W (outer_checker_codec R) (\<lambda>c. c) N K args)
          (\<lambda>(tx, _). wlift (Ok (submitted H R (outer_checker_codec R) tx))))"

definition amoeba_demo ::
  "host \<Rightarrow> runtime_host \<Rightarrow> WalletParachainChecker codec \<Rightarrow> bool \<Rightarrow> 'j client \<Rightarrow> 'j client \<Rightarrow> bytes list \<times> (unit, WalletError) result" where
  "amoeba_demo H R pcc parachain N1 N2 =
     (if parachain then map_prod (map (submitted H R pcc)) id (amoeba_demo_helper H R pcc wallet_checker_from N1 N2)
      else map_prod (map (submitted H R (outer_checker_codec R))) id
        (amoeba_demo_helper H R (outer_checker_codec R) (\<lambda>c. c) N1 N2))"

subsection \<open>What the node answers\<close>

definition serves_storage :: "'j client \<Rightarrow> storage \<Rightarrow> bool" where
  "serves_storage N s \<longleftrightarrow>
     (\<forall>k. request_storage N (hex_encode N k) = Ok (map_option (\<lambda>b. ''0x'' @ hex_encode N b) (s k)))
     \<and> (\<forall>b. hex_decode N (hex_encode N b) = Some b)"

lemma fetch_storage_Ok:
  assumes "serves_storage N s"
  shows "fetch_storage H V N r = Ok out \<longleftrightarrow> ledger_of H V s r = Some out"
  using assms
  by (cases "s (encode (output_ref_codec H) r)")
    (simp_all add: fetch_storage_def serves_storage_def strip_0x_prefix_def ledger_of_def peek_utxo_def ok_or_Ok)

subsection \<open>Selecting inputs\<close>

definition coin_amount :: "wallet_state \<Rightarrow> OutputRef \<Rightarrow> u128" where
  "coin_amount st r = (case unspent_coins st r of Some (owner, a) \<Rightarrow> a | None \<Rightarrow> 0)"

lemma unat_sum_list_small:
  "sum_list (map (\<lambda>x. unat (f x)) xs) < 2 ^ LENGTH('a) \<Longrightarrow>
   unat (sum_list (map f xs) :: 'a::len word) = sum_list (map (\<lambda>x. unat (f x)) xs)"
  by (induction xs) (auto simp: unat_word_add_no_wrap)

lemma foldl_plus_sum_list: "foldl (+) (a :: 'a::comm_monoid_add) xs = a + sum_list xs"
  by (induction xs arbitrary: a) (simp_all add: add.assoc)

context wallet_laws
begin

lemma total_input_result:
  assumes "rep d st"
  shows "\<exists>d'. rep d' st \<and> total_input H W tot rs d
    = (d', if list_all (\<lambda>r. unspent_coins st r \<noteq> None) rs then Ok (tot + sum_list (map (coin_amount st) rs))
           else Err UnknownInput)"
  using assms
proof (induction rs arbitrary: d tot)
  case Nil
  then show ?case by (auto simp: wlift_def)
next
  case (Cons r rs)
  obtain d1 where d1: "get_unspent H W r d = (d1, Ok (unspent_coins st r))" "rep d1 st"
    using computesD [OF computes_get_unspent Cons.prems] by blast
  show ?case
  proof (cases "unspent_coins st r")
    case None
    with d1 show ?thesis by (auto simp: wbind_def wlift_def)
  next
    case (Some oa)
    obtain owner a where "oa = (owner, a)" by (cases oa)
    with Some d1 Cons.IH [OF d1(2), of "tot + a"] show ?thesis
      by (auto simp: wbind_def wlift_def coin_amount_def add.assoc split: if_splits)
  qed
qed

lemma select_inputs_result:
  assumes "rep d st" and sel: "select_inputs H W args d = (d', Ok rs)"
    and small: "sum_list (map (\<lambda>r. unat (coin_amount st r)) rs) < 2 ^ 128"
    and out: "sum_list (map unat (output_amount args)) < 2 ^ 128"
  shows "list_all (\<lambda>r. unspent_coins st r \<noteq> None) rs
    \<and> sum_list (map unat (output_amount args)) \<le> sum_list (map (\<lambda>r. unat (coin_amount st r)) rs)"
proof -
  let ?out = "foldl (+) 0 (output_amount args)" and ?in = "sum_list (map (coin_amount st) (spend_input args))"
  have uout: "unat ?out = sum_list (map unat (output_amount args))"
    using unat_sum_list_small [of "\<lambda>x. x" "output_amount args"] out by (simp add: foldl_plus_sum_list)
  have urs: "unat (sum_list (map (coin_amount st) rs)) = sum_list (map (\<lambda>r. unat (coin_amount st r)) rs)"
    using small by (simp add: unat_sum_list_small)
  obtain d1 where rep1: "rep d1 st" and t: "total_input H W 0 (spend_input args) d
      = (d1, if list_all (\<lambda>r. unspent_coins st r \<noteq> None) (spend_input args) then Ok ?in else Err UnknownInput)"
    using total_input_result [OF assms(1), of 0 "spend_input args"] by auto
  with sel have known: "list_all (\<lambda>r. unspent_coins st r \<noteq> None) (spend_input args)"
    by (auto simp: select_inputs_def wbind_def Let_def split: if_splits)
  show ?thesis
  proof (cases "?in < ?out")
    case False
    with sel t known have "rs = spend_input args" by (simp add: select_inputs_def wbind_def wlift_def Let_def)
    with False known urs uout show ?thesis by (simp add: not_less word_le_nat_alt)
  next
    case True
    obtain d2 v ps where v: "get_arbitrary_unspent_set H W (?out - ?in) d1 = (d2, Ok v)" "distinct (map fst ps)"
      "map_of ps = unspent_coins st"
      and pick: "case v of None \<Rightarrow> sum_list (map amount ps) < ?out - ?in
        | Some picked \<Rightarrow> (\<exists>n. picked = map fst (take n ps) \<and> ?out - ?in \<le> sum_list (map amount (take n ps)))"
      using arbitrary_set_result [OF rep1, of "?out - ?in"] by blast
    have entry: "unspent_coins st (fst p) = Some (snd p)" if "p \<in> set ps" for p
      using that v(2,3) by (metis map_of_is_SomeI prod.collapse)
    from sel t known True v(1) obtain n where rs: "rs = spend_input args @ map fst (take n ps)"
      and enough: "?out - ?in \<le> sum_list (map amount (take n ps))"
      using pick by (auto simp: select_inputs_def wbind_def wlift_def Let_def split: option.splits)
    have amounts: "map amount (take n ps) = map (coin_amount st) (map fst (take n ps))"
      using entry by (auto simp: coin_amount_def dest!: in_set_takeD)
    have "sum_list (map (\<lambda>r. unat (coin_amount st r)) rs)
        = unat ?in + unat (sum_list (map amount (take n ps)))"
      unfolding amounts
      using small unat_sum_list_small [of "coin_amount st" "spend_input args"]
        unat_sum_list_small [of "coin_amount st" "map fst (take n ps)"]
      by (simp add: rs)
    moreover have "unat ?out \<le> unat ?in + unat (sum_list (map amount (take n ps)))"
      using enough True by (simp add: word_le_nat_alt word_less_nat_alt unat_sub_if_size split: if_splits)
    moreover have "list_all (\<lambda>r. unspent_coins st r \<noteq> None) rs"
      using known entry by (auto simp: rs list_all_iff dest!: in_set_takeD)
    ultimately show ?thesis using uout by simp
  qed
qed

end

subsection \<open>Signing\<close>

lemma verify_outer_redeemers:
  "verify (template_verifier H R) (OuterSr25519Signature sig) msg h (RedeemSr25519Signature x)
     = Some (sr25519_verify H x msg (owner_pubkey sig))"
  "verify (template_verifier H R) (OuterUpForGrabs g) msg h (RedeemUpForGrabs ()) = Some True"
  by (simp_all add: template_verifier_def outer_verifier_def aggregate_verifier_def verifier_dictionary_def
      aggregate_verify_def outer_verifier_variants_def verifier_variant_def lift_verify_def
      verify_sr25519_def verify_up_for_grabs_def)

lemma sign_input_authorised:
  assumes sign: "sign_input H R N K msg i = Ok i'" and serves: "serves_storage N s"
    and keys: "\<And>pub sig. sign_with K pub msg = Ok sig \<Longrightarrow> sr25519_verify H sig msg pub"
    and codec: "scale_codec (redeemer_codec (template_verifier H R))"
  shows "output_ref i' = output_ref i \<and> redeemer i' \<noteq> Eviction
    \<and> authorised (template_verifier H R) msg h (ledger_of H (template_verifier H R) s) i'"
proof -
  let ?V = "template_verifier H R"
  obtain utxo red where utxo: "ledger_of H ?V s (output_ref i) = Some utxo"
    and red: "(case verifier utxo of
          OuterSr25519Signature sig \<Rightarrow> map_ok RedeemSr25519Signature (sign_with K (owner_pubkey sig) msg)
        | OuterUpForGrabs _ \<Rightarrow> Ok (RedeemUpForGrabs ())
        | OuterThresholdMultiSignature _ \<Rightarrow> Panic) = Ok red"
    and i': "i' = i\<lparr>redeemer := Redemption (encode (redeemer_codec ?V) red)\<rparr>"
    using sign unfolding sign_input_def by (auto simp: result_ok fetch_storage_Ok [OF serves])
  have "verify ?V (verifier utxo) msg h red = Some True"
  proof (cases "verifier utxo")
    case (OuterSr25519Signature sig)
    with red keys show ?thesis by (auto simp: result_ok verify_outer_redeemers)
  qed (use red in \<open>auto simp: verify_outer_redeemers\<close>)
  with utxo i' codec show ?thesis
    by (simp add: authorised_def scale_codec.decode_value_encode)
qed

lemma owned_coin:
  assumes "owned R flt U r = Some (owner, a)"
  shows "\<exists>out. U r = Some out \<and> is_coin 0 (coin_codec R) (payload out)
    \<and> coin_worth 0 (coin_codec R) (payload out) = unat a"
  using assms by (auto simp: owned_def bind_eq_Some_conv is_coin_def coin_worth_def split: if_splits)

text \<open>The value of references in a ledger, against what the wallet knows of them.\<close>

lemma coin_amount_le_worth:
  assumes "unspent_coins st = owned R flt U"
  shows "unat (coin_amount st r) \<le> coin_worth 0 (coin_codec R) (payload (the (U r)))"
    and "unspent_coins st r \<noteq> None \<Longrightarrow>
      is_coin 0 (coin_codec R) (payload (the (U r)))
      \<and> unat (coin_amount st r) = coin_worth 0 (coin_codec R) (payload (the (U r)))"
  using owned_coin [of R flt U r] by (auto simp: coin_amount_def assms split: option.split)

lemma build_spend_parts:
  assumes "build_spend H R W cc into_c N K args d = (d', Ok tx)"
  obtains d1 refs ins where
    "select_inputs H W args d = (d1, Ok refs)" "ins = map (\<lambda>r. \<lparr>output_ref = r, redeemer = default_redemption\<rparr>) refs"
    "list_all2 (\<lambda>i i'. sign_input H R N K (encode (transaction_codec H (template_verifier H R) cc)
        \<lparr>inputs = ins, peeks = [], outputs = spend_outputs R args, checker = into_c (OuterMoney Spend)\<rparr>) i = Ok i')
      ins (inputs tx)"
    "peeks tx = []" "outputs tx = spend_outputs R args" "checker tx = into_c (OuterMoney Spend)"
proof -
  let ?tx = "\<lambda>ins. \<lparr>inputs = ins, peeks = [], outputs = spend_outputs R args, checker = into_c (OuterMoney Spend)\<rparr>"
  from assms obtain d1 refs ins signed where
    sel: "select_inputs H W args d = (d1, Ok refs)"
    and ins: "collect_results (\<lambda>r. bind_result (get_coin_from_storage H R N r) (\<lambda>_.
       Ok \<lparr>output_ref = r, redeemer = default_redemption\<rparr>)) refs = Ok ins"
    and signed: "collect_results (sign_input H R N K
        (encode (transaction_codec H (template_verifier H R) cc) (?tx ins))) ins = Ok signed"
    and tx: "tx = (?tx ins)\<lparr>inputs := signed\<rparr>"
    unfolding build_spend_def Let_def by (auto simp: wbind_def wlift_def split: prod.splits result.splits)
  have "ins = map (\<lambda>r. \<lparr>output_ref = r, redeemer = default_redemption\<rparr>) refs"
    using ins unfolding collect_results_Ok
    by (auto simp: list_all2_conv_all_nth result_ok intro!: nth_equalityI)
  with sel signed tx show thesis by (intro that) (auto simp: collect_results_Ok)
qed

subsection \<open>Theorems\<close>

lemma spend_outputs_worth:
  assumes "scale_codec (coin_codec R)"
  shows "total_worth 0 (coin_codec R) (map payload (spend_outputs R args)) = sum_list (map unat (output_amount args))"
    and "list_all (\<lambda>a. 0 < a) (output_amount args) \<Longrightarrow>
      \<forall>x \<in> set (map payload (spend_outputs R args)). is_coin 0 (coin_codec R) x \<and> 0 < coin_worth 0 (coin_codec R) x"
  using assms
  by (auto simp: total_worth_def spend_outputs_def comp_def coin_new_def list_all_iff word_less_nat_alt)

lemma refs_worth:
  assumes "unspent_coins st = owned R flt U" and "list_all (\<lambda>r. unspent_coins st r \<noteq> None) refs"
  shows "total_worth 0 (coin_codec R) (ledger_payloads U refs) = sum_list (map (\<lambda>r. unat (coin_amount st r)) refs)"
    and "\<forall>x \<in> set (ledger_payloads U refs). is_coin 0 (coin_codec R) x"
  using assms(2) coin_amount_le_worth(2) [OF assms(1)]
  by (induction refs) (auto simp: total_worth_def ledger_payloads_def)

text \<open>
  C10. What the wallet signs, the node accepts. Suppose the wallet's table of unspent outputs is the owned part of the node's
  ledger, the node answers storage queries from that state, and the keystore's signatures verify. If
  \<open>build_spend\<close> then builds a transaction for positive amounts whose sum fits in 128 bits, and the inputs it chose are
  pairwise different and worth less than \<open>2 ^ 128\<close>, then the executive applies the transaction: every input is
  authorised, the inputs cover the outputs, and the money piece accepts. (When the user names inputs that do not suffice, the
  automatic choice may name them again.)
\<close>

theorem wallet_spend_accepted:
  assumes wallet: "wallet_laws H W contents" and laws: "template_laws H R"
    and coin: "scale_codec (coin_codec R)" and rep: "represents H W contents d st"
    and table: "unspent_coins st = owned R flt (ledger_of H (template_verifier H R) s)"
    and serves: "serves_storage N s" and h: "block_height H s = Some h"
    and keys: "\<And>pub msg sig. sign_with K pub msg = Ok sig \<Longrightarrow> sr25519_verify H sig msg pub"
    and build: "build_spend H R W (checker_codec (template_checker H R)) (\<lambda>c. c) N K args d = (d', Ok tx)"
    and amounts: "output_amount args \<noteq> []" "list_all (\<lambda>a. 0 < a) (output_amount args)"
      "sum_list (map unat (output_amount args)) < 2 ^ 128"
    and small: "input_worth 0 (coin_codec R) (ledger_of H (template_verifier H R) s) tx < 2 ^ 128"
    and refs: "distinct (input_refs tx)"
    and free: "list_all (\<lambda>r. ledger_of H (template_verifier H R) s r = None)
      (output_refs_of H (template_verifier H R) (checker_codec (template_checker H R)) tx)"
  shows "snd (apply_tuxedo_transaction H (template_verifier H R) (template_checker H R) tx s) = Ok ()"
proof -
  let ?V = "template_verifier H R" and ?C = "template_checker H R" and ?cc = "coin_codec R"
  let ?U = "ledger_of H ?V s"
  obtain d1 rs ins where sel: "select_inputs H W args d = (d1, Ok rs)"
    and ins: "ins = map (\<lambda>r. \<lparr>output_ref = r, redeemer = default_redemption\<rparr>) rs"
    and signed: "list_all2 (\<lambda>i i'. sign_input H R N K (encode (transaction_codec H ?V (checker_codec ?C))
        \<lparr>inputs = ins, peeks = [], outputs = spend_outputs R args, checker = OuterMoney Spend\<rparr>) i = Ok i')
      ins (inputs tx)"
    and tx: "peeks tx = []" "outputs tx = spend_outputs R args" "checker tx = OuterMoney Spend"
    using build by (rule build_spend_parts)
  let ?msg = "encode (transaction_codec H ?V (checker_codec ?C))
      \<lparr>inputs = ins, peeks = [], outputs = spend_outputs R args, checker = OuterMoney Spend\<rparr>"
  have exec: "executive H ?V ?C" using laws by (rule template_laws.template_executive)
  then have rc: "scale_codec (redeemer_codec ?V)"
    by (simp add: executive_def executive_laws_def verifier_laws_def)
  have each: "list_all2 (\<lambda>i i'. output_ref i' = output_ref i \<and> redeemer i' \<noteq> Eviction \<and> authorised ?V ?msg h ?U i')
      ins (inputs tx)"
    using signed by (rule list_all2_mono) (rule sign_input_authorised [OF _ serves keys rc])
  have in_refs: "input_refs tx = rs"
    using each by (auto simp: input_refs_def ins list_all2_conv_all_nth intro!: nth_equalityI)
  have redeemed: "\<forall>i \<in> set (inputs tx). redeemer i \<noteq> Eviction \<and> authorised ?V ?msg h ?U i"
    using each by (auto simp: list_all2_conv_all_nth in_set_conv_nth)
  then have split: "redeemed_refs tx = rs" "evicted_refs tx = []"
    by (auto simp: redeemed_refs_def evicted_refs_def filter_empty_conv in_refs [symmetric] input_refs_def
        intro!: arg_cong [where f = "map output_ref"] filter_True)
  have strip: "strip_transaction tx
      = \<lparr>inputs = ins, peeks = [], outputs = spend_outputs R args, checker = OuterMoney Spend\<rparr>"
    using in_refs tx by (cases tx) (auto simp: strip_transaction_def ins input_refs_def)
  have "sum_list (map (\<lambda>r. unat (coin_amount st r)) rs) \<le> total_worth 0 ?cc (ledger_payloads ?U rs)"
    unfolding total_worth_def ledger_payloads_def map_map comp_def
    by (rule sum_list_mono) (rule coin_amount_le_worth(1) [OF table])
  with small have "sum_list (map (\<lambda>r. unat (coin_amount st r)) rs) < 2 ^ 128"
    by (simp add: input_worth_def in_refs)
  with wallet_laws.select_inputs_result [OF wallet rep sel] amounts(3)
  have known: "list_all (\<lambda>r. unspent_coins st r \<noteq> None) rs"
    and cover: "sum_list (map unat (output_amount args)) \<le> sum_list (map (\<lambda>r. unat (coin_amount st r)) rs)" by auto
  have "0 < sum_list (map unat (output_amount args))"
    using amounts(1,2) by (cases "output_amount args") (auto simp: word_less_nat_alt)
  with cover have "0 < sum_list (map (\<lambda>r. unat (coin_amount st r)) rs)" by linarith
  then have "rs \<noteq> []" by auto
  let ?burned = "min (total_worth 0 ?cc (ledger_payloads ?U rs)
      - total_worth 0 ?cc (map payload (spend_outputs R args))) (2 ^ 64 - 1)"
  have "unat (of_nat ?burned :: u64) = ?burned" by (rule unat_of_nat_small) (simp add: min_def)
  with \<open>rs \<noteq> []\<close> small cover spend_outputs_worth(1) [OF coin, of args] refs_worth [OF table known]
  have "snd (money_check 0 ?cc Spend (ledger_payloads ?U rs) [] [] (map payload (spend_outputs R args)) s)
      = Ok (of_nat ?burned)"
    unfolding money_spend_Ok
    using spend_outputs_worth(2) [OF coin amounts(2)]
    by (auto simp: input_worth_def in_refs ledger_payloads_def)
  then have "\<exists>p. snd (check ?C (checker tx) (ledger_payloads ?U (redeemed_refs tx))
      (ledger_payloads ?U (evicted_refs tx)) (ledger_payloads ?U (peeks tx)) (map payload (outputs tx)) s) = Ok p"
    by (simp add: template_check_Ok split tx ledger_payloads_def)
  moreover have "distinct (inputs tx)" using refs by (simp add: input_refs_def distinct_map)
  ultimately have "ledger_accepts H ?V ?C h ?U s tx"
    using redeemed free tx(1) strip by (simp add: ledger_accepts_def list_all_iff)
  then show ?thesis using executive.apply_complete [OF exec h] by blast
qed

text \<open>
  The amoeba demonstration cannot succeed. Its mitosis transaction gives the default redeemer, an empty byte
  string, for the amoeba it consumes. SCALE enums do not decode from nothing, so whatever the state, the
  executive refuses the transaction: the outer verifier's redeemer has no such value, although the amoeba is
  up for grabs.
\<close>

theorem amoeba_demo_rejected:
  assumes "template_laws H R" and "block_height H s = Some h"
    and "decode_value (redeemer_codec (template_verifier H R)) [] = None"
  shows "snd (apply_tuxedo_transaction H (template_verifier H R) (template_checker H R)
    (mitosis_tx R (\<lambda>c. c) eve_ref) s) \<noteq> Ok ()"
proof -
  have "\<not> authorised (template_verifier H R) msg h U \<lparr>output_ref = eve_ref, redeemer = default_redemption\<rparr>" for msg U
    using assms(3) by (auto simp: authorised_def default_redemption_def split: option.split)
  then have "\<not> ledger_accepts H (template_verifier H R) (template_checker H R) h
      (ledger_of H (template_verifier H R) s) s (mitosis_tx R (\<lambda>c. c) eve_ref)"
    by (simp add: ledger_accepts_def mitosis_tx_def)
  with executive.apply_complete [OF template_laws.template_executive [OF assms(1)] assms(2)] show ?thesis by blast
qed

end
