(* ===== verification/Wallet_Main.thy ===== *)
theory Wallet_Main
  imports Wallet_Chain Wallet_Money
begin

text \<open>
  The wallet as a program: the keystore's operations (\<^verbatim>\<open>wallet/src/keystore.rs\<close>), the command line
  (\<^verbatim>\<open>cli.rs\<close>), the functions that print (\<^verbatim>\<open>main.rs\<close>, \<^verbatim>\<open>sync.rs\<close>) and \<^verbatim>\<open>main\<close> itself.

  Everything \<^verbatim>\<open>main\<close> acts on is the record \<open>world\<close>: the database, the keystore (its directory included), the lines of
  the terminal and what was printed, the extrinsics sent, the directories removed. An operation of the wallet is a function from worlds to
  worlds and results, the type \<open>wallet\<close> of \<^verbatim>\<open>Wallet_Db\<close> at that state. A printed line is a value of
  the type \<open>line\<close> that holds what the format string is given. Since synchronising may not end, \<^verbatim>\<open>main\<close> is
  an option. The keystore package, paths and the operating system are parameters.
\<close>

subsection \<open>The world\<close>

datatype line =
    CoinDetails bytes
  | FoundInStorage u128
  | OwnedBy H256
  | SpentByAnyone
  | OwnedByGroup "bytes list" u8
  | FoundInDb u128 H256
  | NotFoundInDb
  | GeneratedKey Public
  | GeneratedPhrase string
  | KeyLine bytes
  | Caution H256
  | DeletionAborted
  | BalanceSummary
  | BalanceLine H256 u128
  | BalanceRule
  | BalanceTotal u128
  | UnspentHeader
  | UnspentLine bytes H256 u128
  | TimestampLine u64
  | BlockHashLine u32 "H256 option"

record ('d, 'k) world =
  world_db :: 'd
  world_keys :: 'k
  world_input :: "string list"
  world_out :: "line list"
  world_sent :: "bytes list"
  world_removed :: "string list"
  world_removal_failed :: "string list"

definition on_db :: "('d, 'a) wallet \<Rightarrow> (('d, 'k) world, 'a) wallet" where
  "on_db m = (\<lambda>w. case m (world_db w) of (d, r) \<Rightarrow> (w\<lparr>world_db := d\<rparr>, r))"

definition on_keys :: "('k \<Rightarrow> 'k \<times> ('a, WalletError) result) \<Rightarrow> (('d, 'k) world, 'a) wallet" where
  "on_keys m = (\<lambda>w. case m (world_keys w) of (k, r) \<Rightarrow> (w\<lparr>world_keys := k\<rparr>, r))"

definition put_db :: "'d \<Rightarrow> (('d, 'k) world, unit) wallet" where
  "put_db d = on_db (\<lambda>_. (d, Ok ()))"

definition put_keys :: "'k \<Rightarrow> (('d, 'k) world, unit) wallet" where
  "put_keys k = on_keys (\<lambda>_. (k, Ok ()))"

definition current_keys :: "(('d, 'k) world, 'k) wallet" where
  "current_keys = (\<lambda>w. (w, Ok (world_keys w)))"

definition println :: "line \<Rightarrow> (('d, 'k) world, unit) wallet" where
  "println l = (\<lambda>w. (w\<lparr>world_out := world_out w @ [l]\<rparr>, Ok ()))"

definition send :: "bytes \<Rightarrow> (('d, 'k) world, unit) wallet" where
  "send b = (\<lambda>w. (w\<lparr>world_sent := world_sent w @ [b]\<rparr>, Ok ()))"

text \<open>At the end of the input the line read is empty.\<close>

definition read_line :: "(('d, 'k) world, string) wallet" where
  "read_line = (\<lambda>w. case world_input w of [] \<Rightarrow> (w, Ok []) | l # ls \<Rightarrow> (w\<lparr>world_input := ls\<rparr>, Ok l))"

subsection \<open>The keystore\<close>

record 'k keystore_host =
  keystore_view :: "'k \<Rightarrow> keystore"
  sr25519_generate_new :: "byte4 \<Rightarrow> string option \<Rightarrow> 'k \<Rightarrow> 'k \<times> (Public, WalletError) result"
  keystore_insert :: "byte4 \<Rightarrow> string \<Rightarrow> bytes \<Rightarrow> 'k \<Rightarrow> 'k \<times> (unit, unit) result"
  keystore_keys :: "byte4 \<Rightarrow> 'k \<Rightarrow> (bytes list, WalletError) result"
  remove_file :: "string \<Rightarrow> 'k \<Rightarrow> 'k \<times> (unit, WalletError) result"
  pair_from_phrase :: "string \<Rightarrow> (Public, WalletError) result"
  generate_with_phrase :: "string option \<Rightarrow> Public \<times> string"
  public_bytes :: "Public \<Rightarrow> bytes"
  path_join :: "string \<Rightarrow> string \<Rightarrow> string"
  key_hex :: "bytes \<Rightarrow> string"

definition SHAWN_PHRASE :: string where
  "SHAWN_PHRASE = ''news slush supreme milk chapter athlete soap sausage put clutch what kitten''"

definition SHAWN_PUB_KEY :: string where
  "SHAWN_PUB_KEY = ''d2bf4b844dfefd6772a8843e669f943408966a977e3ae2af1dd78e0f55f4df67''"

definition insert_development_key_for_this_session :: "'k keystore_host \<Rightarrow> (('d, 'k) world, unit) wallet" where
  "insert_development_key_for_this_session S =
     wbind (on_keys (sr25519_generate_new S KEY_TYPE (Some SHAWN_PHRASE))) (\<lambda>_. wlift (Ok ()))"

definition insert_pair :: "'k keystore_host \<Rightarrow> string \<Rightarrow> Public \<Rightarrow> (('d, 'k) world, unit) wallet" where
  "insert_pair S suri pub = on_keys (\<lambda>k.
     case keystore_insert S KEY_TYPE suri (public_bytes S pub) k of
       (k', r) \<Rightarrow> (k', map_err (\<lambda>_. KeyInsertError) r))"

definition insert_key :: "'k keystore_host \<Rightarrow> string \<Rightarrow> (('d, 'k) world, unit) wallet" where
  "insert_key S seed =
     wbind (wlift (pair_from_phrase S seed)) (\<lambda>public_key.
     wbind (println (GeneratedKey public_key)) (\<lambda>_.
     wbind (insert_pair S seed public_key) (\<lambda>_.
     wlift (Ok ()))))"

definition generate_key :: "'k keystore_host \<Rightarrow> string option \<Rightarrow> (('d, 'k) world, unit) wallet" where
  "generate_key S password =
     (case generate_with_phrase S password of (pair, phrase) \<Rightarrow>
     wbind (println (GeneratedKey pair)) (\<lambda>_.
     wbind (println (GeneratedPhrase phrase)) (\<lambda>_.
     wbind (insert_pair S phrase pair) (\<lambda>_.
     wlift (Ok ())))))"

definition get_keys :: "'k keystore_host \<Rightarrow> (('d, 'k) world, bytes list) wallet" where
  "get_keys S = wbind current_keys (\<lambda>keys. wlift (keystore_keys S KEY_TYPE keys))"

fun byte4_bytes :: "byte4 \<Rightarrow> bytes" where
  "byte4_bytes (a, b, c, d) = [a, b, c, d]"

definition key_filename :: "'k keystore_host \<Rightarrow> H256 \<Rightarrow> string" where
  "key_filename S pub_key = key_hex S (byte4_bytes KEY_TYPE) @ key_hex S (public_bytes S pub_key)"

definition remove_key :: "'k keystore_host \<Rightarrow> string \<Rightarrow> H256 \<Rightarrow> (('d, 'k) world, unit) wallet" where
  "remove_key S keystore_path pub_key =
     wbind (on_keys (remove_file S (path_join S keystore_path (key_filename S pub_key)))) (\<lambda>_. wlift (Ok ()))"

subsection \<open>The command line\<close>

definition DEFAULT_ENDPOINT :: string where "DEFAULT_ENDPOINT = ''http://localhost:9944''"

datatype Command =
    AmoebaDemo
  | MintCoins MintCoinArgs
  | VerifyCoin OutputRef
  | SpendCoins SpendArgs
  | InsertKey string
  | GenerateKey "string option"
  | ShowKeys
  | RemoveKey H256
  | ShowBalance
  | ShowAllOutputs
  | ShowTimestamp

record Cli =
  endpoint :: string
  base_path :: "string option"
  no_sync :: bool
  cli_tmp :: bool
  cli_dev :: bool
  command :: "Command option"

subsection \<open>Printing\<close>

fun pretty_print_verifier :: "'k keystore_host \<Rightarrow> OuterVerifier \<Rightarrow> (('d, 'k) world, unit) wallet" where
  "pretty_print_verifier S (OuterSr25519Signature sig) = println (OwnedBy (owner_pubkey sig))"
| "pretty_print_verifier S (OuterUpForGrabs _) = println SpentByAnyone"
| "pretty_print_verifier S (OuterThresholdMultiSignature m) =
     println (OwnedByGroup (map (public_bytes S) (signatories m)) (threshold m))"

definition print_unspent_entry ::
  "'d wallet_host \<Rightarrow> (bytes \<times> bytes, WalletError) result \<Rightarrow> (('d, 'k) world, unit) wallet" where
  "print_unspent_entry W x =
     wbind (wlift x) (\<lambda>(output_ref_ivec, owner_amount_ivec).
     wbind (wlift (ok_or (decode_value (owner_amount_codec W) owner_amount_ivec) CodecError)) (\<lambda>(owner, amount).
     println (UnspentLine output_ref_ivec owner amount)))"

definition print_unspent_tree :: "'d wallet_host \<Rightarrow> (('d, 'k) world, unit) wallet" where
  "print_unspent_tree W =
     wbind (on_db (open_tree (sled_db W) UNSPENT)) (\<lambda>_ w.
     wfor (print_unspent_entry W) (tree_iter (sled_db W) UNSPENT (world_db w)) w)"

definition print_block_hashes_tree :: "host \<Rightarrow> 'd wallet_host \<Rightarrow> (('d, 'k) world, unit) wallet" where
  "print_block_hashes_tree H W =
     wbind (on_db (height W)) (\<lambda>best.
     wbind (wlift (expect best)) (\<lambda>best.
     wfor (\<lambda>h. wbind (on_db (get_block_hash H W h)) (\<lambda>hash. println (BlockHashLine h hash)))
       (map of_nat [0..<unat best])))"

subsection \<open>The commands\<close>

text \<open>Unicode's white space in UTF-8: a string of the model is the bytes of the source's.\<close>

definition whitespace :: "string list" where
  "whitespace =
     [[CHR 0x09], [CHR 0x0A], [CHR 0x0B], [CHR 0x0C], [CHR 0x0D], [CHR 0x20], [CHR 0xC2, CHR 0x85], [CHR 0xC2, CHR 0xA0],
      [CHR 0xE1, CHR 0x9A, CHR 0x80], [CHR 0xE2, CHR 0x80, CHR 0xA8], [CHR 0xE2, CHR 0x80, CHR 0xA9],
      [CHR 0xE2, CHR 0x80, CHR 0xAF], [CHR 0xE2, CHR 0x81, CHR 0x9F], [CHR 0xE3, CHR 0x80, CHR 0x80]]
     @ map (\<lambda>b. [CHR 0xE2, CHR 0x80, b])
         [CHR 0x80, CHR 0x81, CHR 0x82, CHR 0x83, CHR 0x84, CHR 0x85, CHR 0x86, CHR 0x87, CHR 0x88, CHR 0x89, CHR 0x8A]"

fun strip_front :: "string list \<Rightarrow> string \<Rightarrow> string" where
  "strip_front ws [] = []"
| "strip_front ws (c # cs) =
     (case find (\<lambda>w. w \<noteq> [] \<and> take (length w) (c # cs) = w) ws of
        Some w \<Rightarrow> strip_front ws (drop (length w - 1) cs)
      | None \<Rightarrow> c # cs)"

definition trim :: "string \<Rightarrow> string" where
  "trim s = rev (strip_front (map rev whitespace) (rev (strip_front whitespace s)))"

definition verify_coin ::
  "host \<Rightarrow> runtime_host \<Rightarrow> 'd wallet_host \<Rightarrow> 'k keystore_host \<Rightarrow> 'j client \<Rightarrow> OutputRef \<Rightarrow> (('d, 'k) world, unit) wallet" where
  "verify_coin H R W S N r =
     wbind (println (CoinDetails (encode (output_ref_codec H) r))) (\<lambda>_.
     wbind (wlift (get_coin_from_storage H R N r)) (\<lambda>(coin_from_storage, verifier_from_storage).
     wbind (println (FoundInStorage (coin_value coin_from_storage))) (\<lambda>_.
     wbind (pretty_print_verifier S verifier_from_storage) (\<lambda>_.
     wbind (on_db (get_unspent H W r)) (\<lambda>v.
     (case v of
        Some (owner, amount) \<Rightarrow> println (FoundInDb amount owner)
      | None \<Rightarrow> println NotFoundInDb))))))"

definition remove_key_command :: "'k keystore_host \<Rightarrow> string \<Rightarrow> H256 \<Rightarrow> (('d, 'k) world, unit) wallet" where
  "remove_key_command S keystore_path pub_key =
     wbind (println (Caution pub_key)) (\<lambda>_.
     wbind read_line (\<lambda>confirmation.
     if trim confirmation = ''proceed'' then remove_key S keystore_path pub_key
     else println DeletionAborted))"

text \<open>The balances come out of a hash map in an order the standard library does not fix: the parameter \<open>entries\<close>.\<close>

definition show_balance ::
  "'d wallet_host \<Rightarrow> ((H256 \<rightharpoonup> u128) \<Rightarrow> (H256 \<times> u128) list) \<Rightarrow> (('d, 'k) world, unit) wallet" where
  "show_balance W entries =
     wbind (println BalanceSummary) (\<lambda>_.
     wbind (on_db (get_balances W)) (\<lambda>balances.
     wbind (wfor (\<lambda>(account, balance). println (BalanceLine account balance)) (entries balances)) (\<lambda>_.
     wbind (println BalanceRule) (\<lambda>_.
     println (BalanceTotal (foldl (+) 0 (map snd (entries balances))))))))"

text \<open>
  Everything outside: two views of the node (before and after an extrinsic was sent), the keystore and database
  that are found at a path (the database with sled's report whether it existed), the clock in milliseconds since the epoch (nothing when it
  is set before the epoch), directories.
\<close>

record ('d, 'k, 'j) system =
  client_at :: "string \<Rightarrow> ('j client, WalletError) result"
  client_later :: "'j client \<Rightarrow> 'j client"
  keystore_at :: "string \<Rightarrow> ('k, WalletError) result"
  db_at :: "string \<Rightarrow> 'd \<times> bool"
  env_temp_dir :: string
  epoch_millis :: "nat option"
  project_data_dir :: "string \<Rightarrow> string \<Rightarrow> string \<Rightarrow> string option"
  remove_dir_all :: "string \<Rightarrow> (unit, WalletError) result"
  map_entries :: "(H256 \<rightharpoonup> u128) \<Rightarrow> (H256 \<times> u128) list"

fun run_command ::
  "host \<Rightarrow> runtime_host \<Rightarrow> 'd wallet_host \<Rightarrow> WalletParachainChecker codec \<Rightarrow> 'k keystore_host \<Rightarrow> ('d, 'k, 'j) system
     \<Rightarrow> string \<Rightarrow> bool \<Rightarrow> 'j client \<Rightarrow> Command \<Rightarrow> (('d, 'k) world, unit) wallet" where
  "run_command H R W pcc S E keystore_path parachain N AmoebaDemo =
     (case amoeba_demo H R pcc parachain N (client_later E N) of (sent, r) \<Rightarrow>
      wbind (wfor send sent) (\<lambda>_. wlift r))"
| "run_command H R W pcc S E keystore_path parachain N (MintCoins args) =
     wbind (wlift (mint_coins H R pcc parachain args)) send"
| "run_command H R W pcc S E keystore_path parachain N (VerifyCoin r) = verify_coin H R W S N r"
| "run_command H R W pcc S E keystore_path parachain N (SpendCoins args) =
     wbind current_keys (\<lambda>keys.
     wbind (on_db (spend_coins H R W pcc parachain N (keystore_view S keys) args)) send)"
| "run_command H R W pcc S E keystore_path parachain N (InsertKey seed) = insert_key S seed"
| "run_command H R W pcc S E keystore_path parachain N (GenerateKey password) = generate_key S password"
| "run_command H R W pcc S E keystore_path parachain N ShowKeys =
     wbind (get_keys S) (wfor (\<lambda>pubkey. println (KeyLine pubkey)))"
| "run_command H R W pcc S E keystore_path parachain N (RemoveKey pub_key) =
     remove_key_command S keystore_path pub_key"
| "run_command H R W pcc S E keystore_path parachain N ShowBalance = show_balance W (map_entries E)"
| "run_command H R W pcc S E keystore_path parachain N ShowAllOutputs =
     wbind (println UnspentHeader) (\<lambda>_. print_unspent_tree W)"
| "run_command H R W pcc S E keystore_path parachain N ShowTimestamp =
     wbind (on_db (get_timestamp W)) (\<lambda>t. println (TimestampLine t))"

subsection \<open>The main function\<close>

definition temp_dir :: "'k keystore_host \<Rightarrow> ('d, 'k, 'j) system \<Rightarrow> (string, WalletError) result" where
  "temp_dir S E =
     bind_result (expect (epoch_millis E)) (\<lambda>millis.
     Ok (path_join S (env_temp_dir E) (''tuxedo-wallet-'' @ decimal millis)))"

definition default_data_path :: "('d, 'k, 'j) system \<Rightarrow> (string, WalletError) result" where
  "default_data_path E = expect (project_data_dir E [] [] ''tuxedo-template-wallet'')"

definition data_path :: "'k keystore_host \<Rightarrow> ('d, 'k, 'j) system \<Rightarrow> Cli \<Rightarrow> (string, WalletError) result" where
  "data_path S E cli =
     (if cli_tmp cli \<or> cli_dev cli then temp_dir S E
      else (case base_path cli of Some p \<Rightarrow> Ok p | None \<Rightarrow> default_data_path E))"

text \<open>Up to the point where the wallet synchronises: the keystore, the client, the chain's kind, the database.\<close>

definition start_wallet ::
  "host \<Rightarrow> runtime_host \<Rightarrow> 'd wallet_host \<Rightarrow> WalletParachainChecker codec \<Rightarrow> 'k keystore_host \<Rightarrow> ('d, 'k, 'j) system
     \<Rightarrow> Cli \<Rightarrow> string \<Rightarrow> (('d, 'k) world, 'j client \<times> bool) wallet" where
  "start_wallet H R W pcc S E cli path =
     (let keystore_path = path_join S path ''keystore'';
          db_path = path_join S path ''wallet_database'' in
      wbind (wlift (keystore_at E keystore_path)) (\<lambda>keystore.
      wbind (put_keys keystore) (\<lambda>_.
      wbind (if cli_dev cli then insert_development_key_for_this_session S else wlift (Ok ())) (\<lambda>_.
      wbind (wlift (client_at E (endpoint cli))) (\<lambda>N.
      wbind (wlift (node_get_metadata N)) (\<lambda>metadata.
      wbind current_keys (\<lambda>keys.
      wbind (put_db (fst (db_at E db_path))) (\<lambda>_.
      (let flt = keystore_filter H (keystore_view S keys); recovered = snd (db_at E db_path) in
      wbind (on_db (if metadata_is_parachain metadata
        then prepare_db H R W pcc N flt recovered
        else prepare_db H R W (outer_checker_codec R) N flt recovered)) (\<lambda>_.
      wlift (Ok (N, metadata_is_parachain metadata))))))))))))"

text \<open>A removal that fails may have deleted part of the directory: it is recorded as such.\<close>

definition finish_wallet :: "('d, 'k, 'j) system \<Rightarrow> Cli \<Rightarrow> string \<Rightarrow> (('d, 'k) world, unit) wallet" where
  "finish_wallet E cli path =
     (if cli_tmp cli \<or> cli_dev cli then
        (\<lambda>w. case remove_dir_all E path of
            Ok _ \<Rightarrow> (w\<lparr>world_removed := world_removed w @ [path]\<rparr>, Ok ())
          | Err e \<Rightarrow> (w\<lparr>world_removal_failed := world_removal_failed w @ [path]\<rparr>, Err e)
          | Panic \<Rightarrow> (w, Panic))
      else wlift (Ok ()))"

definition sync_wallet ::
  "host \<Rightarrow> runtime_host \<Rightarrow> 'd wallet_host \<Rightarrow> WalletParachainChecker codec \<Rightarrow> 'k keystore_host \<Rightarrow> bool \<Rightarrow> 'j client
     \<Rightarrow> ('d, 'k) world \<Rightarrow> (('d, 'k) world \<times> (unit, WalletError) result) option" where
  "sync_wallet H R W pcc S parachain N w =
     map_option (\<lambda>(d, r). wbind (wlift r) (\<lambda>_. wbind (on_db (height W)) (\<lambda>h. wlift (map_ok (\<lambda>_. ()) (expect h))))
         (w\<lparr>world_db := d\<rparr>))
       (synchronize H R W pcc N parachain (keystore_filter H (keystore_view S (world_keys w))) (world_db w))"

definition wallet_main ::
  "host \<Rightarrow> runtime_host \<Rightarrow> 'd wallet_host \<Rightarrow> WalletParachainChecker codec \<Rightarrow> 'k keystore_host \<Rightarrow> ('d, 'k, 'j) system
     \<Rightarrow> Cli \<Rightarrow> ('d, 'k) world \<Rightarrow> (('d, 'k) world \<times> (unit, WalletError) result) option" where
  "wallet_main H R W pcc S E cli w0 =
     (case wbind (wlift (data_path S E cli)) (\<lambda>path.
          wbind (start_wallet H R W pcc S E cli path) (\<lambda>(N, parachain).
          wlift (Ok (path, N, parachain)))) w0 of
        (w1, Ok (path, N, parachain)) \<Rightarrow>
          Option.bind (if no_sync cli then Some (w1, Ok ()) else sync_wallet H R W pcc S parachain N w1) (\<lambda>(w2, r).
          Some (wbind (wlift r) (\<lambda>_.
            wbind (case command cli of
                Some c \<Rightarrow> run_command H R W pcc S E (path_join S path ''keystore'') parachain N c
              | None \<Rightarrow> wlift (Ok ())) (\<lambda>_.
            finish_wallet E cli path)) w2))
      | (w1, Err e) \<Rightarrow> Some (w1, Err e)
      | (w1, Panic) \<Rightarrow> Some (w1, Panic))"

subsection \<open>Balances\<close>

definition owned_refs :: "wallet_state \<Rightarrow> H256 \<Rightarrow> OutputRef set" where
  "owned_refs st owner = {r. \<exists>a. unspent_coins st r = Some (owner, a)}"

definition balance_of :: "wallet_state \<Rightarrow> H256 \<Rightarrow> u128 option" where
  "balance_of st owner = (if owned_refs st owner = {} then None else Some (\<Sum>r \<in> owned_refs st owner. coin_amount st r))"

lemma balance_of_dom: "dom (balance_of st) = (\<lambda>r. fst (the (unspent_coins st r))) ` dom (unspent_coins st)"
  by (force simp: balance_of_def owned_refs_def dom_def image_iff split: if_splits)

lemma balances_add_up:
  assumes "finite (dom (unspent_coins st))" "distinct (map fst ls)" "map_of ls = balance_of st"
  shows "foldl (+) 0 (map snd ls) = (\<Sum>r \<in> dom (unspent_coins st). coin_amount st r)"
proof -
  let ?S = "dom (unspent_coins st)" and ?g = "\<lambda>r. fst (the (unspent_coins st r))"
  have ls: "map snd ls = map (\<lambda>k. the (balance_of st k)) (map fst ls)"
    using assms(2,3) by (simp add: comp_def) (metis map_of_is_SomeI option.sel prod.collapse)
  have part: "the (balance_of st k) = (\<Sum>r \<in> {r \<in> ?S. ?g r = k}. coin_amount st r)" if "k \<in> dom (balance_of st)" for k
  proof -
    have "{r \<in> ?S. ?g r = k} = owned_refs st k" by (auto simp: owned_refs_def)
    with that show ?thesis by (auto simp: balance_of_def split: if_splits)
  qed
  have "foldl (+) 0 (map snd ls) = sum_list (map snd ls)"
    by (simp add: foldl_plus_sum_list)
  also have "\<dots> = (\<Sum>k \<in> set (map fst ls). the (balance_of st k))"
    by (subst ls) (rule sum.distinct_set_conv_list [symmetric, OF assms(2)])
  also have "set (map fst ls) = dom (balance_of st)"
    using assms(3) by (simp add: dom_map_of_conv_image_fst [symmetric])
  also have "(\<Sum>k \<in> dom (balance_of st). the (balance_of st k))
      = (\<Sum>k \<in> dom (balance_of st). \<Sum>r \<in> {r \<in> ?S. ?g r = k}. coin_amount st r)"
    by (rule sum.cong) (simp_all add: part)
  also have "\<dots> = (\<Sum>r \<in> ?S. coin_amount st r)"
    using assms(1) by (intro sum.group) (simp_all add: balance_of_dom)
  finally show ?thesis .
qed

context wallet_laws
begin

lemma stored_balances:
  assumes "distinct (map fst ps)" "map_of ps = unspent_coins st"
  shows "fold_result (add_balance W) Map.empty (map stored ps) = Ok (balance_of st)"
proof -
  have amounts: "sum_list (map amount (filter (\<lambda>(r, owner, a). owner = k) ps)) = (\<Sum>r \<in> owned_refs st k. coin_amount st r)"
    and none: "filter (\<lambda>(r, owner, a). owner = k) ps = [] \<longleftrightarrow> owned_refs st k = {}" for k
  proof -
    let ?qs = "filter (\<lambda>(r, owner, a). owner = k) ps"
    have in_ps: "(r, oa) \<in> set ps \<longleftrightarrow> unspent_coins st r = Some oa" for r oa
      using map_of_eq_Some_iff [OF assms(1)] assms(2) by metis
    have dist: "distinct (map fst ?qs)" using assms(1) by (rule distinct_map_filter)
    have refs: "set (map fst ?qs) = owned_refs st k"
      by (force simp: owned_refs_def in_ps)
    have amounts: "map amount ?qs = map (coin_amount st) (map fst ?qs)"
      using in_ps by (auto simp: coin_amount_def)
    show "sum_list (map amount ?qs) = (\<Sum>r \<in> owned_refs st k. coin_amount st r)"
      unfolding amounts refs [symmetric] by (rule sum.distinct_set_conv_list [OF dist, symmetric])
    show "?qs = [] \<longleftrightarrow> owned_refs st k = {}"
      unfolding refs [symmetric] by (simp only: set_empty map_is_Nil_conv)
  qed
  show ?thesis
    unfolding balances_result
    by (auto simp: fun_eq_iff balance_of_def amounts [symmetric] none [symmetric] split: list.split)
qed

lemma get_balances_result:
  assumes "rep d st"
  shows "\<exists>d'. get_balances W d = (d', Ok (balance_of st)) \<and> rep d' st"
proof -
  obtain d' where d': "open_tree (sled_db W) UNSPENT d = (d', Ok ())" "rep d' st"
    using computesD [OF computes_open assms] by blast
  obtain ps where "tree_iter (sled_db W) UNSPENT d' = map stored ps" "distinct (map fst ps)" "map_of ps = unspent_coins st"
    using iter_unspent [OF d'(2)] by blast
  with d' show ?thesis
    by (simp add: get_balances_def wbind_def wlift_def stored_balances)
qed

end

lemma print_lines:
  "wfor (\<lambda>x. println (f x)) xs w = (w\<lparr>world_out := world_out w @ map f xs\<rparr>, Ok ())"
  by (induction xs arbitrary: w) (simp_all add: wbind_def wlift_def println_def)

text \<open>
  The wallet's balances add up. On a database that represents a set of unspent coins, \<^verbatim>\<open>show-balance\<close> prints one
  line for every owner of a coin, with the sum of the owner's coins, and a total that is the sum of all
  coins (both modulo \<open>2 ^ 128\<close>), whatever order the hash map yields the owners in; it changes nothing the wallet knows.
\<close>

theorem show_balance_exact:
  assumes "wallet_laws H W contents" and "represents H W contents (world_db w) st"
    and "\<And>m. finite (dom m) \<Longrightarrow> distinct (map fst (entries m)) \<and> map_of (entries m) = m"
  shows "\<exists>w' ls. show_balance W entries w = (w', Ok ())
    \<and> world_out w' = world_out w @ [BalanceSummary] @ map (\<lambda>(owner, b). BalanceLine owner b) ls
        @ [BalanceRule, BalanceTotal (\<Sum>r \<in> dom (unspent_coins st). coin_amount st r)]
    \<and> distinct (map fst ls) \<and> map_of ls = balance_of st \<and> represents H W contents (world_db w') st"
proof -
  let ?ls = "entries (balance_of st)"
  obtain d' where d': "get_balances W (world_db w) = (d', Ok (balance_of st))" "represents H W contents d' st"
    using wallet_laws.get_balances_result [OF assms(1,2)] by blast
  have fin: "finite (dom (unspent_coins st))"
    using wallet_laws.iter_unspent [OF assms(1,2)] by (metis finite_dom_map_of)
  then have "finite (dom (balance_of st))" by (simp add: balance_of_dom)
  from assms(3) [OF this] have ls: "distinct (map fst ?ls)" "map_of ?ls = balance_of st" by simp_all
  have lines: "(\<lambda>(account, balance). println (BalanceLine account balance))
      = (\<lambda>x. println ((\<lambda>(owner, b). BalanceLine owner b) x))"
    by (simp add: fun_eq_iff split: prod.split)
  show ?thesis
    using ls balances_add_up [OF fin ls] d'
    unfolding show_balance_def lines
    by (simp add: wbind_def print_lines, simp add: println_def on_db_def print_lines, blast)
qed

subsection \<open>Cleaning up\<close>

text \<open>No operation of the wallet but the last one removes a directory.\<close>

definition keeps_dirs :: "(('d, 'k) world, 'a) wallet \<Rightarrow> bool" where
  "keeps_dirs m \<longleftrightarrow> (\<forall>w. world_removed (fst (m w)) = world_removed w)"

lemma keeps_dirs_basic [simp, intro]:
  "keeps_dirs (wlift r)" "keeps_dirs (println l)" "keeps_dirs (send b)" "keeps_dirs read_line"
  "keeps_dirs (on_db m)" "keeps_dirs (on_keys n)" "keeps_dirs (put_db d)" "keeps_dirs (put_keys k)" "keeps_dirs current_keys"
  by (simp_all add: keeps_dirs_def wlift_def println_def send_def read_line_def on_db_def on_keys_def put_db_def
      put_keys_def current_keys_def split: list.split prod.split)

lemma keeps_dirs_bind: "keeps_dirs m \<Longrightarrow> (\<And>x. keeps_dirs (f x)) \<Longrightarrow> keeps_dirs (wbind m f)"
  by (auto simp: keeps_dirs_def wbind_def split: prod.split result.split) (metis fst_conv)+

lemma keeps_dirs_for: "(\<And>x. keeps_dirs (f x)) \<Longrightarrow> keeps_dirs (wfor f xs)"
  by (induction xs) (simp_all add: keeps_dirs_bind)

text \<open>Operations chosen by the world they run on.\<close>

lemma keeps_dirs_for_at:
  assumes "\<And>x. keeps_dirs (f x)"
  shows "keeps_dirs (\<lambda>w. wfor f (g w) w)"
  using keeps_dirs_for [where f = f, OF assms] unfolding keeps_dirs_def by blast

lemma keeps_dirs_verifier: "keeps_dirs (pretty_print_verifier S v)"
  by (cases v) simp_all

lemma keeps_dirs_entry: "keeps_dirs (print_unspent_entry W x)"
  unfolding print_unspent_entry_def by (auto intro!: keeps_dirs_bind split: prod.split)

lemma keeps_dirs_tree: "keeps_dirs (print_unspent_tree W)"
  unfolding print_unspent_tree_def
  by (intro keeps_dirs_bind keeps_dirs_basic keeps_dirs_for_at keeps_dirs_entry)

lemma keeps_dirs_command: "keeps_dirs (run_command H R W pcc S E keystore_path parachain N c)"
proof (cases c)
  case (VerifyCoin r)
  then show ?thesis
    by (auto simp: verify_coin_def intro!: keeps_dirs_bind keeps_dirs_verifier split: prod.split option.split)
qed (auto simp: get_keys_def insert_key_def generate_key_def insert_pair_def remove_key_command_def remove_key_def show_balance_def
    intro!: keeps_dirs_bind keeps_dirs_for keeps_dirs_tree split: prod.split)

lemma keeps_dirs_start: "keeps_dirs (start_wallet H R W pcc S E cli path)"
  unfolding start_wallet_def Let_def insert_development_key_for_this_session_def
  by (intro keeps_dirs_bind keeps_dirs_basic) (auto intro!: keeps_dirs_bind)

abbreviation start_all ::
  "host \<Rightarrow> runtime_host \<Rightarrow> 'd wallet_host \<Rightarrow> WalletParachainChecker codec \<Rightarrow> 'k keystore_host \<Rightarrow> ('d, 'k, 'j) system
     \<Rightarrow> Cli \<Rightarrow> (('d, 'k) world, string \<times> 'j client \<times> bool) wallet" where
  "start_all H R W pcc S E cli \<equiv> wbind (wlift (data_path S E cli)) (\<lambda>path.
     wbind (start_wallet H R W pcc S E cli path) (\<lambda>(N, parachain). wlift (Ok (path, N, parachain))))"

lemma keeps_dirs_start_all: "keeps_dirs (start_all H R W pcc S E cli)"
  by (intro keeps_dirs_bind keeps_dirs_basic keeps_dirs_start) (auto split: prod.split)

lemma keeps_dirsD: "keeps_dirs m \<Longrightarrow> m w = (w', r) \<Longrightarrow> world_removed w' = world_removed w"
  unfolding keeps_dirs_def by (metis fst_conv)

lemma sync_keeps_dirs:
  assumes "sync_wallet H R W pcc S parachain N w = Some (w', r)"
  shows "world_removed w' = world_removed w"
proof -
  let ?m = "\<lambda>x :: (unit, WalletError) result. wbind (wlift x) (\<lambda>_. wbind (on_db (height W)) (\<lambda>h. wlift (map_ok (\<lambda>_. ()) (expect h))))"
  obtain d x where "?m x (w\<lparr>world_db := d\<rparr>) = (w', r)"
    using assms by (auto simp: sync_wallet_def)
  moreover have "keeps_dirs (?m x)"
    by (intro keeps_dirs_bind keeps_dirs_basic)
  ultimately show ?thesis using keeps_dirsD by fastforce
qed

text \<open>The last step: a run that gets there removes the temporary directory and nothing else.\<close>

lemma finish_removes:
  "finish_wallet E cli path w = (w', r) \<Longrightarrow> world_removed w'
     = world_removed w @ (if r = Ok () \<and> (cli_tmp cli \<or> cli_dev cli) then [path] else [])"
  by (cases "remove_dir_all E path")
    (auto simp: finish_wallet_def wbind_def wlift_def split: if_splits)

lemma wbind_cases:
  assumes "wbind m f w = (w', r)"
  obtains (went) w1 x where "m w = (w1, Ok x)" "f x w1 = (w', r)"
  | (stopped) "\<And>x. r \<noteq> Ok x" "fst (m w) = w'"
  using assms by (auto simp: wbind_def split: prod.splits result.splits)

text \<open>
  C37. When the wallet cleans up after itself. A run of the wallet that ends removes exactly one directory, its temporary data directory, when
  \<^verbatim>\<open>--tmp\<close> or \<^verbatim>\<open>--dev\<close> was given and everything succeeded. When starting, synchronising or the command fails or panics, nothing
  is removed: the directory with the keystore and the database stays behind. (When the removal itself fails, it does not count as removed; part of it may be gone.)
\<close>

theorem wallet_cleans_up_on_success:
  assumes "wallet_main H R W pcc S E cli w0 = Some (w, r)"
  shows "if r = Ok () \<and> (cli_tmp cli \<or> cli_dev cli)
    then \<exists>path. temp_dir S E = Ok path \<and> world_removed w = world_removed w0 @ [path]
    else world_removed w = world_removed w0"
proof (cases "start_all H R W pcc S E cli w0")
  case (Pair w1 start)
  then have w1: "world_removed w1 = world_removed w0"
    using keeps_dirsD keeps_dirs_start_all by blast
  show ?thesis
  proof (cases start)
    case (Ok np)
    obtain path N parachain where np: "np = (path, N, parachain)" by (cases np)
    have path: "data_path S E cli = Ok path"
      using Pair Ok np by (auto simp: wbind_def wlift_def split: result.splits prod.splits)
    let ?path = "path_join S path ''keystore''"
    let ?cmd = "case command cli of Some c \<Rightarrow> run_command H R W pcc S E ?path parachain N c | None \<Rightarrow> wlift (Ok ())"
    obtain w2 synced where sync: "(if no_sync cli then Some (w1, Ok ()) else sync_wallet H R W pcc S parachain N w1) = Some (w2, synced)"
      and rest: "wbind (wlift synced) (\<lambda>_. wbind ?cmd (\<lambda>_. finish_wallet E cli path)) w2 = (w, r)"
      using assms by (auto simp: wallet_main_def Pair Ok np bind_eq_Some_conv)
    have w2: "world_removed w2 = world_removed w0"
      using sync sync_keeps_dirs w1 by (fastforce split: if_splits)
    have cmd: "keeps_dirs ?cmd" by (simp add: keeps_dirs_command split: option.split)
    have "world_removed w = world_removed w0 @ (if r = Ok () \<and> (cli_tmp cli \<or> cli_dev cli) then [path] else [])"
      using rest
    proof (cases rule: wbind_cases)
      case (went w3 x)
      then have "w3 = w2" by (simp add: wlift_def)
      from went(2) show ?thesis
      proof (cases rule: wbind_cases)
        case (went w4 y)
        then show ?thesis
          using finish_removes [OF went(2)] keeps_dirsD [OF cmd went(1)] \<open>w3 = w2\<close> w2 by simp
      next
        case stopped
        then show ?thesis
          using keeps_dirsD [OF cmd prod.collapse [symmetric]] \<open>w3 = w2\<close> w2 by auto
      qed
    next
      case stopped
      then show ?thesis using w2 by (simp add: wlift_def)
    qed
    with path show ?thesis by (auto simp: data_path_def)
  qed (use assms Pair w1 in \<open>auto simp: wallet_main_def\<close>)
qed

subsection \<open>What a recovered or printed database lacks\<close>

text \<open>A database operation that leaves a tree as it was, whatever its outcome.\<close>

definition keeps_tree :: "('d \<Rightarrow> string \<Rightarrow> bytes \<rightharpoonup> bytes) \<Rightarrow> string \<Rightarrow> ('d, 'a) wallet \<Rightarrow> bool" where
  "keeps_tree contents t m \<longleftrightarrow> (\<forall>d. contents (fst (m d)) t = contents d t)"

lemma keeps_tree_lift [simp, intro]: "keeps_tree contents t (wlift r)"
  by (simp add: keeps_tree_def wlift_def)

lemma keeps_tree_bind:
  "keeps_tree contents t m \<Longrightarrow> (\<And>x. keeps_tree contents t (f x)) \<Longrightarrow> keeps_tree contents t (wbind m f)"
  by (auto simp: keeps_tree_def wbind_def split: prod.split result.split) (metis fst_conv)+

context wallet_laws
begin

lemma keeps_tree_sled [simp, intro]:
  "keeps_tree contents t (open_tree (sled_db W) u)" "keeps_tree contents t (tree_get (sled_db W) u k)"
  "u \<noteq> t \<Longrightarrow> keeps_tree contents t (tree_insert (sled_db W) u k v)"
  by (simp_all add: keeps_tree_def open_tree_law tree_get_law tree_insert_law)

lemma keeps_tree_height [simp, intro]: "keeps_tree contents t (height W)"
  unfolding height_def by (rule keeps_tree_bind) (simp, simp add: keeps_tree_def wlift_def Let_def)

text \<open>
  When sled reports that the database existed, the genesis block is never applied: the coins the wallet
  knows after \<^verbatim>\<open>main\<close> has opened the database are those it found there, also when the run that created the
  database was cut off before it applied the genesis block.
\<close>

lemma interrupted_genesis_skipped: "contents (fst (prepare_db H R W cc N flt True d)) UNSPENT = contents d UNSPENT"
proof -
  have trees: "BLOCKS \<noteq> UNSPENT" "BLOCK_HASHES \<noteq> UNSPENT"
    by (simp_all add: BLOCKS_def BLOCK_HASHES_def UNSPENT_def)
  have "keeps_tree contents UNSPENT (open_db H W hash b)" for hash b
    unfolding open_db_def using trees by (auto intro!: keeps_tree_bind)
  then have "keeps_tree contents UNSPENT (prepare_db H R W cc N flt True)"
    unfolding prepare_db_def by (auto intro!: keeps_tree_bind)
  then show ?thesis by (simp add: keeps_tree_def)
qed

end

lemma printed_hashes:
  assumes "wfor (\<lambda>h. wbind (on_db (get_block_hash H W h)) (\<lambda>hash. println (BlockHashLine h hash))) hs w = (w', r)"
    and "BlockHashLine h hash \<in> set (world_out w')"
  shows "h \<in> set hs \<or> BlockHashLine h hash \<in> set (world_out w)"
  using assms
proof (induction hs arbitrary: w)
  case Nil
  then show ?case by (simp add: wlift_def)
next
  case (Cons x hs)
  obtain d found where get: "get_block_hash H W x (world_db w) = (d, found)" by (cases "get_block_hash H W x (world_db w)")
  show ?case
  proof (cases found)
    case (Ok v)
    with Cons.prems get Cons.IH show ?thesis
      by (fastforce simp: wbind_def on_db_def println_def)
  qed (use Cons.prems get in \<open>auto simp: wbind_def on_db_def\<close>)
qed

text \<open>The best block's hash is not among those that are printed.\<close>

lemma best_block_not_printed:
  assumes "height W (world_db w) = (d, Ok (Some best))" and "print_block_hashes_tree H W w = (w', r)"
    and "BlockHashLine best hash \<in> set (world_out w')"
  shows "BlockHashLine best hash \<in> set (world_out w)"
proof -
  let ?hs = "map of_nat [0..<unat best] :: u32 list"
  have "wfor (\<lambda>h. wbind (on_db (get_block_hash H W h)) (\<lambda>hash. println (BlockHashLine h hash))) ?hs (w\<lparr>world_db := d\<rparr>) = (w', r)"
    using assms(1,2) by (simp add: print_block_hashes_tree_def wbind_def on_db_def wlift_def)
  from printed_hashes [OF this assms(3)] have "best \<in> set ?hs \<or> BlockHashLine best hash \<in> set (world_out w)" by simp
  moreover have "best \<notin> set ?hs"
  proof
    assume "best \<in> set ?hs"
    then obtain n where "n < unat best" "best = of_nat n" by auto
    moreover have "unat (of_nat n :: u32) \<le> n" by (simp add: unat_of_nat)
    ultimately show False by simp
  qed
  ultimately show ?thesis by blast
qed

subsection \<open>Keys\<close>

text \<open>
  What the wallet relies on in the keystore package: a key inserted is kept in a file of the keystore's directory, named by the hexadecimal key
  type and public key, with its phrase; session keys live in memory only; a public key is its 32 bytes.
\<close>

locale keystore_laws =
  fixes H :: host and S :: "'k keystore_host"
    and files :: "'k \<Rightarrow> string \<rightharpoonup> string" and session_keys :: "'k \<Rightarrow> (byte4 \<times> bytes) set"
    and keystore_path :: string
  assumes insert_law: "\<exists>k'. keystore_insert S kt suri pubb k = (k', Ok ())
      \<and> files k' = (files k)(key_hex S (byte4_bytes kt) @ key_hex S pubb \<mapsto> suri) \<and> session_keys k' = session_keys k"
    and has_keys_law: "has_keys (keystore_view S k) [(pubb, kt)]
      \<longleftrightarrow> (kt, pubb) \<in> session_keys k \<or> files k (key_hex S (byte4_bytes kt) @ key_hex S pubb) \<noteq> None"
    and remove_missing_law: "files k name = None \<Longrightarrow> remove_file S (path_join S keystore_path name) k = (k, Err IoError)"
    and remove_law: "files k name \<noteq> None \<Longrightarrow> \<exists>k'. remove_file S (path_join S keystore_path name) k = (k', Ok ())
      \<and> files k' = (files k)(name := None) \<and> session_keys k' = session_keys k"
    and generate_law: "pair_from_phrase S phrase = Ok pub \<Longrightarrow> \<exists>k'. sr25519_generate_new S kt (Some phrase) k = (k', Ok pub)
      \<and> files k' = files k \<and> session_keys k' = insert (kt, public_bytes S pub) (session_keys k)"
    and key_hex_inject: "key_hex S b = key_hex S b' \<longleftrightarrow> b = b'"
    and public_bytes_law: "public_bytes S pub = encode (h256_codec H) pub"
    and h256_codec_lawful: "scale_codec (h256_codec H)"
begin

abbreviation knows :: "('d, 'k) world \<Rightarrow> H256 \<Rightarrow> bool" where
  "knows w pub \<equiv> has_key H (keystore_view S (world_keys w)) pub"

abbreviation in_session :: "('d, 'k) world \<Rightarrow> H256 \<Rightarrow> bool" where
  "in_session w pub \<equiv> (KEY_TYPE, public_bytes S pub) \<in> session_keys (world_keys w)"

lemma knows_iff: "knows w pub \<longleftrightarrow> in_session w pub \<or> files (world_keys w) (key_filename S pub) \<noteq> None"
  by (simp add: has_key_def has_keys_law key_filename_def public_bytes_law)

lemma key_filename_inject: "key_filename S p = key_filename S q \<longleftrightarrow> p = q"
  by (simp add: key_filename_def key_hex_inject public_bytes_law scale_codec.encode_inject [OF h256_codec_lawful])

lemma insert_key_result:
  assumes "pair_from_phrase S seed = Ok pub"
  shows "\<exists>w'. insert_key S seed w = (w', Ok ()) \<and> world_input w' = world_input w
    \<and> files (world_keys w') = (files (world_keys w))(key_filename S pub \<mapsto> seed)
    \<and> session_keys (world_keys w') = session_keys (world_keys w)"
  using insert_law [of KEY_TYPE seed "public_bytes S pub" "world_keys w"] assms
  by (auto simp: insert_key_def insert_pair_def println_def on_keys_def key_filename_def wbind_def wlift_def)

lemma remove_key_result:
  assumes "world_input w = l # ls"
  shows "\<exists>w' r. remove_key_command S keystore_path pub w = (w', r)
    \<and> r = (if trim l = ''proceed'' \<and> files (world_keys w) (key_filename S pub) = None then Err IoError else Ok ())
    \<and> files (world_keys w')
        = (if trim l = ''proceed'' then (files (world_keys w))(key_filename S pub := None) else files (world_keys w))
    \<and> session_keys (world_keys w') = session_keys (world_keys w)"
proof (cases "trim l = ''proceed'' \<and> files (world_keys w) (key_filename S pub) \<noteq> None")
  case True
  with remove_law [of "world_keys w" "key_filename S pub"] show ?thesis
    using assms
    by (auto simp: remove_key_command_def remove_key_def println_def read_line_def on_keys_def wbind_def wlift_def)
next
  case False
  with remove_missing_law [of "world_keys w" "key_filename S pub"] show ?thesis
    using assms
    by (auto simp: remove_key_command_def remove_key_def println_def read_line_def on_keys_def wbind_def wlift_def
        fun_upd_idem_iff)
qed

lemma development_key_result:
  assumes "pair_from_phrase S SHAWN_PHRASE = Ok pub"
  shows "\<exists>w'. insert_development_key_for_this_session S w = (w', Ok ())
    \<and> files (world_keys w') = files (world_keys w) \<and> in_session w' pub"
  using generate_law [OF assms, of KEY_TYPE "world_keys w"]
  by (auto simp: insert_development_key_for_this_session_def on_keys_def wbind_def wlift_def)

end

text \<open>
  C36. Removing a key undoes inserting it. Inserting a phrase succeeds, and the wallet then knows the phrase's public key, so that its filter tracks
  the outputs of that owner. Removing that key, once the user confirms with \<^verbatim>\<open>proceed\<close> (surrounding white
  space aside), makes the wallet forget it, unless it is a key of the session; with any other answer the key stays. No other
  key is affected by either command.
\<close>

theorem insert_remove_key:
  assumes "keystore_laws H S files session_keys keystore_path"
    and "pair_from_phrase S seed = Ok pub" and "world_input w = l # ls"
  shows "\<exists>w1 w2. insert_key S seed w = (w1, Ok ())
    \<and> keystore_filter H (keystore_view S (world_keys w1)) (OuterSr25519Signature \<lparr>owner_pubkey = pub\<rparr>)
    \<and> remove_key_command S keystore_path pub w1 = (w2, Ok ())
    \<and> (has_key H (keystore_view S (world_keys w2)) pub
        \<longleftrightarrow> trim l \<noteq> ''proceed'' \<or> (KEY_TYPE, public_bytes S pub) \<in> session_keys (world_keys w))
    \<and> (\<forall>q. q \<noteq> pub \<longrightarrow> has_key H (keystore_view S (world_keys w1)) q = has_key H (keystore_view S (world_keys w)) q
        \<and> has_key H (keystore_view S (world_keys w2)) q = has_key H (keystore_view S (world_keys w)) q)"
proof -
  note knows = keystore_laws.knows_iff [OF assms(1)] and names = keystore_laws.key_filename_inject [OF assms(1)]
  obtain w1 where w1: "insert_key S seed w = (w1, Ok ())" "world_input w1 = l # ls"
    "files (world_keys w1) = (files (world_keys w))(key_filename S pub \<mapsto> seed)"
    "session_keys (world_keys w1) = session_keys (world_keys w)"
    using keystore_laws.insert_key_result [OF assms(1,2), of w] assms(3) by auto
  obtain w2 where w2: "remove_key_command S keystore_path pub w1 = (w2, Ok ())"
    "files (world_keys w2)
        = (if trim l = ''proceed'' then (files (world_keys w1))(key_filename S pub := None) else files (world_keys w1))"
    "session_keys (world_keys w2) = session_keys (world_keys w1)"
    using keystore_laws.remove_key_result [OF assms(1) w1(2), of pub] w1(3) by auto
  show ?thesis
    using w1(1,3,4) w2 by (intro exI [of _ w1] exI [of _ w2]) (auto simp: knows names)
qed

end
