(* ===== verification/Wallet_Instance.thy ===== *)
theory Wallet_Instance
  imports Wallet_Money Template_Instance "HOL-Library.DAList"
begin

text \<open>
  A concrete wallet: a database of association lists, a node that serves a given chain and state, a keystore that signs for every
  key; and the wallet's theorems at concrete chains and transactions.
\<close>

subsection \<open>The database\<close>

type_synonym ref_db = "string \<Rightarrow> (bytes, bytes) alist"

definition ref_contents :: "ref_db \<Rightarrow> string \<Rightarrow> bytes \<rightharpoonup> bytes" where
  "ref_contents d t = DAList.lookup (d t)"

definition ref_sled :: "ref_db sled" where
  "ref_sled =
     \<lparr>open_tree = (\<lambda>t d. (d, Ok ())),
      tree_get = (\<lambda>t k d. (d, Ok (DAList.lookup (d t) k))),
      tree_insert = (\<lambda>t k v d. (d(t := DAList.update k v (d t)), Ok (DAList.lookup (d t) k))),
      tree_remove = (\<lambda>t k d. (d(t := DAList.delete k (d t)), Ok (DAList.lookup (d t) k))),
      tree_len = (\<lambda>t d. length (DAList.impl_of (d t))),
      tree_iter = (\<lambda>t d. map Ok (DAList.impl_of (d t)))\<rparr>"

definition ref_block_codec :: "OpaqueBlock codec" where
  "ref_block_codec = map_codec (\<lambda>(h, xs). \<lparr>opaque_header = h, opaque_extrinsics = xs\<rparr>)
     (\<lambda>b. (opaque_header b, opaque_extrinsics b)) (pair_codec ref_header_codec (list_codec ref_bytes_codec))"

definition ref_wallet :: "ref_db wallet_host" where
  "ref_wallet = \<lparr>sled_db = ref_sled, owner_amount_codec = pair_codec (word_codec 32) (word_codec 16),
     opaque_block_codec = ref_block_codec, u64_codec = word_codec 8\<rparr>"

interpretation ref_sled: sled_laws ref_sled ref_contents
proof
  fix t :: string and d :: ref_db
  let ?kvs = "DAList.impl_of (d t)"
  have "distinct (map fst ?kvs)" using impl_of [of "d t"] by simp
  moreover have "map_of ?kvs = ref_contents d t" by (simp add: ref_contents_def DAList.lookup.rep_eq)
  ultimately show "\<exists>kvs. tree_iter ref_sled t d = map Ok kvs \<and> distinct (map fst kvs) \<and> map_of kvs = ref_contents d t"
    by (intro exI [of _ ?kvs]) (simp add: ref_sled_def)
  have "card (dom (map_of ?kvs)) = length ?kvs"
    using \<open>distinct (map fst ?kvs)\<close> by (simp add: dom_map_of_conv_image_fst distinct_card flip: set_map)
  then show "tree_len ref_sled t d = card (dom (ref_contents d t))"
    by (simp add: ref_sled_def ref_contents_def DAList.lookup.rep_eq)
qed (simp_all add: ref_sled_def ref_contents_def fun_eq_iff)

abbreviation ref_cc :: "OuterConstraintChecker codec" where
  "ref_cc \<equiv> checker_codec ref_tc"

interpretation ref_wallet: wallet_chain ref_host ref_wallet ref_contents ref_runtime ref_cc flt for flt
proof (intro wallet_chain.intro wallet_laws.intro wallet_chain_axioms.intro wallet_laws_axioms.intro ref.host_laws_axioms)
  show "sled_laws (sled_db ref_wallet) ref_contents"
    by (simp add: ref_wallet_def ref_sled.sled_laws_axioms)
  show "scale_codec (owner_amount_codec ref_wallet)" "scale_codec (u64_codec ref_wallet)"
    by (simp_all add: ref_wallet_def scale_codec_pair scale_codec_words)
  show "scale_codec (opaque_block_codec ref_wallet)"
    unfolding ref_wallet_def wallet_host.simps ref_block_codec_def
    by (rule scale_codec_map) (auto intro: scale_codec_pair scale_codec_header scale_codec_list scale_codec_bytes)
  show "verifier_laws ref_tv" by (rule ref_template.template.verifier_laws_axioms)
  show "scale_codec ref_cc" by (rule ref_template.template.checker_lawful)
qed

definition empty_db :: ref_db where "empty_db = (\<lambda>_. DAList.empty)"

lemma empty_db_represents: "represents ref_host ref_wallet ref_contents empty_db fresh_wallet"
  by (auto simp: represents_def tree_holds_def empty_db_def ref_contents_def fresh_wallet_def dom_def)

lemma empty_db_synced: "synced ref_host ref_wallet ref_contents ref_runtime ref_cc flt empty_db []"
  unfolding synced_def tracking_def
  by (rule exI [of _ fresh_wallet]) (simp add: empty_db_represents)

subsection \<open>The node and the keystore\<close>

definition ref_hex :: "bytes \<Rightarrow> string" where
  "ref_hex b = map (\<lambda>x. char_of (unat x)) b"

definition ref_unhex :: "string \<Rightarrow> bytes" where
  "ref_unhex s = map (\<lambda>c. of_nat (of_char c)) s"

lemma ref_unhex_hex [simp]: "ref_unhex (ref_hex b) = b"
proof -
  have "unat x mod 256 = unat x" for x :: u8
    using unat_less_exp [of x] by simp
  then show ?thesis by (simp add: ref_hex_def ref_unhex_def comp_def)
qed

text \<open>A node that serves the chain \<open>ns\<close> and the state \<open>s\<close>.\<close>

definition ref_node :: "'c entry list \<Rightarrow> storage \<Rightarrow> OpaqueBlock client" where
  "ref_node ns s =
     \<lparr>request_metadata = Ok (Some ''0x''),
      request_block_hash = (\<lambda>h. Ok (map_option (\<lambda>x. ''0x'' @ ref_hex (le_digits 32 (unat x))) (hash_at ns h))),
      request_block = (\<lambda>x. Ok (map_of (map (\<lambda>(hash, b, txs). (hash, b)) ns) (of_nat (le_value (ref_unhex x))))),
      request_storage = (\<lambda>k. Ok (map_option (\<lambda>b. ''0x'' @ ref_hex b) (s (ref_unhex k)))),
      submit_extrinsic = (\<lambda>_. Ok []),
      json_field = (\<lambda>b f. if f = ''block'' then Some b else None), json_block = Some,
      hex_encode = ref_hex, hex_decode = (\<lambda>x. Some (ref_unhex x)),
      h256_to_bytes = (\<lambda>x. le_digits 32 (unat x)), h256_from_bytes = (\<lambda>b. of_nat (le_value b)),
      metadata_codec = map_codec (\<lambda>_. default_metadata) (\<lambda>_. ()) unit_codec\<rparr>"

lemma le_value_h256 [simp]: "of_nat (le_value (le_digits 32 (unat x))) = (x :: H256)"
proof -
  have "unat x < 256 ^ 32" using unat_less_exp [of x] by simp
  then show ?thesis by (simp add: le_value_le_digits)
qed

lemma ref_node_serves:
  assumes "distinct (map fst ns)"
  shows "node_serves (ref_node ns s) ns"
proof -
  have "node_get_block (ref_node ns s) hash = Ok (Some b)" if "(hash, b, txs) \<in> set ns" for hash b txs
  proof -
    have "map_of (map (\<lambda>(hash, b, txs). (hash, b)) ns) hash = Some b"
      using assms that by (intro map_of_is_SomeI) (force simp: comp_def case_prod_unfold)+
    then show ?thesis by (simp add: node_get_block_def ref_node_def)
  qed
  moreover have "node_get_block_hash (ref_node ns s) h = Ok (hash_at ns h)" for h
    by (cases "hash_at ns h") (simp_all add: node_get_block_hash_def ref_node_def h256_from_string_def
        strip_0x_prefix_def ref_hex_def [symmetric] length_le_digits)
  ultimately show ?thesis by (auto simp: node_serves_def list_all_iff)
qed

lemma ref_node_storage: "serves_storage (ref_node ns s) s"
  by (simp add: serves_storage_def ref_node_def)

definition ref_keystore :: keystore where
  "ref_keystore = \<lparr>sr25519_sign = (\<lambda>k pub m. Ok (Some (of_nat (unat pub)))), has_keys = (\<lambda>_. True)\<rparr>"

lemma ref_keystore_signs: "sign_with ref_keystore pub m = Ok sig \<Longrightarrow> sr25519_verify ref_host sig m pub"
proof -
  have "unat pub < 2 ^ LENGTH(512)" using unat_less_exp [of pub] by simp
  then have "unat (of_nat (unat pub) :: Signature) = unat pub" by (rule unat_of_nat_small)
  then show "sign_with ref_keystore pub m = Ok sig \<Longrightarrow> sr25519_verify ref_host sig m pub"
    by (auto simp: sign_with_def ref_keystore_def ref_host_def)
qed

subsection \<open>Two forks\<close>

text \<open>On the reference host an extrinsic is the body of its transaction.\<close>

definition ref_extrinsic :: "(OuterVerifier, OuterConstraintChecker) Transaction \<Rightarrow> bytes" where
  "ref_extrinsic tx = encode (inputs_codec ref_host) (inputs tx) @ encode (output_refs_codec ref_host) (peeks tx)
     @ encode (outputs_codec ref_tv) (outputs tx) @ encode ref_cc (checker tx)"

lemma ref_extrinsic_opaque:
  assumes "length (ref_extrinsic tx) < 2 ^ 32"
  shows "opaque_of ref_host ref_runtime ref_cc (ref_extrinsic tx) tx"
proof -
  have bytes: "encode (bytes_codec ref_host) b = replicate (length b) 1 @ 0 # b" for b
    by (simp add: ref_host_def ref_bytes_codec_def list_codec_def byte_codec_def)
  have compact: "encode (compact_u32_codec ref_host) n = replicate (unat n) 1 @ [0]" for n
    by (simp add: ref_host_def unary_codec_def)
  have "unat (of_nat (length (ref_extrinsic tx)) :: u32) = length (ref_extrinsic tx)"
    using assms by (simp add: unat_of_nat_small)
  then show ?thesis
    by (simp add: opaque_of_def transaction_codec_def encode_transaction_def Let_def compact bytes)
      (simp add: ref_extrinsic_def add.commute add.left_commute)
qed

definition wallet_mint :: "u128 \<Rightarrow> (OuterVerifier, OuterConstraintChecker) Transaction" where
  "wallet_mint a = mint_transaction ref_runtime (\<lambda>c. c) \<lparr>mint_amount = a, mint_owner = 5\<rparr>"

lemma wallet_mint_small: "length (ref_extrinsic (wallet_mint a)) < 2 ^ 32"
proof -
  have outs: "outputs_codec ref_tv = list_codec (ref_output_codec (tagged_codec outer_verifier_tag outer_verifier_untag))"
    by (simp add: template_verifier_def outer_verifier_def aggregate_verifier_def verifier_dictionary_def
        ref_runtime_def ref_verifier_codecs_def)
  have cc: "ref_cc = tagged_codec outer_checker_tag outer_checker_untag"
    by (simp add: template_checker_def aggregate_checker_def ref_runtime_def)
  have ins: "inputs_codec ref_host = list_codec ref_input_codec" "output_refs_codec ref_host = list_codec ref_output_ref_codec"
    by (simp_all add: ref_host_def)
  have list: "encode (list_codec c) xs = replicate (length xs) 1 @ 0 # concat (map (encode c) xs)" for c :: "'x codec" and xs
    by (simp add: list_codec_def)
  have map: "encode (map_codec f g c) y = encode c (g y)" for f g and c :: "'x codec" and y :: 'y
    by (simp add: map_codec_def)
  have pair: "encode (pair_codec c c') (x, y) = encode c x @ encode c' y" for c :: "'x codec" and c' :: "'y codec" and x y
    by (simp add: pair_codec_def)
  show ?thesis
    by (simp add: ref_extrinsic_def wallet_mint_def mint_transaction_def output_from_pair_def outs cc ins list map pair
        ref_output_codec_def ref_data_codec_def tagged_codec_def ref_bytes_codec_def byte_codec_def byte4_codec_def
        outer_verifier_tag_def outer_checker_tag_def coin_data_def ref_coin_codec_def sum_list_replicate comp_def)
qed

definition ref_filter :: "OuterVerifier \<Rightarrow> bool" where
  "ref_filter = keystore_filter ref_host ref_keystore"

lemma ref_filter_simps [simp]: "ref_filter (OuterSr25519Signature sig)" "\<not> ref_filter (OuterUpForGrabs g)"
  "\<not> ref_filter (OuterThresholdMultiSignature m)"
  by (simp_all add: ref_filter_def has_key_def ref_keystore_def)

lemma wallet_mint_readable: "readable ref_runtime ref_filter (wallet_mint a)"
  by (simp add: readable_def readable_output_def wallet_mint_def mint_transaction_def output_from_pair_def
      view_def coin_data_def timestamp_data_def scale_codec.decode_value_encode [OF scale_codec_coin])

definition ref_block :: "u32 \<Rightarrow> (OuterVerifier, OuterConstraintChecker) Transaction list \<Rightarrow> OpaqueBlock" where
  "ref_block n txs = \<lparr>opaque_header = \<lparr>parent_hash = 0, number = n, state_root = 0, extrinsics_root = 0, digest = []\<rparr>,
     opaque_extrinsics = map ref_extrinsic txs\<rparr>"

definition genesis_entry :: "OuterConstraintChecker entry" where
  "genesis_entry = (1, ref_block 0 [wallet_mint 7], [wallet_mint 7])"

definition orphan_entry :: "OuterConstraintChecker entry" where
  "orphan_entry = (2, ref_block 1 [], [])"

definition best_entry :: "OuterConstraintChecker entry" where
  "best_entry = (3, ref_block 1 [], [])"

abbreviation ref_trackable :: "OuterConstraintChecker entry list \<Rightarrow> bool" where
  "ref_trackable \<equiv> trackable ref_host ref_runtime ref_cc ref_filter"

abbreviation ref_synced :: "ref_db \<Rightarrow> OuterConstraintChecker entry list \<Rightarrow> bool" where
  "ref_synced \<equiv> synced ref_host ref_wallet ref_contents ref_runtime ref_cc ref_filter"

lemma genesis_trackable: "ref_trackable [genesis_entry]"
proof -
  have "trackable ref_host ref_runtime ref_cc ref_filter ([] @ [genesis_entry])"
    unfolding genesis_entry_def
  proof (rule trackable_snoc)
    show "list_all2 (opaque_of ref_host ref_runtime ref_cc) (opaque_extrinsics (ref_block 0 [wallet_mint 7])) [wallet_mint 7]"
      by (simp add: ref_block_def ref_extrinsic_opaque [OF wallet_mint_small])
    show "clean_all ref_host ref_runtime ref_cc ref_filter (tracking ref_host ref_runtime ref_cc ref_filter []) [wallet_mint 7]"
      by (simp add: clean_def tracking_def fresh_wallet_def input_refs_def list_all_iff)
  qed (simp_all add: trackable_Nil ref_block_def wallet_mint_readable)
  then show ?thesis by simp
qed

lemma fork_trackable: "ref_trackable [genesis_entry, orphan_entry]" "ref_trackable [genesis_entry, best_entry]"
proof -
  have "trackable ref_host ref_runtime ref_cc ref_filter ([genesis_entry] @ [(hash, ref_block 1 [], [])])"
    if "hash \<noteq> 1" for hash
    using genesis_trackable by (rule trackable_snoc) (use that in \<open>simp_all add: ref_block_def genesis_entry_def\<close>)
  then show "ref_trackable [genesis_entry, orphan_entry]" "ref_trackable [genesis_entry, best_entry]"
    by (simp_all add: orphan_entry_def best_entry_def)
qed

lemma orphan_db: "\<exists>d0 d. ref_synced d0 [genesis_entry] \<and> ref_synced d [genesis_entry, orphan_entry]"
proof -
  obtain d0 where d0: "ref_synced d0 ([] @ [genesis_entry])"
    using ref_wallet.synced_apply [OF empty_db_synced, of ref_filter 1 "ref_block 0 [wallet_mint 7]" "[wallet_mint 7]"]
      genesis_trackable by (auto simp: genesis_entry_def)
  obtain d where "ref_synced d ([genesis_entry] @ [orphan_entry])"
    using ref_wallet.synced_apply [of ref_filter d0 "[genesis_entry]" 2 "ref_block 1 []" "[]"] d0 fork_trackable(1)
    by (auto simp: orphan_entry_def)
  with d0 show ?thesis by auto
qed

subsection \<open>Instances of the theorems\<close>

theorem unapply_apply_block_witness:
  "\<exists>d1 d2. apply_block ref_host ref_runtime ref_wallet ref_cc ref_filter (ref_block 0 [wallet_mint 7]) 1 empty_db = (d1, Ok ())
     \<and> unapply_highest_block ref_host ref_runtime ref_wallet ref_cc d1 = (d2, Ok ())
     \<and> ref_contents d2 UNSPENT = ref_contents empty_db UNSPENT"
  using unapply_apply_block [OF ref_wallet.wallet_chain_axioms empty_db_synced, of ref_filter 1
      "ref_block 0 [wallet_mint 7]" "[wallet_mint 7]"] genesis_trackable
  by (auto simp: genesis_entry_def)

theorem synchronize_follows_node_witness:
  "\<exists>d d'. ref_synced d [genesis_entry, orphan_entry]
     \<and> synchronize_helper ref_host ref_runtime ref_wallet ref_cc (ref_node [genesis_entry, best_entry] Map.empty)
         ref_filter d = Some (d', Ok ())
     \<and> ref_synced d' [genesis_entry, best_entry]"
proof -
  obtain d where d: "ref_synced d [genesis_entry, orphan_entry]" using orphan_db by blast
  have "node_serves (ref_node [genesis_entry, best_entry] Map.empty) [genesis_entry, best_entry]"
    by (rule ref_node_serves) (simp add: genesis_entry_def best_entry_def)
  moreover have "hash_linked [genesis_entry, orphan_entry] [genesis_entry, best_entry]"
    by (auto simp: hash_linked_def less_Suc_eq orphan_entry_def best_entry_def)
  ultimately have "\<exists>d'. synchronize_helper ref_host ref_runtime ref_wallet ref_cc
      (ref_node [genesis_entry, best_entry] Map.empty) ref_filter d = Some (d', Ok ())
      \<and> ref_synced d' [genesis_entry, best_entry]"
    using d fork_trackable
    by (intro synchronize_follows_node [OF ref_wallet.wallet_chain_axioms, where ws = "[genesis_entry, orphan_entry]"])
      simp_all
  with d show ?thesis by blast
qed

theorem wallet_reports_ledger_witness:
  "\<exists>s d. chain ref_host ref_tv ref_tc template_txs_codec ref_client [wallet_mint 7] [] s
     \<and> ref_synced d [genesis_entry]
     \<and> (\<exists>d'. get_unspent ref_host ref_wallet \<lparr>tx_hash = transaction_hash ref_host ref_tv ref_cc (wallet_mint 7), index = 0\<rparr> d
           = (d', Ok (Some (5, 7))))"
proof -
  have "snd (build ref_host ref_tv ref_tc template_txs_codec [wallet_mint 7] Map.empty) = Ok ()"
    unfolding build_def build_transactions_Ok by (simp add: wallet_mint_def mint_transaction_def)
  then obtain s where s: "build ref_host ref_tv ref_tc template_txs_codec [wallet_mint 7] Map.empty = (s, Ok ())"
    by (metis prod.collapse)
  obtain g where "build_genesis_block ref_host ref_tv ref_tc template_txs_codec ref_client s
      = Ok (g, s(EXTRINSIC_KEY := None))"
    by (simp add: build_genesis_block_def ref_client_def Let_def)
  with empty_base s have c: "chain ref_host ref_tv ref_tc template_txs_codec ref_client [wallet_mint 7] []
      (s(EXTRINSIC_KEY := None))"
    by (rule chain_genesis)
  let ?r = "\<lparr>tx_hash = transaction_hash ref_host ref_tv ref_cc (wallet_mint 7), index = 0\<rparr>"
  let ?U = "ledger_of ref_host ref_tv (s(EXTRINSIC_KEY := None))"
  have outs: "outputs (wallet_mint 7) = [\<lparr>payload = into_data (coin_data 0 ref_coin_codec) (Coin 7),
      verifier = OuterSr25519Signature \<lparr>owner_pubkey = 5\<rparr>\<rparr>]" "inputs (wallet_mint 7) = []"
    by (simp_all add: wallet_mint_def mint_transaction_def output_from_pair_def coin_new_def)
  have small: "small_outputs (chain_history [wallet_mint 7] [])" by (simp add: chain_history_def outs)
  obtain d where d: "ref_synced d [genesis_entry]" using orphan_db by blast
  obtain d' where get: "get_unspent ref_host ref_wallet ?r d = (d', Ok (owned ref_runtime ref_filter ?U ?r))"
    using wallet_reports_ledger [OF ref_wallet.wallet_chain_axioms ref_template.template_executive c small _ _ _ d]
    by (auto simp: outs output_refs_of_def chain_history_def entry_transactions_def genesis_entry_def)
  have "?U = replay ref_host ref_tv ref_cc [wallet_mint 7] Map.empty"
    using executive.chain_ledger [OF ref_template.template_executive c small] by (simp add: chain_history_def)
  then have "owned ref_runtime ref_filter ?U ?r = Some (5, 7)"
    by (simp add: replay_def ledger_update_def created_outputs_def output_refs_of_def outs owned_def view_def
        scale_codec.decode_value_encode [OF scale_codec_coin] coin_data_def)
  with c d get show ?thesis by auto
qed

definition spend_state :: storage where
  "spend_state = utxo_state ref_tv [(rn 100, \<lparr>payload = into_data (coin_data 0 ref_coin_codec) (Coin 7),
     verifier = OuterSr25519Signature \<lparr>owner_pubkey = 5\<rparr>\<rparr>)] 1"

definition spend_node :: "OpaqueBlock client" where
  "spend_node = ref_node ([] :: OuterConstraintChecker entry list) spend_state"

lemma spend_node_storage: "serves_storage spend_node spend_state"
  by (simp add: spend_node_def ref_node_storage)

definition spend_args :: SpendArgs where
  "spend_args = \<lparr>spend_input = [rn 100], spend_recipient = 9, output_amount = [3]\<rparr>"

lemma spend_state_ledger: "ledger_of ref_host ref_tv spend_state
    = [rn 100 \<mapsto> \<lparr>payload = into_data (coin_data 0 ref_coin_codec) (Coin 7),
        verifier = OuterSr25519Signature \<lparr>owner_pubkey = 5\<rparr>\<rparr>]"
  unfolding spend_state_def
  by (subst utxo_state_ledger) (simp_all add: ref_template.template.verifier_laws_axioms)

lemma coin_view [simp]: "view (coin_data 0 ref_coin_codec) (into_data (coin_data 0 ref_coin_codec) c) = Some c"
  by (simp add: view_def coin_data_def scale_codec.decode_value_encode [OF scale_codec_coin])

lemma spend_table:
  "unspent_coins (receive (rn 100) (5, 7) fresh_wallet)
    = owned ref_runtime ref_filter (ledger_of ref_host ref_tv spend_state)"
  by (auto simp: receive_def fresh_wallet_def owned_def spend_state_ledger fun_eq_iff)

lemma spend_builds:
  assumes "represents ref_host ref_wallet ref_contents d (receive (rn 100) (5, 7) fresh_wallet)"
  shows "\<exists>d' tx. build_spend ref_host ref_runtime ref_wallet ref_cc (\<lambda>c. c) spend_node ref_keystore spend_args d
    = (d', Ok tx) \<and> input_refs tx = [rn 100] \<and> length (outputs tx) = 1"
proof -
  have fetch: "fetch_storage ref_host ref_tv spend_node (rn 100) = Ok \<lparr>payload = into_data (coin_data 0 ref_coin_codec) (Coin 7),
      verifier = OuterSr25519Signature \<lparr>owner_pubkey = 5\<rparr>\<rparr>"
    by (simp add: fetch_storage_Ok [OF spend_node_storage] spend_state_ledger)
  have coin: "get_coin_from_storage ref_host ref_runtime spend_node (rn 100) = Ok (Coin 7, OuterSr25519Signature \<lparr>owner_pubkey = 5\<rparr>)"
    by (simp add: get_coin_from_storage_def fetch extract_data_def coin_data_def
        scale_codec.decode_value_encode [OF scale_codec_coin])
  obtain d1 where "total_input ref_host ref_wallet 0 [rn 100] d = (d1, Ok 7)"
    using ref_wallet.total_input_result [OF assms, of 0 "[rn 100]"]
    by (auto simp: receive_def coin_amount_def fresh_wallet_def)
  then have sel: "select_inputs ref_host ref_wallet spend_args d = (d1, Ok [rn 100])"
    by (simp add: select_inputs_def spend_args_def wbind_def wlift_def)
  obtain sig where sig: "sign_with ref_keystore 5 m = Ok sig" for m
    by (auto simp: sign_with_def ref_keystore_def)
  have "\<exists>i'. sign_input ref_host ref_runtime spend_node ref_keystore m \<lparr>output_ref = rn 100, redeemer = default_redemption\<rparr> = Ok i'
      \<and> output_ref i' = rn 100" for m
    by (simp add: sign_input_def fetch sig)
  moreover have "length (spend_outputs ref_runtime spend_args) = 1"
    by (simp add: spend_outputs_def spend_args_def)
  ultimately show ?thesis
    unfolding build_spend_def Let_def
    by (auto simp: wbind_def wlift_def sel coin input_refs_def sign_input_def fetch sig)
qed

theorem wallet_spend_accepted_witness:
  "\<exists>d d' tx. build_spend ref_host ref_runtime ref_wallet ref_cc (\<lambda>c. c) spend_node ref_keystore spend_args d
       = (d', Ok tx)
     \<and> snd (apply_tuxedo_transaction ref_host ref_tv ref_tc tx spend_state) = Ok ()"
proof -
  obtain d where d: "represents ref_host ref_wallet ref_contents d (receive (rn 100) (5, 7) fresh_wallet)"
    using ref_wallet.computes_add_unspent [of "rn 100" 5 7 fresh_wallet, THEN computesD, OF empty_db_represents] by blast
  obtain d' tx where build: "build_spend ref_host ref_runtime ref_wallet ref_cc (\<lambda>c. c) spend_node ref_keystore spend_args d = (d', Ok tx)"
    and tx: "input_refs tx = [rn 100]" "length (outputs tx) = 1"
    using spend_builds [OF d] by blast
  have "input_worth 0 ref_coin_codec (ledger_of ref_host ref_tv spend_state) tx < 2 ^ 128"
    by (simp add: input_worth_def tx total_worth_def ledger_payloads_def spend_state_ledger scale_codec_coin)
  moreover have "list_all (\<lambda>r. ledger_of ref_host ref_tv spend_state r = None) (output_refs_of ref_host ref_tv ref_cc tx)"
    by (auto simp: output_refs_of_def tx spend_state_ledger rn_def list_all_iff)
  moreover have "block_height ref_host spend_state = Some 1" by (simp add: spend_state_def utxo_state_height)
  ultimately have "snd (apply_tuxedo_transaction ref_host ref_tv ref_tc tx spend_state) = Ok ()"
    using wallet_spend_accepted [OF ref_wallet.wallet_laws_axioms ref_template.template_laws_axioms _ d spend_table spend_node_storage
        _ ref_keystore_signs build] tx
    by (simp add: spend_args_def scale_codec_coin)
  with build show ?thesis by blast
qed

theorem amoeba_demo_rejected_witness:
  "snd (apply_tuxedo_transaction ref_host ref_tv ref_tc (mitosis_tx ref_runtime (\<lambda>c. c) (rn 100))
     (template_state [(rn 100, into_data (amoeba_data ref_amoeba_codec) eve)] 1)) \<noteq> Ok ()"
proof (rule amoeba_demo_rejected [OF ref_template.template_laws_axioms template_state_height])
  have "redeemer_codec ref_tv = tagged_codec outer_redeemer_tag outer_redeemer_untag"
    by (simp add: template_verifier_def outer_verifier_def aggregate_verifier_def verifier_dictionary_def
        ref_runtime_def ref_verifier_codecs_def)
  then show "decode_value (redeemer_codec ref_tv) [] = None"
    by (simp add: decode_value_def tagged_codec_def map_codec_def pair_codec_def byte_codec_def)
qed

end
