(* ===== verification/Wallet_Main_Instance.thy ===== *)
theory Wallet_Main_Instance
  imports Wallet_Main Wallet_Instance
begin

text \<open>
  A concrete keystore, kept as the files of its directory and the keys of the session; a system that offers it with an empty database and
  the reference node; and the theorems on the wallet's program at concrete runs.
\<close>

subsection \<open>The keystore\<close>

type_synonym ref_keys = "(string \<rightharpoonup> string) \<times> (byte4 \<times> bytes) set"

definition ref_keys_path :: string where "ref_keys_path = ''keystore''"

definition ref_path_join :: "string \<Rightarrow> string \<Rightarrow> string" where
  "ref_path_join p name = p @ ''/'' @ name"

fun ref_knows :: "ref_keys \<Rightarrow> bytes \<times> byte4 \<Rightarrow> bool" where
  "ref_knows (fs, ks) (pub, kt) \<longleftrightarrow> (kt, pub) \<in> ks \<or> fs (ref_hex (byte4_bytes kt) @ ref_hex pub) \<noteq> None"

fun ref_insert :: "byte4 \<Rightarrow> string \<Rightarrow> bytes \<Rightarrow> ref_keys \<Rightarrow> ref_keys \<times> (unit, unit) result" where
  "ref_insert kt suri pub (fs, ks) = ((fs(ref_hex (byte4_bytes kt) @ ref_hex pub \<mapsto> suri), ks), Ok ())"

fun ref_remove :: "string \<Rightarrow> ref_keys \<Rightarrow> ref_keys \<times> (unit, WalletError) result" where
  "ref_remove path (fs, ks) =
     (let name = drop (length ref_keys_path + 1) path in
      if fs name = None then ((fs, ks), Err IoError) else ((fs(name := None), ks), Ok ()))"

definition ref_pair :: "string \<Rightarrow> Public" where
  "ref_pair phrase = of_nat (length phrase)"

fun ref_generate :: "byte4 \<Rightarrow> string option \<Rightarrow> ref_keys \<Rightarrow> ref_keys \<times> (Public, WalletError) result" where
  "ref_generate kt (Some phrase) (fs, ks) =
     ((fs, insert (kt, encode (h256_codec ref_host) (ref_pair phrase)) ks), Ok (ref_pair phrase))"
| "ref_generate kt None k = (k, Err KeystoreError)"

definition ref_keystores :: "ref_keys keystore_host" where
  "ref_keystores =
     \<lparr>keystore_view = (\<lambda>k. ref_keystore\<lparr>has_keys := list_all (ref_knows k)\<rparr>),
      sr25519_generate_new = ref_generate, keystore_insert = ref_insert,
      keystore_keys = (\<lambda>_ _. Ok []), remove_file = ref_remove,
      pair_from_phrase = (\<lambda>p. Ok (ref_pair p)), generate_with_phrase = (\<lambda>_. (ref_pair [], [])),
      public_bytes = encode (h256_codec ref_host), path_join = ref_path_join, key_hex = ref_hex\<rparr>"

lemma ref_hex_inject: "ref_hex b = ref_hex b' \<longleftrightarrow> b = b'"
  by (metis ref_unhex_hex)

lemma ref_remove_join: "drop (Suc (length ref_keys_path)) (ref_path_join ref_keys_path name) = name"
  by (simp add: ref_path_join_def)

interpretation ref_keystores: keystore_laws ref_host ref_keystores fst snd ref_keys_path
proof (rule keystore_laws.intro)
  show "scale_codec (h256_codec ref_host)" by (rule ref.h256_lawful)
qed (auto simp: ref_keystores_def ref_hex_inject ref_remove_join Let_def)

subsection \<open>The system\<close>

definition ref_world :: "string list \<Rightarrow> (ref_db, ref_keys) world" where
  "ref_world ls = \<lparr>world_db = empty_db, world_keys = (Map.empty, {}), world_input = ls, world_out = [],
     world_sent = [], world_removed = [], world_removal_failed = []\<rparr>"

definition ref_entries :: "(H256 \<rightharpoonup> u128) \<Rightarrow> (H256 \<times> u128) list" where
  "ref_entries m = map (\<lambda>k. (k, the (m k))) (sorted_list_of_set (dom m))"

lemma ref_entries_exact:
  assumes "finite (dom m)"
  shows "distinct (map fst (ref_entries m)) \<and> map_of (ref_entries m) = m"
proof
  have keys: "map fst (ref_entries m) = sorted_list_of_set (dom m)"
    by (simp add: ref_entries_def comp_def)
  then show "distinct (map fst (ref_entries m))" by simp
  show "map_of (ref_entries m) = m"
    using assms by (auto simp: fun_eq_iff ref_entries_def map_of_map_restrict restrict_map_def dom_def)
qed

definition ref_system :: "(OpaqueBlock client, WalletError) result \<Rightarrow> (ref_db, ref_keys, OpaqueBlock) system" where
  "ref_system N =
     \<lparr>client_at = (\<lambda>_. N), client_later = (\<lambda>x. x), keystore_at = (\<lambda>_. Ok (Map.empty, {})),
      db_at = (\<lambda>_. (empty_db, True)), env_temp_dir = ''tmp'', epoch_millis = Some 17, project_data_dir = (\<lambda>_ _ _. Some ''data''),
      remove_dir_all = (\<lambda>_. Ok ()), map_entries = ref_entries\<rparr>"

definition ref_cli :: Cli where
  "ref_cli = \<lparr>endpoint = DEFAULT_ENDPOINT, base_path = None, no_sync = True, cli_tmp = True, cli_dev = False,
     command = Some ShowKeys\<rparr>"

definition ref_parachain_codec :: "WalletParachainChecker codec" where
  "ref_parachain_codec =
     \<lparr>encode = (\<lambda>c. case c of Normal c \<Rightarrow> 0 # encode ref_cc c | Parachain \<Rightarrow> [1]),
      decode = (\<lambda>b. case b of
          [] \<Rightarrow> None
        | x # r \<Rightarrow> if x = 0 then map_option (\<lambda>(c, r). (Normal c, r)) (decode ref_cc r) else Some (Parachain, r))\<rparr>"

abbreviation ref_main :: "(OpaqueBlock client, WalletError) result
    \<Rightarrow> ((ref_db, ref_keys) world \<times> (unit, WalletError) result) option" where
  "ref_main N \<equiv> wallet_main ref_host ref_runtime ref_wallet ref_parachain_codec ref_keystores (ref_system N) ref_cli (ref_world [])"

text \<open>The wallet starts from an empty database on a node with a genesis block.\<close>

abbreviation genesis_node :: "OpaqueBlock client" where
  "genesis_node \<equiv> ref_node [genesis_entry] Map.empty"

lemma genesis_metadata [simp]: "node_get_metadata genesis_node = Ok default_metadata"
  by (simp add: node_get_metadata_def ref_node_def metadata_from_string_def strip_0x_prefix_def
      decode_value_def map_codec_def unit_codec_def ref_unhex_def)

lemma genesis_prepared:
  "\<exists>d. prepare_db ref_host ref_runtime ref_wallet cc genesis_node flt True empty_db = (d, Ok ())"
proof -
  have "node_serves genesis_node [genesis_entry]" by (rule ref_node_serves) simp
  then have "node_get_block_hash genesis_node 0 = Ok (Some 1)"
    "node_get_block genesis_node 1 = Ok (Some (ref_block 0 [wallet_mint 7]))"
    by (simp_all add: node_serves_def genesis_entry_def hash_at_def)
  then show ?thesis
    by (simp add: prepare_db_def open_db_def height_def wbind_def wlift_def ref_wallet_def ref_sled_def empty_db_def
        Let_def DAList.update.rep_eq DAList.empty.rep_eq)
qed

lemma ref_system_simps:
  "client_at (ref_system N) e = N" "keystore_at (ref_system N) p = Ok (Map.empty, {})"
  "db_at (ref_system N) p = (empty_db, True)" "remove_dir_all (ref_system N) p = Ok ()" "keystore_keys ref_keystores kt k = Ok []"
  by (simp_all add: ref_system_def ref_keystores_def)

lemma ref_temp_dir: "temp_dir ref_keystores (ref_system N) = Ok ''tmp/tuxedo-wallet-17''"
  by (simp add: temp_dir_def ref_system_def ref_keystores_def ref_path_join_def decimal.simps char_of_def bit_0)

lemma genesis_start:
  "\<exists>w. start_wallet ref_host ref_runtime ref_wallet pcc ref_keystores (ref_system (Ok genesis_node)) ref_cli path w0
     = (w, Ok (genesis_node, False))"
proof -
  obtain d where "prepare_db ref_host ref_runtime ref_wallet (outer_checker_codec ref_runtime) genesis_node
      (keystore_filter ref_host (keystore_view ref_keystores (Map.empty, {}))) True empty_db = (d, Ok ())"
    using genesis_prepared by blast
  then show ?thesis
    by (simp add: start_wallet_def Let_def ref_system_simps ref_cli_def put_keys_def on_keys_def put_db_def on_db_def
        current_keys_def wbind_def wlift_def default_metadata_def metadata_is_parachain_def)
qed

subsection \<open>Instances of the theorems\<close>

theorem insert_remove_key_witness:
  "\<exists>w1 w2. insert_key ref_keystores ''seed'' (ref_world [''proceed '']) = (w1, Ok ())
     \<and> has_key ref_host (keystore_view ref_keystores (world_keys w1)) 4
     \<and> remove_key_command ref_keystores ref_keys_path 4 w1 = (w2, Ok ())
     \<and> \<not> has_key ref_host (keystore_view ref_keystores (world_keys w2)) 4"
proof -
  have "pair_from_phrase ref_keystores ''seed'' = Ok 4" by (simp add: ref_keystores_def ref_pair_def)
  moreover have "world_input (ref_world [''proceed '']) = ''proceed '' # []" by (simp add: ref_world_def)
  ultimately have "\<exists>w1 w2. insert_key ref_keystores ''seed'' (ref_world [''proceed '']) = (w1, Ok ())
    \<and> keystore_filter ref_host (keystore_view ref_keystores (world_keys w1)) (OuterSr25519Signature \<lparr>owner_pubkey = 4\<rparr>)
    \<and> remove_key_command ref_keystores ref_keys_path 4 w1 = (w2, Ok ())
    \<and> (has_key ref_host (keystore_view ref_keystores (world_keys w2)) 4 \<longleftrightarrow> trim ''proceed '' \<noteq> ''proceed''
        \<or> (KEY_TYPE, public_bytes ref_keystores 4) \<in> snd (world_keys (ref_world [''proceed ''])))"
    using insert_remove_key [OF ref_keystores.keystore_laws_axioms] by blast
  moreover have "trim ''proceed '' = ''proceed''" by (simp add: trim_def whitespace_def)
  ultimately show ?thesis by (auto simp: ref_world_def)
qed

theorem show_balance_exact_witness:
  "\<exists>d w'. show_balance ref_wallet ref_entries (ref_world []\<lparr>world_db := d\<rparr>) = (w', Ok ())
     \<and> BalanceLine 5 7 \<in> set (world_out w') \<and> last (world_out w') = BalanceTotal 7"
proof -
  let ?st = "receive (rn 100) (5, 7) fresh_wallet"
  obtain d where d: "represents ref_host ref_wallet ref_contents d ?st"
    using ref_wallet.computes_add_unspent [of "rn 100" 5 7 fresh_wallet, THEN computesD, OF empty_db_represents] by blast
  then have d': "represents ref_host ref_wallet ref_contents (world_db (ref_world []\<lparr>world_db := d\<rparr>)) ?st" by simp
  have coins: "unspent_coins ?st = [rn 100 \<mapsto> (5, 7)]" by (simp add: receive_def fresh_wallet_def)
  then have amount: "coin_amount ?st (rn 100) = 7" by (simp add: coin_amount_def)
  have refs: "owned_refs ?st 5 = {rn 100}" by (auto simp: owned_refs_def coins split: if_splits)
  obtain w' ls where w': "show_balance ref_wallet ref_entries (ref_world []\<lparr>world_db := d\<rparr>) = (w', Ok ())"
      "world_out w' = world_out (ref_world []\<lparr>world_db := d\<rparr>) @ [BalanceSummary] @ map (\<lambda>(owner, b). BalanceLine owner b) ls
        @ [BalanceRule, BalanceTotal (\<Sum>r \<in> dom (unspent_coins ?st). coin_amount ?st r)]"
    and ls: "map_of ls = balance_of ?st"
    using show_balance_exact [OF ref_wallet.wallet_laws_axioms d' ref_entries_exact] by blast
  have "map_of ls 5 = Some 7" by (simp add: ls balance_of_def refs amount)
  then have "(5, 7) \<in> set ls" by (rule map_of_SomeD)
  with w' show ?thesis by (force simp: coins amount)
qed

theorem wallet_cleans_up_on_success_witness:
  "(\<exists>w. ref_main (Ok genesis_node) = Some (w, Ok ()) \<and> world_removed w = [''tmp/tuxedo-wallet-17''])
   \<and> (\<exists>w. ref_main (Err RpcError) = Some (w, Err RpcError) \<and> world_removed w = [])"
proof
  have runs: "\<exists>w. ref_main (Err RpcError) = Some (w, Err RpcError)"
    by (simp add: wallet_main_def ref_temp_dir data_path_def start_wallet_def Let_def ref_system_simps ref_cli_def wbind_def wlift_def
        put_keys_def on_keys_def)
  then show "\<exists>w. ref_main (Err RpcError) = Some (w, Err RpcError) \<and> world_removed w = []"
    using wallet_cleans_up_on_success by (fastforce simp: ref_world_def)
  obtain w1 where "start_wallet ref_host ref_runtime ref_wallet ref_parachain_codec ref_keystores (ref_system (Ok genesis_node))
      ref_cli ''tmp/tuxedo-wallet-17'' (ref_world []) = (w1, Ok (genesis_node, False))"
    using genesis_start by blast
  then have "\<exists>w. ref_main (Ok genesis_node) = Some (w, Ok ())"
    by (simp add: wallet_main_def ref_temp_dir data_path_def ref_cli_def get_keys_def current_keys_def finish_wallet_def wbind_def
        wlift_def ref_system_simps)
  then show "\<exists>w. ref_main (Ok genesis_node) = Some (w, Ok ()) \<and> world_removed w = [''tmp/tuxedo-wallet-17'']"
    using wallet_cleans_up_on_success by (fastforce simp: ref_world_def ref_cli_def ref_temp_dir)
qed

end
