(* ===== verification/Derive_Macros.thy ===== *)
theory Derive_Macros
  imports Tuxedo_Prelude
begin

text \<open>
  \<^verbatim>\<open>tuxedo-core/no_bound\<close>: the macros that derive \<^verbatim>\<open>Clone\<close>, \<^verbatim>\<open>Debug\<close> and \<^verbatim>\<open>Default\<close> without bounding
  the generics of a type.

  \<^item> The input is the part of \<^verbatim>\<open>syn\<close>'s syntax tree the macros inspect: the name, the generics (split into
    the three token lists \<^verbatim>\<open>split_for_impl\<close> gives), and the fields, variants and attributes. Parsing the
    tokens is \<^verbatim>\<open>syn\<close>'s work and a parameter. Spans are left out.
  \<^item> The output is the syntax tree of the generated item, or a compile error with its messages.
  \<^item> The meaning of generated code: values of a type are a variant and its fields; \<open>run_body\<close> evaluates
    the generated body of a method on a value, with the fields' own \<^verbatim>\<open>clone\<close> and \<^verbatim>\<open>default\<close> as
    parameters. \<open>None\<close> is code that does not compile (an unknown field, a pattern that
    does not bind all fields, no arm for a variant).

  The theorems say what the derived methods do on every value of the type, and exactly when \<^verbatim>\<open>Default\<close> is derived.
\<close>

subsection \<open>The input\<close>

datatype Fields = Named "string list" | Unnamed nat | UnitFields

record Variant =
  variant_ident :: string
  variant_attrs :: "string list"
  variant_fields :: Fields

datatype Data = Struct Fields | Enum "Variant list" | Union

record Generics =
  impl_generics :: string
  ty_generics :: string
  where_clause :: string

record DeriveInput =
  input_ident :: string
  input_generics :: Generics
  input_data :: Data

subsection \<open>The output\<close>

datatype member = FieldName string | FieldIndex nat

datatype place = SelfMember member | Captured string

datatype expr = CloneOf place | DefaultCall

datatype path = SelfPath | SelfVariant string

datatype constructor = CtorNamed "(string \<times> expr) list" | CtorTuple "expr list" | CtorUnit

datatype pattern = PatNamed string "string list" | PatTuple string "string list" | PatUnit string

datatype body =
    Construct path constructor
  | DebugStruct string string "(string \<times> place) list"
  | DebugTuple string string "place list"
  | WriteStr string string
  | MatchSelf "(pattern \<times> body) list"

record Impl =
  impl_trait :: string
  impl_type :: string
  impl_of_generics :: Generics
  impl_body :: body

datatype macro_output = Generated Impl | CompileError "string list"

subsection \<open>Clone\<close>

text \<open>The captured names of a tuple are \<^verbatim>\<open>_0\<close>, \<^verbatim>\<open>_1\<close>, \<dots>\<close>

definition tuple_captures :: "nat \<Rightarrow> string list" where
  "tuple_captures n = map (\<lambda>i. ''_'' @ decimal i) [0..<n]"

fun clone_struct_body :: "Fields \<Rightarrow> body" where
  "clone_struct_body (Named names) =
     Construct SelfPath (CtorNamed (map (\<lambda>i. (i, CloneOf (SelfMember (FieldName i)))) names))"
| "clone_struct_body (Unnamed n) =
     Construct SelfPath (CtorTuple (map (\<lambda>i. CloneOf (SelfMember (FieldIndex i))) [0..<n]))"
| "clone_struct_body UnitFields = Construct SelfPath CtorUnit"

definition clone_variant_arm :: "Variant \<Rightarrow> pattern \<times> body" where
  "clone_variant_arm var =
     (let ident = variant_ident var in
      case variant_fields var of
        Named names \<Rightarrow>
          (PatNamed ident names,
           Construct (SelfVariant ident) (CtorNamed (map (\<lambda>i. (i, CloneOf (Captured i))) names)))
      | Unnamed n \<Rightarrow>
          (PatTuple ident (tuple_captures n),
           Construct (SelfVariant ident) (CtorTuple (map (\<lambda>i. CloneOf (Captured i)) (tuple_captures n))))
      | UnitFields \<Rightarrow> (PatUnit ident, Construct (SelfVariant ident) CtorUnit))"

definition derive_clone_no_bound :: "('t \<Rightarrow> string + DeriveInput) \<Rightarrow> 't \<Rightarrow> macro_output" where
  "derive_clone_no_bound parse tokens =
     (case parse tokens of
        Inr input \<Rightarrow>
          (let emit = (\<lambda>b. Generated \<lparr>impl_trait = ''core::clone::Clone'', impl_type = input_ident input,
                 impl_of_generics = input_generics input, impl_body = b\<rparr>)
           in case input_data input of
                Struct flds \<Rightarrow> emit (clone_struct_body flds)
              | Enum variants \<Rightarrow> emit (MatchSelf (map clone_variant_arm variants))
              | Union \<Rightarrow> CompileError [''Union type not supported by `derive(CloneNoBound)`''])
      | Inl e \<Rightarrow> CompileError [e])"

subsection \<open>Debug\<close>

text \<open>The generated calls have the method's parameter \<^verbatim>\<open>fmt\<close> as their receiver, by name.\<close>

fun debug_struct_body :: "string \<Rightarrow> Fields \<Rightarrow> body" where
  "debug_struct_body ident (Named names) =
     DebugStruct ''fmt'' ident (map (\<lambda>i. (i, SelfMember (FieldName i))) names)"
| "debug_struct_body ident (Unnamed n) =
     DebugTuple ''fmt'' ident (map (\<lambda>i. SelfMember (FieldIndex i)) [0..<n])"
| "debug_struct_body ident UnitFields = WriteStr ''fmt'' ident"

definition debug_variant_arm :: "string \<Rightarrow> Variant \<Rightarrow> pattern \<times> body" where
  "debug_variant_arm name var =
     (let ident = variant_ident var; full_variant_str = name @ ''::'' @ ident in
      case variant_fields var of
        Named names \<Rightarrow>
          (PatNamed ident names, DebugStruct ''fmt'' full_variant_str (map (\<lambda>i. (i, Captured i)) names))
      | Unnamed n \<Rightarrow>
          (PatTuple ident (tuple_captures n), DebugTuple ''fmt'' full_variant_str (map Captured (tuple_captures n)))
      | UnitFields \<Rightarrow> (PatUnit ident, WriteStr ''fmt'' full_variant_str))"

definition derive_debug_no_bound :: "('t \<Rightarrow> string + DeriveInput) \<Rightarrow> 't \<Rightarrow> macro_output" where
  "derive_debug_no_bound parse tokens =
     (case parse tokens of
        Inr input \<Rightarrow>
          (let emit = (\<lambda>b. Generated \<lparr>impl_trait = ''core::fmt::Debug'', impl_type = input_ident input,
                 impl_of_generics = input_generics input, impl_body = b\<rparr>)
           in case input_data input of
                Struct flds \<Rightarrow> emit (debug_struct_body (input_ident input) flds)
              | Enum variants \<Rightarrow> emit (MatchSelf (map (debug_variant_arm (input_ident input)) variants))
              | Union \<Rightarrow> CompileError [''Union type not supported by `derive(DebugNoBound)`''])
      | Inl e \<Rightarrow> CompileError [e])"

subsection \<open>Default\<close>

fun default_constructor :: "path \<Rightarrow> Fields \<Rightarrow> body" where
  "default_constructor p (Named names) = Construct p (CtorNamed (map (\<lambda>i. (i, DefaultCall)) names))"
| "default_constructor p (Unnamed n) = Construct p (CtorTuple (replicate n DefaultCall))"
| "default_constructor p UnitFields = Construct p CtorUnit"

definition default_attrs :: "Variant \<Rightarrow> string list" where
  "default_attrs var = filter (\<lambda>a. a = ''default'') (variant_attrs var)"

definition derive_default_enum :: "Variant list \<Rightarrow> string list + body" where
  "derive_default_enum variants =
     (if variants = [] then Inl [''cannot derive Default for an empty enum'']
      else
        (case filter (\<lambda>var. ''default'' \<in> set (variant_attrs var)) variants of
           [] \<Rightarrow> Inl [''no default declared, make a variant default by placing `#[default]` above it'']
         | [default_variant] \<Rightarrow>
             (case default_attrs default_variant of
                first_attr # second_attr # additional_attrs \<Rightarrow>
                  Inl (''multiple `#[default]` attributes'' # ''`#[default]` used here''
                    # map (\<lambda>_. ''`#[default]` used again here'') (second_attr # additional_attrs))
              | _ \<Rightarrow> Inr (default_constructor (SelfVariant (variant_ident default_variant))
                          (variant_fields default_variant)))
         | first # additional \<Rightarrow>
             Inl (''multiple declared defaults'' # ''first default''
               # map (\<lambda>_. ''additional default'') additional)))"

definition derive_default_no_bound :: "('t \<Rightarrow> string + DeriveInput) \<Rightarrow> 't \<Rightarrow> macro_output" where
  "derive_default_no_bound parse tokens =
     (case parse tokens of
        Inr input \<Rightarrow>
          (let emit = (\<lambda>b. Generated \<lparr>impl_trait = ''core::default::Default'', impl_type = input_ident input,
                 impl_of_generics = input_generics input, impl_body = b\<rparr>)
           in case input_data input of
                Struct flds \<Rightarrow> emit (default_constructor SelfPath flds)
              | Enum variants \<Rightarrow>
                  (case derive_default_enum variants of
                     Inr b \<Rightarrow> emit b | Inl es \<Rightarrow> CompileError es)
              | Union \<Rightarrow> CompileError [''Union type not supported by `derive(DefaultNoBound)`''])
      | Inl e \<Rightarrow> CompileError [e])"

subsection \<open>The meaning of generated code\<close>

datatype 'f payload = NamedFields "(string \<times> 'f) list" | TupleFields "'f list" | NoFields

record 'f rust_value =
  value_variant :: "string option"
  value_payload :: "'f payload"

datatype 'f outcome =
    Returned "'f rust_value"
  | DebuggedStruct string "(string \<times> 'f) list"
  | DebuggedTuple string "'f list"
  | Written string

fun member_value :: "'f payload \<Rightarrow> member \<Rightarrow> 'f option" where
  "member_value (NamedFields fs) (FieldName n) = map_of fs n"
| "member_value (TupleFields xs) (FieldIndex i) = (if i < length xs then Some (xs ! i) else None)"
| "member_value _ _ = None"

fun place_value :: "'f rust_value \<Rightarrow> (string \<times> 'f) list \<Rightarrow> place \<Rightarrow> 'f option" where
  "place_value self env (SelfMember m) = member_value (value_payload self) m"
| "place_value self env (Captured x) = map_of env x"

record 'f field_ops =
  clone_field :: "'f \<Rightarrow> 'f"
  default_field :: "path \<Rightarrow> member \<Rightarrow> 'f"

fun eval_expr :: "'f field_ops \<Rightarrow> 'f rust_value \<Rightarrow> (string \<times> 'f) list \<Rightarrow> path \<Rightarrow> member \<Rightarrow> expr \<Rightarrow> 'f option" where
  "eval_expr F self env p m (CloneOf pl) = map_option (clone_field F) (place_value self env pl)"
| "eval_expr F self env p m DefaultCall = Some (default_field F p m)"

fun path_variant :: "path \<Rightarrow> string option" where
  "path_variant SelfPath = None"
| "path_variant (SelfVariant v) = Some v"

fun eval_constructor ::
  "'f field_ops \<Rightarrow> 'f rust_value \<Rightarrow> (string \<times> 'f) list \<Rightarrow> path \<Rightarrow> constructor \<Rightarrow> 'f payload option" where
  "eval_constructor F self env p (CtorNamed es) =
     map_option (\<lambda>vs. NamedFields (zip (map fst es) vs))
       (those (map (\<lambda>(n, e). eval_expr F self env p (FieldName n) e) es))"
| "eval_constructor F self env p (CtorTuple es) =
     map_option TupleFields
       (those (map (\<lambda>(i, e). eval_expr F self env p (FieldIndex i) e) (enumerate 0 es)))"
| "eval_constructor F self env p CtorUnit = Some NoFields"

text \<open>A pattern without \<^verbatim>\<open>..\<close> has to bind every field of the variant.\<close>

fun match_pattern :: "pattern \<Rightarrow> 'f rust_value \<Rightarrow> (string \<times> 'f) list option" where
  "match_pattern (PatNamed v names) x =
     (case value_payload x of
        NamedFields fs \<Rightarrow> if value_variant x = Some v \<and> set names = set (map fst fs) then Some fs else None
      | _ \<Rightarrow> None)"
| "match_pattern (PatTuple v names) x =
     (case value_payload x of
        TupleFields xs \<Rightarrow> if value_variant x = Some v \<and> length names = length xs then Some (zip names xs) else None
      | _ \<Rightarrow> None)"
| "match_pattern (PatUnit v) x =
     (case value_payload x of NoFields \<Rightarrow> if value_variant x = Some v then Some [] else None | _ \<Rightarrow> None)"

fun eval_leaf :: "'f field_ops \<Rightarrow> 'f rust_value \<Rightarrow> (string \<times> 'f) list \<Rightarrow> body \<Rightarrow> 'f outcome option" where
  "eval_leaf F self env (Construct p c) =
     map_option (\<lambda>pl. Returned \<lparr>value_variant = path_variant p, value_payload = pl\<rparr>) (eval_constructor F self env p c)"
| "eval_leaf F self env (DebugStruct recv name fs) =
     map_option (\<lambda>vs. DebuggedStruct name (zip (map fst fs) vs)) (those (map (\<lambda>(n, pl). place_value self env pl) fs))"
| "eval_leaf F self env (DebugTuple recv name pls) =
     map_option (DebuggedTuple name) (those (map (place_value self env) pls))"
| "eval_leaf F self env (WriteStr recv name) = Some (Written name)"
| "eval_leaf F self env (MatchSelf arms) = None"

fun run_arms :: "'f field_ops \<Rightarrow> 'f rust_value \<Rightarrow> (pattern \<times> body) list \<Rightarrow> 'f outcome option" where
  "run_arms F self [] = None"
| "run_arms F self ((pat, b) # arms) =
     (case match_pattern pat self of Some env \<Rightarrow> eval_leaf F self env b | None \<Rightarrow> run_arms F self arms)"

text \<open>
  The receiver of a call has to be the formatter: the parameter's name, not bound again by the pattern of the arm. A pattern that binds it makes it a
  reference to a field, and the whole method is rejected.
\<close>

fun pattern_names :: "pattern \<Rightarrow> string list" where
  "pattern_names (PatNamed v names) = names"
| "pattern_names (PatTuple v names) = names"
| "pattern_names (PatUnit v) = []"

fun receiver :: "body \<Rightarrow> string option" where
  "receiver (DebugStruct recv _ _) = Some recv"
| "receiver (DebugTuple recv _ _) = Some recv"
| "receiver (WriteStr recv _) = Some recv"
| "receiver _ = None"

definition scoped :: "string list \<Rightarrow> body \<Rightarrow> bool" where
  "scoped bound b = (case receiver b of Some recv \<Rightarrow> recv = ''fmt'' \<and> recv \<notin> set bound | None \<Rightarrow> True)"

fun run_body :: "'f field_ops \<Rightarrow> 'f rust_value \<Rightarrow> body \<Rightarrow> 'f outcome option" where
  "run_body F self (MatchSelf arms) =
     (if list_all (\<lambda>(pat, b). scoped (pattern_names pat) b) arms then run_arms F self arms else None)"
| "run_body F self b = (if scoped [] b then eval_leaf F self [] b else None)"

subsection \<open>The values of a type\<close>

fun conforms :: "Fields \<Rightarrow> 'f payload \<Rightarrow> bool" where
  "conforms (Named names) (NamedFields fs) \<longleftrightarrow> map fst fs = names"
| "conforms (Unnamed n) (TupleFields xs) \<longleftrightarrow> length xs = n"
| "conforms UnitFields NoFields \<longleftrightarrow> True"
| "conforms _ _ \<longleftrightarrow> False"

fun distinct_fields :: "Fields \<Rightarrow> bool" where
  "distinct_fields (Named names) \<longleftrightarrow> distinct names"
| "distinct_fields _ \<longleftrightarrow> True"

text \<open>The Rust compiler rejects a type that names a field or a variant twice.\<close>

fun well_formed :: "Data \<Rightarrow> bool" where
  "well_formed (Struct flds) \<longleftrightarrow> distinct_fields flds"
| "well_formed (Enum variants) \<longleftrightarrow> distinct (map variant_ident variants)
     \<and> list_all (\<lambda>var. distinct_fields (variant_fields var)) variants"
| "well_formed Union \<longleftrightarrow> True"

fun value_of_type :: "Data \<Rightarrow> 'f rust_value \<Rightarrow> bool" where
  "value_of_type (Struct flds) x \<longleftrightarrow> value_variant x = None \<and> conforms flds (value_payload x)"
| "value_of_type (Enum variants) x \<longleftrightarrow>
     list_ex (\<lambda>var. value_variant x = Some (variant_ident var) \<and> conforms (variant_fields var) (value_payload x)) variants"
| "value_of_type Union x \<longleftrightarrow> False"

fun map_payload_fields :: "('f \<Rightarrow> 'f) \<Rightarrow> 'f payload \<Rightarrow> 'f payload" where
  "map_payload_fields g (NamedFields fs) = NamedFields (map (\<lambda>(n, v). (n, g v)) fs)"
| "map_payload_fields g (TupleFields xs) = TupleFields (map g xs)"
| "map_payload_fields g NoFields = NoFields"

definition cloned :: "'f field_ops \<Rightarrow> 'f rust_value \<Rightarrow> 'f rust_value" where
  "cloned F x = x\<lparr>value_payload := map_payload_fields (clone_field F) (value_payload x)\<rparr>"

text \<open>What \<^verbatim>\<open>Debug\<close> shows: the name of the type, followed by the variant's for an enum, and the fields.\<close>

definition debug_name :: "string \<Rightarrow> 'f rust_value \<Rightarrow> string" where
  "debug_name name x = (case value_variant x of None \<Rightarrow> name | Some v \<Rightarrow> name @ ''::'' @ v)"

definition debugged :: "string \<Rightarrow> 'f rust_value \<Rightarrow> 'f outcome" where
  "debugged name x = (case value_payload x of
     NamedFields fs \<Rightarrow> DebuggedStruct (debug_name name x) fs
   | TupleFields xs \<Rightarrow> DebuggedTuple (debug_name name x) xs
   | NoFields \<Rightarrow> Written (debug_name name x))"

fun default_payload :: "'f field_ops \<Rightarrow> path \<Rightarrow> Fields \<Rightarrow> 'f payload" where
  "default_payload F p (Named names) = NamedFields (map (\<lambda>n. (n, default_field F p (FieldName n))) names)"
| "default_payload F p (Unnamed n) = TupleFields (map (\<lambda>i. default_field F p (FieldIndex i)) [0..<n])"
| "default_payload F p UnitFields = NoFields"

subsection \<open>The captured names\<close>

definition digits_value :: "string \<Rightarrow> nat" where
  "digits_value ds = foldl (\<lambda>a c. 10 * a + (of_char c - 48)) 0 ds"

lemma digits_value_decimal: "digits_value (decimal n) = n"
proof (induction n rule: decimal.induct)
  case (1 n)
  have digit: "(of_char (char_of (48 + d)) :: nat) - 48 = d" if "d < 10" for d :: nat
    using that by simp
  show ?case
  proof (cases "n < 10")
    case True
    then show ?thesis
      by (subst decimal.simps) (simp add: digits_value_def digit del: of_char_of)
  next
    case False
    then have "digits_value (decimal (n div 10)) = n div 10"
      by (rule 1)
    then show ?thesis
      using False by (subst decimal.simps) (simp add: digits_value_def digit del: of_char_of)
  qed
qed

lemma decimal_inject: "decimal i = decimal j \<longleftrightarrow> i = j"
  by (metis digits_value_decimal)

lemma distinct_tuple_captures: "distinct (tuple_captures n)"
  by (simp add: tuple_captures_def distinct_map inj_on_def decimal_inject)

lemma length_tuple_captures [simp]: "length (tuple_captures n) = n"
  by (simp add: tuple_captures_def)

subsection \<open>Evaluating the fields\<close>

lemma those_map_Some: "(\<And>x. x \<in> set xs \<Longrightarrow> f x = Some (g x)) \<Longrightarrow> those (map f xs) = Some (map g xs)"
  by (induction xs) auto

lemma those_map_option: "those (map (\<lambda>x. map_option g (f x)) xs) = map_option (map g) (those (map f xs))"
  by (induction xs) (auto simp: option.map_comp comp_def split: option.splits)

lemma those_lookup:
  assumes "distinct (map fst fs)"
  shows "those (map (map_of fs) (map fst fs)) = Some (map snd fs)"
proof -
  have "those (map (\<lambda>kv. map_of fs (fst kv)) fs) = Some (map snd fs)"
    using assms by (intro those_map_Some) (auto intro: map_of_is_SomeI)
  then show ?thesis by (simp add: comp_def)
qed

lemma self_named:
  assumes "value_payload x = NamedFields fs" "distinct (map fst fs)"
  shows "those (map (\<lambda>i. place_value x env (SelfMember (FieldName i))) (map fst fs)) = Some (map snd fs)"
  using assms those_lookup [of fs] by simp

lemma self_tuple:
  assumes "value_payload x = TupleFields xs"
  shows "those (map (\<lambda>i. place_value x env (SelfMember (FieldIndex i))) [0..<length xs]) = Some xs"
proof -
  have "those (map (\<lambda>i. place_value x env (SelfMember (FieldIndex i))) [0..<length xs])
      = Some (map ((!) xs) [0..<length xs])"
    by (rule those_map_Some) (simp add: assms)
  then show ?thesis by (simp add: map_nth)
qed

lemma captured_named:
  assumes "distinct (map fst fs)"
  shows "those (map (\<lambda>i. place_value x fs (Captured i)) (map fst fs)) = Some (map snd fs)"
  using those_lookup [OF assms] by simp

lemma captured_tuple:
  "those (map (\<lambda>i. place_value x (zip (tuple_captures (length xs)) xs) (Captured i)) (tuple_captures (length xs)))
    = Some xs"
  using captured_named [of "zip (tuple_captures (length xs)) xs" x] by (simp add: distinct_tuple_captures)

lemma eval_clone_named:
  "eval_constructor F x env p (CtorNamed (map (\<lambda>i. (i, CloneOf (pl i))) names))
    = map_option (\<lambda>vs. NamedFields (zip names (map (clone_field F) vs)))
        (those (map (\<lambda>i. place_value x env (pl i)) names))"
  by (simp add: comp_def those_map_option option.map_comp)

lemma eval_clone_tuple:
  "eval_constructor F x env p (CtorTuple (map (\<lambda>i. CloneOf (pl i)) is))
    = map_option (\<lambda>vs. TupleFields (map (clone_field F) vs)) (those (map (\<lambda>i. place_value x env (pl i)) is))"
proof -
  have "map (\<lambda>(i, e). eval_expr F x env p (FieldIndex i) e) (enumerate k (map (\<lambda>i. CloneOf (pl i)) is))
      = map (\<lambda>i. map_option (clone_field F) (place_value x env (pl i))) is" for k
    by (induction "is" arbitrary: k) auto
  then show ?thesis
    by (simp add: those_map_option option.map_comp comp_def)
qed

lemma zip_named [simp]: "zip (map fst fs) (map g (map snd fs)) = map (\<lambda>(n, v). (n, g v)) fs"
  by (induction fs) auto

lemmas field_evaluation = self_named self_tuple captured_named captured_tuple eval_clone_named eval_clone_tuple

subsection \<open>Choosing the arm of a variant\<close>

definition arm_pattern :: "Variant \<Rightarrow> pattern" where
  "arm_pattern var = (case variant_fields var of
     Named names \<Rightarrow> PatNamed (variant_ident var) names
   | Unnamed n \<Rightarrow> PatTuple (variant_ident var) (tuple_captures n)
   | UnitFields \<Rightarrow> PatUnit (variant_ident var))"

lemma fst_clone_arm: "fst (clone_variant_arm var) = arm_pattern var"
  by (simp add: clone_variant_arm_def arm_pattern_def Let_def split: Fields.split)

lemma fst_debug_arm: "fst (debug_variant_arm name var) = arm_pattern var"
  by (simp add: debug_variant_arm_def arm_pattern_def Let_def split: Fields.split)

lemma arm_pattern_variant:
  "match_pattern (arm_pattern var) x = Some env \<Longrightarrow> value_variant x = Some (variant_ident var)"
  by (auto simp: arm_pattern_def split: Fields.splits payload.splits if_splits)

text \<open>The bindings of the arm that fits.\<close>

fun bindings :: "'f payload \<Rightarrow> (string \<times> 'f) list" where
  "bindings (NamedFields fs) = fs"
| "bindings (TupleFields xs) = zip (tuple_captures (length xs)) xs"
| "bindings NoFields = []"

lemma arm_pattern_binds:
  assumes "value_variant x = Some (variant_ident var)" "conforms (variant_fields var) (value_payload x)"
  shows "match_pattern (arm_pattern var) x = Some (bindings (value_payload x))"
  using assms by (cases "variant_fields var"; cases "value_payload x") (auto simp: arm_pattern_def)

lemma run_arms_variant:
  assumes "distinct (map variant_ident variants)" "var \<in> set variants"
    and "value_variant x = Some (variant_ident var)" "conforms (variant_fields var) (value_payload x)"
    and "\<And>var. fst (arm var) = arm_pattern var"
  shows "run_arms F x (map arm variants) = eval_leaf F x (bindings (value_payload x)) (snd (arm var))"
  using assms(1,2)
proof (induction variants)
  case Nil
  then show ?case by simp
next
  case (Cons first rest)
  have step: "run_arms F x (map arm (first # rest)) = (case match_pattern (arm_pattern first) x of
      Some env \<Rightarrow> eval_leaf F x env (snd (arm first)) | None \<Rightarrow> run_arms F x (map arm rest))"
    using assms(5) [of first] by (cases "arm first"; cases "match_pattern (arm_pattern first) x") simp_all
  show ?case
  proof (cases "first = var")
    case True
    then show ?thesis
      using arm_pattern_binds [OF assms(3,4)] step by simp
  next
    case False
    with Cons.prems have "var \<in> set rest" "variant_ident first \<noteq> variant_ident var"
      by auto
    then have "match_pattern (arm_pattern first) x = None"
      using assms(3) arm_pattern_variant [of first x] by (cases "match_pattern (arm_pattern first) x") auto
    then show ?thesis
      using Cons \<open>var \<in> set rest\<close> step by simp
  qed
qed

lemma enum_arm:
  assumes "well_formed (Enum variants)" "value_of_type (Enum variants) x"
    and "\<And>var. fst (arm var) = arm_pattern var"
  obtains var where "value_variant x = Some (variant_ident var)" "conforms (variant_fields var) (value_payload x)"
    "distinct_fields (variant_fields var)"
    "\<And>F. run_arms F x (map arm variants) = eval_leaf F x (bindings (value_payload x)) (snd (arm var))"
proof -
  from assms(2) obtain var where var: "var \<in> set variants"
    "value_variant x = Some (variant_ident var)" "conforms (variant_fields var) (value_payload x)"
    by (auto simp: list_ex_iff)
  then have "distinct_fields (variant_fields var)"
    using assms(1) by (auto simp: list_all_iff)
  with var run_arms_variant [OF _ var assms(3)] assms(1) show thesis
    by (intro that) auto
qed

subsection \<open>What the derived methods do\<close>

lemmas run_with_fields = cloned_def debugged_def debug_name_def field_evaluation

lemma clone_struct_runs:
  assumes "distinct_fields flds" "value_variant x = None" "conforms flds (value_payload x)"
  shows "run_body F x (clone_struct_body flds) = Some (Returned (cloned F x))"
  using assms
  by (cases flds; cases "value_payload x")
    (auto simp: run_with_fields scoped_def simp del: eval_constructor.simps(1,2) map_map place_value.simps)

lemma clone_arm_runs:
  assumes "distinct_fields (variant_fields var)" "value_variant x = Some (variant_ident var)"
    and "conforms (variant_fields var) (value_payload x)"
  shows "eval_leaf F x (bindings (value_payload x)) (snd (clone_variant_arm var)) = Some (Returned (cloned F x))"
  using assms
  by (cases "variant_fields var"; cases "value_payload x")
    (auto simp: clone_variant_arm_def Let_def run_with_fields
      simp del: eval_constructor.simps(1,2) map_map place_value.simps)

lemma debug_fields:
  "eval_leaf F x env (DebugStruct recv name (map (\<lambda>i. (i, pl i)) names))
    = map_option (\<lambda>vs. DebuggedStruct name (zip names vs)) (those (map (\<lambda>i. place_value x env (pl i)) names))"
  "eval_leaf F x env (DebugTuple recv name (map (\<lambda>i. SelfMember (FieldIndex i)) idx))
    = map_option (DebuggedTuple name) (those (map (\<lambda>i. place_value x env (SelfMember (FieldIndex i))) idx))"
  "eval_leaf F x env (DebugTuple recv name (map Captured names))
    = map_option (DebuggedTuple name) (those (map (\<lambda>i. place_value x env (Captured i)) names))"
  by (simp_all add: comp_def)

lemma zip_fst_snd [simp]: "zip (map fst fs) (map snd fs) = fs"
  by (induction fs) auto

lemma debug_struct_runs:
  assumes "distinct_fields flds" "value_variant x = None" "conforms flds (value_payload x)"
  shows "run_body F x (debug_struct_body name flds) = Some (debugged name x)"
  using assms
  by (cases flds; cases "value_payload x")
    (auto simp: run_with_fields debug_fields scoped_def simp del: eval_leaf.simps(2,3) map_map place_value.simps)

lemma debug_arm_runs:
  assumes "distinct_fields (variant_fields var)" "value_variant x = Some (variant_ident var)"
    and "conforms (variant_fields var) (value_payload x)"
  shows "eval_leaf F x (bindings (value_payload x)) (snd (debug_variant_arm name var)) = Some (debugged name x)"
  using assms
  by (cases "variant_fields var"; cases "value_payload x")
    (auto simp: debug_variant_arm_def Let_def run_with_fields debug_fields simp del: eval_leaf.simps(2,3) map_map place_value.simps)

lemma default_runs:
  "run_body F x (default_constructor p flds)
    = Some (Returned \<lparr>value_variant = path_variant p, value_payload = default_payload F p flds\<rparr>)"
proof (cases flds)
  case (Named names)
  have "those (map (\<lambda>n. Some (default_field F p (FieldName n))) names)
      = Some (map (\<lambda>n. default_field F p (FieldName n)) names)"
    by (rule those_map_Some) simp
  with Named show ?thesis by (simp add: comp_def zip_map2 zip_same_conv_map scoped_def)
next
  case (Unnamed n)
  have "map (\<lambda>(i, e). eval_expr F x [] p (FieldIndex i) e) (enumerate 0 (replicate n DefaultCall))
      = map (\<lambda>i. Some (default_field F p (FieldIndex i))) [0..<n]"
    by (rule nth_equalityI) (simp_all add: nth_enumerate_eq)
  moreover have "those (map (\<lambda>i. Some (default_field F p (FieldIndex i))) [0..<n])
      = Some (map (\<lambda>i. default_field F p (FieldIndex i)) [0..<n])"
    by (rule those_map_Some) simp
  ultimately show ?thesis using Unnamed by (simp add: scoped_def)
qed (simp add: scoped_def)

text \<open>When the generated arms are in scope: always for \<^verbatim>\<open>clone\<close>, and for \<^verbatim>\<open>fmt\<close> unless a variant has a field of that name.\<close>

fun shadows_fmt :: "Data \<Rightarrow> bool" where
  "shadows_fmt (Enum variants) \<longleftrightarrow>
     list_ex (\<lambda>var. case variant_fields var of Named names \<Rightarrow> ''fmt'' \<in> set names | _ \<Rightarrow> False) variants"
| "shadows_fmt _ \<longleftrightarrow> False"

lemma fmt_not_captured: "''fmt'' \<notin> set (tuple_captures n)"
  by (auto simp: tuple_captures_def)

lemma clone_arms_scoped: "list_all (\<lambda>(pat, b). scoped (pattern_names pat) b) (map clone_variant_arm variants)"
  by (auto simp: list_all_iff clone_variant_arm_def scoped_def Let_def split: Fields.splits)

lemma debug_arms_scoped:
  "list_all (\<lambda>(pat, b). scoped (pattern_names pat) b) (map (debug_variant_arm name) variants) \<longleftrightarrow> \<not> shadows_fmt (Enum variants)"
  by (induction variants) (auto simp: debug_variant_arm_def scoped_def Let_def fmt_not_captured split: Fields.splits)

text \<open>
  C38. The derived \<^verbatim>\<open>clone\<close> and \<^verbatim>\<open>fmt\<close>. For every type that is not a union, both macros generate an
  implementation whose generics and where clause are those of the type, with no bound added. On every value of the
  type, \<^verbatim>\<open>clone\<close> gives the same variant with every field cloned, in order, and \<^verbatim>\<open>fmt\<close> shows the
  type's name (with the variant's name after it, for an enum) and every field in order; except that \<^verbatim>\<open>fmt\<close> does not compile for an enum
  with a variant that has a field named \<^verbatim>\<open>fmt\<close>, because the pattern hides the formatter.
\<close>

theorem derived_methods_correct:
  assumes "parse tokens = Inr input" "well_formed (input_data input)" "value_of_type (input_data input) x"
  shows "(\<exists>b. derive_clone_no_bound parse tokens
        = Generated \<lparr>impl_trait = ''core::clone::Clone'', impl_type = input_ident input,
            impl_of_generics = input_generics input, impl_body = b\<rparr>
      \<and> run_body F x b = Some (Returned (cloned F x)))
    \<and> (\<exists>b. derive_debug_no_bound parse tokens
        = Generated \<lparr>impl_trait = ''core::fmt::Debug'', impl_type = input_ident input,
            impl_of_generics = input_generics input, impl_body = b\<rparr>
      \<and> run_body F x b = (if shadows_fmt (input_data input) then None else Some (debugged (input_ident input) x)))"
proof (cases "input_data input")
  case (Struct flds)
  then show ?thesis
    using assms clone_struct_runs [of flds x F] debug_struct_runs [of flds x F "input_ident input"]
    by (simp add: derive_clone_no_bound_def derive_debug_no_bound_def)
next
  case (Enum variants)
  obtain var where "value_variant x = Some (variant_ident var)" "conforms (variant_fields var) (value_payload x)"
    "distinct_fields (variant_fields var)"
    "run_arms F x (map clone_variant_arm variants) = eval_leaf F x (bindings (value_payload x)) (snd (clone_variant_arm var))"
    using assms Enum by (auto intro: enum_arm [OF _ _ fst_clone_arm])
  moreover obtain var' where "value_variant x = Some (variant_ident var')" "conforms (variant_fields var') (value_payload x)"
    "distinct_fields (variant_fields var')"
    "run_arms F x (map (debug_variant_arm (input_ident input)) variants)
      = eval_leaf F x (bindings (value_payload x)) (snd (debug_variant_arm (input_ident input) var'))"
    using assms Enum by (auto intro: enum_arm [OF _ _ fst_debug_arm [of "input_ident input"]])
  ultimately show ?thesis
    using assms(1) Enum clone_arm_runs [of var x F] debug_arm_runs [of var' x F "input_ident input"]
    by (simp add: derive_clone_no_bound_def derive_debug_no_bound_def clone_arms_scoped debug_arms_scoped del: shadows_fmt.simps)
next
  case Union
  with assms(3) show ?thesis by simp
qed

text \<open>The variants marked as default, and the compile errors for an enum.\<close>

definition marked :: "Variant list \<Rightarrow> Variant list" where
  "marked variants = filter (\<lambda>var. ''default'' \<in> set (variant_attrs var)) variants"

lemma marked_cases:
  obtains "marked variants = []" | var where "marked variants = [var]" "default_attrs var \<noteq> []" "variants \<noteq> []"
  | a b c where "marked variants = a # b # c" "variants \<noteq> []"
proof (cases "marked variants" rule: remdups_adj.cases)
  case (2 var)
  then have "var \<in> set (marked variants)" by simp
  then have "variants \<noteq> []" "''default'' \<in> set (variant_attrs var)" by (auto simp: marked_def)
  then have "default_attrs var \<noteq> []" by (auto simp: default_attrs_def filter_empty_conv)
  with 2 \<open>variants \<noteq> []\<close> that(2) show thesis by blast
next
  case (3 a b c)
  then have "variants \<noteq> []" by (auto simp: marked_def)
  with 3 that(3) show thesis by blast
qed (use that(1) in blast)

lemma default_enum_outcome:
  "derive_default_enum variants = Inr b \<longleftrightarrow> (\<exists>var. marked variants = [var] \<and> length (default_attrs var) = 1
     \<and> b = default_constructor (SelfVariant (variant_ident var)) (variant_fields var))"
  "derive_default_enum variants = Inl es \<longleftrightarrow>
     (variants = [] \<and> es = [''cannot derive Default for an empty enum''])
   \<or> (variants \<noteq> [] \<and> marked variants = []
      \<and> es = [''no default declared, make a variant default by placing `#[default]` above it''])
   \<or> (length (marked variants) \<ge> 2
      \<and> es = ''multiple declared defaults'' # ''first default''
          # replicate (length (marked variants) - 1) ''additional default'')
   \<or> (\<exists>var. marked variants = [var] \<and> length (default_attrs var) \<ge> 2
      \<and> es = ''multiple `#[default]` attributes'' # ''`#[default]` used here''
          # replicate (length (default_attrs var) - 1) ''`#[default]` used again here'')"
proof -
  have enum: "derive_default_enum variants = (if variants = [] then Inl [''cannot derive Default for an empty enum''] else
      case marked variants of
        [] \<Rightarrow> Inl [''no default declared, make a variant default by placing `#[default]` above it'']
      | [var] \<Rightarrow> (case default_attrs var of
            first_attr # second_attr # rest \<Rightarrow> Inl (''multiple `#[default]` attributes'' # ''`#[default]` used here''
                # map (\<lambda>_. ''`#[default]` used again here'') (second_attr # rest))
          | _ \<Rightarrow> Inr (default_constructor (SelfVariant (variant_ident var)) (variant_fields var)))
      | first # others \<Rightarrow> Inl (''multiple declared defaults'' # ''first default'' # map (\<lambda>_. ''additional default'') others))"
    by (simp add: derive_default_enum_def marked_def)
  show "derive_default_enum variants = Inr b \<longleftrightarrow> (\<exists>var. marked variants = [var] \<and> length (default_attrs var) = 1
     \<and> b = default_constructor (SelfVariant (variant_ident var)) (variant_fields var))"
  proof (cases variants rule: marked_cases)
    case (2 var)
    then show ?thesis
      unfolding enum by (cases "default_attrs var" rule: remdups_adj.cases) auto
  qed (auto simp: enum)
  show "derive_default_enum variants = Inl es \<longleftrightarrow>
     (variants = [] \<and> es = [''cannot derive Default for an empty enum''])
   \<or> (variants \<noteq> [] \<and> marked variants = []
      \<and> es = [''no default declared, make a variant default by placing `#[default]` above it''])
   \<or> (length (marked variants) \<ge> 2
      \<and> es = ''multiple declared defaults'' # ''first default''
          # replicate (length (marked variants) - 1) ''additional default'')
   \<or> (\<exists>var. marked variants = [var] \<and> length (default_attrs var) \<ge> 2
      \<and> es = ''multiple `#[default]` attributes'' # ''`#[default]` used here''
          # replicate (length (default_attrs var) - 1) ''`#[default]` used again here'')" (is "_ = ?errors")
  proof (cases variants rule: marked_cases)
    case 1
    then show ?thesis unfolding enum by (auto simp: marked_def)
  next
    case (2 var)
    then show ?thesis
      unfolding enum by (cases "default_attrs var" rule: remdups_adj.cases) (auto simp: map_replicate_const)
  next
    case (3 a b c)
    then show ?thesis unfolding enum by (auto simp: map_replicate_const)
  qed
qed

text \<open>
  C39. When \<^verbatim>\<open>Default\<close> is derived, what it returns, and what it reports. The macro generates an implementation for a struct, and for an enum
  exactly when one variant carries the attribute \<^verbatim>\<open>default\<close>, once; the derived method then returns that
  variant with every field at its default. In every other case it generates exactly these compile errors: the message for a union, for an empty enum or for
  an enum with no marked variant; for several marked variants, a heading, one message for the first and one for each further; for a variant
  marked several times, a heading, one message for the first attribute and one for each further.
\<close>

theorem derive_default_exact:
  assumes "parse tokens = Inr input"
  shows "((\<exists>b. derive_default_no_bound parse tokens
        = Generated \<lparr>impl_trait = ''core::default::Default'', impl_type = input_ident input,
            impl_of_generics = input_generics input, impl_body = b\<rparr>
      \<and> run_body F x b = Some (Returned v))
    \<longleftrightarrow> (case input_data input of
          Struct flds \<Rightarrow> v = \<lparr>value_variant = None, value_payload = default_payload F SelfPath flds\<rparr>
        | Enum variants \<Rightarrow> (\<exists>var. marked variants = [var] \<and> length (default_attrs var) = 1
            \<and> v = \<lparr>value_variant = Some (variant_ident var),
                   value_payload = default_payload F (SelfVariant (variant_ident var)) (variant_fields var)\<rparr>)
        | Union \<Rightarrow> False))
    \<and> (derive_default_no_bound parse tokens = CompileError es \<longleftrightarrow> (case input_data input of
          Struct flds \<Rightarrow> False
        | Union \<Rightarrow> es = [''Union type not supported by `derive(DefaultNoBound)`'']
        | Enum variants \<Rightarrow>
            (variants = [] \<and> es = [''cannot derive Default for an empty enum''])
          \<or> (variants \<noteq> [] \<and> marked variants = []
             \<and> es = [''no default declared, make a variant default by placing `#[default]` above it''])
          \<or> (length (marked variants) \<ge> 2
             \<and> es = ''multiple declared defaults'' # ''first default''
                 # replicate (length (marked variants) - 1) ''additional default'')
          \<or> (\<exists>var. marked variants = [var] \<and> length (default_attrs var) \<ge> 2
             \<and> es = ''multiple `#[default]` attributes'' # ''`#[default]` used here''
                 # replicate (length (default_attrs var) - 1) ''`#[default]` used again here'')))"
proof (cases "input_data input")
  case (Struct flds)
  then show ?thesis
    using assms default_runs [of F x SelfPath flds] by (auto simp: derive_default_no_bound_def)
next
  case (Enum variants)
  let ?emit = "\<lambda>b. Generated \<lparr>impl_trait = ''core::default::Default'', impl_type = input_ident input,
    impl_of_generics = input_generics input, impl_body = b\<rparr>"
  have out: "derive_default_no_bound parse tokens
      = (case derive_default_enum variants of Inr b \<Rightarrow> ?emit b | Inl es \<Rightarrow> CompileError es)"
    using assms Enum by (simp add: derive_default_no_bound_def)
  have gen: "derive_default_no_bound parse tokens = ?emit b \<longleftrightarrow> derive_default_enum variants = Inr b" for b
    unfolding out by (auto split: sum.splits)
  have err: "derive_default_no_bound parse tokens = CompileError es \<longleftrightarrow> derive_default_enum variants = Inl es"
    unfolding out by (auto split: sum.splits)
  show ?thesis
    unfolding gen err default_enum_outcome Enum by (auto simp: default_runs)
next
  case Union
  then show ?thesis
    using assms by (auto simp: derive_default_no_bound_def)
qed

subsection \<open>A concrete type\<close>

text \<open>\<^verbatim>\<open>enum Foo<T> { A(T, T), #[default] B { x: T } }\<close>\<close>

definition foo_input :: DeriveInput where
  "foo_input = \<lparr>input_ident = ''Foo'',
     input_generics = \<lparr>impl_generics = ''<T>'', ty_generics = ''<T>'', where_clause = []\<rparr>,
     input_data = Enum [
       \<lparr>variant_ident = ''A'', variant_attrs = [], variant_fields = Unnamed 2\<rparr>,
       \<lparr>variant_ident = ''B'', variant_attrs = [''default''], variant_fields = Named [''x'']\<rparr>]\<rparr>"

definition foo_ops :: "nat field_ops" where
  "foo_ops = \<lparr>clone_field = (\<lambda>n. n), default_field = (\<lambda>_ _. 0)\<rparr>"

definition foo_value :: "nat rust_value" where
  "foo_value = \<lparr>value_variant = Some ''A'', value_payload = TupleFields [1, 2]\<rparr>"

theorem derived_methods_correct_witness:
  "(\<exists>b. derive_clone_no_bound (\<lambda>_. Inr foo_input) ()
        = Generated \<lparr>impl_trait = ''core::clone::Clone'', impl_type = ''Foo'',
            impl_of_generics = input_generics foo_input, impl_body = b\<rparr>
      \<and> run_body foo_ops foo_value b = Some (Returned foo_value))
    \<and> (\<exists>b. derive_debug_no_bound (\<lambda>_. Inr foo_input) ()
        = Generated \<lparr>impl_trait = ''core::fmt::Debug'', impl_type = ''Foo'',
            impl_of_generics = input_generics foo_input, impl_body = b\<rparr>
      \<and> run_body foo_ops foo_value b = Some (DebuggedTuple ''Foo::A'' [1, 2]))"
proof -
  have "well_formed (input_data foo_input)" "value_of_type (input_data foo_input) foo_value"
    by (simp_all add: foo_input_def foo_value_def)
  moreover have "cloned foo_ops foo_value = foo_value" "debugged ''Foo'' foo_value = DebuggedTuple ''Foo::A'' [1, 2]"
    "input_ident foo_input = ''Foo''"
    by (simp_all add: cloned_def debugged_def debug_name_def foo_ops_def foo_value_def foo_input_def)
  moreover have "\<not> shadows_fmt (input_data foo_input)" by (simp add: foo_input_def)
  ultimately show ?thesis
    using derived_methods_correct [where parse = "\<lambda>_. Inr foo_input" and tokens = "()" and input = foo_input
        and x = foo_value and F = foo_ops] by simp
qed

theorem derive_default_exact_witness:
  "(\<exists>b. derive_default_no_bound (\<lambda>_. Inr foo_input) ()
        = Generated \<lparr>impl_trait = ''core::default::Default'', impl_type = ''Foo'',
            impl_of_generics = input_generics foo_input, impl_body = b\<rparr>
      \<and> run_body foo_ops foo_value b
        = Some (Returned \<lparr>value_variant = Some ''B'', value_payload = NamedFields [(''x'', 0)]\<rparr>))
    \<and> derive_default_no_bound (\<lambda>_. Inr (foo_input\<lparr>input_data := Enum []\<rparr>)) ()
        = CompileError [''cannot derive Default for an empty enum'']"
proof -
  have "marked [\<lparr>variant_ident = ''A'', variant_attrs = [], variant_fields = Unnamed 2\<rparr>,
      \<lparr>variant_ident = ''B'', variant_attrs = [''default''], variant_fields = Named [''x'']\<rparr>]
      = [\<lparr>variant_ident = ''B'', variant_attrs = [''default''], variant_fields = Named [''x'']\<rparr>]"
    by (simp add: marked_def)
  then show ?thesis
    using derive_default_exact [where parse = "\<lambda>_. Inr foo_input" and tokens = "()" and input = foo_input
        and F = foo_ops and x = foo_value
        and v = "\<lparr>value_variant = Some ''B'', value_payload = NamedFields [(''x'', 0)]\<rparr>"]
      derive_default_exact [where parse = "\<lambda>_. Inr (foo_input\<lparr>input_data := Enum []\<rparr>)" and tokens = "()"
        and input = "foo_input\<lparr>input_data := Enum []\<rparr>" and es = "[''cannot derive Default for an empty enum'']", THEN conjunct2]
    by (simp add: foo_input_def foo_ops_def default_attrs_def)
qed

end
