(* ===== verification/Executive_Tests.thy ===== *)
theory Executive_Tests
  imports Constraint_Checkers Verifiers
begin

text \<open>
  The unit tests of \<^verbatim>\<open>executive.rs\<close>, of the extrinsics in \<^verbatim>\<open>types.rs\<close> and of the test checker in
  \<^verbatim>\<open>constraint_checker.rs\<close>, on the model. A test is a boolean function of its
  environment: the host, the codecs the derive macros generate, and two constructors of hashes. The builders of
  the tests are records with one function per method; a test that should panic holds when the
  model's \<open>execute_block\<close> is \<open>None\<close>.

  The locale \<open>test_env\<close> states what the tests need of the environment. Four tests compare with roots that
  were computed by Substrate; the locale \<open>test_roots\<close> adds that the host's roots have these values.
\<close>

subsection \<open>The environment\<close>

record test_environment =
  t_host :: host
  t_verifier_codecs :: "(TestVerifier, unit) verifier_codecs"
  t_checker_codec :: "TestConstraintChecker codec"
  t_bogus_codec :: "unit codec"
  from_low_u64_le :: "u64 \<Rightarrow> H256"
  repeat_byte :: "u8 \<Rightarrow> H256"

type_synonym TestTransaction = "(TestVerifier, TestConstraintChecker) Transaction"
type_synonym TestBlock = "(TestVerifier, TestConstraintChecker) Block"

definition t_verifier :: "test_environment \<Rightarrow> (TestVerifier, unit) Verifier" where
  "t_verifier E = test_verifier (t_verifier_codecs E)"

definition t_checker :: "test_environment \<Rightarrow> (TestVerifier, TestConstraintChecker, unit) ConstraintChecker" where
  "t_checker E = test_constraint_checker (t_checker_codec E)"

text \<open>\<^verbatim>\<open>Bogus.into()\<close>\<close>

definition bogus_payload :: "test_environment \<Rightarrow> DynamicallyTypedData" where
  "bogus_payload E = into_data (Bogus (t_bogus_codec E)) ()"

definition encode_tx :: "test_environment \<Rightarrow> TestTransaction \<Rightarrow> bytes" where
  "encode_tx E tx = encode (transaction_codec (t_host E) (t_verifier E) (t_checker_codec E)) tx"

definition tx_output_ref :: "test_environment \<Rightarrow> TestTransaction \<Rightarrow> OutputRef" where
  "tx_output_ref E tx = \<lparr>tx_hash = hash_of (t_host E) (bytes_codec (t_host E)) (encode_tx E tx), index = 0\<rparr>"

subsection \<open>The builders\<close>

definition mock_output_ref :: "test_environment \<Rightarrow> u32 \<Rightarrow> u32 \<Rightarrow> OutputRef" where
  "mock_output_ref E tx_num i = \<lparr>tx_hash = from_low_u64_le E (ucast tx_num), index = i\<rparr>"

record TestTransactionBuilder =
  b_inputs :: "Input list"
  b_peeks :: "OutputRef list"
  b_outputs :: "TestVerifier Output list"

definition new_tx :: TestTransactionBuilder where
  "new_tx = \<lparr>b_inputs = [], b_peeks = [], b_outputs = []\<rparr>"

definition with_input :: "Input \<Rightarrow> TestTransactionBuilder \<Rightarrow> TestTransactionBuilder" where
  "with_input i b = b\<lparr>b_inputs := b_inputs b @ [i]\<rparr>"

definition with_peek :: "OutputRef \<Rightarrow> TestTransactionBuilder \<Rightarrow> TestTransactionBuilder" where
  "with_peek p b = b\<lparr>b_peeks := b_peeks b @ [p]\<rparr>"

definition with_output :: "TestVerifier Output \<Rightarrow> TestTransactionBuilder \<Rightarrow> TestTransactionBuilder" where
  "with_output out b = b\<lparr>b_outputs := b_outputs b @ [out]\<rparr>"

definition build_tx :: "bool \<Rightarrow> bool \<Rightarrow> TestTransactionBuilder \<Rightarrow> TestTransaction" where
  "build_tx chk inh b = \<lparr>inputs = b_inputs b, peeks = b_peeks b, outputs = b_outputs b,
     checker = \<lparr>checks = chk, inherent = inh\<rparr>\<rparr>"

record ExternalityBuilder =
  b_utxos :: "(OutputRef \<times> TestVerifier Output) list"
  b_pre_header :: "Header option"
  b_noted_extrinsics :: "bytes list"

definition new_ext :: ExternalityBuilder where
  "new_ext = \<lparr>b_utxos = [], b_pre_header = None, b_noted_extrinsics = []\<rparr>"

definition with_utxo :: "OutputRef \<Rightarrow> DynamicallyTypedData \<Rightarrow> bool \<Rightarrow> ExternalityBuilder \<Rightarrow> ExternalityBuilder" where
  "with_utxo r p ver b = b\<lparr>b_utxos := b_utxos b @ [(r, \<lparr>payload = p, verifier = \<lparr>verifies = ver\<rparr>\<rparr>)]\<rparr>"

definition with_pre_header :: "H256 \<Rightarrow> u32 \<Rightarrow> ExternalityBuilder \<Rightarrow> ExternalityBuilder" where
  "with_pre_header parent n b = b\<lparr>b_pre_header :=
     Some \<lparr>parent_hash = parent, number = n, state_root = 0, extrinsics_root = 0, digest = []\<rparr>\<rparr>"

definition with_noted_extrinsic :: "bytes \<Rightarrow> ExternalityBuilder \<Rightarrow> ExternalityBuilder" where
  "with_noted_extrinsic ext b = b\<lparr>b_noted_extrinsics := b_noted_extrinsics b @ [ext]\<rparr>"

definition build_ext :: "test_environment \<Rightarrow> ExternalityBuilder \<Rightarrow> storage" where
  "build_ext E b =
     (let H = t_host E;
          ext = fold (\<lambda>(r, out) s. s(encode (output_ref_codec H) r \<mapsto> encode (output_codec (t_verifier E)) out))
            (b_utxos b) Map.empty;
          pre_header = (case b_pre_header b of Some h \<Rightarrow> h
            | None \<Rightarrow> \<lparr>parent_hash = 0, number = 0, state_root = 0, extrinsics_root = 0, digest = []\<rparr>)
      in ext(HEADER_KEY \<mapsto> encode (header_codec H) pre_header,
             HEIGHT_KEY \<mapsto> encode (u32_codec H) (number pre_header),
             EXTRINSIC_KEY \<mapsto> encode (bytes_list_codec H) (b_noted_extrinsics b)))"

subsection \<open>Validation\<close>

definition validate :: "test_environment \<Rightarrow> TestTransaction \<Rightarrow> storage \<Rightarrow> (ValidTransaction, unit UtxoError) result" where
  "validate E tx s = snd (validate_tuxedo_transaction (t_host E) (t_verifier E) (t_checker E) tx s)"

definition default_valid :: ValidTransaction where
  "default_valid = \<lparr>requires = [], provides = [], priority = 0, longevity = - 1, propagate = True\<rparr>"

definition and_requires :: "test_environment \<Rightarrow> OutputRef \<Rightarrow> ValidTransaction \<Rightarrow> ValidTransaction" where
  "and_requires E r v = v\<lparr>requires := requires v @ [encode (output_ref_codec (t_host E)) r]\<rparr>"

definition and_provides :: "test_environment \<Rightarrow> OutputRef \<Rightarrow> ValidTransaction \<Rightarrow> ValidTransaction" where
  "and_provides E r v = v\<lparr>provides := provides v @ [encode (output_ref_codec (t_host E)) r]\<rparr>"

text \<open>The first test sets no externalities: nothing it does reads the storage.\<close>

definition validate_empty_works :: "test_environment \<Rightarrow> bool" where
  "validate_empty_works E \<longleftrightarrow>
     (let tx = build_tx True False new_tx in validate E tx Map.empty = Ok default_valid)"

definition validate_with_input_works :: "test_environment \<Rightarrow> bool" where
  "validate_with_input_works E \<longleftrightarrow>
     (let r = mock_output_ref E 0 0;
          s = build_ext E (with_utxo r (bogus_payload E) True new_ext);
          input = \<lparr>output_ref = r, redeemer = Redemption []\<rparr>;
          tx = build_tx True False (with_input input new_tx)
      in validate E tx s = Ok default_valid)"

definition validate_with_peek_works :: "test_environment \<Rightarrow> bool" where
  "validate_with_peek_works E \<longleftrightarrow>
     (let r = mock_output_ref E 0 0;
          s = build_ext E (with_utxo r (bogus_payload E) True new_ext);
          tx = build_tx True False (with_peek r new_tx)
      in validate E tx s = Ok default_valid)"

definition validate_with_output_works :: "test_environment \<Rightarrow> bool" where
  "validate_with_output_works E \<longleftrightarrow>
     (let out = \<lparr>payload = bogus_payload E, verifier = \<lparr>verifies = False\<rparr>\<rparr>;
          tx = build_tx True False (with_output out new_tx)
      in validate E tx (build_ext E new_ext) = Ok (and_provides E (tx_output_ref E tx) default_valid))"

definition validate_with_missing_input_works :: "test_environment \<Rightarrow> bool" where
  "validate_with_missing_input_works E \<longleftrightarrow>
     (let r = mock_output_ref E 0 0;
          tx = build_tx True False (with_input \<lparr>output_ref = r, redeemer = default_redemption\<rparr> new_tx)
      in validate E tx (build_ext E new_ext) = Ok (and_requires E r default_valid))"

definition validate_with_missing_peek_works :: "test_environment \<Rightarrow> bool" where
  "validate_with_missing_peek_works E \<longleftrightarrow>
     (let r = mock_output_ref E 0 0;
          tx = build_tx True False (with_peek r new_tx)
      in validate E tx (build_ext E new_ext) = Ok (and_requires E r default_valid))"

definition validate_with_duplicate_input_fails :: "test_environment \<Rightarrow> bool" where
  "validate_with_duplicate_input_fails E \<longleftrightarrow>
     (let r = mock_output_ref E 0 0;
          s = build_ext E (with_utxo r (bogus_payload E) False new_ext);
          input = \<lparr>output_ref = r, redeemer = default_redemption\<rparr>;
          tx = build_tx True False (with_input input (with_input input new_tx))
      in validate E tx s = Err DuplicateInput)"

definition validate_with_duplicate_peek_works :: "test_environment \<Rightarrow> bool" where
  "validate_with_duplicate_peek_works E \<longleftrightarrow>
     (let r = mock_output_ref E 0 0;
          s = build_ext E (with_utxo r (bogus_payload E) False new_ext);
          tx = build_tx True False (with_peek r (with_peek r new_tx))
      in validate E tx s = Ok default_valid)"

definition validate_with_unsatisfied_verifier_fails :: "test_environment \<Rightarrow> bool" where
  "validate_with_unsatisfied_verifier_fails E \<longleftrightarrow>
     (let r = mock_output_ref E 0 0;
          s = build_ext E (with_utxo r (bogus_payload E) False new_ext);
          tx = build_tx True False (with_input \<lparr>output_ref = r, redeemer = default_redemption\<rparr> new_tx)
      in validate E tx s = Err VerifierError)"

definition validate_with_pre_existing_output_fails :: "test_environment \<Rightarrow> bool" where
  "validate_with_pre_existing_output_fails E \<longleftrightarrow>
     (let out = \<lparr>payload = bogus_payload E, verifier = \<lparr>verifies = False\<rparr>\<rparr>;
          tx = build_tx True False (with_output out new_tx);
          s = build_ext E (with_utxo (tx_output_ref E tx) (bogus_payload E) False new_ext)
      in validate E tx s = Err PreExistingOutput)"

definition validate_with_constraint_error_fails :: "test_environment \<Rightarrow> bool" where
  "validate_with_constraint_error_fails E \<longleftrightarrow>
     validate E (build_tx False False new_tx) (build_ext E new_ext) = Err (ConstraintCheckerError ())"

subsection \<open>Application\<close>

definition apply_tx :: "test_environment \<Rightarrow> TestTransaction \<Rightarrow> storage \<Rightarrow> unit DispatchResult" where
  "apply_tx E tx s = snd (apply_tuxedo_transaction (t_host E) (t_verifier E) (t_checker E) tx s)"

definition apply_empty_works :: "test_environment \<Rightarrow> bool" where
  "apply_empty_works E \<longleftrightarrow> apply_tx E (build_tx True False new_tx) (build_ext E new_ext) = Ok ()"

definition apply_with_missing_input_fails :: "test_environment \<Rightarrow> bool" where
  "apply_with_missing_input_fails E \<longleftrightarrow>
     (let r = mock_output_ref E 0 0;
          tx = build_tx True False (with_input \<lparr>output_ref = r, redeemer = default_redemption\<rparr> new_tx)
      in apply_tx E tx (build_ext E new_ext) = Err MissingInput)"

definition apply_with_missing_peek_fails :: "test_environment \<Rightarrow> bool" where
  "apply_with_missing_peek_fails E \<longleftrightarrow>
     (let tx = build_tx True False (with_peek (mock_output_ref E 0 0) new_tx)
      in apply_tx E tx (build_ext E new_ext) = Err MissingInput)"

definition update_storage_consumes_input :: "test_environment \<Rightarrow> bool" where
  "update_storage_consumes_input E \<longleftrightarrow>
     (let r = mock_output_ref E 0 0;
          s = build_ext E (with_utxo r (bogus_payload E) True new_ext);
          tx = build_tx True False (with_input \<lparr>output_ref = r, redeemer = default_redemption\<rparr> new_tx);
          s' = update_storage (t_host E) (t_verifier E) (t_checker_codec E) tx s
      in s' (encode (output_ref_codec (t_host E)) r) = None)"

definition update_storage_adds_output :: "test_environment \<Rightarrow> bool" where
  "update_storage_adds_output E \<longleftrightarrow>
     (let out = \<lparr>payload = bogus_payload E, verifier = \<lparr>verifies = False\<rparr>\<rparr>;
          tx = build_tx True False (with_output out new_tx);
          s' = update_storage (t_host E) (t_verifier E) (t_checker_codec E) tx (build_ext E new_ext)
      in Option.bind (s' (encode (output_ref_codec (t_host E)) (tx_output_ref E tx)))
           (decode_value (output_codec (t_verifier E))) = Some out)"

subsection \<open>Authoring\<close>

definition open_block_works :: "test_environment \<Rightarrow> bool" where
  "open_block_works E \<longleftrightarrow>
     (let h = \<lparr>parent_hash = repeat_byte E 5, number = 5, state_root = repeat_byte E 6,
            extrinsics_root = repeat_byte E 7, digest = []\<rparr>;
          s' = open_block (t_host E) h (build_ext E new_ext)
      in Option.bind (s' HEADER_KEY) (decode_value (header_codec (t_host E))) = Some h)"

definition noted :: "test_environment \<Rightarrow> storage \<Rightarrow> bytes list" where
  "noted E s = (case Option.bind (s EXTRINSIC_KEY) (decode_value (bytes_list_codec (t_host E))) of
     Some xs \<Rightarrow> xs | None \<Rightarrow> [])"

definition apply_valid_extrinsic_work :: "test_environment \<Rightarrow> bool" where
  "apply_valid_extrinsic_work E \<longleftrightarrow>
     (let tx = build_tx True False new_tx;
          (s', r) = apply_extrinsic (t_host E) (t_verifier E) (t_checker E) tx (build_ext E new_ext)
      in r = Ok () \<and> noted E s' = [encode_tx E tx])"

definition apply_invalid_extrinsic_rejects :: "test_environment \<Rightarrow> bool" where
  "apply_invalid_extrinsic_rejects E \<longleftrightarrow>
     (let tx = build_tx False False new_tx;
          (s', r) = apply_extrinsic (t_host E) (t_verifier E) (t_checker E) tx (build_ext E new_ext)
      in (\<exists>e. r = Err e) \<and> noted E s' = [encode_tx E tx])"

definition close_block_works :: "test_environment \<Rightarrow> bool" where
  "close_block_works E \<longleftrightarrow>
     (let H = t_host E; parent = repeat_byte E 5; n = 6; ext = [1, 2, 3];
          s = build_ext E (with_noted_extrinsic ext (with_pre_header parent n new_ext))
      in case close_block H s of
           None \<Rightarrow> False
         | Some (s', returned_header) \<Rightarrow>
             (case decode_value (h256_codec H) (raw_storage_root H s') of
                None \<Rightarrow> False
              | Some root \<Rightarrow>
                  returned_header = \<lparr>parent_hash = parent, number = n, state_root = root,
                    extrinsics_root = ordered_trie_root H [ext], digest = []\<rparr>
                  \<and> s' HEADER_KEY = None \<and> s' EXTRINSIC_KEY = None))"

subsection \<open>Execution\<close>

text \<open>The state root all block tests expect, and the extrinsics roots.\<close>

definition test_state_root :: H256 where
  "test_state_root = 0xcc2d78f5977b6e9e16f4417f60cbd7edaad0c39a6a7cd21281e847da7dd210b9"

definition empty_extrinsics_root :: H256 where
  "empty_extrinsics_root = 0x03170a2e7597b7b7e3d84c05391d139a62b157e78786d8c082f29dcf4c111314"

definition test_block :: "H256 \<Rightarrow> H256 \<Rightarrow> (bool \<times> bool) list \<Rightarrow> TestBlock" where
  "test_block sroot xroot txs =
     \<lparr>header = \<lparr>parent_hash = 0, number = 6, state_root = sroot, extrinsics_root = xroot, digest = []\<rparr>,
      extrinsics = map (\<lambda>(chk, inh). build_tx chk inh new_tx) txs\<rparr>"

definition executes :: "test_environment \<Rightarrow> TestBlock \<Rightarrow> bool" where
  "executes E b \<longleftrightarrow> execute_block (t_host E) (t_verifier E) (t_checker E) b (build_ext E new_ext) \<noteq> None"

definition execute_empty_block_works :: "test_environment \<Rightarrow> bool" where
  "execute_empty_block_works E \<longleftrightarrow> executes E (test_block test_state_root empty_extrinsics_root [])"

definition execute_block_with_transaction_works :: "test_environment \<Rightarrow> bool" where
  "execute_block_with_transaction_works E \<longleftrightarrow> executes E (test_block test_state_root
     0xd609af1c51521f5891054014cf667619067a93f4bca518b398f5a39aeb270cca [(True, False)])"

definition execute_block_invalid_transaction :: "test_environment \<Rightarrow> bool" where
  "execute_block_invalid_transaction E \<longleftrightarrow>
     \<not> executes E (test_block test_state_root empty_extrinsics_root [(False, False)])"

definition execute_block_state_root_mismatch :: "test_environment \<Rightarrow> bool" where
  "execute_block_state_root_mismatch E \<longleftrightarrow> \<not> executes E (test_block 0 empty_extrinsics_root [])"

definition execute_block_extrinsic_root_mismatch :: "test_environment \<Rightarrow> bool" where
  "execute_block_extrinsic_root_mismatch E \<longleftrightarrow> \<not> executes E (test_block test_state_root 0 [])"

definition execute_block_inherent_only_works :: "test_environment \<Rightarrow> bool" where
  "execute_block_inherent_only_works E \<longleftrightarrow> executes E (test_block test_state_root
     0x799fc6d36f68fc83ae3408de607006e02836181e91701aa3a8021960b1f3507c [(True, True)])"

definition execute_block_inherent_first_works :: "test_environment \<Rightarrow> bool" where
  "execute_block_inherent_first_works E \<longleftrightarrow> executes E (test_block test_state_root
     0xbf3e98799022bee8f0a55659af5f498717736ae012d2aff6274cdb7c2b0d78e9 [(True, True), (True, False)])"

definition execute_block_inherents_must_be_first :: "test_environment \<Rightarrow> bool" where
  "execute_block_inherents_must_be_first E \<longleftrightarrow> \<not> executes E (test_block test_state_root
     0xdf64890515cd8ef5a8e736248394f7c72a1df197bd400a4e31affcaf6e051984 [(True, False), (True, True)])"

definition execute_block_inherents_must_all_be_first :: "test_environment \<Rightarrow> bool" where
  "execute_block_inherents_must_all_be_first E \<longleftrightarrow> \<not> executes E (test_block test_state_root
     0x36601deae36de127b974e8498e118e348a50aa4aa94bc5713e29c56e0d37e44f
     [(True, True), (True, False), (True, True)])"

subsection \<open>Extrinsics and the test checker\<close>

definition extrinsic_test :: "test_environment \<Rightarrow> bool \<Rightarrow> unit option \<Rightarrow> bool option \<Rightarrow> bool" where
  "extrinsic_test E inh sig expected \<longleftrightarrow>
     (let tx = build_tx True inh new_tx
      in case extrinsic_new tx sig of None \<Rightarrow> False | Some e \<Rightarrow> e = tx \<and> is_signed (t_checker E) e = expected)"

definition extrinsic_no_signed_payload :: "test_environment \<Rightarrow> bool" where
  "extrinsic_no_signed_payload E \<longleftrightarrow> extrinsic_test E False None None"

definition extrinsic_is_signed_works :: "test_environment \<Rightarrow> bool" where
  "extrinsic_is_signed_works E \<longleftrightarrow> extrinsic_test E False (Some ()) None"

definition extrinsic_is_signed_works_for_inherents :: "test_environment \<Rightarrow> bool" where
  "extrinsic_is_signed_works_for_inherents E \<longleftrightarrow> extrinsic_test E True (Some ()) (Some False)"

definition test_checker_passes :: "test_environment \<Rightarrow> bool" where
  "test_checker_passes E \<longleftrightarrow>
     snd (check (t_checker E) \<lparr>checks = True, inherent = False\<rparr> [] [] [] [] Map.empty) = Ok 0"

definition test_checker_fails :: "test_environment \<Rightarrow> bool" where
  "test_checker_fails E \<longleftrightarrow>
     snd (check (t_checker E) \<lparr>checks = False, inherent = False\<rparr> [] [] [] [] Map.empty) = Err ()"

definition executive_tests :: "(test_environment \<Rightarrow> bool) list" where
  "executive_tests =
     [validate_empty_works, validate_with_input_works, validate_with_peek_works, validate_with_output_works,
      validate_with_missing_input_works, validate_with_missing_peek_works, validate_with_duplicate_input_fails,
      validate_with_duplicate_peek_works, validate_with_unsatisfied_verifier_fails,
      validate_with_pre_existing_output_fails, validate_with_constraint_error_fails, apply_empty_works,
      apply_with_missing_input_fails, apply_with_missing_peek_fails, update_storage_consumes_input,
      update_storage_adds_output, open_block_works, apply_valid_extrinsic_work, apply_invalid_extrinsic_rejects,
      close_block_works, execute_empty_block_works, execute_block_with_transaction_works,
      execute_block_invalid_transaction, execute_block_state_root_mismatch, execute_block_extrinsic_root_mismatch,
      execute_block_inherent_only_works, execute_block_inherent_first_works, execute_block_inherents_must_be_first,
      execute_block_inherents_must_all_be_first, extrinsic_no_signed_payload, extrinsic_is_signed_works,
      extrinsic_is_signed_works_for_inherents, test_checker_passes, test_checker_fails]"

subsection \<open>What the tests rely on\<close>

locale test_env =
  fixes E :: test_environment
  assumes t_host_laws: "host_laws (t_host E)"
    and t_verifier_laws: "verifier_laws (t_verifier E)"
    and unit_redeemer: "encode (redeemer_codec (t_verifier E)) () = []"
    and root_decodes: "current_state_root (t_host E) s \<noteq> None"

text \<open>The state a block test leaves, and the roots Substrate computes of it and of the test transactions.\<close>

locale test_roots = test_env +
  assumes state_root_value: "current_state_root (t_host E) [HEIGHT_KEY \<mapsto> encode (u32_codec (t_host E)) 6,
      EXTRINSIC_KEY \<mapsto> encode (bytes_list_codec (t_host E)) []] = Some test_state_root"
    and no_extrinsics_value: "ordered_trie_root (t_host E) [] = empty_extrinsics_root"
    and extrinsics_values:
      "ordered_trie_root (t_host E) [encode_tx E (build_tx True False new_tx)]
        = 0xd609af1c51521f5891054014cf667619067a93f4bca518b398f5a39aeb270cca"
      "ordered_trie_root (t_host E) [encode_tx E (build_tx True True new_tx)]
        = 0x799fc6d36f68fc83ae3408de607006e02836181e91701aa3a8021960b1f3507c"
      "ordered_trie_root (t_host E) [encode_tx E (build_tx True True new_tx), encode_tx E (build_tx True False new_tx)]
        = 0xbf3e98799022bee8f0a55659af5f498717736ae012d2aff6274cdb7c2b0d78e9"

context test_env
begin

lemma builder_simps [simp]:
  "inputs (build_tx c i b) = b_inputs b" "peeks (build_tx c i b) = b_peeks b" "outputs (build_tx c i b) = b_outputs b"
  "checker (build_tx c i b) = \<lparr>checks = c, inherent = i\<rparr>"
  "b_inputs (with_input x b) = b_inputs b @ [x]" "b_peeks (with_input x b) = b_peeks b" "b_outputs (with_input x b) = b_outputs b"
  "b_inputs (with_peek p b) = b_inputs b" "b_peeks (with_peek p b) = b_peeks b @ [p]" "b_outputs (with_peek p b) = b_outputs b"
  "b_inputs (with_output out b) = b_inputs b" "b_peeks (with_output out b) = b_peeks b"
  "b_outputs (with_output out b) = b_outputs b @ [out]"
  "b_inputs new_tx = []" "b_peeks new_tx = []" "b_outputs new_tx = []"
  "b_utxos new_ext = []" "b_utxos (with_utxo r dat ver e) = b_utxos e @ [(r, \<lparr>payload = dat, verifier = \<lparr>verifies = ver\<rparr>\<rparr>)]"
  by (simp_all add: build_tx_def with_input_def with_peek_def with_output_def new_tx_def new_ext_def with_utxo_def)

lemma t_checker_simps [simp]:
  "check (t_checker E) c ins evs pks outs s = (s, if checks c then Ok 0 else Err ())"
  "is_inherent (t_checker E) = inherent" "checker_codec (t_checker E) = t_checker_codec E"
  by (simp_all add: t_checker_def test_constraint_checker_def stateless_def)

lemma t_verify [simp]: "verify (t_verifier E) v tx h red = Some (verifies v)"
  by (simp add: t_verifier_def verifier_dictionaries verify_test_def)

lemma redeem_unit [simp]: "decode_value (redeemer_codec (t_verifier E)) [] = Some ()"
  using scale_codec.decode_value_encode [OF verifier_laws.redeemer_lawful [OF t_verifier_laws], of "()"]
  by (simp add: unit_redeemer)

lemma build_ext_runtime_keys [simp]:
  "build_ext E b EXTRINSIC_KEY = Some (encode (bytes_list_codec (t_host E)) (b_noted_extrinsics b))"
  "block_height (t_host E) (build_ext E b) = Some (case b_pre_header b of Some h \<Rightarrow> number h | None \<Rightarrow> 0)"
  by (simp_all add: build_ext_def Let_def block_height_def
      scale_codec.decode_value_encode [OF host_laws.u32_lawful [OF t_host_laws]] split: option.split)

lemma peek_build_ext:
  assumes "distinct (map fst (b_utxos b))"
  shows "peek_utxo (t_host E) (t_verifier E) r (build_ext E b) = map_of (b_utxos b) r"
proof -
  let ?store = "fold (\<lambda>(r, out) s. s(encode (output_ref_codec (t_host E)) r \<mapsto> encode (output_codec (t_verifier E)) out))
    (b_utxos b) Map.empty"
  have "peek_utxo (t_host E) (t_verifier E) r ?store = map_of (b_utxos b) r"
    using utxo.peek_store_all [of "(t_host E, t_verifier E)" "b_utxos b" r Map.empty] assms
    by (simp add: utxo_lawful_def t_host_laws t_verifier_laws store_utxo_def [abs_def] peek_utxo_def
        split: option.splits)
  then show ?thesis
    by (simp add: build_ext_def Let_def t_host_laws)
qed

lemma refs_of_build [simp]:
  "output_refs_of (t_host E) (t_verifier E) (t_checker_codec E) (build_tx c i b)
     = map (\<lambda>j. (tx_output_ref E (build_tx c i b))\<lparr>index := of_nat j\<rparr>) [0..<length (b_outputs b)]"
  by (simp add: output_refs_of_def transaction_hash_def tx_output_ref_def encode_tx_def)

lemma tx_output_ref_index [simp]: "(tx_output_ref E tx)\<lparr>index := 0\<rparr> = tx_output_ref E tx"
  by (simp add: tx_output_ref_def)

lemmas validation = validate_def validate_tuxedo_transaction_def gather_transaction_def ensure_def Let_def
  peek_build_ext default_valid_def and_requires_def and_provides_def default_redemption_def

lemma validation_tests:
  "validate_empty_works E" "validate_with_input_works E" "validate_with_peek_works E" "validate_with_output_works E"
  "validate_with_missing_input_works E" "validate_with_missing_peek_works E" "validate_with_duplicate_input_fails E"
  "validate_with_duplicate_peek_works E" "validate_with_unsatisfied_verifier_fails E"
  "validate_with_pre_existing_output_fails E" "validate_with_constraint_error_fails E"
  unfolding validate_empty_works_def validate_with_input_works_def validate_with_peek_works_def validate_with_output_works_def
    validate_with_missing_input_works_def validate_with_missing_peek_works_def validate_with_duplicate_input_fails_def
    validate_with_duplicate_peek_works_def validate_with_unsatisfied_verifier_fails_def
    validate_with_pre_existing_output_fails_def validate_with_constraint_error_fails_def
  by (simp_all add: validation)

lemma application_tests:
  "apply_empty_works E" "apply_with_missing_input_fails E" "apply_with_missing_peek_fails E"
  unfolding apply_empty_works_def apply_with_missing_input_fails_def apply_with_missing_peek_fails_def
  by (simp_all add: apply_tx_def apply_tuxedo_transaction_def validation)

lemma update_tests: "update_storage_consumes_input E" "update_storage_adds_output E"
proof -
  show "update_storage_consumes_input E"
    by (simp add: update_storage_consumes_input_def update_storage_def consume_utxo_def Let_def)
  show "update_storage_adds_output E"
    by (simp add: update_storage_adds_output_def update_storage_def store_utxo_def Let_def transaction_hash_def
        tx_output_ref_def encode_tx_def scale_codec.decode_value_encode [OF verifier_laws.output_lawful [OF t_verifier_laws]])
qed

lemma decode_noted [simp]: "decode_value (bytes_list_codec (t_host E)) (encode (bytes_list_codec (t_host E)) xs) = Some xs"
  and decode_header [simp]: "decode_value (header_codec (t_host E)) (encode (header_codec (t_host E)) h) = Some h"
  by (simp_all add: scale_codec.decode_value_encode host_laws.bytes_list_lawful host_laws.header_lawful t_host_laws)

lemma no_noted_extrinsics [simp]: "b_noted_extrinsics new_ext = []"
  by (simp add: new_ext_def)

lemma authoring_tests:
  "open_block_works E" "apply_valid_extrinsic_work E" "apply_invalid_extrinsic_rejects E" "close_block_works E"
proof -
  show "open_block_works E"
    by (simp add: open_block_works_def open_block_def Let_def)
  show "apply_valid_extrinsic_work E" "apply_invalid_extrinsic_rejects E"
    unfolding apply_valid_extrinsic_work_def apply_invalid_extrinsic_rejects_def
    by (simp_all add: apply_extrinsic_def noted_extrinsics_def noted_def apply_tuxedo_transaction_def update_storage_def
        validation encode_tx_def)
  obtain root where "decode_value (h256_codec (t_host E)) (raw_storage_root (t_host E)
      [HEIGHT_KEY \<mapsto> encode (u32_codec (t_host E)) 6]) = Some root"
    using root_decodes [of "[HEIGHT_KEY \<mapsto> encode (u32_codec (t_host E)) 6]"] by (auto simp: current_state_root_def)
  then show "close_block_works E"
    by (simp add: close_block_works_def close_block_def build_ext_def with_noted_extrinsic_def with_pre_header_def new_ext_def
        noted_extrinsics_def current_state_root_def Let_def)
qed

lemma extrinsic_tests:
  "extrinsic_no_signed_payload E" "extrinsic_is_signed_works E" "extrinsic_is_signed_works_for_inherents E"
  "test_checker_passes E" "test_checker_fails E"
  by (simp_all add: extrinsic_no_signed_payload_def extrinsic_is_signed_works_def extrinsic_is_signed_works_for_inherents_def
      extrinsic_test_def extrinsic_new_def is_signed_def test_checker_passes_def test_checker_fails_def)

text \<open>The test transactions of a block change nothing: the block runs exactly when all of them check and the inherents come first.\<close>

lemma apply_plain_tx:
  "apply_tuxedo_transaction (t_host E) (t_verifier E) (t_checker E) (build_tx c i new_tx) s
     = (s, if c then Ok () else Err (ConstraintCheckerError ()))"
  by (simp add: apply_tuxedo_transaction_def update_storage_def validation)

end

text \<open>After a block of the tests the storage holds the height and the empty list of noted extrinsics.\<close>

abbreviation after_block :: "test_environment \<Rightarrow> storage" where
  "after_block E \<equiv> [HEIGHT_KEY \<mapsto> encode (u32_codec (t_host E)) 6, EXTRINSIC_KEY \<mapsto> encode (bytes_list_codec (t_host E)) []]"

context test_roots
begin

lemma after_test_block:
  "((build_ext E new_ext)(HEADER_KEY \<mapsto> h, HEIGHT_KEY \<mapsto> encode (u32_codec (t_host E)) 6))(HEADER_KEY := None) = after_block E"
  by (auto simp: build_ext_def new_ext_def Let_def fun_eq_iff)

lemmas block_execution = executes_def execute_block_def test_block_def after_test_block apply_plain_tx Let_def
  state_root_value no_extrinsics_value extrinsics_values encode_tx_def [symmetric]

lemma block_tests:
  "execute_empty_block_works E" "execute_block_with_transaction_works E" "execute_block_invalid_transaction E"
  "execute_block_state_root_mismatch E" "execute_block_extrinsic_root_mismatch E" "execute_block_inherent_only_works E"
  "execute_block_inherent_first_works E" "execute_block_inherents_must_be_first E"
  "execute_block_inherents_must_all_be_first E"
  unfolding execute_empty_block_works_def execute_block_with_transaction_works_def execute_block_invalid_transaction_def
    execute_block_state_root_mismatch_def execute_block_extrinsic_root_mismatch_def execute_block_inherent_only_works_def
    execute_block_inherent_first_works_def execute_block_inherents_must_be_first_def
    execute_block_inherents_must_all_be_first_def
  by (simp_all add: block_execution) (simp_all add: test_state_root_def empty_extrinsics_root_def)

end

text \<open>
  The executive's unit tests hold of the model. On every host whose codecs are lawful and whose state root decodes, with the codec
  of the unit redeemer writing nothing, and whose trie roots of the tests' states and extrinsics
  are the ones Substrate computes, all 34 tests of the executive, the extrinsics and the
  test checker pass, those that expect a panic included.
\<close>

theorem executive_tests_pass:
  assumes "test_roots E"
  shows "list_all (\<lambda>test. test E) executive_tests"
proof -
  note env = test_roots.axioms(1) [OF assms]
  show ?thesis
    unfolding executive_tests_def
    by (simp add: test_env.validation_tests [OF env] test_env.application_tests [OF env] test_env.update_tests [OF env]
        test_env.authoring_tests [OF env] test_env.extrinsic_tests [OF env] test_roots.block_tests [OF assms])
qed

end
