(* ===== verification/Verifier_Tests.thy ===== *)
theory Verifier_Tests
  imports Verifiers
begin

text \<open>
  The unit tests of the verifiers (\<^verbatim>\<open>verifier.rs\<close>, \<^verbatim>\<open>simple_signature.rs\<close>, \<^verbatim>\<open>multi_signature.rs\<close>, \<^verbatim>\<open>htlc.rs\<close>) and of
  dynamic typing, on the model. The environment of a test holds what comes from \<^verbatim>\<open>sp_core\<close>: key pairs from seeds, their public
  keys and signatures, and the encodings of strings and of the derived type \<^verbatim>\<open>Byte\<close>.

  The locale \<open>test_crypto\<close> states what the tests rely on: a pair's signature verifies under its own key and under no other
  test key, different seeds give different keys, the bogus signature verifies nowhere (it lacks the mark
  of the signature scheme), and the hash separates the values the tests compare.
\<close>

subsection \<open>The environment\<close>

record 'p crypto_environment =
  c_host :: host
  from_seed :: "bytes \<Rightarrow> 'p"
  pair_public :: "'p \<Rightarrow> Public"
  pair_sign :: "'p \<Rightarrow> bytes \<Rightarrow> Signature"
  signature_from_slice :: "bytes \<Rightarrow> Signature option"
  encode_str :: "string \<Rightarrow> bytes"
  byte_type_codec :: "u8 codec"

definition bad_sig :: "'p crypto_environment \<Rightarrow> Signature option" where
  "bad_sig E = signature_from_slice E
     (byte_string ''bogus_signature_bogus_signature_bogus_signature_bogus_signature!'')"

definition hello :: bytes where "hello = byte_string ''hello world''"

definition seed_pair :: "'p crypto_environment \<Rightarrow> u8 \<Rightarrow> 'p" where
  "seed_pair E b = from_seed E (replicate 32 b)"

text \<open>The pairs of sequential seeds: the last byte changes.\<close>

definition generate_n_pairs :: "'p crypto_environment \<Rightarrow> u8 \<Rightarrow> 'p list" where
  "generate_n_pairs E n = map (\<lambda>i. from_seed E (replicate 31 0 @ [of_nat i])) [0..<unat n]"

subsection \<open>Trivial verifiers\<close>

definition up_for_grabs_always_verifies :: "'p crypto_environment \<Rightarrow> bool" where
  "up_for_grabs_always_verifies E \<longleftrightarrow> verify_up_for_grabs UpForGrabs [] 0 ()"

definition test_verifier_passes :: "'p crypto_environment \<Rightarrow> bool" where
  "test_verifier_passes E \<longleftrightarrow> verify_test \<lparr>verifies = True\<rparr> [] 0 ()"

definition test_verifier_fails :: "'p crypto_environment \<Rightarrow> bool" where
  "test_verifier_fails E \<longleftrightarrow> \<not> verify_test \<lparr>verifies = False\<rparr> [] 0 ()"

subsection \<open>Signatures\<close>

definition sr25519_signature_with_good_sig :: "'p crypto_environment \<Rightarrow> bool" where
  "sr25519_signature_with_good_sig E \<longleftrightarrow>
     (let pair = seed_pair E 0; sig = pair_sign E pair hello
      in verify_sr25519 (c_host E) \<lparr>owner_pubkey = pair_public E pair\<rparr> hello 0 sig)"

definition sr25519_signature_with_bad_sig :: "'p crypto_environment \<Rightarrow> bool" where
  "sr25519_signature_with_bad_sig E \<longleftrightarrow>
     (case bad_sig E of None \<Rightarrow> False | Some sig \<Rightarrow> \<not> verify_sr25519 (c_host E) \<lparr>owner_pubkey = 0\<rparr> hello 0 sig)"

definition p2pkh_of :: "'p crypto_environment \<Rightarrow> 'p \<Rightarrow> P2PKH" where
  "p2pkh_of E pair = \<lparr>owner_pubkey_hash = blake2_256 (c_host E) (encode (h256_codec (c_host E)) (pair_public E pair))\<rparr>"

definition p2pkh_success :: "'p crypto_environment \<Rightarrow> bool" where
  "p2pkh_success E \<longleftrightarrow>
     (let pair = seed_pair E 0; sig = pair_sign E pair hello
      in verify_p2pkh (c_host E) (p2pkh_of E pair) hello 0 (pair_public E pair, sig))"

definition p2pkh_correct_pubkey_bad_sig :: "'p crypto_environment \<Rightarrow> bool" where
  "p2pkh_correct_pubkey_bad_sig E \<longleftrightarrow>
     (let pair = seed_pair E 0
      in case bad_sig E of None \<Rightarrow> False
         | Some sig \<Rightarrow> \<not> verify_p2pkh (c_host E) (p2pkh_of E pair) hello 0 (pair_public E pair, sig))"

definition p2pkh_incorrect_pubkey_but_valid_sig_from_provided_pubkey :: "'p crypto_environment \<Rightarrow> bool" where
  "p2pkh_incorrect_pubkey_but_valid_sig_from_provided_pubkey E \<longleftrightarrow>
     (let owner_pair = seed_pair E 0; attacker_pair = seed_pair E 1; attacker_sig = pair_sign E attacker_pair hello
      in \<not> verify_p2pkh (c_host E) (p2pkh_of E owner_pair) hello 0 (pair_public E attacker_pair, attacker_sig))"

definition p2pkh_incorrect_pubkey_and_bogus_sig :: "'p crypto_environment \<Rightarrow> bool" where
  "p2pkh_incorrect_pubkey_and_bogus_sig E \<longleftrightarrow>
     (let owner_pair = seed_pair E 0; attacker_pair = seed_pair E 1
      in case bad_sig E of None \<Rightarrow> False
         | Some sig \<Rightarrow> \<not> verify_p2pkh (c_host E) (p2pkh_of E owner_pair) hello 0 (pair_public E attacker_pair, sig))"

subsection \<open>Multisignatures\<close>

definition hello_multi :: bytes where "hello_multi = byte_string ''hello_world''"

definition signatures_of :: "'p crypto_environment \<Rightarrow> 'p list \<Rightarrow> SignatureAndIndex list" where
  "signatures_of E pairs =
     map (\<lambda>(i, p). \<lparr>sig_signature = pair_sign E p hello_multi, sig_index = of_nat i\<rparr>) (enumerate 0 pairs)"

definition threshold_multisig_with_enough_sigs_passes :: "'p crypto_environment \<Rightarrow> bool" where
  "threshold_multisig_with_enough_sigs_passes E \<longleftrightarrow>
     (let th = 2; pairs = generate_n_pairs E th; multi = \<lparr>threshold = th, signatories = map (pair_public E) pairs\<rparr>
      in verify_multi (c_host E) multi hello_multi 0 (signatures_of E pairs) = Some True)"

definition threshold_multisig_not_enough_sigs_fails :: "'p crypto_environment \<Rightarrow> bool" where
  "threshold_multisig_not_enough_sigs_fails E \<longleftrightarrow>
     (let th = 3; pairs = generate_n_pairs E th; multi = \<lparr>threshold = th, signatories = map (pair_public E) pairs\<rparr>
      in verify_multi (c_host E) multi hello_multi 0 (signatures_of E (take (unat th - 1) pairs)) = Some False)"

definition threshold_multisig_extra_sigs_still_passes :: "'p crypto_environment \<Rightarrow> bool" where
  "threshold_multisig_extra_sigs_still_passes E \<longleftrightarrow>
     (let th = 2; pairs = generate_n_pairs E (th + 1); multi = \<lparr>threshold = th, signatories = map (pair_public E) pairs\<rparr>
      in verify_multi (c_host E) multi hello_multi 0 (signatures_of E pairs) = Some True)"

definition threshold_multisig_replay_sig_attack_fails :: "'p crypto_environment \<Rightarrow> bool" where
  "threshold_multisig_replay_sig_attack_fails E \<longleftrightarrow>
     (let th = 2; pairs = generate_n_pairs E th; multi = \<lparr>threshold = th, signatories = map (pair_public E) pairs\<rparr>;
          sig = \<lparr>sig_signature = pair_sign E (pairs ! 0) hello_multi, sig_index = 0\<rparr>
      in verify_multi (c_host E) multi hello_multi 0 [sig, sig] = Some False)"

definition threshold_multisig_has_duplicate_signatories_fails :: "'p crypto_environment \<Rightarrow> bool" where
  "threshold_multisig_has_duplicate_signatories_fails E \<longleftrightarrow>
     (let th = 2; pairs = generate_n_pairs E th;
          multi = \<lparr>threshold = th, signatories = [pair_public E (pairs ! 0), pair_public E (pairs ! 0)]\<rparr>
      in verify_multi (c_host E) multi hello_multi 0 (signatures_of E pairs) = Some False)"

subsection \<open>Locks\<close>

definition time_lock_too_soon :: "'p crypto_environment \<Rightarrow> bool" where
  "time_lock_too_soon E \<longleftrightarrow> \<not> verify_time_lock \<lparr>unlock_block_height = 100\<rparr> [] 10 ()"

definition time_lock_exactly_on_time :: "'p crypto_environment \<Rightarrow> bool" where
  "time_lock_exactly_on_time E \<longleftrightarrow> verify_time_lock \<lparr>unlock_block_height = 100\<rparr> [] 100 ()"

definition time_lock_past_threshold :: "'p crypto_environment \<Rightarrow> bool" where
  "time_lock_past_threshold E \<longleftrightarrow> verify_time_lock \<lparr>unlock_block_height = 100\<rparr> [] 200 ()"

definition htlc_secret :: "'p crypto_environment \<Rightarrow> bytes" where
  "htlc_secret E = encode_str E ''htlc ftw''"

definition incorrect_secret :: "'p crypto_environment \<Rightarrow> bytes" where
  "incorrect_secret E = encode_str E ''there is no second best''"

definition hash_lock_correct_secret :: "'p crypto_environment \<Rightarrow> bool" where
  "hash_lock_correct_secret E \<longleftrightarrow>
     verify_hash_lock (c_host E) (hash_lock_from_secret (c_host E) (htlc_secret E)) [] 0 (htlc_secret E)"

definition hash_lock_wrong_secret :: "'p crypto_environment \<Rightarrow> bool" where
  "hash_lock_wrong_secret E \<longleftrightarrow>
     \<not> verify_hash_lock (c_host E) (hash_lock_from_secret (c_host E) (htlc_secret E)) [] 0 (incorrect_secret E)"

text \<open>The contract of all the tests of hash time locks: pair 0 may claim until block 100, then pair 1 is refunded.\<close>

definition test_htlc :: "'p crypto_environment \<Rightarrow> HashTimeLockContract" where
  "test_htlc E = \<lparr>htlc_hash_lock = blake2_256 (c_host E) (htlc_secret E), recipient_pubkey = pair_public E (seed_pair E 0),
     claim_period_end = 100, refunder_pubkey = pair_public E (seed_pair E 1)\<rparr>"

definition htlc_spends :: "'p crypto_environment \<Rightarrow> u32 \<Rightarrow> HtlcSpendPath \<Rightarrow> bool" where
  "htlc_spends E h path = verify_htlc (c_host E) (test_htlc E) hello h path"

definition htlc_claim_success :: "'p crypto_environment \<Rightarrow> bool" where
  "htlc_claim_success E \<longleftrightarrow>
     (let recipient_sig = pair_sign E (seed_pair E 0) hello in htlc_spends E 0 (Claim (htlc_secret E) recipient_sig))"

definition htlc_claim_wrong_secret :: "'p crypto_environment \<Rightarrow> bool" where
  "htlc_claim_wrong_secret E \<longleftrightarrow>
     (let recipient_sig = pair_sign E (seed_pair E 0) hello in \<not> htlc_spends E 0 (Claim (incorrect_secret E) recipient_sig))"

definition htlc_claim_bogus_signature :: "'p crypto_environment \<Rightarrow> bool" where
  "htlc_claim_bogus_signature E \<longleftrightarrow>
     (case bad_sig E of None \<Rightarrow> False | Some sig \<Rightarrow> \<not> htlc_spends E 0 (Claim (htlc_secret E) sig))"

definition htlc_claim_fails_when_signature_is_from_refunder :: "'p crypto_environment \<Rightarrow> bool" where
  "htlc_claim_fails_when_signature_is_from_refunder E \<longleftrightarrow>
     (let refunder_sig = pair_sign E (seed_pair E 1) hello in \<not> htlc_spends E 0 (Claim (htlc_secret E) refunder_sig))"

definition htlc_refund_success :: "'p crypto_environment \<Rightarrow> bool" where
  "htlc_refund_success E \<longleftrightarrow>
     (let refunder_sig = pair_sign E (seed_pair E 1) hello in htlc_spends E (2 * 100) (Refund refunder_sig))"

definition htlc_refund_too_early :: "'p crypto_environment \<Rightarrow> bool" where
  "htlc_refund_too_early E \<longleftrightarrow>
     (let refunder_sig = pair_sign E (seed_pair E 1) hello in \<not> htlc_spends E 0 (Refund refunder_sig))"

definition htlc_refund_bogus_sig :: "'p crypto_environment \<Rightarrow> bool" where
  "htlc_refund_bogus_sig E \<longleftrightarrow>
     (case bad_sig E of None \<Rightarrow> False | Some sig \<Rightarrow> \<not> htlc_spends E (2 * 100) (Refund sig))"

definition htlc_refund_fails_when_signature_is_from_recipient :: "'p crypto_environment \<Rightarrow> bool" where
  "htlc_refund_fails_when_signature_is_from_recipient E \<longleftrightarrow>
     (let recipient_sig = pair_sign E (seed_pair E 0) hello in \<not> htlc_spends E (2 * 100) (Refund recipient_sig))"

subsection \<open>Dynamic typing\<close>

definition Byte :: "'p crypto_environment \<Rightarrow> u8 UtxoData" where
  "Byte E = \<lparr>TYPE_ID = byte_string4 ''byte'', data_codec = byte_type_codec E\<rparr>"

definition extract_works :: "'p crypto_environment \<Rightarrow> bool" where
  "extract_works E \<longleftrightarrow> extract_data (Byte E) (into_data (Byte E) 4) = Ok 4"

definition extract_wrong_type :: "'p crypto_environment \<Rightarrow> bool" where
  "extract_wrong_type E \<longleftrightarrow> extract_data (Bogus unit_codec) (into_data (Byte E) 4) = Err WrongType"

definition extract_decode_fails :: "'p crypto_environment \<Rightarrow> bool" where
  "extract_decode_fails E \<longleftrightarrow> extract_data (Byte E) ((into_data (Byte E) 4)\<lparr>data := []\<rparr>) = Err DecodingFailed"

definition display_wrong_type_error :: "'p crypto_environment \<Rightarrow> bool" where
  "display_wrong_type_error E \<longleftrightarrow>
     display_typing_error WrongType = ''dynamic type does not match extraction target''"

definition display_decoding_failed_error :: "'p crypto_environment \<Rightarrow> bool" where
  "display_decoding_failed_error E \<longleftrightarrow>
     display_typing_error DecodingFailed = ''failed to decode dynamically typed data with scale codec''"

definition verifier_tests :: "('p crypto_environment \<Rightarrow> bool) list" where
  "verifier_tests =
     [up_for_grabs_always_verifies, test_verifier_passes, test_verifier_fails, sr25519_signature_with_good_sig,
      sr25519_signature_with_bad_sig, p2pkh_success, p2pkh_correct_pubkey_bad_sig,
      p2pkh_incorrect_pubkey_but_valid_sig_from_provided_pubkey, p2pkh_incorrect_pubkey_and_bogus_sig,
      threshold_multisig_with_enough_sigs_passes, threshold_multisig_not_enough_sigs_fails,
      threshold_multisig_extra_sigs_still_passes, threshold_multisig_replay_sig_attack_fails,
      threshold_multisig_has_duplicate_signatories_fails, time_lock_too_soon, time_lock_exactly_on_time,
      time_lock_past_threshold, hash_lock_correct_secret, hash_lock_wrong_secret, htlc_claim_success,
      htlc_claim_wrong_secret, htlc_claim_bogus_signature, htlc_claim_fails_when_signature_is_from_refunder,
      htlc_refund_success, htlc_refund_too_early, htlc_refund_bogus_sig,
      htlc_refund_fails_when_signature_is_from_recipient, extract_works, extract_wrong_type, extract_decode_fails,
      display_wrong_type_error, display_decoding_failed_error]"

subsection \<open>What the tests rely on\<close>

locale test_crypto =
  fixes E :: "'p crypto_environment"
  assumes sign_verifies: "sr25519_verify (c_host E) (pair_sign E p m) m (pair_public E p)"
    and foreign_key: "pair_public E q \<noteq> pair_public E p \<Longrightarrow> \<not> sr25519_verify (c_host E) (pair_sign E p m) m (pair_public E q)"
    and seeds_distinct: "length s = 32 \<Longrightarrow> length s' = 32
      \<Longrightarrow> pair_public E (from_seed E s) = pair_public E (from_seed E s') \<longleftrightarrow> s = s'"
    and slice_length: "length b = 64 \<Longrightarrow> signature_from_slice E b \<noteq> None"
    and bogus_unmarked: "bad_sig E = Some sig \<Longrightarrow> \<not> sr25519_verify (c_host E) sig m pk"
    and hash_separates_secrets: "blake2_256 (c_host E) (incorrect_secret E) \<noteq> blake2_256 (c_host E) (htlc_secret E)"
    and hash_separates_keys: "blake2_256 (c_host E) (encode (h256_codec (c_host E)) (pair_public E (seed_pair E 1)))
      \<noteq> blake2_256 (c_host E) (encode (h256_codec (c_host E)) (pair_public E (seed_pair E 0)))"
    and byte_type_lawful: "scale_codec (byte_type_codec E)"
    and byte_needs_input: "decode_value (byte_type_codec E) [] = None"
begin

lemma bad_sig_exists: "\<exists>sig. bad_sig E = Some sig \<and> (\<forall>m pk. \<not> sr25519_verify (c_host E) sig m pk)"
proof -
  obtain sig where "bad_sig E = Some sig"
    using slice_length unfolding bad_sig_def by (fastforce simp: byte_string_def)
  then show ?thesis using bogus_unmarked by blast
qed

lemma pairs_differ: "pair_public E (seed_pair E 0) \<noteq> pair_public E (seed_pair E 1)"
  by (simp add: seed_pair_def seeds_distinct)

lemma generated_keys:
  "generate_n_pairs E 2 = [from_seed E (replicate 31 0 @ [0]), from_seed E (replicate 31 0 @ [1])]"
  "generate_n_pairs E 3 = [from_seed E (replicate 31 0 @ [0]), from_seed E (replicate 31 0 @ [1]), from_seed E (replicate 31 0 @ [2])]"
  by (simp_all add: generate_n_pairs_def upt_rec)

lemma signature_tests:
  "sr25519_signature_with_good_sig E" "sr25519_signature_with_bad_sig E" "p2pkh_success E" "p2pkh_correct_pubkey_bad_sig E"
  "p2pkh_incorrect_pubkey_but_valid_sig_from_provided_pubkey E" "p2pkh_incorrect_pubkey_and_bogus_sig E"
  using bad_sig_exists hash_separates_keys
  by (auto simp: sr25519_signature_with_good_sig_def sr25519_signature_with_bad_sig_def p2pkh_success_def
      p2pkh_correct_pubkey_bad_sig_def p2pkh_incorrect_pubkey_but_valid_sig_from_provided_pubkey_def
      p2pkh_incorrect_pubkey_and_bogus_sig_def verify_sr25519_def verify_p2pkh_def p2pkh_of_def sign_verifies Let_def)

lemma multisig_tests:
  "threshold_multisig_with_enough_sigs_passes E" "threshold_multisig_not_enough_sigs_fails E"
  "threshold_multisig_extra_sigs_still_passes E" "threshold_multisig_replay_sig_attack_fails E"
  "threshold_multisig_has_duplicate_signatories_fails E"
  by (simp_all add: threshold_multisig_with_enough_sigs_passes_def threshold_multisig_not_enough_sigs_fails_def
      threshold_multisig_extra_sigs_still_passes_def threshold_multisig_replay_sig_attack_fails_def
      threshold_multisig_has_duplicate_signatories_fails_def Let_def generated_keys signatures_of_def verify_multi_def
      has_duplicate_signatories_def check_member_signature_def seeds_distinct enumerate_eq_zip upt_rec)

lemma lock_tests:
  "time_lock_too_soon E" "time_lock_exactly_on_time E" "time_lock_past_threshold E" "hash_lock_correct_secret E"
  "hash_lock_wrong_secret E"
  using hash_separates_secrets
  by (simp_all add: time_lock_too_soon_def time_lock_exactly_on_time_def time_lock_past_threshold_def verify_time_lock_def
      hash_lock_correct_secret_def hash_lock_wrong_secret_def verify_hash_lock_def hash_lock_from_secret_def)

lemma htlc_tests:
  "htlc_claim_success E" "htlc_claim_wrong_secret E" "htlc_claim_bogus_signature E"
  "htlc_claim_fails_when_signature_is_from_refunder E" "htlc_refund_success E" "htlc_refund_too_early E"
  "htlc_refund_bogus_sig E" "htlc_refund_fails_when_signature_is_from_recipient E"
  using bad_sig_exists hash_separates_secrets pairs_differ
  by (auto simp: htlc_claim_success_def htlc_claim_wrong_secret_def htlc_claim_bogus_signature_def
      htlc_claim_fails_when_signature_is_from_refunder_def htlc_refund_success_def htlc_refund_too_early_def
      htlc_refund_bogus_sig_def htlc_refund_fails_when_signature_is_from_recipient_def htlc_spends_def test_htlc_def
      sign_verifies foreign_key Let_def)

lemma typing_tests:
  "extract_works E" "extract_wrong_type E" "extract_decode_fails E" "display_wrong_type_error E" "display_decoding_failed_error E"
  by (simp_all add: extract_works_def extract_wrong_type_def extract_decode_fails_def display_wrong_type_error_def
      display_decoding_failed_error_def extract_data_def Byte_def Bogus_def byte_needs_input
      scale_codec.decode_value_encode [OF byte_type_lawful])

end

text \<open>
  The unit tests of the verifiers and of dynamic typing hold of the model. Wherever key pairs sign for their own keys only,
  different seeds give different keys, the bogus signature verifies nowhere and the hash separates the tests' values, all 32 tests
  pass. (None of the five tests of the multisignature has a wrong signature in it, so they pass although
  the verifier ignores the signatures.)
\<close>

theorem verifier_tests_pass:
  assumes "test_crypto E"
  shows "list_all (\<lambda>test. test E) verifier_tests"
  unfolding verifier_tests_def
  by (simp add: test_crypto.signature_tests [OF assms] test_crypto.multisig_tests [OF assms] test_crypto.lock_tests [OF assms]
      test_crypto.htlc_tests [OF assms] test_crypto.typing_tests [OF assms])
    (simp add: up_for_grabs_always_verifies_def test_verifier_passes_def test_verifier_fails_def verify_up_for_grabs_def verify_test_def)

end
