(* ===== verification/Tests_Instance.thy ===== *)
theory Tests_Instance
  imports Executive_Tests Verifier_Tests Reference_Host
begin

text \<open>
  A host for the unit tests: the reference host with a table of the roots Substrate computes. It shows that what the
  tests rely on can hold. Key pairs are their public keys, the little-endian numbers of their seeds.
\<close>

definition base_environment :: test_environment where
  "base_environment = \<lparr>t_host = ref_host,
     t_verifier_codecs = ref_verifier_codecs unit_codec (map_codec (\<lambda>b. \<lparr>verifies = b\<rparr>) verifies bool_codec),
     t_checker_codec = checker_codec ref_test_checker, t_bogus_codec = unit_codec,
     from_low_u64_le = ucast, repeat_byte = (\<lambda>b. of_nat (le_value (replicate 32 b)))\<rparr>"

definition plain_bytes :: "bool \<Rightarrow> bytes" where
  "plain_bytes inh = encode_tx base_environment (build_tx True inh new_tx)"

definition root_table :: "bytes list \<Rightarrow> H256" where
  "root_table xs =
     (if xs = [] then empty_extrinsics_root
      else if xs = [plain_bytes False] then 0xd609af1c51521f5891054014cf667619067a93f4bca518b398f5a39aeb270cca
      else if xs = [plain_bytes True] then 0x799fc6d36f68fc83ae3408de607006e02836181e91701aa3a8021960b1f3507c
      else 0xbf3e98799022bee8f0a55659af5f498717736ae012d2aff6274cdb7c2b0d78e9)"

definition tests_host :: host where
  "tests_host = ref_host\<lparr>ordered_trie_root := root_table,
     raw_storage_root := (\<lambda>_. encode (h256_codec ref_host) test_state_root)\<rparr>"

definition tests_environment :: test_environment where
  "tests_environment = base_environment\<lparr>t_host := tests_host\<rparr>"

lemma tests_host_laws: "host_laws tests_host"
  unfolding tests_host_def
  by (rule host_laws.intro) (simp_all add: ref.h256_lawful ref.u32_lawful ref.compact_lawful ref.bytes_lawful ref.bytes_list_lawful
      ref.output_ref_lawful ref.output_refs_lawful ref.input_lawful ref.inputs_lawful ref.header_lawful ref.output_ref_length)

lemma tests_verifier: "t_verifier tests_environment = ref_test_verifier" "t_verifier base_environment = ref_test_verifier"
  by (simp_all add: t_verifier_def tests_environment_def base_environment_def ref_test_verifier_def)

lemma tests_encode: "encode_tx tests_environment tx = encode_tx base_environment tx"
  by (simp add: encode_tx_def tests_verifier)
    (simp add: tests_environment_def base_environment_def tests_host_def transaction_codec_def encode_transaction_def)

lemma plain_bytes_distinct: "plain_bytes True \<noteq> plain_bytes False"
proof -
  have "build_tx True True new_tx \<noteq> build_tx True False new_tx" by (simp add: build_tx_def)
  then show ?thesis
    unfolding plain_bytes_def encode_tx_def tests_verifier
    using ref_test.tx.encode_inject by (simp add: base_environment_def)
qed

interpretation tests: test_roots tests_environment
proof (intro test_roots.intro test_env.intro test_roots_axioms.intro)
  let ?E = tests_environment
  show "host_laws (t_host ?E)" by (simp add: tests_environment_def tests_host_laws)
  show "verifier_laws (t_verifier ?E)" by (simp add: tests_verifier ref_test_verifier.verifier_laws_axioms)
  show "encode (redeemer_codec (t_verifier ?E)) () = []"
    by (simp add: tests_verifier ref_test_verifier_def verifier_dictionaries ref_verifier_codecs_def unit_codec_def)
  have root: "current_state_root (t_host ?E) s = Some test_state_root" for s
    by (simp add: current_state_root_def tests_environment_def tests_host_def
        scale_codec.decode_value_encode [OF ref.h256_lawful])
  show "current_state_root (t_host ?E) s \<noteq> None" for s by (simp add: root)
  show "current_state_root (t_host ?E) (after_block ?E) = Some test_state_root" by (rule root)
qed (simp_all add: tests_encode plain_bytes_def [symmetric],
    simp_all add: tests_environment_def tests_host_def root_table_def plain_bytes_distinct)

theorem executive_tests_pass_witness:
  "list_all (\<lambda>test. test tests_environment) executive_tests"
  by (rule executive_tests_pass) (rule tests.test_roots_axioms)

definition unused_signature :: Signature where "unused_signature = of_nat (2 ^ 256)"

lemma unused_signature: "unat unused_signature = 2 ^ 256"
  unfolding unused_signature_def by (rule unat_of_nat_small) simp

definition crypto_tests :: "Public crypto_environment" where
  "crypto_tests = \<lparr>c_host = ref_host, from_seed = (\<lambda>s. of_nat (le_value s)), pair_public = (\<lambda>p. p),
     pair_sign = (\<lambda>p m. of_nat (unat p)), signature_from_slice = (\<lambda>b. if length b = 64 then Some unused_signature else None),
     encode_str = byte_string, byte_type_codec = byte_codec\<rparr>"

lemma le_value_bound: "le_value b < 256 ^ length b"
proof (induction b)
  case (Cons x b)
  then show ?case using unat_less_exp [of x] by simp
qed simp

lemma unat_eq_unat: "unat x = unat y \<Longrightarrow> x = (y :: 'a :: len word)"
  by (metis of_nat_unat ucast_id)

lemma le_value_inject: "length b = length b' \<Longrightarrow> le_value b = le_value b' \<longleftrightarrow> b = b'"
proof (induction b b' rule: list_induct2)
  case (Cons x b y b')
  have "unat x < 256" "unat y < 256" using unat_less_exp [of x] unat_less_exp [of y] by simp_all
  then have "unat x + 256 * le_value b = unat y + 256 * le_value b' \<longleftrightarrow> unat x = unat y \<and> le_value b = le_value b'"
    by (metis add_left_cancel mod_less mod_mult_self2 mult_cancel1 zero_neq_numeral)
  with Cons show ?case by (auto dest: unat_eq_unat)
qed simp

lemma seed_key_inject:
  assumes "length b = 32" "length b' = 32"
  shows "(of_nat (le_value b) :: Public) = of_nat (le_value b') \<longleftrightarrow> b = b'"
proof -
  have unat: "unat (of_nat (le_value b) :: Public) = le_value b" if "length b = 32" for b
    using le_value_bound [of b] that by (intro unat_of_nat_small) simp
  have "(of_nat (le_value b) :: Public) = of_nat (le_value b') \<longleftrightarrow> le_value b = le_value b'"
    using unat [OF assms(1)] unat [OF assms(2)] by metis
  then show ?thesis using le_value_inject assms by simp
qed

interpretation crypto_tests: test_crypto crypto_tests
proof
  let ?E = crypto_tests
  have small: "unat (pk :: Public) < 2 ^ 256" for pk using unat_less_exp [of pk] by simp
  have sig: "unat (of_nat (unat pk) :: Signature) = unat pk" for pk :: Public
    by (rule unat_of_nat_small) (rule less_trans [OF small], simp)
  show "sr25519_verify (c_host ?E) (pair_sign ?E p m) m (pair_public ?E p)" for p m
    using sig [of p] by (simp add: crypto_tests_def ref_host_def)
  show "\<not> sr25519_verify (c_host ?E) (pair_sign ?E p m) m (pair_public ?E q)"
    if "pair_public ?E q \<noteq> pair_public ?E p" for p q m
    using that sig [of p] by (auto simp: crypto_tests_def ref_host_def dest: unat_eq_unat)
  show "\<not> sr25519_verify (c_host ?E) sig m pk" if "bad_sig ?E = Some sig" for sig m pk
  proof -
    have "sig = unused_signature" using that by (simp add: bad_sig_def crypto_tests_def split: if_splits)
    then show ?thesis using small [of pk] by (simp add: crypto_tests_def ref_host_def unused_signature)
  qed
  have "blake2_256 ref_host (byte_string ''there is no second best'') \<noteq> blake2_256 ref_host (byte_string ''htlc ftw'')"
    by (simp add: ref_host_def ref_hash_def byte_string_def)
  then show "blake2_256 (c_host ?E) (incorrect_secret ?E) \<noteq> blake2_256 (c_host ?E) (htlc_secret ?E)"
    by (simp add: incorrect_secret_def htlc_secret_def crypto_tests_def)
  have "blake2_256 ref_host (encode (h256_codec ref_host) pk) = pk" for pk
    using small [of pk] by (simp add: ref_host_def ref_hash_def word_codec_def le_value_le_digits)
  then show "blake2_256 (c_host ?E) (encode (h256_codec (c_host ?E)) (pair_public ?E (seed_pair ?E 1)))
      \<noteq> blake2_256 (c_host ?E) (encode (h256_codec (c_host ?E)) (pair_public ?E (seed_pair ?E 0)))"
    by (simp add: crypto_tests_def seed_pair_def seed_key_inject)
qed (auto simp: crypto_tests_def seed_key_inject byte_codec_def decode_value_def)

theorem verifier_tests_pass_witness: "list_all (\<lambda>test. test crypto_tests) verifier_tests"
  by (rule verifier_tests_pass) (rule crypto_tests.test_crypto_axioms)

end
