(* ===== verification/Node.thy ===== *)
theory Node
  imports Runtime_Api
begin

text \<open>
  What the two nodes add to the runtimes: the inherent data their services supply to authors and importers
  (\<^verbatim>\<open>node/src/service.rs\<close>, \<^verbatim>\<open>parachain-node/src/service.rs\<close> and \<^verbatim>\<open>dev_service.rs\<close>), the chain specifications and how one is chosen
  (\<^verbatim>\<open>chain_spec.rs\<close>, \<^verbatim>\<open>load_spec\<close>), and how a collator configures its relay chain node (\<^verbatim>\<open>cli.rs\<close>, \<^verbatim>\<open>command.rs\<close>).

  \<^item> A provider of inherent data adds an entry under its identifier and fails when there is one; a service runs its
    providers in order on empty data. The client, the clock, the slot of a time, Cumulus' mocked validation data are
    parameters. The client stores opaque blocks, whose bytes the runtime reads as blocks of its own.
  \<^item> The theorems: the inherents a node asks its runtime for on top of a block it has are created, applied, and pass the check of
    every importing node whose clock is not too far behind; the development service's mocked relay
    chain advances with every block; the chain specifications agree with the runtime on the parachain's identifier.
\<close>

subsection \<open>Inherent data\<close>

datatype node_error = UnknownBlock H256 | BlockchainError | InherentDataExists | InherentFailure

type_synonym provider = "InherentData \<Rightarrow> (InherentData, node_error) result"

definition put_data :: "InherentIdentifier \<Rightarrow> bytes \<Rightarrow> provider" where
  "put_data ident b inh = (if inh ident = None then Ok (inh(ident \<mapsto> b)) else Err InherentDataExists)"

definition provide_all :: "provider list \<Rightarrow> (InherentData, node_error) result" where
  "provide_all ps = fold_result (\<lambda>inh p. p inh) Map.empty ps"

record 'b node_client =
  client_block :: "H256 \<Rightarrow> ('b option, node_error) result"
  client_block_codec :: "'b codec"
  aura_identifier :: InherentIdentifier
  slot_codec :: "u64 codec"
  slot_at :: "u64 \<Rightarrow> u64 \<Rightarrow> u64"

definition slot_provider :: "'b node_client \<Rightarrow> u64 \<Rightarrow> u64 \<Rightarrow> provider" where
  "slot_provider N now slot_duration =
     put_data (aura_identifier N) (encode (slot_codec N) (slot_at N now slot_duration))"

definition timestamp_provider :: "timestamp_host \<Rightarrow> u64 \<Rightarrow> provider" where
  "timestamp_provider P now = put_data (sp_timestamp_identifier P) (encode (inherent_time_codec P) now)"

definition parent_provider :: "'b node_client \<Rightarrow> 'b \<Rightarrow> provider" where
  "parent_provider N b inh = map_err (\<lambda>_. InherentFailure) (provide_parent_block (client_block_codec N) b inh)"

text \<open>Fetching the parent, as all three authoring services do.\<close>

definition parent_block :: "'b node_client \<Rightarrow> H256 \<Rightarrow> ('b, node_error) result" where
  "parent_block N phash =
     bind_result (client_block N phash) (\<lambda>maybe_parent_block.
     ok_or maybe_parent_block (UnknownBlock phash))"

definition node_author_inherent_data ::
  "'b node_client \<Rightarrow> timestamp_host \<Rightarrow> u64 \<Rightarrow> u64 \<Rightarrow> H256 \<Rightarrow> (InherentData, node_error) result" where
  "node_author_inherent_data N P slot_duration now phash =
     bind_result (parent_block N phash) (\<lambda>parent.
     provide_all [slot_provider N now slot_duration, parent_provider N parent, timestamp_provider P now])"

definition node_import_inherent_data ::
  "'b node_client \<Rightarrow> timestamp_host \<Rightarrow> u64 \<Rightarrow> u64 \<Rightarrow> (InherentData, node_error) result" where
  "node_import_inherent_data N P slot_duration now =
     provide_all [slot_provider N now slot_duration, timestamp_provider P now]"

definition collator_inherent_data ::
  "'b node_client \<Rightarrow> timestamp_host \<Rightarrow> u64 \<Rightarrow> H256 \<Rightarrow> (InherentData, node_error) result" where
  "collator_inherent_data N P now phash =
     bind_result (parent_block N phash) (\<lambda>parent.
     provide_all [parent_provider N parent, timestamp_provider P now])"

definition parachain_import_inherent_data :: "timestamp_host \<Rightarrow> u64 \<Rightarrow> (InherentData, node_error) result" where
  "parachain_import_inherent_data P now = provide_all [timestamp_provider P now]"

text \<open>
  The development service of the parachain node mocks the relay chain. The fields of the mock that the service leaves at their
  defaults (no messages, no randomness, no further keys) are the parameter's.
\<close>

record MockValidationData =
  current_para_block :: u32
  relay_offset :: u32
  relay_blocks_per_para_block :: u32
  para_blocks_per_relay_epoch :: u32

definition mocked_parachain :: "u32 \<Rightarrow> MockValidationData" where
  "mocked_parachain parent_number =
     \<lparr>current_para_block = parent_number + 1, relay_offset = 1000, relay_blocks_per_para_block = 2,
      para_blocks_per_relay_epoch = 10\<rparr>"

definition mock_provider ::
  "parachain_host \<Rightarrow> (MockValidationData \<Rightarrow> ParachainInherentData) \<Rightarrow> MockValidationData \<Rightarrow> provider" where
  "mock_provider Q mock m = put_data (parachain_identifier Q) (encode (inherent_info_codec Q) (mock m))"

definition dev_inherent_data ::
  "'b node_client \<Rightarrow> ('b \<Rightarrow> u32) \<Rightarrow> timestamp_host \<Rightarrow> parachain_host \<Rightarrow> (MockValidationData \<Rightarrow> ParachainInherentData)
     \<Rightarrow> u64 \<Rightarrow> H256 \<Rightarrow> (InherentData, node_error) result" where
  "dev_inherent_data N number_of P Q mock now phash =
     bind_result (parent_block N phash) (\<lambda>parent.
     provide_all [parent_provider N parent, timestamp_provider P now,
       mock_provider Q mock (mocked_parachain (number_of parent))])"

subsection \<open>Chain specifications\<close>

datatype ChainType = ChainDevelopment | ChainLocal

record 'x ChainSpec =
  wasm_code :: bytes
  chain_name :: string
  spec_id :: string
  chain_type :: ChainType
  genesis_patch :: bytes
  protocol_id :: "string option"
  spec_extensions :: 'x

definition with_wasm :: "bytes option \<Rightarrow> (bytes \<Rightarrow> 'x ChainSpec) \<Rightarrow> ('x ChainSpec, string) result" where
  "with_wasm wasm_binary f =
     bind_result (ok_or wasm_binary ''Development wasm not available'') (\<lambda>code. Ok (f code))"

definition development_config :: "bytes option \<Rightarrow> bytes \<Rightarrow> (unit ChainSpec, string) result" where
  "development_config wasm_binary genesis_config = with_wasm wasm_binary (\<lambda>code.
     \<lparr>wasm_code = code, chain_name = ''Development'', spec_id = ''dev'', chain_type = ChainDevelopment,
      genesis_patch = genesis_config, protocol_id = None, spec_extensions = ()\<rparr>)"

definition local_testnet_config :: "bytes option \<Rightarrow> bytes \<Rightarrow> (unit ChainSpec, string) result" where
  "local_testnet_config wasm_binary genesis_config = with_wasm wasm_binary (\<lambda>code.
     \<lparr>wasm_code = code, chain_name = ''Local Testnet'', spec_id = ''local_testnet'', chain_type = ChainLocal,
      genesis_patch = genesis_config, protocol_id = None, spec_extensions = ()\<rparr>)"

definition load_spec ::
  "(string \<Rightarrow> (unit ChainSpec, string) result) \<Rightarrow> bytes option \<Rightarrow> bytes \<Rightarrow> string \<Rightarrow> (unit ChainSpec, string) result" where
  "load_spec from_json_file wasm_binary genesis_config i =
     (if i = ''dev'' then development_config wasm_binary genesis_config
      else if i = [] \<or> i = ''local'' then local_testnet_config wasm_binary genesis_config
      else from_json_file i)"

record Extensions =
  relay_chain :: string
  para_id :: u32

definition parachain_development_config :: "bytes option \<Rightarrow> bytes \<Rightarrow> (Extensions ChainSpec, string) result" where
  "parachain_development_config wasm_binary genesis_config = with_wasm wasm_binary (\<lambda>code.
     \<lparr>wasm_code = code, chain_name = ''Development'', spec_id = ''dev'', chain_type = ChainDevelopment,
      genesis_patch = genesis_config, protocol_id = None,
      spec_extensions = \<lparr>relay_chain = ''rococo-local'', para_id = 2000\<rparr>\<rparr>)"

definition parachain_local_testnet_config :: "bytes option \<Rightarrow> bytes \<Rightarrow> (Extensions ChainSpec, string) result" where
  "parachain_local_testnet_config wasm_binary genesis_config = with_wasm wasm_binary (\<lambda>code.
     \<lparr>wasm_code = code, chain_name = ''Local Testnet'', spec_id = ''local_testnet'', chain_type = ChainLocal,
      genesis_patch = genesis_config, protocol_id = Some ''template-local'',
      spec_extensions = \<lparr>relay_chain = ''rococo-local'', para_id = 2000\<rparr>\<rparr>)"

definition parachain_load_spec ::
  "(string \<Rightarrow> (Extensions ChainSpec, string) result) \<Rightarrow> bytes option \<Rightarrow> bytes \<Rightarrow> string
     \<Rightarrow> (Extensions ChainSpec, string) result" where
  "parachain_load_spec from_json_file wasm_binary genesis_config i =
     (if i = ''dev'' then parachain_development_config wasm_binary genesis_config
      else if i = ''template-rococo'' then parachain_local_testnet_config wasm_binary genesis_config
      else if i = [] \<or> i = ''local'' then parachain_local_testnet_config wasm_binary genesis_config
      else from_json_file i)"

subsection \<open>The relay chain node of a collator\<close>

text \<open>Polkadot's own command line is \<open>'p\<close>; what it answers is a parameter.\<close>

record 'p RelayChainCli =
  relay_base :: 'p
  relay_chain_id :: "string option"
  relay_base_path :: "string option"

definition relay_chain_cli_new ::
  "(string list \<Rightarrow> 'p) \<Rightarrow> (string \<Rightarrow> string \<Rightarrow> string) \<Rightarrow> Extensions option \<Rightarrow> string \<Rightarrow> string list \<Rightarrow> 'p RelayChainCli" where
  "relay_chain_cli_new parse_from join extension para_base_path relay_chain_args =
     \<lparr>relay_base = parse_from relay_chain_args, relay_chain_id = map_option relay_chain extension,
      relay_base_path = Some (join para_base_path ''polkadot'')\<rparr>"

definition relay_cli_base_path :: "('p \<Rightarrow> (string option, 'e) result) \<Rightarrow> 'p RelayChainCli \<Rightarrow> (string option, 'e) result" where
  "relay_cli_base_path shared_base_path cli =
     bind_result (shared_base_path (relay_base cli)) (\<lambda>p.
     Ok (case p of Some path \<Rightarrow> Some path | None \<Rightarrow> relay_base_path cli))"

definition relay_cli_chain_id ::
  "('p \<Rightarrow> bool \<Rightarrow> (string, 'e) result) \<Rightarrow> 'p RelayChainCli \<Rightarrow> bool \<Rightarrow> (string, 'e) result" where
  "relay_cli_chain_id base_chain_id cli is_dev =
     bind_result (base_chain_id (relay_base cli) is_dev) (\<lambda>i.
     Ok (if i = [] then (case relay_chain_id cli of Some c \<Rightarrow> c | None \<Rightarrow> []) else i))"

text \<open>
  All other questions about the relay chain node's configuration are answered by Polkadot's own command line; the node is not initialised by
  itself.
\<close>

record ('o, 'e) cli_configuration =
  cli_base_path :: "(string option, 'e) result"
  cli_chain_id :: "bool \<Rightarrow> (string, 'e) result"
  cli_init :: "(unit, 'e) result"
  cli_delegated :: 'o

definition relay_cli_configuration ::
  "('p \<Rightarrow> ('o, 'e) cli_configuration) \<Rightarrow> 'p RelayChainCli \<Rightarrow> ('o, 'e) cli_configuration" where
  "relay_cli_configuration polkadot cli =
     \<lparr>cli_base_path = relay_cli_base_path (\<lambda>b. cli_base_path (polkadot b)) cli,
      cli_chain_id = relay_cli_chain_id (\<lambda>b. cli_chain_id (polkadot b)) cli,
      cli_init = Panic,
      cli_delegated = cli_delegated (polkadot (relay_base cli))\<rparr>"

record listen_ports =
  p2p_listen_port :: nat
  rpc_listen_port :: nat
  prometheus_listen_port :: nat

definition relay_default_ports :: listen_ports where
  "relay_default_ports = \<lparr>p2p_listen_port = 30334, rpc_listen_port = 9945, prometheus_listen_port = 9616\<rparr>"

subsection \<open>Authors and importers\<close>

lemma provide_distinct:
  assumes "distinct [aura_identifier N, PARENT_INHERENT_IDENTIFIER, sp_timestamp_identifier P]"
  shows "client_block N phash = Ok (Some ob) \<Longrightarrow> node_author_inherent_data N P d now phash
      = Ok [aura_identifier N \<mapsto> encode (slot_codec N) (slot_at N now d),
          PARENT_INHERENT_IDENTIFIER \<mapsto> encode (client_block_codec N) ob,
          sp_timestamp_identifier P \<mapsto> encode (inherent_time_codec P) now]"
    and "node_import_inherent_data N P d now
      = Ok [aura_identifier N \<mapsto> encode (slot_codec N) (slot_at N now d),
          sp_timestamp_identifier P \<mapsto> encode (inherent_time_codec P) now]"
  using assms
  by (auto simp: node_author_inherent_data_def node_import_inherent_data_def parent_block_def provide_all_def
      slot_provider_def parent_provider_def provide_parent_block_def timestamp_provider_def put_data_def)

text \<open>The timestamp transaction of the template runtime on top of a parent's inherent.\<close>

definition next_timestamp_tx ::
  "host \<Rightarrow> runtime_host \<Rightarrow> (OuterVerifier, OuterConstraintChecker) Transaction \<Rightarrow> u64 \<Rightarrow> u32 \<Rightarrow> OuterVerifier
     \<Rightarrow> (OuterVerifier, OuterConstraintChecker) Transaction" where
  "next_timestamp_tx H R prev now h u =
     \<lparr>inputs = [], peeks = [\<lparr>tx_hash = transaction_hash H (template_verifier H R) (outer_checker_codec R) prev, index = 0\<rparr>],
      outputs = [\<lparr>payload = into_data (timestamp_data (timestamp_codec R)) \<lparr>time = now, block = h\<rparr>, verifier = u\<rparr>],
      checker = OuterSetTimestamp (InherentAdapter SetTimestamp)\<rparr>"

lemma template_new_unspendable: "\<exists>u. new_unspendable (template_verifier H R) = Some u"
  by (simp add: template_verifier_def outer_verifier_def aggregate_verifier_def verifier_dictionary_def
      aggregate_new_unspendable_def outer_verifier_variants_def verifier_variant_def new_unspendable_sr25519_def)

lemma template_creates_timestamp:
  assumes "expect_data bc PARENT_INHERENT_IDENTIFIER inh = Some b"
    and "opening_inherents (template_checker H R) b = [prev]"
    and "expect_data (inherent_time_codec (sp_timestamp R)) (sp_timestamp_identifier (sp_timestamp R)) inh = Some now"
    and "block_height H s = Some h" and "new_unspendable (template_verifier H R) = Some u"
  shows "inherent_extrinsics H (template_verifier H R) (template_checker H R) bc inh s = Some [next_timestamp_tx H R prev now h u]"
proof -
  obtain k where k: "checker prev = OuterSetTimestamp k"
    using opening_inherents_are_timestamps [of prev H R b] assms(2) v_timestamp.unwrap_Some by fastforce
  have cc: "checker_codec (template_checker H R) = outer_checker_codec R"
    by (simp add: template_checker_def aggregate_checker_def)
  show ?thesis
    using assms k
    by (simp add: inherent_extrinsics_def cc template_create_inherents adapter_create_inherents_def timestamp_hooks_def
        timestamp_create_inherent_def template_timestamp_config_def default_timestamp_config_def next_timestamp_tx_def
        wrap_transaction_def transform_def)
qed

lemma timestamp_tx_applies:
  assumes "template_laws H R" and "scale_codec (timestamp_codec R)" and "block_height H s = Some (block old + 1)"
    and "ledger_of H (template_verifier H R) s
      \<lparr>tx_hash = transaction_hash H (template_verifier H R) (outer_checker_codec R) prev, index = 0\<rparr> = Some out"
    and "view (timestamp_data (timestamp_codec R)) (payload out) = Some old"
    and "block old = 0 \<or> time old + 2000 \<le> now"
    and "list_all (\<lambda>r. ledger_of H (template_verifier H R) s r = None)
      (output_refs_of H (template_verifier H R) (outer_checker_codec R) (next_timestamp_tx H R prev now (block old + 1) u))"
  shows "snd (apply_extrinsic H (template_verifier H R) (template_checker H R)
    (next_timestamp_tx H R prev now (block old + 1) u) s) = Ok ()"
proof -
  let ?V = "template_verifier H R" and ?C = "template_checker H R" and ?tx = "next_timestamp_tx H R prev now (block old + 1) u"
  define s1 where "s1 = s(EXTRINSIC_KEY \<mapsto> encode (bytes_list_codec H)
    (noted_extrinsics H s @ [encode (transaction_codec H ?V (checker_codec ?C)) ?tx]))"
  note exec = template_laws.template_executive [OF assms(1)]
  have cc: "checker_codec ?C = outer_checker_codec R" by (simp add: template_checker_def aggregate_checker_def)
  have host: "host_laws H" using assms(1) by (simp add: template_laws_def)
  have ledger: "ledger_of H ?V s1 = ledger_of H ?V s"
    by (simp add: ledger_of_def s1_def host fun_eq_iff)
  have height: "block_height H s1 = Some (block old + 1)"
    using assms(3) by (simp add: block_height_def s1_def)
  have view: "view (timestamp_data (timestamp_codec R)) (into_data (timestamp_data (timestamp_codec R)) t) = Some t" for t
    by (simp add: view_def timestamp_data_def scale_codec.decode_value_encode [OF assms(2)])
  have "snd (check ?C (checker ?tx) [] [] [payload out] (map payload (outputs ?tx)) s1) = Ok 0"
    using assms(5,6) height
    by (simp add: next_timestamp_tx_def template_check_Ok set_timestamp_Ok view template_timestamp_config_def
        default_timestamp_config_def)
  then have "ledger_accepts H ?V ?C (block old + 1) (ledger_of H ?V s1) s1 ?tx"
    using assms(4,7) unfolding ledger_accepts_def ledger cc
    by (auto simp: list_all_iff next_timestamp_tx_def redeemed_refs_def evicted_refs_def ledger_payloads_def)
  then have "snd (apply_tuxedo_transaction H ?V ?C ?tx s1) = Ok ()"
    using executive.apply_complete [OF exec height] by blast
  then show ?thesis
    by (simp add: apply_extrinsic_def s1_def case_prod_unfold Let_def)
qed

lemma timestamp_tx_passes_check:
  assumes "scale_codec (timestamp_codec R)" and "now \<le> now' + 60000"
    and "expect_data (inherent_time_codec (sp_timestamp R)) (sp_timestamp_identifier (sp_timestamp R)) inh = Some now'"
    and "takeWhile (\<lambda>tx. is_inherent (template_checker H R) (checker tx)) rest = []"
  shows "check_block_inherents (template_checker H R) \<lparr>header = hdr, extrinsics = next_timestamp_tx H R prev now h u # rest\<rparr> inh
    = Some new_check_inherents_result"
proof -
  let ?tx = "next_timestamp_tx H R prev now h u" and ?b = "\<lparr>header = hdr, extrinsics = next_timestamp_tx H R prev now h u # rest\<rparr>"
  have opens: "opening_inherents (template_checker H R) ?b = [?tx]"
    using assms(4) by (simp add: opening_inherents_def template_is_inherent next_timestamp_tx_def)
  have "\<not> time \<lparr>time = now, block = h\<rparr> > now' + 60000" using assms(2) by simp
  then have "adapter_check_inherents H (template_hooks H R) inh (select_variant un_set_timestamp [?tx]) new_check_inherents_result
      = Some new_check_inherents_result"
    using assms(3)
    by (simp add: adapter_check_inherents_def timestamp_hooks_def timestamp_check_inherent_def next_timestamp_tx_def
        unwrap_transaction_def transform_def template_timestamp_config_def default_timestamp_config_def extract_data_def timestamp_data_def
        scale_codec.decode_value_encode [OF assms(1)])
  then show ?thesis
    using template_check_inherents [of "[?tx]" new_check_inherents_result H R inh]
    unfolding check_block_inherents_def opens by (simp add: next_timestamp_tx_def new_check_inherents_result_def)
qed

text \<open>
  C9. A node can extend its chain, and the others will let it. Let a node have the parent block, whose bytes the runtime reads as a block that opens with
  one timestamp, and let that timestamp be in the ledger, for the height before the current one and old enough by the node's clock. Then the node's
  service supplies inherent data, the runtime answers the call for inherents with one transaction and no change, applying
  that transaction succeeds when its output is new, and every importing node whose clock is at most a minute behind the author's finds nothing wrong
  with a block that opens with it, whatever its other transactions.
\<close>

theorem node_extends_chain:
  assumes "template_laws H R" and "scale_codec (timestamp_codec R)" and "scale_codec (inherent_time_codec (sp_timestamp R))"
    and "distinct [aura_identifier N, PARENT_INHERENT_IDENTIFIER, sp_timestamp_identifier (sp_timestamp R)]"
    and "client_block N phash = Ok (Some ob)"
    and "decode_value (api_block_codec A) (encode (client_block_codec N) ob) = Some b"
    and "opening_inherents (template_checker H R) b = [prev]"
    and "ledger_of H (template_verifier H R) s
      \<lparr>tx_hash = transaction_hash H (template_verifier H R) (outer_checker_codec R) prev, index = 0\<rparr> = Some out"
    and "view (timestamp_data (timestamp_codec R)) (payload out) = Some old"
    and "block_height H s = Some (block old + 1)" and "block old = 0 \<or> time old + 2000 \<le> now"
  shows "\<exists>inh tx. node_author_inherent_data N (sp_timestamp R) BLOCK_TIME now phash = Ok inh
    \<and> template_api H R A (TemplateExecutive (InherentExtrinsics inh)) s = Some (ExecutiveReply (Inherents [tx]), s)
    \<and> (list_all (\<lambda>r. ledger_of H (template_verifier H R) s r = None)
          (output_refs_of H (template_verifier H R) (outer_checker_codec R) tx)
        \<longrightarrow> snd (apply_extrinsic H (template_verifier H R) (template_checker H R) tx s) = Ok ())
    \<and> (\<forall>now' hdr rest. now \<le> now' + 60000 \<and> takeWhile (\<lambda>tx. is_inherent (template_checker H R) (checker tx)) rest = []
        \<longrightarrow> (\<exists>inh'. node_import_inherent_data N (sp_timestamp R) BLOCK_TIME now' = Ok inh'
              \<and> check_block_inherents (template_checker H R) \<lparr>header = hdr, extrinsics = tx # rest\<rparr> inh'
                  = Some new_check_inherents_result))"
proof -
  obtain u where u: "new_unspendable (template_verifier H R) = Some u" using template_new_unspendable by blast
  let ?tx = "next_timestamp_tx H R prev now (block old + 1) u"
  obtain inh where inh: "node_author_inherent_data N (sp_timestamp R) BLOCK_TIME now phash = Ok inh"
    and parent: "expect_data (api_block_codec A) PARENT_INHERENT_IDENTIFIER inh = Some b"
    and clock: "expect_data (inherent_time_codec (sp_timestamp R)) (sp_timestamp_identifier (sp_timestamp R)) inh = Some now"
    using provide_distinct(1) [OF assms(4,5)] assms(4,6)
    by (auto simp: expect_data_def get_data_def scale_codec.decode_value_encode [OF assms(3)])
  have "template_api H R A (TemplateExecutive (InherentExtrinsics inh)) s = Some (ExecutiveReply (Inherents [?tx]), s)"
    using template_creates_timestamp [OF parent assms(7) clock assms(10) u] by simp
  moreover have "\<exists>inh'. node_import_inherent_data N (sp_timestamp R) BLOCK_TIME now' = Ok inh'
      \<and> check_block_inherents (template_checker H R) \<lparr>header = hdr, extrinsics = ?tx # rest\<rparr> inh' = Some new_check_inherents_result"
    if "now \<le> now' + 60000" "takeWhile (\<lambda>tx. is_inherent (template_checker H R) (checker tx)) rest = []" for now' hdr rest
    using provide_distinct(2) [OF assms(4), of BLOCK_TIME now'] timestamp_tx_passes_check [OF assms(2) that(1) _ that(2)]
    by (simp add: expect_data_def get_data_def scale_codec.decode_value_encode [OF assms(3)])
  ultimately show ?thesis
    using inh timestamp_tx_applies [OF assms(1,2,10,8,9,11)] by blast
qed

subsection \<open>The development service\<close>

text \<open>
  Cumulus' mock reports the relay parent number that its fields determine, as long as that number fits; this is what the
  service relies on.
\<close>

locale mocked_relay =
  fixes mock :: "MockValidationData \<Rightarrow> ParachainInherentData"
  assumes mocked_number: "unat (relay_offset m) + unat (relay_blocks_per_para_block m) * unat (current_para_block m) < 2 ^ 32
    \<Longrightarrow> unat (relay_parent_number (validation_data (mock m)))
        = unat (relay_offset m) + unat (relay_blocks_per_para_block m) * unat (current_para_block m)"
begin

lemma dev_relay_number:
  assumes "unat n < 2147483147"
  shows "unat (relay_parent_number (validation_data (mock (mocked_parachain n)))) = 1000 + 2 * (unat n + 1)"
proof -
  have "unat (n + 1) = unat n + 1" using assms by (simp add: unat_word_ariths)
  then show ?thesis using mocked_number [of "mocked_parachain n"] assms by (simp add: mocked_parachain_def)
qed

end

lemma dev_provides:
  assumes "client_block N phash = Ok (Some ob)"
    and "distinct [PARENT_INHERENT_IDENTIFIER, sp_timestamp_identifier P, parachain_identifier Q]"
  shows "dev_inherent_data N number_of P Q mock now phash
    = Ok [PARENT_INHERENT_IDENTIFIER \<mapsto> encode (client_block_codec N) ob,
        sp_timestamp_identifier P \<mapsto> encode (inherent_time_codec P) now,
        parachain_identifier Q \<mapsto> encode (inherent_info_codec Q) (mock (mocked_parachain (number_of ob)))]"
  using assms
  by (auto simp: dev_inherent_data_def parent_block_def provide_all_def parent_provider_def provide_parent_block_def
      timestamp_provider_def mock_provider_def put_data_def)

text \<open>
  C40. The mocked relay chain advances. When the development service authors on a parent of number \<open>n\<close> and the parachain info to replace names a
  relay parent of at most \<open>1000 + 2 n\<close>, as those of the genesis and of the service's own blocks do, then the inherent data is complete, the piece
  creates an inherent from it that the piece's check accepts, and the check stores \<open>1000 + 2 (n + 1)\<close>, the bound for the next block. This holds for
  parents up to block 2147483146; on the next one the mocked number leaves 32 bits.
\<close>

theorem dev_chain_advances:
  assumes "mocked_relay mock" and "scale_codec pc" and "scale_codec (inherent_info_codec Q)"
    and "distinct [PARENT_INHERENT_IDENTIFIER, sp_timestamp_identifier P, parachain_identifier Q]"
    and "client_block N phash = Ok (Some ob)" and "unat (number_of ob) < 2147483147"
    and "view (parachain_data pc) d = Some previous" and "unat (info_number previous) \<le> 1000 + 2 * unat (number_of ob)"
    and "new_unspendable V = Some u"
  shows "\<exists>inh tx current. dev_inherent_data N number_of P Q mock now phash = Ok inh
    \<and> parachain_create_inherent Q pc V inh last_tx = Some tx
    \<and> unat (info_number current) = 1000 + 2 * (unat (number_of ob) + 1)
    \<and> parachain_check (runtime_parachain_config H) pc (checker tx) [] [d] [] (map payload (outputs tx)) s
        = (set_relay_parent_number H (info_number current) s, Ok 0)"
proof -
  let ?info = "into_parachain_utxo (mock (mocked_parachain (number_of ob)))"
  let ?tx = "\<lparr>inputs = [\<lparr>output_ref = \<lparr>tx_hash = snd last_tx, index = 0\<rparr>, redeemer = Eviction\<rparr>], peeks = [],
    outputs = [\<lparr>payload = into_data (parachain_data pc) ?info, verifier = u\<rparr>], checker = SetParachainInfo\<rparr>"
  obtain inh where inh: "dev_inherent_data N number_of P Q mock now phash = Ok inh"
    and info: "expect_data (inherent_info_codec Q) (parachain_identifier Q) inh = Some (mock (mocked_parachain (number_of ob)))"
    using dev_provides [OF assms(5,4)] by (simp add: expect_data_def get_data_def scale_codec.decode_value_encode [OF assms(3)])
  have tx: "parachain_create_inherent Q pc V inh last_tx = Some ?tx"
    using assms(9) by (simp add: parachain_create_inherent_def info)
  have view: "view (parachain_data pc) (into_data (parachain_data pc) v) = Some v" for v
    by (simp add: view_def parachain_data_def scale_codec.decode_value_encode [OF assms(2)])
  have number: "unat (info_number ?info) = 1000 + 2 * (unat (number_of ob) + 1)"
    using mocked_relay.dev_relay_number [OF assms(1,6)] by (simp add: info_number_def into_parachain_utxo_def)
  then have later: "info_number previous < info_number ?info"
    using assms(8) by (simp add: word_less_nat_alt)
  have "snd (parachain_check (runtime_parachain_config H) pc (checker ?tx) [] [d] [] (map payload (outputs ?tx)) s) = Ok 0"
    using later assms(7) view by (simp add: parachain_check_Ok)
  moreover have "fst (parachain_check (runtime_parachain_config H) pc (checker ?tx) [] [d] [] (map payload (outputs ?tx)) s)
      = set_relay_parent_number H (info_number ?info) s"
    using view by (simp add: parachain_check_storage runtime_parachain_config_def)
  ultimately show ?thesis
    using inh tx number by (metis prod.collapse)
qed

subsection \<open>Choosing a specification\<close>

text \<open>The duplicated identifier of the parachain agrees with the runtime's in every built-in specification.\<close>

lemma built_in_spec_para_id:
  assumes "i \<in> {''dev'', ''template-rococo'', [], ''local''}" and "parachain_load_spec from_json_file wasm_binary gen i = Ok sp"
  shows "para_id (spec_extensions sp) = PARA_ID (runtime_parachain_config H)"
  using assms
  by (auto simp: parachain_load_spec_def parachain_development_config_def parachain_local_testnet_config_def with_wasm_def
      runtime_parachain_config_def result_ok split: if_splits)

lemma load_spec_needs_wasm:
  "i \<in> {''dev'', [], ''local''} \<Longrightarrow> load_spec from_json_file None gen i = Err ''Development wasm not available''"
  by (auto simp: load_spec_def development_config_def local_testnet_config_def with_wasm_def)

text \<open>A collator's relay chain node follows the relay chain of the parachain's specification unless its own arguments name one.\<close>

lemma relay_chain_from_spec:
  assumes "relay_cli_chain_id base_chain_id (relay_chain_cli_new parse_from join (Some ext) path args) is_dev = Ok c"
  shows "c = relay_chain ext \<or> (c \<noteq> [] \<and> base_chain_id (parse_from args) is_dev = Ok c)"
  using assms by (auto simp: relay_cli_chain_id_def relay_chain_cli_new_def result_ok split: if_splits)

end
