(* ===== verification/Node_Services.thy ===== *)
theory Node_Services
  imports Node "HOL-Library.Sublist"
begin

text \<open>
  How the services of the two nodes are put together, and which of them a command starts: \<^verbatim>\<open>node/src/service.rs\<close>,
  \<^verbatim>\<open>node/src/command.rs\<close>, \<^verbatim>\<open>parachain-node/src/service.rs\<close>, \<^verbatim>\<open>dev_service.rs\<close> and \<^verbatim>\<open>command.rs\<close>.

  \<^item> The code of a service is a sequence of calls into Substrate and Cumulus, chosen by the configuration and left at the first
    that fails. A call that may fail, that spawns a task or that joins the network is a step, with the arguments that the code chooses;
    whether it succeeds is the parameter \<open>service_host\<close>, and calls that return no \<^verbatim>\<open>Result\<close> (spawning, the pool's constructor, starting the
    network) always do. Plain constructors and clones of handles are not steps.
  \<^item> \<open>start_service\<close> performs steps in order and returns those that were done; the two \<^verbatim>\<open>expect\<close> calls and the \<^verbatim>\<open>todo!\<close> panic.
  \<^item> A consequence for the order of the calls: a service joins the network last, and only when everything before succeeded; it authors exactly with the role
    of an authority; maintenance commands never join the network.
\<close>

subsection \<open>Steps\<close>

record service_config =
  telemetry_endpoints :: "string list option"
  no_genesis :: bool
  is_authority :: bool
  force_authoring :: bool
  disable_grandpa :: bool
  node_name :: string
  default_heap_pages :: "u64 option"
  database_path :: "string option"

datatype spawn_handle = Ordinary | Essential

datatype HeapAllocStrategy = DefaultHeapAllocStrategy | StaticHeap u64

datatype executor = NativeElseWasm | NativeElseWasmWith HeapAllocStrategy

datatype DARecoveryProfile = RecoverAsCollator | RecoverAsFullNode

record voter_config =
  gossip_millis :: nat
  justification_generation_period :: u32
  voter_name :: string
  observer_enabled :: bool
  voter_keystore :: bool
  voter_is_authority :: bool

record seal_command =
  seal_every_millis :: nat
  create_empty :: bool
  seal_finalize :: bool

datatype component = CommandLine | Client | Backend | ImportQueue | Database | Spec | NetworkConfig | WholeConfig
  | GrandpaRevert | RelayConfig

datatype service_step =
    NewTelemetryWorker nat
  | NewDbBackend
  | NewGenesisBlockBuilder bool
  | NewFullParts bool executor
  | SpawnTask spawn_handle string "string option"
  | NewTransactionPool bool
  | GrandpaBlockImport u32
  | ReadSlotDuration
  | NewAuraImportQueue
  | ExpectGenesisHash
  | BuildNetwork bool
  | BuildRelayChainInterface
  | BuildParachainNetwork u32
  | SpawnTasks bool
  | OpenOverseerHandle
  | StartRelayChainTasks u32 DARecoveryProfile nat
  | ExpectCollatorKey
  | StartAura bool
  | RunAuraCollator u32 nat nat
  | RunManualSeal seal_command
  | RunGrandpaVoter voter_config
  | StartNetwork
  | CreateRunner
  | GatherHardwareBenchmark string
  | ParseRelayArguments
  | CreateRelayConfiguration
  | LoadSpec string
  | FailWith string
  | NotImplemented
  | RunCommand "component list"

record 'e service_host =
  attempt :: "service_step \<Rightarrow> (unit, 'e) result"
  genesis_hash :: "H256 option"
  collator_key :: "H256 option"
  error_message :: "string \<Rightarrow> 'e"

definition expect_some :: "'a option \<Rightarrow> (unit, 'e) result" where
  "expect_some v = (case v of Some _ \<Rightarrow> Ok () | None \<Rightarrow> Panic)"

definition perform :: "'e service_host \<Rightarrow> service_step \<Rightarrow> (unit, 'e) result" where
  "perform S step = (case step of
       ExpectGenesisHash \<Rightarrow> expect_some (genesis_hash S)
     | ExpectCollatorKey \<Rightarrow> expect_some (collator_key S)
     | NotImplemented \<Rightarrow> Panic
     | FailWith msg \<Rightarrow> Err (error_message S msg)
     | SpawnTask _ _ _ \<Rightarrow> Ok ()
     | NewTransactionPool _ \<Rightarrow> Ok ()
     | RunAuraCollator _ _ _ \<Rightarrow> Ok ()
     | RunManualSeal _ \<Rightarrow> Ok ()
     | StartNetwork \<Rightarrow> Ok ()
     | GatherHardwareBenchmark _ \<Rightarrow> Ok ()
     | ParseRelayArguments \<Rightarrow> Ok ()
     | _ \<Rightarrow> attempt S step)"

fun start_service :: "'e service_host \<Rightarrow> service_step list \<Rightarrow> service_step list \<times> (unit, 'e) result" where
  "start_service S [] = ([], Ok ())"
| "start_service S (x # xs) = (case perform S x of
       Ok _ \<Rightarrow> (x # fst (start_service S xs), snd (start_service S xs))
     | Err e \<Rightarrow> ([], Err e)
     | Panic \<Rightarrow> ([], Panic))"

subsection \<open>The node's service\<close>

definition has_telemetry :: "service_config \<Rightarrow> bool" where
  "has_telemetry cfg = (case telemetry_endpoints cfg of Some eps \<Rightarrow> eps \<noteq> [] | None \<Rightarrow> False)"

text \<open>What the three \<^verbatim>\<open>new_partial\<close> functions begin with, up to the transaction pool.\<close>

definition partial_components :: "service_config \<Rightarrow> executor \<Rightarrow> service_step list" where
  "partial_components cfg ex =
     (if has_telemetry cfg then [NewTelemetryWorker 16] else [])
     @ [NewDbBackend, NewGenesisBlockBuilder (\<not> no_genesis cfg), NewFullParts (has_telemetry cfg) ex]
     @ (if has_telemetry cfg then [SpawnTask Ordinary ''telemetry'' None] else [])
     @ [NewTransactionPool (is_authority cfg)]"

definition GRANDPA_JUSTIFICATION_PERIOD :: u32 where
  "GRANDPA_JUSTIFICATION_PERIOD = 512"

definition new_partial :: "service_config \<Rightarrow> service_step list" where
  "new_partial cfg = partial_components cfg NativeElseWasm
     @ [GrandpaBlockImport GRANDPA_JUSTIFICATION_PERIOD, ReadSlotDuration, NewAuraImportQueue]"

definition grandpa_config :: "service_config \<Rightarrow> voter_config" where
  "grandpa_config cfg =
     \<lparr>gossip_millis = 333, justification_generation_period = GRANDPA_JUSTIFICATION_PERIOD, voter_name = node_name cfg,
      observer_enabled = False, voter_keystore = is_authority cfg, voter_is_authority = is_authority cfg\<rparr>"

definition new_full :: "service_config \<Rightarrow> service_step list" where
  "new_full cfg = new_partial cfg
     @ [ExpectGenesisHash, BuildNetwork True, SpawnTasks (has_telemetry cfg)]
     @ (if is_authority cfg
        then [ReadSlotDuration, StartAura (force_authoring cfg), SpawnTask Essential ''aura'' (Some ''block-authoring'')]
        else [])
     @ (if \<not> disable_grandpa cfg
        then [RunGrandpaVoter (grandpa_config cfg), SpawnTask Essential ''grandpa-voter'' None]
        else [])
     @ [StartNetwork]"

subsection \<open>The parachain node's services\<close>

definition heap_pages :: "service_config \<Rightarrow> HeapAllocStrategy" where
  "heap_pages cfg = (case default_heap_pages cfg of Some h \<Rightarrow> StaticHeap h | None \<Rightarrow> DefaultHeapAllocStrategy)"

definition build_import_queue :: "service_step list" where
  "build_import_queue = [ReadSlotDuration]"

definition parachain_new_partial :: "service_config \<Rightarrow> service_step list" where
  "parachain_new_partial cfg = partial_components cfg (NativeElseWasmWith (heap_pages cfg)) @ build_import_queue"

definition start_consensus :: "u32 \<Rightarrow> nat \<Rightarrow> service_step list" where
  "start_consensus p relay_chain_slot_duration =
     [ReadSlotDuration, RunAuraCollator p relay_chain_slot_duration 500, SpawnTask Essential ''aura'' None]"

definition start_node_impl :: "service_config \<Rightarrow> u32 \<Rightarrow> service_step list" where
  "start_node_impl cfg p = (let relay_chain_slot_duration = 6000 in
     parachain_new_partial cfg
     @ [BuildRelayChainInterface, BuildParachainNetwork p, SpawnTasks (has_telemetry cfg), OpenOverseerHandle,
        StartRelayChainTasks p (if is_authority cfg then RecoverAsCollator else RecoverAsFullNode) relay_chain_slot_duration]
     @ (if is_authority cfg then ExpectCollatorKey # start_consensus p relay_chain_slot_duration else [])
     @ [StartNetwork])"

definition start_parachain_node :: "service_config \<Rightarrow> u32 \<Rightarrow> service_step list" where
  "start_parachain_node cfg p = start_node_impl cfg p"

definition dev_new_partial :: "service_config \<Rightarrow> service_step list" where
  "dev_new_partial cfg = partial_components cfg NativeElseWasm"

definition seal_new_block :: seal_command where
  "seal_new_block = \<lparr>seal_every_millis = 6000, create_empty = True, seal_finalize = False\<rparr>"

definition new_dev :: "service_config \<Rightarrow> service_step list" where
  "new_dev cfg = dev_new_partial cfg
     @ [BuildNetwork False]
     @ (if is_authority cfg
        then [RunManualSeal seal_new_block, SpawnTask Essential ''authorship_task'' (Some ''block-authoring'')]
        else [])
     @ [SpawnTasks False, StartNetwork]"

subsection \<open>Commands\<close>

datatype Subcommand = KeyCmd | BuildSpecCmd | CheckBlockCmd | ExportBlocksCmd | ExportStateCmd | ImportBlocksCmd | PurgeChainCmd
  | RevertCmd | ChainInfoCmd | CustomCommand

definition on_partial :: "service_step list \<Rightarrow> component list \<Rightarrow> service_step list" where
  "on_partial partial_steps args = CreateRunner # partial_steps @ [RunCommand args]"

definition node_run :: "Subcommand option \<Rightarrow> service_config \<Rightarrow> service_step list" where
  "node_run subcommand cfg = (case subcommand of
       Some KeyCmd \<Rightarrow> [RunCommand [CommandLine]]
     | Some BuildSpecCmd \<Rightarrow> [CreateRunner, RunCommand [Spec, NetworkConfig]]
     | Some CheckBlockCmd \<Rightarrow> on_partial (new_partial cfg) [Client, ImportQueue]
     | Some ExportBlocksCmd \<Rightarrow> on_partial (new_partial cfg) [Client, Database]
     | Some ExportStateCmd \<Rightarrow> on_partial (new_partial cfg) [Client, Spec]
     | Some ImportBlocksCmd \<Rightarrow> on_partial (new_partial cfg) [Client, ImportQueue]
     | Some PurgeChainCmd \<Rightarrow> [CreateRunner, RunCommand [Database]]
     | Some RevertCmd \<Rightarrow> on_partial (new_partial cfg) [Client, Backend, GrandpaRevert]
     | Some ChainInfoCmd \<Rightarrow> [CreateRunner, RunCommand [WholeConfig]]
     | Some CustomCommand \<Rightarrow> [NotImplemented]
     | None \<Rightarrow> CreateRunner # new_full cfg)"

datatype ParaSubcommand = ParaBuildSpec | ParaCheckBlock | ParaExportBlocks | ParaExportState | ParaImportBlocks | ParaRevert
  | ParaPurgeChain | ExportGenesisState | ExportGenesisHead | ExportGenesisWasm "string option"

record para_cli =
  dev_flag :: bool
  no_hardware_benchmarks :: bool

definition relay_configuration :: "service_step list" where
  "relay_configuration = [ParseRelayArguments, CreateRelayConfiguration]"

definition hwbench :: "para_cli \<Rightarrow> service_config \<Rightarrow> service_step list" where
  "hwbench cli cfg = (if no_hardware_benchmarks cli then []
     else case database_path cfg of Some path \<Rightarrow> [GatherHardwareBenchmark path] | None \<Rightarrow> [])"

definition run_collator :: "para_cli \<Rightarrow> Extensions option \<Rightarrow> service_config \<Rightarrow> service_step list" where
  "run_collator cli ext cfg =
     (if dev_flag cli then new_dev cfg
      else hwbench cli cfg @ (case map_option para_id ext of
          None \<Rightarrow> [FailWith ''Could not find parachain ID in chain-spec.'']
        | Some p \<Rightarrow> relay_configuration @ start_parachain_node cfg p))"

definition parachain_run :: "ParaSubcommand option \<Rightarrow> para_cli \<Rightarrow> Extensions option \<Rightarrow> service_config \<Rightarrow> service_step list" where
  "parachain_run subcommand cli ext cfg = (case subcommand of
       Some ParaBuildSpec \<Rightarrow> [CreateRunner, RunCommand [Spec, NetworkConfig]]
     | Some ParaCheckBlock \<Rightarrow> on_partial (parachain_new_partial cfg) [Client, ImportQueue]
     | Some ParaExportBlocks \<Rightarrow> on_partial (parachain_new_partial cfg) [Client, Database]
     | Some ParaExportState \<Rightarrow> on_partial (parachain_new_partial cfg) [Client, Spec]
     | Some ParaImportBlocks \<Rightarrow> on_partial (parachain_new_partial cfg) [Client, ImportQueue]
     | Some ParaRevert \<Rightarrow> on_partial (parachain_new_partial cfg) [Client, Backend]
     | Some ParaPurgeChain \<Rightarrow> CreateRunner # relay_configuration @ [RunCommand [WholeConfig, RelayConfig]]
     | Some ExportGenesisState \<Rightarrow> on_partial (parachain_new_partial cfg) [Client]
     | Some ExportGenesisHead \<Rightarrow> on_partial (parachain_new_partial cfg) [Client]
     | Some (ExportGenesisWasm wanted) \<Rightarrow>
         [CreateRunner, LoadSpec (case wanted of Some i \<Rightarrow> i | None \<Rightarrow> []), RunCommand [Spec]]
     | None \<Rightarrow> CreateRunner # run_collator cli ext cfg)"

subsection \<open>Starting\<close>

fun authoring_task :: "service_step \<Rightarrow> bool" where
  "authoring_task (SpawnTask Essential task_name _) \<longleftrightarrow> task_name = ''aura'' \<or> task_name = ''authorship_task''"
| "authoring_task _ = False"

definition authors :: "service_step list \<Rightarrow> bool" where
  "authors steps = list_ex authoring_task steps"

lemma authors_simps [simp]:
  "authors [] = False" "authors (xs @ ys) \<longleftrightarrow> authors xs \<or> authors ys"
  "authors (x # xs) \<longleftrightarrow> authoring_task x \<or> authors xs"
  by (simp_all add: authors_def)

lemma start_service_done:
  "prefix (fst (start_service S xs)) xs" "snd (start_service S xs) = Ok () \<longleftrightarrow> fst (start_service S xs) = xs"
  by (induction xs) (auto split: result.splits)

lemma start_service_last:
  assumes "x \<notin> set xs"
  shows "x \<in> set (fst (start_service S (xs @ [x]))) \<longleftrightarrow> snd (start_service S (xs @ [x])) = Ok ()"
  using start_service_done [of S "xs @ [x]"] assms by (auto simp: prefix_snoc dest: set_mono_prefix)

lemmas service_defs = new_full_def new_partial_def partial_components_def start_node_impl_def parachain_new_partial_def
  start_parachain_node_def build_import_queue_def start_consensus_def new_dev_def dev_new_partial_def

definition is_service :: "service_config \<Rightarrow> service_step list \<Rightarrow> bool" where
  "is_service cfg steps \<longleftrightarrow> steps = new_full cfg \<or> (\<exists>p. steps = start_parachain_node cfg p) \<or> steps = new_dev cfg"

lemma service_network_last: "is_service cfg steps \<Longrightarrow> \<exists>xs. steps = xs @ [StartNetwork] \<and> StartNetwork \<notin> set xs"
  by (rule exI [of _ "butlast steps"]) (auto simp: is_service_def service_defs Let_def butlast_append)

lemma service_authors: "is_service cfg steps \<Longrightarrow> authors steps \<longleftrightarrow> is_authority cfg"
  by (auto simp: is_service_def service_defs Let_def split: if_splits)

lemma service_voter:
  "is_service cfg steps \<Longrightarrow> RunGrandpaVoter v \<in> set steps
     \<Longrightarrow> steps = new_full cfg \<and> \<not> disable_grandpa cfg \<and> voter_keystore v = is_authority cfg"
  by (auto simp: is_service_def service_defs Let_def grandpa_config_def split: if_splits)

lemma authors_prefix: "prefix xs ys \<Longrightarrow> authors xs \<Longrightarrow> authors ys"
  by (auto elim: prefixE)

lemma maintenance_steps:
  "StartNetwork \<notin> set (node_run (Some c) cfg)" "\<not> authors (node_run (Some c) cfg)"
  "StartNetwork \<notin> set (parachain_run (Some k) cli ext cfg)" "\<not> authors (parachain_run (Some k) cli ext cfg)"
  by (auto simp: node_run_def parachain_run_def on_partial_def relay_configuration_def service_defs
      split: Subcommand.split ParaSubcommand.split if_splits)

text \<open>A collator takes the parachain's identifier from its specification: for the built-in ones it is the runtime's.\<close>

lemma collator_para_id:
  assumes "i \<in> {''dev'', ''template-rococo'', [], ''local''}" and "parachain_load_spec from_json_file wasm_binary gen i = Ok sp"
    and "BuildParachainNetwork p \<in> set (parachain_run None cli (Some (spec_extensions sp)) cfg)"
  shows "p = PARA_ID (runtime_parachain_config H)"
  using built_in_spec_para_id [OF assms(1,2), of H] assms(3)
  by (auto simp: parachain_run_def run_collator_def hwbench_def relay_configuration_def service_defs Let_def
      split: if_splits option.splits)

text \<open>
  Starting a service. Whatever Substrate's calls answer, the full node, the collator and the development service join the network exactly when
  everything they start succeeded; then they have spawned an essential authoring task if they have the role of an authority, and without the role they never
  spawn one, also when they fail half-way. Only the full node runs the finality voter, unless disabled, and gives it the keystore exactly as an
  authority. No subcommand of either node joins the network or authors.
\<close>

theorem services_start:
  assumes "is_service cfg steps" and "start_service S steps = (performed, r)"
  shows "(StartNetwork \<in> set performed \<longleftrightarrow> r = Ok ()) \<and> (r = Ok () \<and> is_authority cfg \<longrightarrow> authors performed)
    \<and> (\<not> is_authority cfg \<longrightarrow> \<not> authors performed)
    \<and> (\<forall>v. RunGrandpaVoter v \<in> set performed
          \<longrightarrow> steps = new_full cfg \<and> \<not> disable_grandpa cfg \<and> voter_keystore v = is_authority cfg)
    \<and> (\<forall>c k cli ext. StartNetwork \<notin> set (fst (start_service S (node_run (Some c) cfg)))
          \<and> StartNetwork \<notin> set (fst (start_service S (parachain_run (Some k) cli ext cfg)))
          \<and> \<not> authors (fst (start_service S (node_run (Some c) cfg)))
          \<and> \<not> authors (fst (start_service S (parachain_run (Some k) cli ext cfg))))"
proof -
  have performed: "fst (start_service S steps) = performed" "snd (start_service S steps) = r" using assms(2) by simp_all
  note pre = start_service_done [of S steps, unfolded performed]
  have network: "StartNetwork \<in> set performed \<longleftrightarrow> r = Ok ()"
    using service_network_last [OF assms(1)] start_service_last performed by metis
  have subset: "set performed \<subseteq> set steps" by (rule set_mono_prefix [OF pre(1)])
  have voter: "steps = new_full cfg \<and> \<not> disable_grandpa cfg \<and> voter_keystore v = is_authority cfg"
    if "RunGrandpaVoter v \<in> set performed" for v
    using service_voter [OF assms(1)] subset that by blast
  have author: "r = Ok () \<and> is_authority cfg \<longrightarrow> authors performed" "\<not> is_authority cfg \<longrightarrow> \<not> authors performed"
    using service_authors [OF assms(1)] authors_prefix [OF pre(1)] pre(2) by auto
  have idle: "StartNetwork \<notin> set (fst (start_service S xs)) \<and> \<not> authors (fst (start_service S xs))"
    if "StartNetwork \<notin> set xs" "\<not> authors xs" for xs
    using that set_mono_prefix [OF start_service_done(1)] authors_prefix [OF start_service_done(1)] by blast
  show ?thesis
    using idle [OF maintenance_steps(1,2)] idle [OF maintenance_steps(3,4)] by (simp add: network voter author)
qed

end
