(* ===== verification/Node_Instance.thy ===== *)
theory Node_Instance
  imports Node_Services Runtime_Api_Instance
begin

text \<open>
  Nodes on the reference host: a client that has one block, a mocked relay chain, and a host on which every step of a service
  succeeds. The theorems of \<^verbatim>\<open>Node\<close> and \<^verbatim>\<open>Node_Services\<close> apply to them.
\<close>

definition demo_client :: "(OuterVerifier, OuterConstraintChecker) Block node_client" where
  "demo_client = \<lparr>client_block = (\<lambda>h. Ok (if h = 1 then Some demo_block else None)), client_block_codec = ref_block_codec,
     aura_identifier = byte_string ''auraslot'', slot_codec = word_codec 8, slot_at = (\<lambda>now d. now div d)\<rparr>"

lemma demo_identifiers:
  "distinct [aura_identifier demo_client, PARENT_INHERENT_IDENTIFIER, sp_timestamp_identifier (sp_timestamp ref_runtime)]"
  "distinct [PARENT_INHERENT_IDENTIFIER, sp_timestamp_identifier (sp_timestamp ref_runtime), byte_string ''sysi1337'']"
  by (simp_all add: demo_client_def ref_runtime_def PARENT_INHERENT_IDENTIFIER_def byte_string_def)

abbreviation demo_stamp_ref :: OutputRef where
  "demo_stamp_ref \<equiv> \<lparr>tx_hash = transaction_hash ref_host ref_tv (outer_checker_codec ref_runtime) demo_stamp, index = 0\<rparr>"

theorem node_extends_chain_witness:
  "\<exists>inh tx. node_author_inherent_data demo_client (sp_timestamp ref_runtime) BLOCK_TIME 12000 1 = Ok inh
     \<and> template_api ref_host ref_runtime ref_api (TemplateExecutive (InherentExtrinsics inh))
          (template_state [(demo_stamp_ref, demo_time 9000 3)] 4)
        = Some (ExecutiveReply (Inherents [tx]), template_state [(demo_stamp_ref, demo_time 9000 3)] 4)"
proof -
  let ?s = "template_state [(demo_stamp_ref, demo_time 9000 3)] 4"
  have block: "client_block demo_client 1 = Ok (Some demo_block)" by (simp add: demo_client_def)
  have parent: "decode_value (api_block_codec ref_api) (encode (client_block_codec demo_client) demo_block) = Some demo_block"
    by (simp add: demo_client_def ref_api_def scale_codec.decode_value_encode [OF scale_codec_block])
  have stored: "ledger_of ref_host ref_tv ?s demo_stamp_ref = Some (grab_output (demo_time 9000 3))"
    by (subst template_state_ledger) simp_all
  have old: "view (timestamp_data (timestamp_codec ref_runtime)) (payload (grab_output (demo_time 9000 3)))
      = Some \<lparr>time = 9000, block = 3\<rparr>"
    by (simp add: grab_output_def demo_time_def)
  have clock: "scale_codec (timestamp_codec ref_runtime)" "scale_codec (inherent_time_codec (sp_timestamp ref_runtime))"
    by (simp_all add: scale_codec_timestamp) (simp add: ref_runtime_def scale_codec_words)
  show ?thesis
    using node_extends_chain [OF ref_template.template_laws_axioms clock demo_identifiers(1) block parent
        demo_block_opening stored old, of 12000]
    by (auto simp: template_state_height)
qed

definition demo_mock :: "MockValidationData \<Rightarrow> ParachainInherentData" where
  "demo_mock m = \<lparr>validation_data = \<lparr>parent_head = [],
       relay_parent_number = relay_offset m + relay_blocks_per_para_block m * current_para_block m,
       relay_parent_storage_root = 5, max_pov_size = 0\<rparr>,
     relay_chain_state = [], downward_messages = [], horizontal_messages = []\<rparr>"

interpretation demo_relay: mocked_relay demo_mock
  by unfold_locales (simp add: demo_mock_def unat_word_ariths)

definition demo_parachain_host :: parachain_host where
  "demo_parachain_host = \<lparr>parachain_identifier = byte_string ''sysi1337'',
     inherent_info_codec = map_codec from_parachain_utxo into_parachain_utxo ref_info_codec, default_root_and_proof = (5, [])\<rparr>"

lemma scale_codec_inherent_info: "scale_codec (inherent_info_codec demo_parachain_host)"
  unfolding demo_parachain_host_def parachain_host.simps
  by (rule scale_codec_map [OF scale_codec_info]) (simp add: into_parachain_utxo_def)

theorem dev_chain_advances_witness:
  "\<exists>inh tx. dev_inherent_data demo_client (\<lambda>_. 7) (sp_timestamp ref_runtime) demo_parachain_host demo_mock 12000 1 = Ok inh
     \<and> parachain_create_inherent demo_parachain_host ref_info_codec ref_tv inh (undefined, 4) = Some tx
     \<and> snd (parachain_check (runtime_parachain_config ref_host) ref_info_codec (checker tx) []
          [relay_info [] 1014] [] (map payload (outputs tx)) Map.empty) = Ok 0"
proof -
  obtain u where u: "new_unspendable ref_tv = Some u" using ref_unspendable by blast
  have block: "client_block demo_client 1 = Ok (Some demo_block)" by (simp add: demo_client_def)
  have ids: "distinct [PARENT_INHERENT_IDENTIFIER, sp_timestamp_identifier (sp_timestamp ref_runtime), parachain_identifier demo_parachain_host]"
    using demo_identifiers(2) by (simp add: demo_parachain_host_def)
  obtain previous where previous: "view (parachain_data ref_info_codec) (relay_info [] 1014) = Some previous"
    "info_number previous = 1014" by (simp add: info_number_def)
  show ?thesis
    using dev_chain_advances [OF demo_relay.mocked_relay_axioms scale_codec_info scale_codec_inherent_info ids block _ previous(1) _ u,
        of "\<lambda>_. 7" 12000 "(undefined, 4)" ref_host Map.empty] previous(2)
    by auto
qed

definition demo_service_host :: "string service_host" where
  "demo_service_host = \<lparr>attempt = (\<lambda>step. if step = BuildNetwork True then Err ''no network'' else Ok ()), genesis_hash = Some 1,
     collator_key = None, error_message = id\<rparr>"

definition demo_service_config :: service_config where
  "demo_service_config = \<lparr>telemetry_endpoints = Some [], no_genesis = False, is_authority = True, force_authoring = False,
     disable_grandpa = False, node_name = ''alice'', default_heap_pages = None, database_path = None\<rparr>"

theorem services_start_witness:
  "StartNetwork \<in> set (fst (start_service demo_service_host (new_dev demo_service_config)))
   \<and> authors (fst (start_service demo_service_host (new_dev demo_service_config)))
   \<and> snd (start_service demo_service_host (new_full demo_service_config)) = Err ''no network''
   \<and> snd (start_service demo_service_host (start_parachain_node demo_service_config 2000)) = Panic"
proof -
  have dev: "snd (start_service demo_service_host (new_dev demo_service_config)) = Ok ()"
    by (simp add: service_defs demo_service_config_def demo_service_host_def perform_def has_telemetry_def)
  have full: "snd (start_service demo_service_host (new_full demo_service_config)) = Err ''no network''"
    by (simp add: service_defs demo_service_config_def demo_service_host_def perform_def has_telemetry_def expect_some_def)
  have collator: "snd (start_service demo_service_host (start_parachain_node demo_service_config 2000)) = Panic"
    by (simp add: service_defs demo_service_config_def demo_service_host_def perform_def has_telemetry_def expect_some_def)
  have "is_service demo_service_config (new_dev demo_service_config)" by (simp add: is_service_def)
  from services_start [OF this prod.collapse [symmetric], of demo_service_host] dev full collator show ?thesis
    by (simp add: demo_service_config_def)
qed

end
