(* ===== verification/Htlc_Instance.thy ===== *)
theory Htlc_Instance
  imports Reference_Host
begin

text \<open>
  A swap on the reference host: a contract on each of two states with the same hash lock, a block that claims the first,
  and the transactions that claim and refund the second.
\<close>

definition ref_contract_codec :: "HashTimeLockContract codec" where
  "ref_contract_codec = map_codec
     (\<lambda>(l, r, e, f). \<lparr>htlc_hash_lock = l, recipient_pubkey = r, claim_period_end = e, refunder_pubkey = f\<rparr>)
     (\<lambda>v. (htlc_hash_lock v, recipient_pubkey v, claim_period_end v, refunder_pubkey v))
     (pair_codec (word_codec 32) (pair_codec (word_codec 32) (pair_codec (word_codec 4) (word_codec 32))))"

definition ref_path_codec :: "HtlcSpendPath codec" where
  "ref_path_codec = map_codec (\<lambda>x. case x of Inl (b, sig) \<Rightarrow> Claim b sig | Inr sig \<Rightarrow> Refund sig)
     (\<lambda>p. case p of Claim b sig \<Rightarrow> Inl (b, sig) | Refund sig \<Rightarrow> Inr sig)
     (sum_codec (pair_codec ref_bytes_codec (word_codec 64)) (word_codec 64))"

definition ref_htlc_codecs :: "(HashTimeLockContract, HtlcSpendPath) verifier_codecs" where
  "ref_htlc_codecs = ref_verifier_codecs ref_path_codec ref_contract_codec"

abbreviation ref_htlc :: "(HashTimeLockContract, HtlcSpendPath) Verifier" where
  "ref_htlc \<equiv> htlc_verifier ref_host ref_htlc_codecs"

definition swap_checker :: "(HashTimeLockContract, TestConstraintChecker, unit) ConstraintChecker" where
  "swap_checker = test_constraint_checker (map_codec (\<lambda>(a, b). \<lparr>checks = a, inherent = b\<rparr>)
     (\<lambda>c. (checks c, inherent c)) (pair_codec bool_codec bool_codec))"

lemma ref_crypto: "sr25519_verify ref_host sig m pk \<longleftrightarrow> unat sig = unat pk" "blake2_256 ref_host b = ref_hash b"
  by (simp_all add: ref_host_def)

lemma scale_codec_contract: "scale_codec ref_contract_codec"
  unfolding ref_contract_codec_def by (rule scale_codec_map) (intro scale_codec_pair scale_codec_words, simp)

lemma scale_codec_path: "scale_codec ref_path_codec"
  unfolding ref_path_codec_def
  by (rule scale_codec_map) (auto split: HtlcSpendPath.splits)

interpretation ref_htlc_verifier: verifier_laws ref_htlc
  unfolding htlc_verifier_def ref_htlc_codecs_def by (rule ref_verifier_laws [OF scale_codec_path scale_codec_contract])

interpretation swap: executive ref_host ref_htlc swap_checker
proof (rule executive.intro)
  have "scale_codec (checker_codec swap_checker)"
    unfolding swap_checker_def test_constraint_checker_def ConstraintChecker.simps
    by (rule scale_codec_map) auto
  then show "executive_laws ref_host ref_htlc swap_checker"
    by (simp add: executive_laws_def executive_laws_axioms_def ref.host_laws_axioms ref_htlc_verifier.verifier_laws_axioms)
  show "framed_checker swap_checker"
    unfolding swap_checker_def by (rule testc.framed_checker_axioms)
qed

definition contract_output :: "Public \<Rightarrow> u32 \<Rightarrow> Public \<Rightarrow> HashTimeLockContract Output" where
  "contract_output recipient end refunder = \<lparr>payload = \<lparr>data = [], type_id = (0, 0, 0, 1)\<rparr>,
     verifier = \<lparr>htlc_hash_lock = 3, recipient_pubkey = recipient, claim_period_end = end, refunder_pubkey = refunder\<rparr>\<rparr>"

definition swap_tx :: "HtlcSpendPath \<Rightarrow> (HashTimeLockContract, TestConstraintChecker) Transaction" where
  "swap_tx path = \<lparr>inputs = [\<lparr>output_ref = demo_ref, redeemer = Redemption (encode (redeemer_codec ref_htlc) path)\<rparr>],
     peeks = [], outputs = [], checker = \<lparr>checks = True, inherent = False\<rparr>\<rparr>"

definition contract_state :: "HashTimeLockContract Output \<Rightarrow> u32 \<Rightarrow> storage" where
  "contract_state out h = utxo_state ref_htlc [(demo_ref, out)] h"

lemma contract_state_ledger: "ledger_of ref_host ref_htlc (contract_state out h) = [demo_ref \<mapsto> out]"
  unfolding contract_state_def
  by (subst utxo_state_ledger) (simp_all add: ref_htlc_verifier.verifier_laws_axioms)

lemma contract_state_height: "block_height ref_host (contract_state out h) = Some h"
  by (simp add: contract_state_def utxo_state_height)

lemma contract_state_between: "between_blocks ref_host (contract_state out h)"
  by (simp add: between_blocks_def contract_state_height) (simp add: contract_state_def utxo_state_key)

lemma swap_tx_spends: "spends_on ref_host ref_htlc_codecs demo_ref path (swap_tx path)"
  by (simp add: spends_on_def swap_tx_def)

lemma swap_tx_otherwise: "otherwise_accepted ref_host ref_htlc swap_checker U s (swap_tx path)"
  by (simp add: otherwise_accepted_def swap_tx_def output_refs_of_def swap_checker_def test_constraint_checker_def)

lemma swap_tx_small: "small_outputs [swap_tx path]" and swap_tx_first: "inherents_first swap_checker False [swap_tx path]"
  by (simp_all add: swap_tx_def swap_checker_def test_constraint_checker_def)

text \<open>A block whose one transaction claims the output before the claim period ends.\<close>

lemma swap_claim_applies:
  "\<exists>a. apply_extrinsics ref_host ref_htlc swap_checker [swap_tx (Claim [3] 1)]
        (open_block ref_host demo_header (contract_state (contract_output 1 10 2) 1)) = Some a"
proof -
  let ?o = "open_block ref_host demo_header (contract_state (contract_output 1 10 2) 1)"
  let ?tx = "swap_tx (Claim [3] 1)"
  let ?s1 = "?o(EXTRINSIC_KEY \<mapsto> encode (bytes_list_codec ref_host)
      (noted_extrinsics ref_host ?o @ [encode (transaction_codec ref_host ref_htlc (checker_codec swap_checker)) ?tx]))"
  have h: "block_height ref_host ?s1 = Some 2"
    by (simp add: block_height_def open_block_def demo_header_def scale_codec.decode_value_encode [OF ref.u32_lawful])
  have "ledger_of ref_host ref_htlc ?s1 = [demo_ref \<mapsto> contract_output 1 10 2]"
    unfolding contract_state_ledger [symmetric, of _ 1] by (simp add: ledger_of_def open_block_def ref.host_laws_axioms)
  then have "ledger_of ref_host ref_htlc ?s1 demo_ref = Some (contract_output 1 10 2)" by simp
  from claim_applies [OF swap.executive_axioms h this swap_tx_spends swap_tx_otherwise]
  have "snd (apply_tuxedo_transaction ref_host ref_htlc swap_checker ?tx ?s1) = Ok ()"
    by (simp add: contract_output_def ref_crypto ref_hash_def)
  then show ?thesis
    by (simp add: apply_extrinsics_Cons apply_extrinsic_def Let_def case_prod_unfold)
qed

lemma swap_block:
  "\<exists>hdr s'. execute_blocks ref_host ref_htlc swap_checker [\<lparr>header = hdr, extrinsics = [swap_tx (Claim [3] 1)]\<rparr>]
      (contract_state (contract_output 1 10 2) 1) = Some s' \<and> number hdr = 2 \<and> ledger_of ref_host ref_htlc s' demo_ref = None"
proof -
  let ?s = "contract_state (contract_output 1 10 2) 1" and ?txs = "[swap_tx (Claim [3] 1)]"
  have fresh: "?s EXTRINSIC_KEY = None" using contract_state_between by (simp add: between_blocks_def)
  obtain a where a: "apply_extrinsics ref_host ref_htlc swap_checker ?txs (open_block ref_host demo_header ?s) = Some a"
    using swap_claim_applies by blast
  obtain sr where "current_state_root ref_host (a(HEADER_KEY := None, EXTRINSIC_KEY := None)) = Some sr"
    using ref_state_root by blast
  with a obtain s' hdr where author: "author_block ref_host ref_htlc swap_checker demo_header ?txs ?s = Some (s', hdr)"
    and num: "number hdr = 2"
    using swap.author_block_Some [of ?s demo_header ?txs, OF fresh] by (fastforce simp: demo_header_def)
  have run: "execute_block ref_host ref_htlc swap_checker \<lparr>header = hdr, extrinsics = ?txs\<rparr> ?s = Some s'"
    using fresh author swap_tx_first by (rule swap.import_authored)
  have "ledger_of ref_host ref_htlc s' = replay ref_host ref_htlc (checker_codec swap_checker) ?txs [demo_ref \<mapsto> contract_output 1 10 2]"
    using swap.execute_block_ledger [OF contract_state_between run] swap_tx_small by (simp add: contract_state_ledger)
  then have "ledger_of ref_host ref_htlc s' demo_ref = None"
    by (simp add: replay_def ledger_update_def created_outputs_def output_refs_of_def input_refs_def swap_tx_def)
  with run num show ?thesis by (intro exI [of _ hdr] exI [of _ s']) simp
qed

text \<open>
  The claim of the first output publishes a secret with which the recipient of the second claims it; the refund of the second is refused
  at height 4 and applies at height 5, the end of its claim period.
\<close>

theorem htlc_swap_atomic_witness:
  "\<exists>secret. reveals ref_host ref_htlc_codecs swap_checker demo_ref (verifier (contract_output 1 10 2)) (swap_tx (Claim [3] 1)) secret
    \<and> snd (apply_tuxedo_transaction ref_host ref_htlc swap_checker (swap_tx (Claim secret 2)) (contract_state (contract_output 2 5 1) 4)) = Ok ()
    \<and> snd (apply_tuxedo_transaction ref_host ref_htlc swap_checker (swap_tx (Refund 1)) (contract_state (contract_output 2 5 1) 4)) \<noteq> Ok ()
    \<and> snd (apply_tuxedo_transaction ref_host ref_htlc swap_checker (swap_tx (Refund 1)) (contract_state (contract_output 2 5 1) 5)) = Ok ()"
proof -
  let ?V = ref_htlc and ?C = swap_checker and ?out = "contract_output 1 10 2" and ?other = "contract_output 2 5 1"
  obtain hdr s' where run: "execute_blocks ref_host ?V ?C [\<lparr>header = hdr, extrinsics = [swap_tx (Claim [3] 1)]\<rparr>] (contract_state ?out 1) = Some s'"
    and hdr: "number hdr = 2" and gone: "ledger_of ref_host ?V s' demo_ref = None"
    using swap_block by blast
  let ?bs = "[\<lparr>header = hdr, extrinsics = [swap_tx (Claim [3] 1)]\<rparr>]"
  have held: "ledger_of ref_host ?V (contract_state out h) demo_ref = Some out" for out h by (simp add: contract_state_ledger)
  have small: "small_outputs (concat (map extrinsics ?bs))" using swap_tx_small by simp
  have early: "\<forall>b \<in> set ?bs. number (header b) < claim_period_end (verifier ?out)" using hdr by (simp add: contract_output_def)
  have kept: "\<forall>tx \<in> set (concat (map extrinsics ?bs)). \<not> evicts_ref demo_ref tx"
    by (simp add: evicts_ref_def evicted_refs_def swap_tx_def)
  have lock: "htlc_hash_lock (verifier ?other) = htlc_hash_lock (verifier ?out)" by (simp add: contract_output_def)
  note atomic = htlc_swap_atomic [OF swap.executive_axioms contract_state_between run small held gone early kept
      swap.executive_axioms contract_state_height held lock]
  have refund: "snd (apply_tuxedo_transaction ref_host ?V ?C (swap_tx (Refund 1)) (contract_state ?other h)) = Ok () \<longleftrightarrow> 5 \<le> h" for h
    using atomic [of h, THEN conjunct2, rule_format, OF swap_tx_spends swap_tx_otherwise]
    by (simp add: contract_output_def ref_crypto)
  obtain secret where rev: "reveals ref_host ref_htlc_codecs ?C demo_ref (verifier ?out) (swap_tx (Claim [3] 1)) secret"
    and claim: "snd (apply_tuxedo_transaction ref_host ?V ?C (swap_tx (Claim secret 2)) (contract_state ?other 4)) = Ok ()
      \<longleftrightarrow> sr25519_verify ref_host 2 (stripped_encoding ref_host ?V ?C (swap_tx (Claim secret 2))) (recipient_pubkey (verifier ?other))"
    using atomic [of 4] swap_tx_spends swap_tx_otherwise by auto
  have "sr25519_verify ref_host 2 m (recipient_pubkey (verifier ?other))" for m by (simp add: contract_output_def ref_crypto)
  with rev claim refund [of 4] refund [of 5] show ?thesis by auto
qed

end
