(* ===== verification/Spec2Isabelle.thy ===== *)
theory Spec2Isabelle
  imports Parachain_Instance Overlay_Externalities Trie_Cache Relay_State Runtime_Api_Instance Wallet_Main_Instance Derive_Macros
    Tests_Instance Node_Instance Htlc_Instance
begin

text \<open>
  A verification of Tuxedo, a framework for UTXO blockchain runtimes in Rust.

  \<^bold>\<open>The program.\<close> A Tuxedo chain keeps a set of unspent outputs in the host's key-value storage. A
  transaction consumes outputs (redeeming or evicting them), peeks at others, creates new ones and
  names the \<^emph>\<open>constraint checker\<close> that judges it. Each output is guarded by a \<^emph>\<open>verifier\<close>. The
  executive puts the two together: it validates and applies transactions, opens, closes and
  executes blocks, answers the transaction pool and handles inherents. The pieces of the wardrobe (money,
  kitties, amoebas, proofs of existence, runtime upgrades, timestamps) are constraint checkers; macros
  aggregate pieces and verifiers into the outer types of a runtime; the template runtime is one such runtime, and a
  macro turns it into a parachain whose blocks the relay chain's validators check. Two nodes run
  these runtimes: they supply the data inherents are made from and start Substrate's and Cumulus' services. A wallet follows a node's
  chain in a local database and builds transactions from it.

  \<^bold>\<open>The theories\<close>, in import order:

  \<^item> \<^verbatim>\<open>Tuxedo_Prelude\<close>: machine integers, storage, the type \<open>result\<close> (\<open>Ok\<close>, \<open>Err\<close> and \<open>Panic\<close>) with its
    operators, checked addition, and the simplification rules \<open>result_ok\<close> that turn a chain of
    guards into a conjunction.
  \<^item> \<^verbatim>\<open>Scale_Codec\<close>: a codec as a pair of functions, its law as the locale \<open>scale_codec\<close>, and
    combinators with which the concrete instances are built.
  \<^item> \<^verbatim>\<open>Dynamic_Typing\<close> (\<^verbatim>\<open>dynamic_typing.rs\<close>): typed data behind a tag; the locale \<open>utxo_data\<close>.
  \<^item> \<^verbatim>\<open>Core_Types\<close> (\<^verbatim>\<open>types.rs\<close>, the traits of \<^verbatim>\<open>verifier.rs\<close> and \<^verbatim>\<open>constraint_checker.rs\<close>): transactions with
    their hand-written encoding, errors, blocks, the trait dictionaries \<open>Verifier\<close> and
    \<open>ConstraintChecker\<close>, the record \<open>host\<close> of everything third-party, and the locales \<open>host_laws\<close>,
    \<open>verifier_laws\<close> and \<open>executive_laws\<close> that say what is relied on.
  \<^item> \<^verbatim>\<open>Utxo_Set\<close> (\<^verbatim>\<open>utxo_set.rs\<close>): the three storage operations and their map laws (\<open>utxo_map\<close>).
  \<^item> \<^verbatim>\<open>Executive\<close> (\<^verbatim>\<open>executive.rs\<close>): every method, with logging left out.
  \<^item> \<^verbatim>\<open>Ledger\<close>: the abstract specification. A ledger is a partial map from references to outputs;
    \<open>ledger_accepts\<close> and \<open>ledger_update\<close> say what a transaction must satisfy and what it does. The locale
    \<open>executive\<close> joins the laws of the host, the verifier and a \<open>framed_checker\<close> (a checker that leaves
    UTXO entries and the height alone and does not depend on the transient keys), and shows that the
    executive implements the ledger.
  \<^item> \<^verbatim>\<open>Block_Execution\<close>: authors and importers of a block agree.
  \<^item> \<^verbatim>\<open>Transaction_Pool\<close>: the tags of a validated transaction.
  \<^item> \<^verbatim>\<open>Genesis\<close> (\<^verbatim>\<open>genesis/\<close>): the genesis state and block, the inductive relation \<open>chain\<close> of the states a
    chain reaches, and its invariants by rule induction.
  \<^item> \<^verbatim>\<open>Verifiers\<close> (\<^verbatim>\<open>verifier.rs\<close>, \<^verbatim>\<open>verifier/\<close>): the nine verifiers; the locale \<open>unspendable_contract\<close>.
  \<^item> \<^verbatim>\<open>Htlc_Swap\<close>, \<^verbatim>\<open>Htlc_Instance\<close> (\<^verbatim>\<open>verifier/htlc.rs\<close> on a chain): what leaves the ledger while blocks are executed was evicted or satisfied
    its verifier; swaps by hash time lock contracts are atomic.
  \<^item> \<^verbatim>\<open>Constraint_Checkers\<close> (\<^verbatim>\<open>constraint_checker.rs\<close>, \<^verbatim>\<open>inherents.rs\<close>): the blanket implementation for simple
    checkers and the inherent adapter; the locale \<open>framed_simple\<close> is the pieces' contract.
  \<^item> \<^verbatim>\<open>Reference_Host\<close>: a concrete host, so that no law is vacuous, and witnesses of the theorems above.
  \<^item> \<^verbatim>\<open>Money\<close>, \<^verbatim>\<open>Money_Instance\<close>, \<^verbatim>\<open>Amoeba\<close>, \<^verbatim>\<open>Poe\<close>, \<^verbatim>\<open>Runtime_Upgrade\<close>, \<^verbatim>\<open>Kitties\<close>, \<^verbatim>\<open>Timestamp\<close> (\<^verbatim>\<open>wardrobe/\<close>): the pieces;
    each has the exact condition of its checks and what an applied transaction does to the ledger.
  \<^item> \<^verbatim>\<open>Aggregation\<close> (\<^verbatim>\<open>tuxedo-core/aggregator\<close>): the code the macros generate, over a list of variants; the
    locales \<open>variant\<close> and \<open>aggregation\<close>.
  \<^item> \<^verbatim>\<open>Template_Runtime\<close>, \<^verbatim>\<open>Template_Properties\<close>, \<^verbatim>\<open>Template_Instance\<close> (\<^verbatim>\<open>tuxedo-template-runtime\<close>): the outer types,
    the theorems about the whole runtime, and its instance on the concrete host with the witnesses of the pieces.

  \<^item> \<^verbatim>\<open>Parachain_Core\<close>, \<^verbatim>\<open>Parachain_Piece\<close>, \<^verbatim>\<open>Parachain_Runtime\<close>, \<^verbatim>\<open>Parachain_Instance\<close> (\<^verbatim>\<open>tuxedo-parachain-core\<close>, \<^verbatim>\<open>wardrobe/parachain\<close>,
    \<^verbatim>\<open>tuxedo-parachain-runtime\<close>): the relay parent number, collation and \<open>validate_block\<close>; the parachain inherent; the runtime
    \<^verbatim>\<open>parachainify!\<close> generates, as an aggregate of the template's aggregate. Validators accept what collators author.
  \<^item> \<^verbatim>\<open>Host_Storage\<close>, \<^verbatim>\<open>Overlay_Externalities\<close> (\<^verbatim>\<open>validate_block.rs\<close>): the functions that stand in for the host's storage calls
    while a block is validated. A program that uses them is a tree of calls of the 23 functions; it computes what it computes on the tries as far as the proof
    covers them, with saved copies for open transactions, and an incomplete proof can make it panic but not change its result (locales
    \<open>trie_laws\<close> and \<open>externalities_laws\<close>, interpreted on an overlay of edits).
  \<^item> \<^verbatim>\<open>Trie_Cache\<close> (\<^verbatim>\<open>trie_cache.rs\<close>): the cache of trie nodes and values; sessions through it are answered as by the source.
  \<^item> \<^verbatim>\<open>Tuxedo_Metadata\<close>, \<^verbatim>\<open>Runtime_Api\<close>, \<^verbatim>\<open>Runtime_Api_Instance\<close> (\<^verbatim>\<open>metadata.rs\<close>, \<^verbatim>\<open>impl_runtime_apis!\<close> of both runtimes): what a node may ask of
    a runtime, as calls and replies; the locale \<open>node_runtime\<close>, which every executive satisfies whose checker proposes nothing but inherents, and that all nodes follow an author,
    whatever its pool holds.
  \<^item> \<^verbatim>\<open>Relay_State\<close> (\<^verbatim>\<open>relay_state_snapshot.rs\<close>): reading the relay chain's state from a proof.
  \<^item> \<^verbatim>\<open>Wallet_Db\<close> (\<^verbatim>\<open>wallet/src/sync.rs\<close>, the tables): the database package as a record of operations with the locale
    \<open>sled_laws\<close>; fallible operations as functions from databases to databases and results; the abstract wallet
    and \<open>computes\<close>, the simulation between the two, for every table operation (locale \<open>wallet_laws\<close>).
  \<^item> \<^verbatim>\<open>Wallet_Rpc\<close> (\<^verbatim>\<open>rpc.rs\<close>, signing in \<^verbatim>\<open>keystore.rs\<close>, the helpers of \<^verbatim>\<open>main.rs\<close>) and \<^verbatim>\<open>Wallet_Sync\<close> (the rest of \<^verbatim>\<open>sync.rs\<close>):
    requests to the node, applying and unapplying transactions and blocks, the synchronisation loops; the locale
    \<open>wallet_chain\<close> lifts the simulation to blocks.
  \<^item> \<^verbatim>\<open>Wallet_Chain\<close>: rolling back undoes applying, synchronisation ends on the node's chain, and the table of unspent outputs is
    the owned part of the executive's ledger.
  \<^item> \<^verbatim>\<open>Wallet_Money\<close> (\<^verbatim>\<open>money.rs\<close>, \<^verbatim>\<open>amoeba.rs\<close>): the transactions the wallet sends, and that the executive accepts its spends.
  \<^item> \<^verbatim>\<open>Wallet_Instance\<close>: association lists as the database, a node and a keystore, and the wallet's theorems at concrete chains.
  \<^item> \<^verbatim>\<open>Wallet_Main\<close>, \<^verbatim>\<open>Wallet_Main_Instance\<close> (\<^verbatim>\<open>main.rs\<close>, \<^verbatim>\<open>cli.rs\<close>, \<^verbatim>\<open>keystore.rs\<close>): the wallet as a program on a world of database, keystore,
    terminal and directories: what it prints, which keys it knows (locale \<open>keystore_laws\<close>), what it removes.
  \<^item> \<^verbatim>\<open>Derive_Macros\<close> (\<^verbatim>\<open>tuxedo-core/no_bound\<close>): the derive macros as functions from syntax trees to syntax trees, the meaning of the
    methods they generate, and what these do on every value.
  \<^item> \<^verbatim>\<open>Executive_Tests\<close>, \<^verbatim>\<open>Verifier_Tests\<close>, \<^verbatim>\<open>Tests_Instance\<close> (the \<^verbatim>\<open>mod tests\<close> of \<^verbatim>\<open>executive.rs\<close>, \<^verbatim>\<open>types.rs\<close>, \<^verbatim>\<open>constraint_checker.rs\<close>,
    \<^verbatim>\<open>verifier.rs\<close>, \<^verbatim>\<open>verifier/\<close> and \<^verbatim>\<open>dynamic_typing.rs\<close>): the framework's unit tests as predicates of an environment, regression checks of the model: they pass for every
    environment with the laws \<open>test_env\<close>, \<open>test_roots\<close> and \<open>test_crypto\<close>.
  \<^item> \<^verbatim>\<open>Node\<close>, \<^verbatim>\<open>Node_Services\<close>, \<^verbatim>\<open>Node_Instance\<close> (\<^verbatim>\<open>node\<close>, \<^verbatim>\<open>parachain-node\<close>): the inherent data of authors and importers, chain
    specifications, the relay chain node's configuration; services and commands as sequences of steps that end at the first failure. A node can
    extend its chain, and the development service's mocked relay chain (locale \<open>mocked_relay\<close>) advances.

  \<^bold>\<open>How the code is translated.\<close> Structs are records, enums datatypes, \<^verbatim>\<open>u8\<close> to \<^verbatim>\<open>u128\<close> and hashes words of
  their width, so arithmetic wraps as in a release build; \<^verbatim>\<open>checked_add\<close> returns an option. A trait is a
  record of functions (a dictionary), a type parameter an argument. The storage is an explicit argument and
  result. \<^verbatim>\<open>Result\<close> is \<open>result\<close>, whose third constructor is a panic; where the method returns no
  \<^verbatim>\<open>Result\<close>, \<open>None\<close> is a panic. Loops are structural recursions and folds over the lists the code iterates
  over, so these definitions are total and there is no fuel. Only the two loops of the wallet's synchronisation may run
  forever, if the node's answers never end: they are partial functions whose value is \<open>None\<close> then, and the theorem shows
  that they return.

  \<^bold>\<open>What is assumed.\<close> Hashing, signatures, the storage root, SCALE codecs of foreign and derived types,
  \<^verbatim>\<open>sp_inherents\<close> and \<^verbatim>\<open>sp_timestamp\<close> are parameters. Their laws are: codecs decode what they encode,
  an encoded output reference is none of the runtime's own keys, and \<^verbatim>\<open>put_error\<close> records an error.
  No law about collisions of the hash is used on the chain; the wallet's theorem on synchronisation assumes that equal block
  hashes stand for equal histories. The database keeps what is written to it and the node answers from one
  chain while the wallet synchronises. The bound \<open>2 ^ 32\<close> on the outputs of a transaction is where the source's
  \<^verbatim>\<open>index as u32\<close> truncates, and \<open>2 ^ 32 - 1\<close> blocks are as many as the wallet's height counts.

  \<^bold>\<open>What is not modelled.\<close> What runs inside the services that the nodes start (networking, consensus, the RPC server): the code only
  calls it, so each call is a step with its outcome as a parameter. Logging, type information, the parsing of command lines, and the aggregation macros'
  work on syntax (what the generated code does is modelled). The trie below \<^verbatim>\<open>validate_block\<close> is a parameter.
\<close>

end
